(* ===== verification/Streams.thy ===== *)
theory Streams
  imports Prelude
begin

text \<open>
  Streams that poll a table whose rows have growing numbers: the live audit stream (routes/pty.rs) and the message
  stream (routes/messages.rs) remember the largest number sent and fetch the rows above it. The interface is a table
  that only grows; its client's lemma says that what a poll fetches is exactly what was added.
\<close>

definition newest :: "('r \<Rightarrow> int) \<Rightarrow> 'r list \<Rightarrow> int" where
  "newest num rs = (if rs = [] then 0 else num (last rs))"

definition numbered :: "('r \<Rightarrow> int) \<Rightarrow> ('r \<Rightarrow> bool) \<Rightarrow> 'r list \<Rightarrow> 'r list" where
  "numbered num sel rs = filter (\<lambda>r. sel r \<and> num r > 0) rs"

lemma sorted_key_id: "sorted_wrt (<) (map f rs) \<Longrightarrow> sort_key f rs = rs"
  by (rule sort_key_id_if_sorted) (rule strict_sorted_imp_sorted)

lemma foldl_max_newest:
  fixes num :: "'r \<Rightarrow> int"
  shows "sorted_wrt (<) (map num rs) \<Longrightarrow> (\<And>r. r \<in> set rs \<Longrightarrow> m \<le> num r) \<Longrightarrow>
    foldl (\<lambda>m r. max (num r) m) m rs = (if rs = [] then m else num (last rs))"
proof (induction rs arbitrary: m)
  case (Cons r rs)
  have "max (num r) m = num r" using Cons.prems(2) [of r] by simp
  moreover have "foldl (\<lambda>m r. max (num r) m) (num r) rs = (if rs = [] then num r else num (last rs))"
    using Cons.prems(1) by (intro Cons.IH) (auto intro: less_imp_le)
  ultimately show ?case by simp
qed simp

lemma sorted_le_last:
  fixes num :: "'r \<Rightarrow> int"
  assumes "sorted_wrt (<) (map num rs)" "r \<in> set rs"
  shows "num r \<le> num (last rs)"
  using assms by (induction rs) (auto intro: less_imp_le split: if_splits)

locale growing_table =
  fixes rows :: "'d \<Rightarrow> 'r list" and num :: "'r \<Rightarrow> int" and grows :: "'d \<Rightarrow> 'd \<Rightarrow> bool"
  assumes extends: "grows d d' \<Longrightarrow> \<exists>ext. rows d' = rows d @ ext"
    and increasing: "grows d d' \<Longrightarrow> sorted_wrt (<) (map num (rows d'))"
begin

lemma newest_split:
  assumes "grows d d'"
  shows "\<exists>new. numbered num sel (rows d') = numbered num sel (rows d) @ new \<and>
    filter (\<lambda>r. sel r \<and> num r > newest num (numbered num sel (rows d))) (rows d') = new \<and> sorted_wrt (<) (map num new)"
proof -
  obtain ext where ext: "rows d' = rows d @ ext" using extends [OF assms] by blast
  let ?old = "numbered num sel (rows d)" let ?l = "newest num ?old"
  have s: "sorted_wrt (<) (map num (rows d @ ext))" using increasing [OF assms] ext by simp
  have l0: "0 \<le> ?l"
    using last_in_set [of ?old] by (auto simp: newest_def numbered_def less_imp_le)
  have "sorted_wrt (<) (map num ?old)" using s by (simp add: numbered_def sorted_wrt_append sorted_wrt_map sorted_wrt_filter)
  then have "num r \<le> ?l" if "r \<in> set (rows d)" "sel r" for r
  proof (cases "num r > 0")
    case True
    then have "r \<in> set ?old" using that by (simp add: numbered_def)
    then show ?thesis using sorted_le_last [OF \<open>sorted_wrt (<) (map num ?old)\<close>, of r] by (auto simp: newest_def)
  qed (use l0 in linarith)
  then have old: "filter (\<lambda>r. sel r \<and> num r > ?l) (rows d) = []" by (fastforce simp: filter_empty_conv)
  have "?l < num r" if "r \<in> set ext" "num r > 0" for r
    using s that last_in_set [of ?old] by (auto simp: newest_def numbered_def sorted_wrt_append)
  then have new: "filter (\<lambda>r. sel r \<and> num r > ?l) ext = filter (\<lambda>r. sel r \<and> num r > 0) ext"
    using l0 by (intro filter_cong [OF refl]) force
  have "sorted_wrt (<) (map num (filter (\<lambda>r. sel r \<and> num r > 0) ext))"
    using s by (simp add: sorted_wrt_append sorted_wrt_map sorted_wrt_filter)
  then show ?thesis using old new by (simp add: numbered_def ext)
qed

lemma sel_grow:
  "successively grows (d # ds) \<Longrightarrow> length (numbered num sel (rows d)) \<le> length (numbered num sel (rows (last (d # ds))))"
proof (induction ds arbitrary: d)
  case (Cons d' ds)
  then have g: "grows d d'" and rest: "length (numbered num sel (rows d')) \<le> length (numbered num sel (rows (last (d' # ds))))"
    by auto
  from newest_split [OF g, of sel] show ?case using rest by auto
qed simp

end

end
