(* ===== verification/Floats.thy ===== *)
theory Floats
  imports Complex_Main "HOL-Library.Log_Nat"
begin

text \<open>
  \<open>f64\<close> arithmetic over the rationals: every operation of IEEE 754 returns the exact result rounded to the
  nearest double, ties to even, which is \<open>rnd64\<close>. Infinities and NaN do not occur: the gateway computes
  quotients and products of small counts.
\<close>

definition floor_log2 :: "rat \<Rightarrow> int" where
  "floor_log2 q =
    (let (a, b) = quotient_of q; k = bitlen a - bitlen b in if 2 powi k \<le> q then k else k - 1)"

definition round_even :: "rat \<Rightarrow> int" where
  "round_even x =
    (let f = \<lfloor>x\<rfloor>; r = x - of_int f in
     if r < 1 / 2 then f else if r > 1 / 2 then f + 1 else if even f then f else f + 1)"

definition rnd64 :: "rat \<Rightarrow> rat" where
  "rnd64 q = (if q = 0 then 0
     else let k = max (- 1074) (floor_log2 \<bar>q\<bar> - 52) in of_int (round_even (q / 2 powi k)) * 2 powi k)"
section \<open>Rounding is monotone\<close>

lemma floor_log2_bounds:
  assumes "0 < q"
  shows "2 powi (floor_log2 q) \<le> q" "q < 2 powi (floor_log2 q + 1)"
proof -
  obtain a b where ab: "quotient_of q = (a, b)" by fastforce
  have b: "0 < b" using quotient_of_denom_pos ab by blast
  have q: "q = of_int a / of_int b" using quotient_of_div ab by blast
  have a: "0 < a" using assms q b by (simp add: zero_less_divide_iff)
  let ?k = "bitlen a - bitlen b"
  have al: "2 ^ nat (bitlen a - 1) \<le> a" "a < 2 ^ nat (bitlen a)" using bitlen_bounds [OF a] by auto
  have bl: "2 ^ nat (bitlen b - 1) \<le> b" "b < 2 ^ nat (bitlen b)" using bitlen_bounds [OF b] by auto
  have pos: "1 \<le> bitlen a" "1 \<le> bitlen b" using a b bitlen_ge_iff_power [of 1 a] bitlen_ge_iff_power [of 1 b] by auto
  have A: "2 powi (bitlen a - 1) \<le> (of_int a :: rat)" "(of_int a :: rat) < 2 powi (bitlen a)"
    using al pos by (simp_all add: power_int_def flip: of_int_power_le_of_int_cancel_iff)
  have B: "2 powi (bitlen b - 1) \<le> (of_int b :: rat)" "(of_int b :: rat) < 2 powi (bitlen b)"
    using bl pos by (simp_all add: power_int_def)
  have lower: "2 powi (?k - 1) \<le> q"
  proof -
    have "2 powi (?k - 1) * of_int b \<le> 2 powi (?k - 1) * (2 powi (bitlen b) :: rat)"
      using B(2) by (intro mult_left_mono) auto
    also have "\<dots> = 2 powi (bitlen a - 1)" by (simp flip: power_int_add)
    finally show ?thesis using A(1) b by (simp add: q pos_le_divide_eq)
  qed
  have upper: "q < 2 powi (?k + 1)"
  proof -
    have "of_int a < (2 powi (?k + 1) * 2 powi (bitlen b - 1) :: rat)" using A(2) by (simp flip: power_int_add)
    also have "\<dots> \<le> 2 powi (?k + 1) * of_int b" using B(1) by (intro mult_left_mono) auto
    finally show ?thesis using b by (simp add: q pos_divide_less_eq)
  qed
  show "2 powi (floor_log2 q) \<le> q" "q < 2 powi (floor_log2 q + 1)"
    using lower upper by (auto simp: floor_log2_def ab Let_def)
qed

lemma powi2_less_iff: "(2::rat) powi m < 2 powi n \<longleftrightarrow> m < n"
  by (metis linorder_neqE_linordered_idom one_less_numeral_iff order_less_asym power_int_strict_increasing
      semiring_norm(76) zero_less_one less_irrefl)

lemma powi2_le_iff: "(2::rat) powi m \<le> 2 powi n \<longleftrightarrow> m \<le> n"
  using powi2_less_iff by (metis linorder_not_less)

lemma floor_log2_mono: "0 < x \<Longrightarrow> x \<le> y \<Longrightarrow> floor_log2 x \<le> floor_log2 y"
  using floor_log2_bounds [of x] floor_log2_bounds [of y] powi2_less_iff [of "floor_log2 x" "floor_log2 y + 1"] by linarith

lemma round_even_le: "x \<le> of_int n \<Longrightarrow> round_even x \<le> n"
  unfolding round_even_def Let_def by (auto split: if_splits) linarith+

lemma round_even_ge: "of_int n \<le> x \<Longrightarrow> n \<le> round_even x"
  unfolding round_even_def Let_def by (auto simp: le_floor_iff add_increasing2)

lemma round_even_int [simp]: "round_even (of_int n) = n"
  by (simp add: round_even_def)

lemma round_even_bounds: "\<lfloor>x\<rfloor> \<le> round_even x" "round_even x \<le> \<lfloor>x\<rfloor> + 1"
  by (auto simp: round_even_def Let_def)

lemma round_even_mono:
  assumes "x \<le> y"
  shows "round_even x \<le> round_even y"
proof (cases "\<lfloor>x\<rfloor> = \<lfloor>y\<rfloor>")
  case True
  then show ?thesis using assms by (auto simp: round_even_def Let_def)
next
  case False
  then have "\<lfloor>x\<rfloor> + 1 \<le> \<lfloor>y\<rfloor>" using floor_mono [OF assms] by linarith
  then show ?thesis using round_even_bounds [of x] round_even_bounds [of y] by linarith
qed

definition expo :: "rat \<Rightarrow> int" where
  "expo q = max (- 1074) (floor_log2 q - 52)"

lemma rnd64_pos_eq: "0 < q \<Longrightarrow> rnd64 q = of_int (round_even (q / 2 powi expo q)) * 2 powi expo q"
  by (simp add: rnd64_def expo_def Let_def)

lemma powi2_split: "k \<le> m \<Longrightarrow> (2::rat) powi m = of_int (2 ^ nat (m - k)) * 2 powi k"
  by (simp add: power_int_add [symmetric] power_int_nonneg_exp [symmetric])

lemma rnd64_le_pow:
  assumes "0 < x" "x \<le> 2 powi m" "expo x \<le> m"
  shows "rnd64 x \<le> 2 powi m"
proof -
  have "x / 2 powi expo x \<le> of_int (2 ^ nat (m - expo x))"
    using assms(2) powi2_split [OF assms(3)] by (simp add: divide_le_eq)
  then have "round_even (x / 2 powi expo x) \<le> 2 ^ nat (m - expo x)" by (rule round_even_le)
  then have "(of_int (round_even (x / 2 powi expo x)) :: rat) \<le> of_int (2 ^ nat (m - expo x))"
    by (simp only: of_int_le_iff)
  then show ?thesis using assms(1) powi2_split [OF assms(3)] by (simp add: rnd64_pos_eq mult_right_mono)
qed

lemma rnd64_ge_pow:
  assumes "2 powi m \<le> x" "expo x \<le> m"
  shows "2 powi m \<le> rnd64 x"
proof -
  have pos: "0 < x" using assms(1) by (meson less_le_trans zero_less_power_int zero_less_numeral)
  have "of_int (2 ^ nat (m - expo x)) \<le> x / 2 powi expo x"
    using assms(1) powi2_split [OF assms(2)] by (simp add: le_divide_eq)
  then have "2 ^ nat (m - expo x) \<le> round_even (x / 2 powi expo x)" by (rule round_even_ge)
  then have "(of_int (2 ^ nat (m - expo x)) :: rat) \<le> of_int (round_even (x / 2 powi expo x))"
    by (simp only: of_int_le_iff)
  then show ?thesis using pos powi2_split [OF assms(2)] by (simp add: rnd64_pos_eq mult_right_mono)
qed

lemma rnd64_nonneg:
  assumes "0 \<le> x"
  shows "0 \<le> rnd64 x"
proof (cases "x = 0")
  case False
  then have "0 < x" using assms by simp
  then show ?thesis using round_even_ge [of 0 "x / 2 powi expo x"] by (simp add: rnd64_pos_eq)
qed (simp add: rnd64_def)

lemma rnd64_zero [simp]: "rnd64 0 = 0"
  by (simp add: rnd64_def)

lemma rnd64_mono:
  assumes "0 \<le> x" "x \<le> y"
  shows "rnd64 x \<le> rnd64 y"
proof (cases "x = 0")
  case True
  then show ?thesis using assms rnd64_nonneg [of y] by simp
next
  case False
  then have x: "0 < x" and y: "0 < y" using assms by auto
  have le: "expo x \<le> expo y" using floor_log2_mono [OF x assms(2)] by (auto simp: expo_def)
  show ?thesis
  proof (cases "expo x = expo y")
    case True
    have "round_even (x / 2 powi expo y) \<le> round_even (y / 2 powi expo y)"
      using assms(2) by (intro round_even_mono divide_right_mono) auto
    then show ?thesis using x y True by (simp add: rnd64_pos_eq mult_right_mono)
  next
    case False
    then have lt: "expo x < expo y" and ey: "expo y = floor_log2 y - 52" and fl: "floor_log2 x < floor_log2 y"
      using le by (auto simp: expo_def)
    have "(2::rat) powi (floor_log2 x + 1) \<le> 2 powi floor_log2 y" using fl by (simp add: powi2_le_iff)
    then have "x \<le> 2 powi floor_log2 y" using floor_log2_bounds(2) [OF x] by linarith
    then have "rnd64 x \<le> 2 powi floor_log2 y" using x lt ey by (intro rnd64_le_pow) auto
    also have "\<dots> \<le> rnd64 y" using floor_log2_bounds(1) [OF y] ey by (intro rnd64_ge_pow) auto
    finally show ?thesis .
  qed
qed

lemma floor_log2_one: "floor_log2 1 = 0"
  by code_simp

lemma rnd64_le_one: "0 \<le> x \<Longrightarrow> x \<le> 1 \<Longrightarrow> rnd64 x \<le> 1"
  using rnd64_le_pow [of x 0] floor_log2_mono [of x 1] by (cases "x = 0") (auto simp: floor_log2_one expo_def)

lemma rnd64_pos:
  assumes "2 powi (- 1074) \<le> x"
  shows "0 < rnd64 x"
proof -
  have x: "0 < x" using assms by (meson less_le_trans zero_less_power_int zero_less_numeral)
  have "- 1074 \<le> floor_log2 x"
    using assms floor_log2_bounds(2) [OF x] powi2_less_iff [of "- 1074" "floor_log2 x + 1"] by linarith
  then have "2 powi floor_log2 x \<le> rnd64 x"
    using floor_log2_bounds(1) [OF x] by (intro rnd64_ge_pow) (auto simp: expo_def)
  then show ?thesis by (meson less_le_trans zero_less_power_int zero_less_numeral)
qed

lemma rnd64_of_nat:
  assumes "n < 2 ^ 53"
  shows "rnd64 (of_nat n) = of_nat n"
proof (cases "n = 0")
  case False
  then have pos: "(0::rat) < of_nat n" by simp
  have "(of_nat n :: rat) < of_nat (2 ^ 53)" using assms by (simp only: of_nat_less_iff)
  then have "(of_nat n :: rat) < 2 powi 53" by simp
  then have "floor_log2 (of_nat n) < 53"
    using floor_log2_bounds(1) [OF pos] powi2_less_iff [of "floor_log2 (of_nat n)" 53] by linarith
  then have e: "expo (of_nat n) \<le> 0" by (simp add: expo_def)
  have "(of_nat n :: rat) / 2 powi expo (of_nat n) = of_int (int n * 2 ^ nat (- expo (of_nat n)))"
    using powi2_split [OF e] by (simp add: field_simps)
  then show ?thesis using pos by (simp only: rnd64_pos_eq round_even_int) (use powi2_split [OF e] in \<open>simp add: field_simps\<close>)
qed simp

lemma floor_log2_powi: "floor_log2 (2 powi m) = m"
  using floor_log2_bounds [of "2 powi m"] powi2_less_iff [of m "floor_log2 (2 powi m) + 1"] powi2_le_iff [of "floor_log2 (2 powi m)" m]
  by simp

lemma rnd64_ge:
  assumes "- 1074 \<le> m" "2 powi m \<le> x"
  shows "2 powi m \<le> rnd64 x"
proof -
  have "2 powi m \<le> rnd64 (2 powi m)" using assms(1) by (intro rnd64_ge_pow) (auto simp: expo_def floor_log2_powi)
  also have "\<dots> \<le> rnd64 x" using assms(2) by (intro rnd64_mono) auto
  finally show ?thesis .
qed

end
