(* ===== verification/Text.thy ===== *)
theory Text
  imports Prelude
begin

text \<open>
  The functions of Rust's \<open>str\<close> and integer parsing that the gateway uses on request texts: \<open>trim\<close>,
  \<open>split\<close>, \<open>split_once\<close>, \<open>split_whitespace\<close>, \<open>lines\<close>, \<open>trim_matches\<close>, \<open>parse::<i64>\<close> and \<open>to_string\<close>.
\<close>

section \<open>White space\<close>

text \<open>Unicode's White_Space property, on the UTF-8 encoding of one character.\<close>

definition white :: "string \<Rightarrow> bool" where
  "white ch \<longleftrightarrow>
     (length ch = 1 \<and> (hd ch = CHR '' '' \<or> (CHR 0x09 \<le> hd ch \<and> hd ch \<le> CHR 0x0D))) \<or>
     ch \<in> set [[CHR 0xC2, CHR 0x85], [CHR 0xC2, CHR 0xA0], [CHR 0xE1, CHR 0x9A, CHR 0x80],
        [CHR 0xE2, CHR 0x80, CHR 0xA8], [CHR 0xE2, CHR 0x80, CHR 0xA9], [CHR 0xE2, CHR 0x80, CHR 0xAF],
        [CHR 0xE2, CHR 0x81, CHR 0x9F], [CHR 0xE3, CHR 0x80, CHR 0x80]] \<or>
     (length ch = 3 \<and> take 2 ch = [CHR 0xE2, CHR 0x80] \<and> CHR 0x80 \<le> ch ! 2 \<and> ch ! 2 \<le> CHR 0x8A)"

definition trim_end :: "string \<Rightarrow> string" where
  "trim_end s = concat (rev (dropWhile white (rev (utf8_chars s))))"

definition trim_start :: "string \<Rightarrow> string" where
  "trim_start s = concat (dropWhile white (utf8_chars s))"

definition trim :: "string \<Rightarrow> string" where
  "trim s = concat (rev (dropWhile white (rev (dropWhile white (utf8_chars s)))))"

definition trim_matches :: "char \<Rightarrow> string \<Rightarrow> string" where
  "trim_matches c s = rev (dropWhile (\<lambda>x. x = c) (rev (dropWhile (\<lambda>x. x = c) s)))"

text \<open>\<open>split_whitespace\<close>: the maximal runs of other characters.\<close>

fun words_of :: "string list \<Rightarrow> string \<Rightarrow> string list" where
  "words_of [] w = (if w = [] then [] else [w])"
| "words_of (ch # chs) w =
    (if white ch then (if w = [] then words_of chs [] else w # words_of chs [])
     else words_of chs (w @ ch))"

definition split_whitespace :: "string \<Rightarrow> string list" where
  "split_whitespace s = words_of (utf8_chars s) []"

section \<open>Splitting\<close>

fun split_on :: "char \<Rightarrow> string \<Rightarrow> string list" where
  "split_on c [] = [[]]"
| "split_on c (x # xs) =
    (if x = c then [] # split_on c xs
     else case split_on c xs of [] \<Rightarrow> [[x]] | w # ws \<Rightarrow> (x # w) # ws)"

fun join_with :: "string \<Rightarrow> string list \<Rightarrow> string" where
  "join_with sep [] = []"
| "join_with sep [w] = w"
| "join_with sep (w # v # ws) = w @ sep @ join_with sep (v # ws)"

text \<open>\<open>split_once\<close> splits at the first occurrence.\<close>

fun split_once :: "string \<Rightarrow> string \<Rightarrow> (string \<times> string) option" where
  "split_once p [] = (if p = [] then Some ([], []) else None)"
| "split_once p (x # xs) =
    (if starts_with (x # xs) p then Some ([], drop (length p) (x # xs))
     else map_option (\<lambda>(a, b). (x # a, b)) (split_once p xs))"

text \<open>\<open>lines\<close>: the last line needs no terminator, and a line ends before \<open>\r\n\<close> too.\<close>

definition strip_cr :: "string \<Rightarrow> string" where
  "strip_cr l = (if l \<noteq> [] \<and> last l = CHR 0x0D then butlast l else l)"

definition text_lines :: "string \<Rightarrow> string list" where
  "text_lines s =
    (let ls = split_on (CHR 0x0A) s;
         full = map strip_cr (butlast ls)
     in if last ls = [] then full else full @ [last ls])"

lemma split_on_not_Nil [simp]: "split_on c s \<noteq> []"
  by (cases s) (auto split: list.split)

lemma join_split: "join_with [c] (split_on c s) = s"
proof (induction s)
  case (Cons x xs)
  obtain w ws where w: "split_on c xs = w # ws" by (cases "split_on c xs") auto
  show ?case using Cons w by (cases ws) auto
qed simp

lemma split_on_no_sep: "w \<in> set (split_on c s) \<Longrightarrow> c \<notin> set w"
proof (induction s arbitrary: w)
  case (Cons x xs)
  obtain v vs where "split_on c xs = v # vs" by (cases "split_on c xs") auto
  then show ?case using Cons by (auto split: if_splits)
qed simp

lemma split_on_single: "c \<notin> set s \<Longrightarrow> split_on c s = [s]"
  by (induction s) auto

lemma split_on_append_sep: "c \<notin> set a \<Longrightarrow> split_on c (a @ c # b) = a # split_on c b"
  by (induction a) auto

lemma split_join:
  "ws \<noteq> [] \<Longrightarrow> \<forall>w\<in>set ws. c \<notin> set w \<Longrightarrow> split_on c (join_with [c] ws) = ws"
  by (induction "[c]" ws rule: join_with.induct) (simp_all add: split_on_single split_on_append_sep)

lemma split_once_Some: "split_once p s = Some (a, b) \<Longrightarrow> s = a @ p @ b"
proof (induction s arbitrary: a)
  case (Cons x xs)
  show ?case
  proof (cases "starts_with (x # xs) p")
    case True
    then show ?thesis using Cons.prems by (auto simp: starts_with_iff)
  qed (use Cons in auto)
qed (auto split: if_splits)

lemma split_once_None: "split_once p s = None \<longleftrightarrow> \<not> contains s p"
proof (induction s)
  case Nil
  then show ?case by simp
next
  case (Cons x xs)
  then show ?case by simp
qed

lemma split_once_first:
  assumes "split_once p s = Some (a, b)" "k < length a"
  shows "\<not> starts_with (drop k s) p"
  using assms
proof (induction s arbitrary: a k)
  case (Cons x xs)
  show ?case
  proof (cases "starts_with (x # xs) p")
    case True
    then show ?thesis using Cons.prems by simp
  next
    case False
    then obtain a' where a': "split_once p xs = Some (a', b)" "a = x # a'"
      using Cons.prems(1) by auto
    show ?thesis
    proof (cases k)
      case (Suc j)
      then show ?thesis using Cons.IH [OF a'(1), of j] Cons.prems(2) a'(2) by simp
    qed (use False in simp)
  qed
qed (auto split: if_splits)

lemma split_once_append:
  assumes "\<And>k. k < length a \<Longrightarrow> \<not> starts_with (drop k (a @ p @ b)) p"
  shows "split_once p (a @ p @ b) = Some (a, b)"
  using assms
proof (induction a)
  case Nil
  have "starts_with (p @ b) p" "drop (length p) (p @ b) = b" by (auto simp: starts_with_iff)
  then show ?case by (cases "p @ b") auto
next
  case (Cons x xs)
  have "\<not> starts_with (x # xs @ p @ b) p" using Cons.prems [of 0] by simp
  moreover have "split_once p (xs @ p @ b) = Some (xs, b)"
    using Cons.prems [of "Suc k" for k] by (intro Cons.IH) force
  ultimately show ?case by simp
qed

section \<open>Integers\<close>

definition digit_val :: "char \<Rightarrow> int" where
  "digit_val c = of_char c - 48"

definition digits_int :: "string \<Rightarrow> int" where
  "digits_int s = foldl (\<lambda>n c. 10 * n + digit_val c) 0 s"

definition parse_digits :: "string \<Rightarrow> int option" where
  "parse_digits s = (if s \<noteq> [] \<and> list_all ascii_digit s then Some (digits_int s) else None)"

definition parse_signed :: "int \<Rightarrow> int \<Rightarrow> string \<Rightarrow> int option" where
  "parse_signed lo hi s =
    (let n = (case s of
         [] \<Rightarrow> None
       | c # r \<Rightarrow> if c = CHR ''-'' then map_option uminus (parse_digits r)
                  else if c = CHR ''+'' then parse_digits r else parse_digits s)
     in case n of Some i \<Rightarrow> if lo \<le> i \<and> i \<le> hi then Some i else None | None \<Rightarrow> None)"

definition parse_i64 :: "string \<Rightarrow> int option" where
  "parse_i64 = parse_signed (- (2 ^ 63)) (2 ^ 63 - 1)"

definition parse_i32 :: "string \<Rightarrow> int option" where
  "parse_i32 = parse_signed (- (2 ^ 31)) (2 ^ 31 - 1)"

fun show_nat :: "nat \<Rightarrow> string" where
  "show_nat n = (if n < 10 then [char_of (48 + n)] else show_nat (n div 10) @ [char_of (48 + n mod 10)])"

declare show_nat.simps [simp del]

definition show_int :: "int \<Rightarrow> string" where
  "show_int i = (if i < 0 then CHR ''-'' # show_nat (nat (- i)) else show_nat (nat i))"

lemma of_char_small [simp]: "n < 10 \<Longrightarrow> (of_char (char_of (48 + n :: nat)) :: int) = int (48 + n)"
proof -
  assume "n < 10"
  then have "(of_char (char_of (48 + n :: nat)) :: nat) = 48 + n" by (simp add: of_char_of)
  then show ?thesis by (metis of_nat_of_char)
qed

lemma ascii_digit_small: "n < 10 \<Longrightarrow> ascii_digit (char_of (48 + n :: nat))"
  by (simp add: ascii_digit_def less_eq_char_def of_char_of)

lemma digits_int_snoc: "digits_int (s @ [c]) = 10 * digits_int s + digit_val c"
  by (simp add: digits_int_def)

lemma parse_show_nat: "parse_digits (show_nat n) = Some (int n)"
proof (induction n rule: show_nat.induct)
  case (1 n)
  show ?case
  proof (cases "n < 10")
    case True
    then show ?thesis
      by (simp add: show_nat.simps [of n] parse_digits_def ascii_digit_small digits_int_def digit_val_def)
  next
    case False
    then have IH: "parse_digits (show_nat (n div 10)) = Some (int (n div 10))" using 1 by simp
    then have "list_all ascii_digit (show_nat (n div 10))" "digits_int (show_nat (n div 10)) = int (n div 10)"
      by (auto simp: parse_digits_def split: if_splits)
    moreover have "10 * int (n div 10) + int (n mod 10) = int n" by presburger
    ultimately show ?thesis using False
      by (simp add: show_nat.simps [of n] parse_digits_def ascii_digit_small digits_int_snoc digit_val_def)
  qed
qed

lemma hd_show_nat: "show_nat n \<noteq> [] \<and> ascii_digit (hd (show_nat n))"
  using parse_show_nat [of n] by (cases "show_nat n") (auto simp: parse_digits_def split: if_splits)

lemma parse_show_int:
  assumes "lo \<le> i" "i \<le> hi"
  shows "parse_signed lo hi (show_int i) = Some i"
proof (cases "i < 0")
  case True
  then show ?thesis using assms by (simp add: parse_signed_def show_int_def parse_show_nat)
next
  case False
  obtain c r where c: "show_nat (nat i) = c # r" "ascii_digit c"
    using hd_show_nat [of "nat i"] by (cases "show_nat (nat i)") auto
  then have "c \<noteq> CHR ''-''" "c \<noteq> CHR ''+''" by (auto simp: ascii_digit_def less_eq_char_def)
  moreover have "parse_digits (c # r) = Some i" using parse_show_nat [of "nat i"] False c by simp
  ultimately show ?thesis using False assms c by (simp add: parse_signed_def show_int_def)
qed

section \<open>Texts without white space\<close>

lemma utf8_chars_Cons_ascii:
  "\<not> cont_char c' \<Longrightarrow> utf8_chars (c' # cs) = ch # chs \<Longrightarrow> hd ch = c'"
  by (auto split: list.splits if_splits)

lemma concat_utf8_chars [simp]: "concat (utf8_chars s) = s"
proof (induction s)
  case (Cons c cs)
  then show ?case by (auto split: list.split)
qed simp

lemma utf8_chars_not_Nil: "ch \<in> set (utf8_chars s) \<Longrightarrow> ch \<noteq> []"
  by (induction s arbitrary: ch) (auto split: list.splits if_splits)

lemma trim_id:
  assumes "utf8_chars s = [] \<or> (\<not> white (hd (utf8_chars s)) \<and> \<not> white (last (utf8_chars s)))"
  shows "trim s = s"
proof (cases "utf8_chars s = []")
  case True
  then show ?thesis using concat_utf8_chars [of s] by (simp add: trim_def)
next
  case False
  then have "dropWhile white (utf8_chars s) = utf8_chars s" using assms by (cases "utf8_chars s") auto
  moreover have "dropWhile white (rev (utf8_chars s)) = rev (utf8_chars s)"
    using assms False by (cases "utf8_chars s" rule: rev_cases) auto
  ultimately show ?thesis by (simp add: trim_def)
qed

definition graphic :: "char \<Rightarrow> bool" where
  "graphic c \<longleftrightarrow> CHR ''!'' \<le> c \<and> c \<le> CHR ''~''"

lemma utf8_chars_single: "list_all (\<lambda>c. \<not> cont_char c) s \<Longrightarrow> utf8_chars s = map (\<lambda>c. [c]) s"
  by (induction s) (auto split: list.split)

lemma graphic_not_cont: "graphic c \<Longrightarrow> \<not> cont_char c"
  by (auto simp: graphic_def cont_char_def less_eq_char_def)

lemma graphic_not_white: "graphic c \<Longrightarrow> \<not> white [c]"
  by (auto simp: graphic_def white_def less_eq_char_def)

lemma graphic_not_blank: "list_all graphic s \<Longrightarrow> CHR '' '' \<notin> set s"
  by (auto simp: list_all_iff graphic_def less_eq_char_def)

lemma trim_graphic:
  assumes "list_all (\<lambda>c. \<not> cont_char c) s" "s = [] \<or> graphic (hd s) \<and> graphic (last s)"
  shows "trim s = s"
proof (rule trim_id)
  show "utf8_chars s = [] \<or> \<not> white (hd (utf8_chars s)) \<and> \<not> white (last (utf8_chars s))"
    using assms(2) by (auto simp: utf8_chars_single [OF assms(1)] hd_map last_map graphic_not_white)
qed

end
