(* ===== verification/Timestamps.thy ===== *)
theory Timestamps
  imports Prelude
begin

text \<open>
  Points in time as the gateway writes them into TEXT columns. SQLite's \<open>datetime('now')\<close> yields
  \<open>YYYY-MM-DD HH:MM:SS\<close>; chrono's \<open>Utc::now().to_rfc3339()\<close> yields
  \<open>YYYY-MM-DDTHH:MM:SS[.fraction]+00:00\<close>. SQLite compares TEXT columns byte by byte
  (collation BINARY), which is \<open><\<close> on strings here, so the order of two stored times is the order
  of their texts.
\<close>

section \<open>Decimal fields\<close>

definition digit_char :: "nat \<Rightarrow> char" where
  "digit_char n = char_of (48 + n mod 10)"

primrec dec :: "nat \<Rightarrow> nat \<Rightarrow> string" where
  "dec 0 n = []"
| "dec (Suc k) n = dec k (n div 10) @ [digit_char n]"

lemma length_dec [simp]: "length (dec k n) = k"
  by (induction k arbitrary: n) auto

lemma of_char_digit [simp]: "of_char (digit_char n) = (48 + n mod 10 :: nat)"
proof -
  have "48 + n mod 10 < 256" using mod_less_divisor [of 10 n] by linarith
  then show ?thesis unfolding digit_char_def of_char_of by (rule mod_less)
qed

lemma digit_char_eq: "digit_char a = digit_char b \<longleftrightarrow> a mod 10 = b mod 10"
  by (metis of_char_digit add_left_cancel digit_char_def)

lemma digit_char_less: "digit_char a < digit_char b \<longleftrightarrow> a mod 10 < b mod 10"
  by (simp add: less_char_def)

lemma char_T_gt_space: "CHR '' '' < CHR ''T''"
  by (simp add: less_char_def)

text \<open>Comparing texts of equal length starts with their first fields.\<close>

lemma append_less_iff:
  fixes u v x y :: string
  assumes "length u = length v"
  shows "u @ x < v @ y \<longleftrightarrow> u < v \<or> (u = v \<and> x < y)"
  using assms by (induction u v rule: list_induct2) auto

lemma dec_eq_iff:
  "a < 10 ^ k \<Longrightarrow> b < 10 ^ k \<Longrightarrow> dec k a = dec k b \<longleftrightarrow> a = b"
proof (induction k arbitrary: a b)
  case (Suc k)
  then have "dec k (a div 10) = dec k (b div 10) \<longleftrightarrow> a div 10 = b div 10"
    by (intro Suc.IH) (simp_all add: less_mult_imp_div_less mult.commute)
  then show ?case by (auto simp: digit_char_eq) (metis div_mult_mod_eq)
qed simp

lemma two_digit_less:
  fixes qa ra qb rb :: nat
  assumes "ra < 10" "rb < 10"
  shows "qa * 10 + ra < qb * 10 + rb \<longleftrightarrow> qa < qb \<or> (qa = qb \<and> ra < rb)"
  using assms by linarith

lemma dec_less_iff:
  "a < 10 ^ k \<Longrightarrow> b < 10 ^ k \<Longrightarrow> dec k a < dec k b \<longleftrightarrow> a < b"
proof (induction k arbitrary: a b)
  case (Suc k)
  then have bounds: "a div 10 < 10 ^ k" "b div 10 < 10 ^ k"
    by (simp_all add: less_mult_imp_div_less mult.commute)
  have "dec (Suc k) a < dec (Suc k) b \<longleftrightarrow>
      a div 10 < b div 10 \<or> (a div 10 = b div 10 \<and> a mod 10 < b mod 10)"
    using Suc.IH [OF bounds] dec_eq_iff [OF bounds]
    by (simp add: append_less_iff digit_char_less)
  also have "\<dots> \<longleftrightarrow> a div 10 * 10 + a mod 10 < b div 10 * 10 + b mod 10"
    by (rule two_digit_less [symmetric]) simp_all
  also have "\<dots> \<longleftrightarrow> a < b" by simp
  finally show ?case .
qed simp

section \<open>Times and their two texts\<close>

record utc =
  year :: nat
  month :: nat
  day :: nat
  hour :: nat
  minute :: nat
  second :: nat
  nanos :: nat

definition valid_utc :: "utc \<Rightarrow> bool" where
  "valid_utc t \<longleftrightarrow> year t < 10000 \<and> 1 \<le> month t \<and> month t \<le> 12 \<and> 1 \<le> day t \<and> day t \<le> 31
     \<and> hour t < 24 \<and> minute t < 60 \<and> second t < 60 \<and> nanos t < 1000000000"

definition date_text :: "utc \<Rightarrow> string" where
  "date_text t = dec 4 (year t) @ ''-'' @ dec 2 (month t) @ ''-'' @ dec 2 (day t)"

definition clock_text :: "utc \<Rightarrow> string" where
  "clock_text t = dec 2 (hour t) @ '':'' @ dec 2 (minute t) @ '':'' @ dec 2 (second t)"

definition frac_text :: "utc \<Rightarrow> string" where
  "frac_text t =
    (if nanos t = 0 then []
     else if nanos t mod 1000000 = 0 then ''.'' @ dec 3 (nanos t div 1000000)
     else if nanos t mod 1000 = 0 then ''.'' @ dec 6 (nanos t div 1000)
     else ''.'' @ dec 9 (nanos t))"

definition sqlite_datetime :: "utc \<Rightarrow> string" where
  "sqlite_datetime t = date_text t @ '' '' @ clock_text t"

definition to_rfc3339 :: "utc \<Rightarrow> string" where
  "to_rfc3339 t = date_text t @ ''T'' @ clock_text t @ frac_text t @ ''+00:00''"

definition date_before :: "utc \<Rightarrow> utc \<Rightarrow> bool" where
  "date_before a b \<longleftrightarrow> year a < year b \<or> (year a = year b \<and>
     (month a < month b \<or> (month a = month b \<and> day a < day b)))"

definition same_date :: "utc \<Rightarrow> utc \<Rightarrow> bool" where
  "same_date a b \<longleftrightarrow> year a = year b \<and> month a = month b \<and> day a = day b"

definition clock_before :: "utc \<Rightarrow> utc \<Rightarrow> bool" where
  "clock_before a b \<longleftrightarrow> hour a < hour b \<or> (hour a = hour b \<and>
     (minute a < minute b \<or> (minute a = minute b \<and> second a < second b)))"

lemma length_date_text [simp]: "length (date_text t) = 10"
  by (simp add: date_text_def)

lemma length_clock_text [simp]: "length (clock_text t) = 8"
  by (simp add: clock_text_def)

lemma date_text_eq:
  "valid_utc a \<Longrightarrow> valid_utc b \<Longrightarrow> date_text a = date_text b \<longleftrightarrow> same_date a b"
  by (auto simp: date_text_def same_date_def valid_utc_def dec_eq_iff)

lemma date_text_less:
  "valid_utc a \<Longrightarrow> valid_utc b \<Longrightarrow> date_text a < date_text b \<longleftrightarrow> date_before a b"
  by (auto simp: date_text_def date_before_def valid_utc_def append_less_iff dec_less_iff dec_eq_iff)

lemma clock_text_less:
  "valid_utc a \<Longrightarrow> valid_utc b \<Longrightarrow> clock_text a < clock_text b \<longleftrightarrow> clock_before a b"
  by (auto simp: clock_text_def clock_before_def valid_utc_def append_less_iff dec_less_iff dec_eq_iff)

text \<open>Two times in the same format compare as times; a time in RFC 3339 format stored next to one in
  SQLite's format compares by its date alone, because \<open>T\<close> sorts after the blank.\<close>

lemma sqlite_datetime_less:
  assumes "valid_utc a" "valid_utc b"
  shows "sqlite_datetime a < sqlite_datetime b \<longleftrightarrow>
         date_before a b \<or> (same_date a b \<and> clock_before a b)"
  using assms
  by (simp add: sqlite_datetime_def append_less_iff date_text_less date_text_eq clock_text_less)

lemma sqlite_before_rfc3339:
  assumes "valid_utc now" "valid_utc e"
  shows "sqlite_datetime now < to_rfc3339 e \<longleftrightarrow> date_before now e \<or> same_date now e"
  using assms char_T_gt_space
  by (simp add: sqlite_datetime_def to_rfc3339_def append_less_iff date_text_less date_text_eq)

end
