(* ===== verification/Json.thy ===== *)
theory Json
  imports Floats Text Timestamps
begin

text \<open>
  JSON values as \<open>serde_json::Value\<close> has them, and the functions of serde_json that the gateway uses.
  An object is the list of its members in the order of its map (a \<open>BTreeMap\<close>, sorted by key). Printing and
  parsing text is crate code: the fields of \<open>json_lib\<close> (\<open>f64_parse\<close> is \<open>str::parse::<f64>\<close>).
\<close>

text \<open>A number is an \<open>i64\<close> or \<open>u64\<close>, or the (finite) value of an \<open>f64\<close>.\<close>

datatype jnum = Whole int | Float rat

datatype json =
    JNull
  | JBool bool
  | JNumber jnum
  | JText string
  | JArray "json list"
  | JObject "(string \<times> json) list"

record json_lib =
  json_print :: "json \<Rightarrow> string"
  json_parse :: "string \<Rightarrow> json option"
  f64_parse :: "string \<Rightarrow> rat option"

text \<open>\<open>Value::get\<close> with a string, \<open>as_str\<close>, \<open>as_i64\<close>, \<open>as_f64\<close>.\<close>

definition jget :: "string \<Rightarrow> json \<Rightarrow> json option" where
  "jget k v = (case v of JObject ms \<Rightarrow> map_of ms k | _ \<Rightarrow> None)"

definition as_str :: "json \<Rightarrow> string option" where
  "as_str v = (case v of JText s \<Rightarrow> Some s | _ \<Rightarrow> None)"

definition as_i64 :: "jnum \<Rightarrow> int option" where
  "as_i64 n = (case n of Whole i \<Rightarrow> if - (2 ^ 63) \<le> i \<and> i < 2 ^ 63 then Some i else None | Float _ \<Rightarrow> None)"

definition as_f64 :: "jnum \<Rightarrow> rat" where
  "as_f64 n = (case n of Whole i \<Rightarrow> rnd64 (of_int i) | Float q \<Rightarrow> q)"

definition jint :: "int \<Rightarrow> json" where
  "jint i = JNumber (Whole i)"

definition jopt :: "string option \<Rightarrow> json" where
  "jopt s = (case s of Some t \<Rightarrow> JText t | None \<Rightarrow> JNull)"

lemma jget_simps [simp]:
  "jget k (JObject ms) = map_of ms k" "jget k JNull = None" "jget k (JText t) = None"
  "jget k (JNumber n) = None" "jget k (JBool b) = None" "jget k (JArray vs) = None"
  by (simp_all add: jget_def)

end
