(* ===== verification/Cbor.thy ===== *)
theory Cbor
  imports Prelude
begin

unbundle bit_operations_syntax

text \<open>
  The CBOR reader of src/gateway/src/crypto/webauthn.rs (\<open>CborValue\<close>, \<open>cbor_parse\<close> and the four
  \<open>cbor_as_*\<close> accessors), with an encoder following RFC 8949 as its specification.

  \<open>cbor_parse\<close> is recursive on the input's nesting and the process has a finite stack, so the
  model's recursion is on the number of frames left: running out is the stack overflow, a \<open>Panic\<close>.
  \<open>Vec::with_capacity\<close> is called with the length the input claims; \<open>limits\<close> holds the largest
  request that the allocator grants for arrays and for maps, and a larger one aborts.
\<close>

section \<open>Values and the reader\<close>

datatype CborValue =
    UnsignedInt "64 word"
  | NegativeInt "64 word"
  | ByteString bytes
  | TextString string
  | Array "CborValue list"
  | Map "(CborValue \<times> CborValue) list"
  | Bool bool
  | Null

datatype cbor_error =
    CborEof
  | CborUnsupportedInfo nat
  | CborByteStringOverflow
  | CborTextStringOverflow
  | CborInvalidUtf8
  | CborUnsupportedMajor nat

record limits =
  array_cap :: nat
  map_cap :: nat

type_synonym 'a parser = "bytes \<Rightarrow> ('a \<times> bytes, cbor_error) res"

text \<open>The argument of an item's head: \<open>data[1..k + 1]\<close> read as a big-endian number. Indexing or
  slicing past the end of the input panics.\<close>

definition cbor_arg :: "nat \<Rightarrow> bytes \<Rightarrow> ('a :: len word \<times> bytes, cbor_error) res" where
  "cbor_arg k bs = (if length bs < k then Panic else Ok (word_of_nat (be_nat (take k bs)), drop k bs))"

definition cbor_head :: "bytes \<Rightarrow> (nat \<times> 64 word \<times> bytes, cbor_error) res" where
  "cbor_head data = (case data of
     [] \<Rightarrow> Err CborEof
   | initial # body \<Rightarrow>
      let major = unat (drop_bit 5 initial);
          ai = unat (initial AND 0x1f)
      in if ai \<le> 23 then Ok (major, word_of_nat ai, body)
         else if ai = 24 then bind_res (cbor_arg 1 body) (\<lambda>(v, r). Ok (major, v, r))
         else if ai = 25 then bind_res (cbor_arg 2 body) (\<lambda>(v, r). Ok (major, v, r))
         else if ai = 26 then bind_res (cbor_arg 4 body) (\<lambda>(v, r). Ok (major, v, r))
         else if ai = 27 then bind_res (cbor_arg 8 body) (\<lambda>(v, r). Ok (major, v, r))
         else Err (CborUnsupportedInfo ai))"

text \<open>The two \<open>for _ in 0..len\<close> loops, over any reader of one item.\<close>

primrec parse_items :: "CborValue parser \<Rightarrow> nat \<Rightarrow> CborValue list parser" where
  "parse_items p 0 bs = Ok ([], bs)"
| "parse_items p (Suc n) bs =
     bind_res (p bs) (\<lambda>(v, r). bind_res (parse_items p n r) (\<lambda>(vs, r'). Ok (v # vs, r')))"

primrec parse_pairs :: "CborValue parser \<Rightarrow> nat \<Rightarrow> (CborValue \<times> CborValue) list parser" where
  "parse_pairs p 0 bs = Ok ([], bs)"
| "parse_pairs p (Suc n) bs =
     bind_res (p bs) (\<lambda>(k, kr). bind_res (p kr) (\<lambda>(v, vr).
       bind_res (parse_pairs p n vr) (\<lambda>(kvs, r'). Ok ((k, v) # kvs, r'))))"

text \<open>The body of an item, after its head.\<close>

definition cbor_body :: "limits \<Rightarrow> CborValue parser \<Rightarrow> nat \<Rightarrow> 64 word \<Rightarrow> CborValue parser" where
  "cbor_body L p major value rest =
    (let len = unat value in
     if major = 0 then Ok (UnsignedInt value, rest)
     else if major = 1 then Ok (NegativeInt (- 1 - value), rest)
     else if major = 2 then
       (if length rest < len then Err CborByteStringOverflow
        else Ok (ByteString (take len rest), drop len rest))
     else if major = 3 then
       (if length rest < len then Err CborTextStringOverflow
        else bind_res (ok_or CborInvalidUtf8 (from_utf8 (take len rest)))
               (\<lambda>s. Ok (TextString s, drop len rest)))
     else if major = 4 then
       (if array_cap L < len then Panic
        else bind_res (parse_items p len rest) (\<lambda>(vs, r). Ok (Array vs, r)))
     else if major = 5 then
       (if map_cap L < len then Panic
        else bind_res (parse_pairs p len rest) (\<lambda>(kvs, r). Ok (Map kvs, r)))
     else if major = 7 then
       (if value = 20 then Ok (Bool False, rest)
        else if value = 21 then Ok (Bool True, rest)
        else if value = 22 then Ok (Null, rest)
        else Ok (UnsignedInt value, rest))
     else Err (CborUnsupportedMajor major))"

primrec cbor_parse :: "limits \<Rightarrow> nat \<Rightarrow> CborValue parser" where
  "cbor_parse L 0 data = Panic"
| "cbor_parse L (Suc frames) data =
     bind_res (cbor_head data) (\<lambda>(major, value, rest).
       cbor_body L (cbor_parse L frames) major value rest)"

datatype cbor_type_error = ExpectedText | ExpectedBytes | ExpectedUint | ExpectedInt

fun cbor_as_text :: "CborValue \<Rightarrow> (string, cbor_type_error) res" where
  "cbor_as_text (TextString s) = Ok s"
| "cbor_as_text _ = Err ExpectedText"

fun cbor_as_bytes :: "CborValue \<Rightarrow> (bytes, cbor_type_error) res" where
  "cbor_as_bytes (ByteString b) = Ok b"
| "cbor_as_bytes _ = Err ExpectedBytes"

fun cbor_as_uint :: "CborValue \<Rightarrow> (64 word, cbor_type_error) res" where
  "cbor_as_uint (UnsignedInt n) = Ok n"
| "cbor_as_uint _ = Err ExpectedUint"

text \<open>\<open>*n as i64\<close> keeps the bits; the result is read with \<open>sint\<close>.\<close>

fun cbor_as_int :: "CborValue \<Rightarrow> (64 word, cbor_type_error) res" where
  "cbor_as_int (UnsignedInt n) = Ok n"
| "cbor_as_int (NegativeInt n) = Ok n"
| "cbor_as_int _ = Err ExpectedInt"

section \<open>Readers consume a non-empty prefix\<close>

locale prefix_reader =
  fixes p :: "CborValue parser"
  assumes consumes: "p bs = Ok (v, rest) \<Longrightarrow> \<exists>used. used \<noteq> [] \<and> bs = used @ rest"
begin

lemma shorter: "p bs = Ok (v, rest) \<Longrightarrow> length rest < length bs"
  using consumes by fastforce

lemma items_consume:
  "parse_items p n bs = Ok (vs, rest) \<Longrightarrow>
   \<exists>used. bs = used @ rest \<and> n \<le> length used \<and> length vs = n"
proof (induction n arbitrary: bs vs)
  case 0
  then show ?case by simp
next
  case (Suc n)
  then obtain v r ws where p: "p bs = Ok (v, r)"
    and q: "parse_items p n r = Ok (ws, rest)" and vs: "vs = v # ws"
    by (auto simp: bind_simps)
  obtain u where u: "u \<noteq> []" "bs = u @ r" using consumes [OF p] by blast
  obtain w where w: "r = w @ rest" "n \<le> length w" "length ws = n" using Suc.IH [OF q] by blast
  have "Suc n \<le> length (u @ w)" using u w by (cases u) auto
  then show ?case using u w vs by (intro exI [of _ "u @ w"]) simp
qed

lemma pairs_consume:
  "parse_pairs p n bs = Ok (kvs, rest) \<Longrightarrow>
   \<exists>used. bs = used @ rest \<and> n \<le> length used \<and> length kvs = n"
proof (induction n arbitrary: bs kvs)
  case 0
  then show ?case by simp
next
  case (Suc n)
  then obtain k kr v vr ws where pk: "p bs = Ok (k, kr)" and pv: "p kr = Ok (v, vr)"
    and q: "parse_pairs p n vr = Ok (ws, rest)" and kvs: "kvs = (k, v) # ws"
    by (auto simp: bind_simps)
  obtain u where u: "u \<noteq> []" "bs = u @ kr" using consumes [OF pk] by blast
  obtain u' where u': "u' \<noteq> []" "kr = u' @ vr" using consumes [OF pv] by blast
  obtain w where w: "vr = w @ rest" "n \<le> length w" "length ws = n" using Suc.IH [OF q] by blast
  have "Suc n \<le> length (u @ u' @ w)" using u w by (cases u) auto
  then show ?case using u u' w kvs by (intro exI [of _ "u @ u' @ w"]) simp
qed

end

lemma cbor_arg_Ok:
  "cbor_arg k bs = Ok (v, r) \<longleftrightarrow>
   k \<le> length bs \<and> v = word_of_nat (be_nat (take k bs)) \<and> r = drop k bs"
  by (auto simp: cbor_arg_def)

lemma cbor_head_consumes:
  assumes "cbor_head data = Ok (m, v, rest)"
  shows "\<exists>used. used \<noteq> [] \<and> data = used @ rest"
proof -
  obtain b bs where data: "data = b # bs"
    using assms by (cases data) (auto simp: cbor_head_def)
  have "\<exists>k. rest = drop k bs"
    using assms unfolding data
    by (auto simp: cbor_head_def Let_def bind_simps cbor_arg_Ok split: if_splits intro: exI [of _ 0])
  then obtain k where "rest = drop k bs" ..
  then have "data = (b # take k bs) @ rest" by (simp add: data)
  then show ?thesis by blast
qed

lemma cbor_body_consumes:
  assumes p: "prefix_reader p" and b: "cbor_body L p m v bs = Ok (w, rest)"
  shows "\<exists>used. bs = used @ rest"
proof -
  have "\<exists>used. bs = used @ rest" if "parse_items p n bs = Ok (vs, rest)" for n vs
    using prefix_reader.items_consume [OF p that] by blast
  moreover have "\<exists>used. bs = used @ rest" if "parse_pairs p n bs = Ok (vs, rest)" for n vs
    using prefix_reader.pairs_consume [OF p that] by blast
  ultimately show ?thesis
    using b
    by (auto simp: cbor_body_def Let_def bind_simps split: if_splits) (metis append_take_drop_id)+
qed

lemma cbor_parse_consumes:
  "cbor_parse L d data = Ok (v, rest) \<Longrightarrow> \<exists>used. used \<noteq> [] \<and> data = used @ rest"
proof (induction d arbitrary: data v rest)
  case 0
  then show ?case by simp
next
  case (Suc d)
  have p: "prefix_reader (cbor_parse L d)"
    by unfold_locales (rule Suc.IH)
  obtain m w r where h: "cbor_head data = Ok (m, w, r)"
    and b: "cbor_body L (cbor_parse L d) m w r = Ok (v, rest)"
    using Suc.prems by (auto simp: bind_simps)
  show ?case using cbor_head_consumes [OF h] cbor_body_consumes [OF p b] by fastforce
qed

interpretation cbor: prefix_reader "cbor_parse L d" for L d
  by unfold_locales (rule cbor_parse_consumes)

section \<open>The specification: an RFC 8949 encoder\<close>

definition initial_byte :: "nat \<Rightarrow> nat \<Rightarrow> byte" where
  "initial_byte major info = word_of_nat (major * 32 + info)"

definition encode_head :: "nat \<Rightarrow> nat \<Rightarrow> bytes" where
  "encode_head major n =
    (if n \<le> 23 then [initial_byte major n]
     else if n < 256 then initial_byte major 24 # be_bytes 1 n
     else if n < 65536 then initial_byte major 25 # be_bytes 2 n
     else if n < 4294967296 then initial_byte major 26 # be_bytes 4 n
     else initial_byte major 27 # be_bytes 8 n)"

primrec cbor_encode :: "CborValue \<Rightarrow> bytes" where
  "cbor_encode (UnsignedInt n) = encode_head 0 (unat n)"
| "cbor_encode (NegativeInt n) = encode_head 1 (unat (- 1 - n))"
| "cbor_encode (ByteString b) = encode_head 2 (length b) @ b"
| "cbor_encode (TextString s) = encode_head 3 (length s) @ as_bytes s"
| "cbor_encode (Array vs) = encode_head 4 (length vs) @ concat (map cbor_encode vs)"
| "cbor_encode (Map kvs) =
     encode_head 5 (length kvs) @ concat (map (\<lambda>(k, v). k @ v) (map (map_prod cbor_encode cbor_encode) kvs))"
| "cbor_encode (Bool b) = encode_head 7 (if b then 21 else 20)"
| "cbor_encode Null = encode_head 7 22"

text \<open>The values the encoder speaks for: lengths that fit the 64-bit head and the allocator,
  strings that are UTF-8, and at most \<open>d\<close> levels of nesting.\<close>

primrec depth :: "CborValue \<Rightarrow> nat" where
  "depth (UnsignedInt n) = 1"
| "depth (NegativeInt n) = 1"
| "depth (ByteString b) = 1"
| "depth (TextString s) = 1"
| "depth (Array vs) = Suc (fold max (map depth vs) 0)"
| "depth (Map kvs) = Suc (fold max (map (\<lambda>(a, b). max a b) (map (map_prod depth depth) kvs)) 0)"
| "depth (Bool b) = 1"
| "depth Null = 1"

primrec encodable :: "limits \<Rightarrow> CborValue \<Rightarrow> bool" where
  "encodable L (UnsignedInt n) = True"
| "encodable L (NegativeInt n) = True"
| "encodable L (ByteString b) = (length b < 2 ^ 64)"
| "encodable L (TextString s) = (length s < 2 ^ 64 \<and> valid_utf8 (as_bytes s))"
| "encodable L (Array vs) =
     (length vs < 2 ^ 64 \<and> length vs \<le> array_cap L \<and> list_all (\<lambda>b. b) (map (encodable L) vs))"
| "encodable L (Map kvs) =
     (length kvs < 2 ^ 64 \<and> length kvs \<le> map_cap L \<and>
      list_all (\<lambda>(a, b). a \<and> b) (map (map_prod (encodable L) (encodable L)) kvs))"
| "encodable L (Bool b) = True"
| "encodable L Null = True"

lemma initial_byte_fields:
  assumes "m < 8" "a < 32"
  shows "unat (drop_bit 5 (initial_byte m a)) = m"
    and "unat (initial_byte m a AND 0x1f) = a"
proof -
  have u: "unat (initial_byte m a) = m * 32 + a"
    using assms unfolding initial_byte_def by (intro unat_byte_of_nat) simp
  show "unat (drop_bit 5 (initial_byte m a)) = m"
    using assms by (simp add: drop_bit_eq_div unat_div u)
  have "initial_byte m a AND 0x1f = take_bit 5 (initial_byte m a)"
    by (simp add: take_bit_eq_mask mask_eq_exp_minus_1)
  then show "unat (initial_byte m a AND 0x1f) = a"
    using assms by (simp add: take_bit_eq_mod unat_mod u)
qed

lemma cbor_arg_be_bytes:
  "n < 256 ^ k \<Longrightarrow> cbor_arg k (be_bytes k n @ r) = Ok (word_of_nat n, r)"
  by (simp add: cbor_arg_def be_nat_be_bytes)

lemma cbor_head_initial_byte:
  assumes "m < 8"
  shows "a \<le> 23 \<Longrightarrow> cbor_head (initial_byte m a # r) = Ok (m, word_of_nat a, r)"
    and "n < 256 ^ 1 \<Longrightarrow> cbor_head (initial_byte m 24 # be_bytes 1 n @ r) = Ok (m, word_of_nat n, r)"
    and "n < 256 ^ 2 \<Longrightarrow> cbor_head (initial_byte m 25 # be_bytes 2 n @ r) = Ok (m, word_of_nat n, r)"
    and "n < 256 ^ 4 \<Longrightarrow> cbor_head (initial_byte m 26 # be_bytes 4 n @ r) = Ok (m, word_of_nat n, r)"
    and "n < 256 ^ 8 \<Longrightarrow> cbor_head (initial_byte m 27 # be_bytes 8 n @ r) = Ok (m, word_of_nat n, r)"
  using assms
  by (simp_all only: cbor_head_def Let_def list.case initial_byte_fields cbor_arg_be_bytes)
    (simp_all add: cbor_arg_be_bytes initial_byte_fields)

lemma cbor_head_encode_head:
  assumes "m < 8" "n < 2 ^ 64"
  shows "cbor_head (encode_head m n @ r) = Ok (m, word_of_nat n, r)"
proof -
  have n8: "n < 256 ^ 8" using assms(2) by simp
  consider "n \<le> 23" | "23 < n" "n < 256" | "23 < n" "256 \<le> n" "n < 65536"
    | "23 < n" "65536 \<le> n" "n < 4294967296" | "23 < n" "4294967296 \<le> n" by linarith
  then show ?thesis
    by cases (use assms n8 cbor_head_initial_byte [OF assms(1)] in \<open>simp_all add: encode_head_def\<close>)
qed

section \<open>Round trip\<close>

lemma fold_max_le: "fold max xs (m :: nat) \<le> d \<longleftrightarrow> m \<le> d \<and> (\<forall>x\<in>set xs. x \<le> d)"
  by (induction xs arbitrary: m) auto

lemma parse_items_encode:
  assumes "\<And>v r. v \<in> set vs \<Longrightarrow> p (cbor_encode v @ r) = Ok (v, r)"
  shows "parse_items p (length vs) (concat (map cbor_encode vs) @ r) = Ok (vs, r)"
  using assms by (induction vs) auto

lemma parse_pairs_encode:
  assumes "\<And>w r. w \<in> fst ` set kvs \<union> snd ` set kvs \<Longrightarrow> p (cbor_encode w @ r) = Ok (w, r)"
  shows "parse_pairs p (length kvs) (concat (map (\<lambda>(k, v). cbor_encode k @ cbor_encode v) kvs) @ r) = Ok (kvs, r)"
  using assms by (induction kvs) auto

lemma map_cbor_encode_pairs:
  "map (\<lambda>(k, v). k @ v) (map (map_prod cbor_encode cbor_encode) kvs)
   = map (\<lambda>(k, v). cbor_encode k @ cbor_encode v) kvs"
  by auto

lemma cbor_parse_head:
  "m < 8 \<Longrightarrow> n < 2 ^ 64 \<Longrightarrow>
   cbor_parse L (Suc d) (encode_head m n @ r) = cbor_body L (cbor_parse L d) m (word_of_nat n) r"
  by (simp add: cbor_head_encode_head)

lemma unat_word64: "n < 2 ^ 64 \<Longrightarrow> unat (word_of_nat n :: 64 word) = n"
  by (simp add: unat_of_nat)

lemma word64_of_unat: "unat (w :: 64 word) < 18446744073709551616"
  using unsigned_less [where ?'a = nat, of w] by simp

lemma cbor_roundtrip_aux:
  "encodable L v \<Longrightarrow> depth v \<le> d \<Longrightarrow> cbor_parse L d (cbor_encode v @ r) = Ok (v, r)"
proof (induction d arbitrary: v r)
  case 0
  then show ?case by (cases v) auto
next
  case (Suc d)
  show ?case
  proof (cases v)
    case (Array vs)
    then have len: "length vs < 2 ^ 64" "length vs \<le> array_cap L"
      and each: "\<And>w. w \<in> set vs \<Longrightarrow> encodable L w \<and> depth w \<le> d"
      using Suc.prems by (auto simp: list_all_iff fold_max_le)
    have "parse_items (cbor_parse L d) (length vs) (concat (map cbor_encode vs) @ r) = Ok (vs, r)"
      by (rule parse_items_encode) (use each Suc.IH in blast)
    then show ?thesis
      using len by (simp add: Array cbor_parse_head cbor_body_def Let_def unat_word64 del: cbor_parse.simps)
  next
    case (Map kvs)
    then have len: "length kvs < 2 ^ 64" "length kvs \<le> map_cap L"
      and each: "\<And>a b. (a, b) \<in> set kvs \<Longrightarrow>
            encodable L a \<and> depth a \<le> d \<and> encodable L b \<and> depth b \<le> d"
      using Suc.prems by (auto simp: list_all_iff fold_max_le)
    have "parse_pairs (cbor_parse L d) (length kvs)
            (concat (map (\<lambda>(k, v). cbor_encode k @ cbor_encode v) kvs) @ r) = Ok (kvs, r)"
      by (rule parse_pairs_encode) (use each Suc.IH in fastforce)
    then show ?thesis
      using len
      by (simp only: Map cbor_encode.simps map_cbor_encode_pairs append_assoc cbor_parse_head)
        (simp add: cbor_body_def Let_def unat_word64 del: cbor_parse.simps)
  next
    case (TextString s)
    then show ?thesis
      using Suc.prems
      by (simp add: cbor_parse_head cbor_body_def Let_def unat_word64 from_utf8_as_bytes del: cbor_parse.simps)
  qed (use Suc.prems in \<open>auto simp: cbor_parse_head cbor_body_def Let_def unat_word64 word64_of_unat
          simp del: cbor_parse.simps\<close>)
qed

section \<open>Stack use\<close>

text \<open>A reader's loops look at nothing longer than their input, so two readers that agree on the
  inputs up to that length give the same result.\<close>

lemma parse_items_agree:
  assumes "prefix_reader p" and "\<And>bs'. length bs' \<le> length bs \<Longrightarrow> p bs' = q bs'"
  shows "parse_items p n bs = parse_items q n bs"
  using assms(2)
proof (induction n arbitrary: bs)
  case (Suc n)
  have "parse_items p n r = parse_items q n r" if "p bs = Ok (v, r)" for v r
    using prefix_reader.shorter [OF assms(1) that] by (intro Suc.IH Suc.prems) simp
  then show ?case using Suc.prems [of bs]
    by (auto intro!: bind_res_cong split: prod.splits)
qed simp

lemma parse_pairs_agree:
  assumes "prefix_reader p" and "\<And>bs'. length bs' \<le> length bs \<Longrightarrow> p bs' = q bs'"
  shows "parse_pairs p n bs = parse_pairs q n bs"
  using assms(2)
proof (induction n arbitrary: bs)
  case (Suc n)
  have 1: "p r = q r" if "p bs = Ok (k, r)" for k r
    using prefix_reader.shorter [OF assms(1) that] by (intro Suc.prems) simp
  have 2: "parse_pairs p n r' = parse_pairs q n r'" if "p bs = Ok (k, r)" "p r = Ok (v, r')" for k r v r'
    using prefix_reader.shorter [OF assms(1) that(1)] prefix_reader.shorter [OF assms(1) that(2)]
    by (intro Suc.IH Suc.prems) simp
  show ?case using Suc.prems [of bs] 1 2
    by (auto intro!: bind_res_cong split: prod.splits)
qed simp

lemma cbor_body_agree:
  assumes "prefix_reader p" and "\<And>bs'. length bs' \<le> length bs \<Longrightarrow> p bs' = q bs'"
  shows "cbor_body L p m v bs = cbor_body L q m v bs"
  using parse_items_agree [OF assms] parse_pairs_agree [OF assms]
  by (simp add: cbor_body_def Let_def)

lemma cbor_frames_agree:
  "length data < d \<Longrightarrow> length data < d' \<Longrightarrow> cbor_parse L d data = cbor_parse L d' data"
proof (induction d arbitrary: d' data)
  case (Suc d)
  then obtain e where d': "d' = Suc e" by (cases d') auto
  have "cbor_body L (cbor_parse L d) m v rest = cbor_body L (cbor_parse L e) m v rest"
    if h: "cbor_head data = Ok (m, v, rest)" for m v rest
  proof (rule cbor_body_agree)
    show "prefix_reader (cbor_parse L d)" by (rule cbor.prefix_reader_axioms)
    fix bs' :: bytes
    assume "length bs' \<le> length rest"
    moreover obtain u where "u \<noteq> []" "data = u @ rest" using cbor_head_consumes [OF h] by blast
    ultimately have "length bs' < length data" by (cases u) auto
    then show "cbor_parse L d bs' = cbor_parse L e bs'"
      using Suc.prems by (intro Suc.IH) (auto simp: d')
  qed
  then show ?case by (auto simp: d' intro!: bind_res_cong)
qed simp

text \<open>One array head per frame exhausts any stack.\<close>

lemma cbor_head_0x81: "cbor_head (0x81 # r) = Ok (4, 1, r)"
  using cbor_head_initial_byte(1) [of 4 1 r] by (simp add: initial_byte_def)

lemma cbor_nesting_panics:
  "1 \<le> array_cap L \<Longrightarrow> d \<le> n \<Longrightarrow> cbor_parse L d (replicate n 0x81 @ r) = Panic"
proof (induction d arbitrary: n)
  case (Suc d)
  then obtain m where n: "n = Suc m" "d \<le> m" by (cases n) auto
  have one: "unat (1 :: 64 word) = Suc 0" by simp
  show ?case using Suc n by (simp add: cbor_head_0x81 cbor_body_def Let_def one)
qed simp

lemma cbor_head_truncated:
  assumes "24 \<le> unat (initial AND 0x1f)" "unat (initial AND 0x1f) \<le> 27"
    and "length body < 2 ^ (unat (initial AND 0x1f) - 24)"
  shows "cbor_head (initial # body) = Panic"
proof -
  consider "unat (initial AND 0x1f) = 24" | "unat (initial AND 0x1f) = 25"
    | "unat (initial AND 0x1f) = 26" | "unat (initial AND 0x1f) = 27"
    using assms by linarith
  then show ?thesis by cases (use assms(3) in \<open>simp_all add: cbor_head_def Let_def cbor_arg_def\<close>)
qed

lemma cbor_truncated_panics:
  assumes "24 \<le> unat (initial AND 0x1f)" "unat (initial AND 0x1f) \<le> 27"
    and "length body < 2 ^ (unat (initial AND 0x1f) - 24)"
  shows "cbor_parse L d (initial # body) = Panic"
  by (cases d) (simp_all add: cbor_head_truncated [OF assms])

text \<open>The sign of a decoded negative integer: \<open>-1 - (value as i64)\<close> never overflows, but an
  argument of 2^63 or more comes out as a non-negative number.\<close>

lemma sint64_bounds: "- (2 ^ 63) \<le> sint (v :: 64 word)" "sint (v :: 64 word) < 2 ^ 63"
  using sint_greater_eq [of v] sint_less [of v] by simp_all

lemma uint64_sint: "uint (v :: 64 word) = sint v mod 2 ^ 64"
  using uint_sint [of v] by (simp add: take_bit_eq_mod)

lemma sint64_of_int:
  "- (2 ^ 63) \<le> k \<Longrightarrow> k < 2 ^ 63 \<Longrightarrow> sint (word_of_int k :: 64 word) = k"
  by (simp add: signed_of_int signed_take_bit_int_eq_self)

lemma sint_minus_one_minus: "sint (- 1 - v :: 64 word) = - 1 - sint v"
proof -
  have "- 1 - v = word_of_int (- 1 - sint v)" by simp
  then have "sint (- 1 - v) = sint (word_of_int (- 1 - sint v) :: 64 word)" by (simp only:)
  also have "\<dots> = - 1 - sint v"
    using sint64_bounds [of v] by (intro sint64_of_int) linarith+
  finally show ?thesis .
qed

lemma negative_int_sign: "0 \<le> sint (- 1 - v :: 64 word) \<longleftrightarrow> 2 ^ 63 \<le> unat v"
proof -
  have "k < 0 \<longleftrightarrow> 2 ^ 63 \<le> k mod 2 ^ 64" if "- (2 ^ 63) \<le> k" "k < 2 ^ 63" for k :: int
  proof (cases "k < 0")
    case True
    then have "k mod 2 ^ 64 = (k + 2 ^ 64) mod 2 ^ 64" by simp
    also have "\<dots> = k + 2 ^ 64" using that True by (intro mod_pos_pos_trivial) simp_all
    finally show ?thesis using that True by simp
  next
    case False
    then have "k mod 2 ^ 64 = k" using that by (intro mod_pos_pos_trivial) simp_all
    then show ?thesis using that False by simp
  qed
  then have "sint v < 0 \<longleftrightarrow> 2 ^ 63 \<le> uint v"
    unfolding uint64_sint using sint64_bounds [of v] by blast
  also have "\<dots> \<longleftrightarrow> 2 ^ 63 \<le> unat v"
    by (simp add: uint_nat del: of_nat_unat)
  finally show ?thesis by (auto simp: sint_minus_one_minus)
qed

section \<open>Properties\<close>

text \<open>C9. The reader inverts the RFC 8949 encoder: it gives back every value whose nesting fits the stack
  and whose lengths fit the allocator, and leaves the input that follows.\<close>
theorem cbor_roundtrip:
  assumes "encodable L v" "depth v \<le> frames"
  shows "cbor_parse L frames (cbor_encode v @ rest) = Ok (v, rest)"
  by (rule cbor_roundtrip_aux [OF assms])

theorem cbor_roundtrip_witness:
  "cbor_parse \<lparr> array_cap = 8, map_cap = 8 \<rparr> 3
     (cbor_encode (Map [(TextString ''k'', Array [UnsignedInt 500, NegativeInt (- 7), Bool True])]) @ [7])
   = Ok (Map [(TextString ''k'', Array [UnsignedInt 500, NegativeInt (- 7), Bool True])], [7])"
  by (rule cbor_roundtrip) (simp_all add: as_bytes_def byte_of_char_def)

text \<open>C13. A result is read off a non-empty prefix of the input, and the stack matters only up to the
  input's length: with more frames than bytes the result no longer depends on their number.\<close>
theorem cbor_parse_total:
  assumes "length data < frames"
  shows "cbor_parse L frames data = cbor_parse L (Suc (length data)) data \<and>
    (case cbor_parse L frames data of
       Ok (v, rest) \<Rightarrow> \<exists>used. used \<noteq> [] \<and> data = used @ rest
     | Err e \<Rightarrow> True
     | Panic \<Rightarrow> True)"
  using cbor_frames_agree [OF assms, of "Suc (length data)" L] cbor_parse_consumes [of L frames data]
  by (auto simp del: cbor_parse.simps split: res.splits)

theorem cbor_parse_total_witness:
  "cbor_parse \<lparr> array_cap = 8, map_cap = 8 \<rparr> 9 [0x81, 0x01, 0x05] =
   cbor_parse \<lparr> array_cap = 8, map_cap = 8 \<rparr> 4 [0x81, 0x01, 0x05]"
  using cbor_parse_total [of "[0x81, 0x01, 0x05]" 9 "\<lparr> array_cap = 8, map_cap = 8 \<rparr>"]
  by (simp add: eval_nat_numeral del: cbor_parse.simps)

text \<open>Three kinds of short input stop the process instead of being rejected: a head that announces
  more bytes than follow, a length above what the allocator grants, and one array head per stack frame.\<close>
lemma cbor_parse_panics:
  "(24 \<le> unat (initial AND 0x1f) \<and> unat (initial AND 0x1f) \<le> 27 \<and>
      length body < 2 ^ (unat (initial AND 0x1f) - 24) \<longrightarrow> cbor_parse L frames (initial # body) = Panic) \<and>
   (array_cap L < n \<and> n < 2 ^ 64 \<longrightarrow> cbor_parse L frames (encode_head 4 n @ body) = Panic) \<and>
   (1 \<le> array_cap L \<longrightarrow> cbor_parse L frames (replicate frames 0x81 @ body) = Panic)"
proof (intro conjI impI)
  assume "24 \<le> unat (initial AND 0x1f) \<and> unat (initial AND 0x1f) \<le> 27 \<and>
    length body < 2 ^ (unat (initial AND 0x1f) - 24)"
  then show "cbor_parse L frames (initial # body) = Panic" by (intro cbor_truncated_panics) simp_all
next
  assume "array_cap L < n \<and> n < 2 ^ 64"
  then show "cbor_parse L frames (encode_head 4 n @ body) = Panic"
    by (cases frames) (simp_all add: cbor_head_encode_head cbor_body_def Let_def unat_word64)
next
  assume "1 \<le> array_cap L"
  then show "cbor_parse L frames (replicate frames 0x81 @ body) = Panic"
    by (rule cbor_nesting_panics) simp
qed

lemma cbor_parse_panics_witness:
  "cbor_parse \<lparr> array_cap = 8, map_cap = 8 \<rparr> 100 [0x19, 0x01] = Panic \<and>
   cbor_parse \<lparr> array_cap = 8, map_cap = 8 \<rparr> 100 (encode_head 4 9 @ []) = Panic \<and>
   cbor_parse \<lparr> array_cap = 8, map_cap = 8 \<rparr> 2 (replicate 2 0x81 @ []) = Panic"
  using cbor_parse_panics [of "0x19" "[0x01]" "\<lparr> array_cap = 8, map_cap = 8 \<rparr>" 100 9]
    cbor_parse_panics [of "0x19" "[]" "\<lparr> array_cap = 8, map_cap = 8 \<rparr>" 100 9]
    cbor_parse_panics [of "0x19" "[]" "\<lparr> array_cap = 8, map_cap = 8 \<rparr>" 2 9]
  by simp

text \<open>A negative integer keeps its value up to -2^63; beyond that the decoded number is not negative.\<close>
lemma cbor_negative_sign:
  assumes "n < 2 ^ 64" "0 < frames"
  shows "\<exists>w. cbor_parse L frames (encode_head 1 n @ rest) = Ok (NegativeInt w, rest) \<and>
    (if n < 2 ^ 63 then sint w = - 1 - int n else 0 \<le> sint w)"
proof -
  let ?v = "word_of_nat n :: 64 word"
  obtain d where d: "frames = Suc d" using assms(2) by (cases frames) auto
  have parse: "cbor_parse L frames (encode_head 1 n @ rest) = Ok (NegativeInt (- 1 - ?v), rest)"
    using assms(1) by (simp add: d cbor_head_encode_head cbor_body_def Let_def)
  have u: "unat ?v = n" using assms(1) by (rule unat_word64)
  have "sint (- 1 - ?v) = - 1 - int n" if "n < 2 ^ 63"
  proof -
    have "sint ?v = int n"
      using sint64_of_int [of "int n"] that by simp
    then show ?thesis by (simp add: sint_minus_one_minus)
  qed
  moreover have "0 \<le> sint (- 1 - ?v)" if "\<not> n < 2 ^ 63"
    using negative_int_sign [of ?v] that u by simp
  ultimately show ?thesis using parse by auto
qed

lemma cbor_negative_sign_witness:
  "\<exists>w. cbor_parse \<lparr> array_cap = 8, map_cap = 8 \<rparr> 1 (encode_head 1 6 @ []) = Ok (NegativeInt w, []) \<and> sint w = - 7"
  using cbor_negative_sign [of 6 1 "\<lparr> array_cap = 8, map_cap = 8 \<rparr>" "[]"] by simp

end
