(* ===== verification/Db.thy ===== *)
theory Db
  imports Complex_Main Prelude Timestamps
begin

text \<open>
  The gateway's SQLite database (src/gateway/src/db/schema.sql and the columns that the migrations
  of src/gateway/src/db/mod.rs add). A table is the list of its rows in insertion order, a row is a
  record with one field per column, and a nullable column is an option. Every connection enables
  foreign keys, so an \<open>INSERT\<close> fails on a duplicate primary key and on a missing parent row.

  \<open>db_up\<close> tells whether the pool hands out connections; a statement has no other way to fail than
  the pool and the constraints. A statement that fails leaves the database unchanged.
\<close>

section \<open>Rows\<close>

record tenant_row =
  te_id :: string
  te_name :: string
  te_created_at :: string
  te_setup_password :: string
  te_setup_used :: int

record credential_row =
  cr_id :: string
  cr_tenant_id :: string
  cr_credential_id :: string
  cr_public_key :: string
  cr_aaguid :: "string option"
  cr_transports :: "string option"
  cr_name :: "string option"
  cr_verified :: int
  cr_created_at :: string
  cr_last_used_at :: "string option"
  cr_revoked_at :: "string option"
  cr_counter :: int

record agent_token_row =
  at_tenant_id :: string
  at_token_hash :: string
  at_scope :: "string option"
  at_created_at :: string
  at_expires_at :: "string option"
  at_revoked_at :: "string option"

record phone_token_row =
  pt_tenant_id :: string
  pt_token_hash :: string
  pt_created_at :: string
  pt_revoked_at :: "string option"

record phone_push_key_row =
  pk_tenant_id :: string
  pk_x25519_public :: string
  pk_mlkem_public :: string
  pk_created_at :: string

record phone_challenge_row =
  ch_id :: string
  ch_tenant_id :: string
  ch_challenge :: bytes
  ch_created_at :: string
  ch_used_at :: "string option"

record pending_session_row =
  ps_id :: string
  ps_tenant_id :: string
  ps_machine_id :: "string option"
  ps_image :: "string option"
  ps_ttl_secs :: "int option"
  ps_reason :: "string option"
  ps_status :: string
  ps_is_extend :: int
  ps_created_at :: string
  ps_decided_at :: "string option"

record machine_row =
  ma_id :: string
  ma_tenant_id :: string
  ma_image :: string
  ma_worker :: string
  ma_status :: string
  ma_cpu :: "int option"
  ma_memory_gb :: "int option"
  ma_worker_sev_snp :: int
  ma_connect_token_hash :: "string option"
  ma_created_at :: string
  ma_expires_at :: string
  ma_killed_at :: "string option"

record quota_row =
  qu_tenant_id :: string
  qu_max_concurrent_machines :: int
  qu_max_cpu_per_machine :: int
  qu_max_memory_gb_per_machine :: int
  qu_max_disk_gb_per_machine :: int
  qu_total_cpu_budget :: int
  qu_total_memory_gb_budget :: int
  qu_total_disk_gb_budget :: int
  qu_require_sev_snp_workers :: int

record audit_row =
  au_seq :: int
  au_tenant_id :: string
  au_ts :: string
  au_machine_id :: "string option"
  au_event :: string
  au_payload :: "string option"
  au_prev_hash :: string
  au_hash :: string
  au_sig_ed25519 :: string
  au_sig_mldsa65 :: string
  au_sev_snp_report_hash :: "string option"

record task_row =
  ta_id :: string
  ta_tenant_id :: string
  ta_machine_id :: "string option"
  ta_parent_task_id :: "string option"
  ta_workflow_run_id :: "string option"
  ta_status :: string
  ta_spec :: string
  ta_result :: "string option"
  ta_created_at :: string
  ta_started_at :: "string option"
  ta_finished_at :: "string option"
  ta_error :: "string option"
  ta_retry_count :: int
  ta_max_retries :: int

record agent_message_row =
  am_id :: int
  am_from_machine :: string
  am_to_machine :: "string option"
  am_channel :: string
  am_body :: string
  am_created_at :: string

record agent_role_row =
  ar_id :: string
  ar_tenant_id :: string
  ar_name :: string
  ar_system_prompt :: string
  ar_allowed_tools :: string
  ar_denied_tools :: string
  ar_created_at :: string

record agent_credential_row =
  ac_id :: string
  ac_tenant_id :: string
  ac_name :: string
  ac_kind :: string
  ac_encrypted_value :: bytes
  ac_nonce :: bytes
  ac_env_var :: "string option"
  ac_mount_path :: "string option"
  ac_created_at :: string
  ac_rotated_at :: "string option"

record ultimatum_row =
  ul_id :: int
  ul_watchdog_machine :: string
  ul_target_machine :: string
  ul_target_task_id :: "string option"
  ul_level :: int
  ul_message :: string
  ul_acknowledged :: int
  ul_created_at :: string
  ul_acknowledged_at :: "string option"

record disagreement_row =
  di_id :: string
  di_tenant_id :: string
  di_task_id :: "string option"
  di_machine_id :: string
  di_issue :: string
  di_coder_argument :: "string option"
  di_reviewer_argument :: "string option"
  di_context :: "string option"
  di_decision :: "string option"
  di_reasoning :: "string option"
  di_precedent :: "string option"
  di_status :: string
  di_created_at :: string
  di_resolved_at :: "string option"

record worker_row =
  wo_id :: string
  wo_host :: string
  wo_sev_snp :: int
  wo_cpu_total :: "int option"
  wo_memory_gb_total :: "int option"
  wo_disk_gb_total :: "int option"
  wo_status :: string
  wo_created_at :: string
  wo_last_seen :: "string option"

record workflow_row =
  wf_id :: string
  wf_tenant_id :: string
  wf_name :: string
  wf_dag :: string
  wf_status :: string
  wf_created_at :: string

record workflow_run_row =
  wr_id :: string
  wr_workflow_id :: string
  wr_tenant_id :: string
  wr_status :: string
  wr_current_steps :: "string option"
  wr_completed_steps :: "string option"
  wr_started_at :: "string option"
  wr_finished_at :: "string option"
  wr_result :: "string option"
  wr_step_results :: "string option"

record task_output_row =
  to_task_id :: string
  to_key :: string
  to_value :: "string option"
  to_artifact_path :: "string option"

record watchdog_report_row =
  wd_id :: int
  wd_watcher_machine :: string
  wd_watched_machine :: string
  wd_watched_task_id :: "string option"
  wd_dedication_score :: rat
  wd_progress_files :: "int option"
  wd_progress_tests :: "int option"
  wd_progress_commits :: "int option"
  wd_last_activity_secs :: "int option"
  wd_workaround_warnings :: "string option"
  wd_ultimatum_level :: int
  wd_assessment :: "string option"
  wd_created_at :: string

record workflow_template_row =
  wt_id :: string
  wt_tenant_id :: string
  wt_name :: string
  wt_dag :: string
  wt_created_at :: string

section \<open>The database and its statements\<close>

record db =
  db_up :: bool
  tenants :: "tenant_row list"
  credentials :: "credential_row list"
  agent_tokens :: "agent_token_row list"
  phone_tokens :: "phone_token_row list"
  phone_push_keys :: "phone_push_key_row list"
  phone_challenges :: "phone_challenge_row list"
  pending_sessions :: "pending_session_row list"
  machines :: "machine_row list"
  quotas :: "quota_row list"
  audit_entries :: "audit_row list"
  tasks :: "task_row list"
  agent_messages :: "agent_message_row list"
  agent_roles :: "agent_role_row list"
  agent_credentials :: "agent_credential_row list"
  ultimata :: "ultimatum_row list"
  disagreements :: "disagreement_row list"
  workers :: "worker_row list"
  workflows :: "workflow_row list"
  workflow_runs :: "workflow_run_row list"
  task_outputs :: "task_output_row list"
  watchdog_reports :: "watchdog_report_row list"
  workflow_templates :: "workflow_template_row list"

definition empty_db :: db where
  "empty_db = \<lparr> db_up = True, tenants = [], credentials = [], agent_tokens = [], phone_tokens = [],
     phone_push_keys = [], phone_challenges = [], pending_sessions = [], machines = [], quotas = [],
     audit_entries = [], tasks = [], agent_messages = [], agent_roles = [], agent_credentials = [],
     ultimata = [], disagreements = [], workers = [], workflows = [], workflow_runs = [],
     task_outputs = [], watchdog_reports = [], workflow_templates = [] \<rparr>"

datatype db_error = PoolError | ConstraintError | ColumnError

text \<open>\<open>query_row\<close> returns the first row that the \<open>WHERE\<close> clause selects; rusqlite's
  \<open>QueryReturnedNoRows\<close> is \<open>None\<close> here.\<close>

definition query_row :: "('r \<Rightarrow> bool) \<Rightarrow> 'r list \<Rightarrow> 'r option" where
  "query_row P rows = List.find P rows"

text \<open>The id that \<open>AUTOINCREMENT\<close> gives the next row; no row of these tables is ever deleted.\<close>

definition next_rowid :: "int list \<Rightarrow> int" where
  "next_rowid ids = foldr max ids 0 + 1"

definition tenant_exists :: "string \<Rightarrow> db \<Rightarrow> bool" where
  "tenant_exists tid d = list_ex (\<lambda>t. te_id t = tid) (tenants d)"

lemma query_row_Some:
  "query_row P rows = Some r \<Longrightarrow> r \<in> set rows \<and> P r"
  by (simp add: query_row_def find_Some_in)

lemma query_row_None:
  "query_row P rows = None \<longleftrightarrow> (\<forall>r\<in>set rows. \<not> P r)"
  by (simp add: query_row_def find_None_iff')

lemma query_row_append:
  "query_row P (xs @ ys) = (case query_row P xs of Some r \<Rightarrow> Some r | None \<Rightarrow> query_row P ys)"
  by (induction xs) (auto simp: query_row_def)

lemma query_row_Nil [simp]: "query_row P [] = None"
  by (simp add: query_row_def)

lemma query_row_Cons [simp]: "query_row P (r # rs) = (if P r then Some r else query_row P rs)"
  by (simp add: query_row_def)

lemma tenant_exists_iff: "tenant_exists tid d \<longleftrightarrow> (\<exists>t\<in>set (tenants d). te_id t = tid)"
  by (simp add: tenant_exists_def list_ex_iff)

end
