(* ===== verification/Demo.thy ===== *)
theory Demo
  imports Prelude
begin

text \<open>
  Concrete functions in the place of hash and encoding crates. No definition of the program uses
  them: the witnesses instantiate the crates with them to show that the theorems' hypotheses can hold.
\<close>

definition demo_digest :: "bytes \<Rightarrow> bytes" where
  "demo_digest bs = take 32 (bs @ replicate 32 0)"

definition demo_hex_digit :: "nat \<Rightarrow> char" where
  "demo_hex_digit n = (if n < 10 then char_of (48 + n) else char_of (87 + n))"

definition demo_hex :: "bytes \<Rightarrow> string" where
  "demo_hex bs = concat (map (\<lambda>b. [demo_hex_digit (unat b div 16), demo_hex_digit (unat b mod 16)]) bs)"

text \<open>A shorter encoding, for witnesses that evaluate many hashes.\<close>

definition demo_short :: "bytes \<Rightarrow> string" where
  "demo_short bs = string_of_bytes (takeWhile (\<lambda>b. b \<noteq> 0) bs)"

definition demo_short_hash :: hash_lib where
  "demo_short_hash = \<lparr> sha256 = demo_digest, hex_encode = demo_short \<rparr>"

lemma length_demo_digest [simp]: "length (demo_digest bs) = 32"
  by (simp add: demo_digest_def)

lemma length_demo_hex [simp]: "length (demo_hex bs) = 2 * length bs"
  by (induction bs) (simp_all add: demo_hex_def)

end
