(* ===== verification/WebAuthn.thy ===== *)
theory WebAuthn
  imports Db Demo
begin

unbundle bit_operations_syntax

text \<open>
  Session approvals: src/gateway/src/crypto/webauthn.rs up to the attestation code, and the store of
  challenges (table \<open>phone_challenges\<close>) that the phone routes use. The crates the file calls (sha2,
  base64, hex, serde_json, p256) are the fields of \<open>webauthn_lib\<close>; what a theorem needs of them is a
  hypothesis of that theorem. Log lines are not modelled.
\<close>

section \<open>The crates behind the verifier\<close>

record ClientData =
  cd_kind :: string
  cd_challenge :: string
  cd_origin :: string
  cd_cross_origin :: bool

record ('pk, 'sig) webauthn_lib = hash_lib +
  b64url_encode :: "bytes \<Rightarrow> string"
  b64url_decode :: "string \<Rightarrow> bytes option"
  b64std_decode :: "string \<Rightarrow> bytes option"
  b64url_pad_decode :: "string \<Rightarrow> bytes option"
  json_client_data :: "bytes \<Rightarrow> ClientData option"
  p256_from_sec1 :: "bytes \<Rightarrow> 'pk option"
  p256_from_spki :: "bytes \<Rightarrow> 'pk option"
  p256_sig_from_der :: "bytes \<Rightarrow> 'sig option"
  p256_verify :: "'pk \<Rightarrow> bytes \<Rightarrow> 'sig \<Rightarrow> bool"

section \<open>Challenges\<close>

definition DEFAULT_RP_ID :: string where
  "DEFAULT_RP_ID = ''localhost''"

definition DEFAULT_RP_ORIGIN :: string where
  "DEFAULT_RP_ORIGIN = ''https://localhost:8443''"

definition CHALLENGE_LEN :: nat where
  "CHALLENGE_LEN = 32"

definition generate_challenge :: "('pk, 'sig) webauthn_lib \<Rightarrow> string \<Rightarrow> string \<Rightarrow> string \<Rightarrow> bytes" where
  "generate_challenge W cmd_hash request_id scope_hash =
     sha256 W (as_bytes cmd_hash @ as_bytes request_id @ as_bytes scope_hash)"

definition generate_challenge_with_sev_snp ::
    "('pk, 'sig) webauthn_lib \<Rightarrow> string \<Rightarrow> string \<Rightarrow> string \<Rightarrow> string option \<Rightarrow> bytes" where
  "generate_challenge_with_sev_snp W cmd_hash request_id scope_hash measurement_hash =
     sha256 W (as_bytes cmd_hash @ as_bytes request_id @ as_bytes scope_hash @
       (case measurement_hash of Some mh \<Rightarrow> as_bytes mh | None \<Rightarrow> []))"

record AttestationReport =
  ar_report :: string
  ar_report_hash :: string
  ar_measurement :: string
  ar_sev_snp_active :: bool
  ar_hardened_mode :: bool
  ar_generated_at :: string

definition sev_snp_measurement_hash :: "('pk, 'sig) webauthn_lib \<Rightarrow> AttestationReport \<Rightarrow> string" where
  "sev_snp_measurement_hash W report =
     hex_encode W (sha256 W (as_bytes (ar_measurement report) @ as_bytes (ar_report_hash report)))"

text \<open>\<open>store_challenge\<close>, \<open>take_challenge\<close> and \<open>take_challenge_by_id\<close>, each statement of which is one
  operation on the table. The two takes read a row whose \<open>used_at\<close> is null, then mark it.\<close>

definition store_challenge ::
    "utc \<Rightarrow> string \<Rightarrow> string \<Rightarrow> bytes \<Rightarrow> db \<Rightarrow> (unit, db_error) res \<times> db" where
  "store_challenge now challenge_id tenant_id challenge d =
    (if \<not> db_up d then (Err PoolError, d)
     else if \<not> tenant_exists tenant_id d \<or> list_ex (\<lambda>r. ch_id r = challenge_id) (phone_challenges d)
     then (Err ConstraintError, d)
     else (Ok (), d \<lparr> phone_challenges := phone_challenges d @
       [\<lparr> ch_id = challenge_id, ch_tenant_id = tenant_id, ch_challenge = challenge,
          ch_created_at = sqlite_datetime now, ch_used_at = None \<rparr>] \<rparr>))"

definition select_challenge :: "string \<Rightarrow> string \<Rightarrow> db \<Rightarrow> bytes option" where
  "select_challenge challenge_id tenant_id d =
     map_option ch_challenge (query_row (\<lambda>r. ch_id r = challenge_id \<and> ch_tenant_id r = tenant_id
       \<and> ch_used_at r = None) (phone_challenges d))"

definition select_challenge_by_id :: "string \<Rightarrow> db \<Rightarrow> (string \<times> bytes) option" where
  "select_challenge_by_id challenge_id d =
     map_option (\<lambda>r. (ch_tenant_id r, ch_challenge r))
       (query_row (\<lambda>r. ch_id r = challenge_id \<and> ch_used_at r = None) (phone_challenges d))"

definition mark_challenge_used :: "utc \<Rightarrow> string \<Rightarrow> db \<Rightarrow> db" where
  "mark_challenge_used now challenge_id d =
     d \<lparr> phone_challenges := update_where (\<lambda>r. ch_id r = challenge_id)
       (\<lambda>r. r \<lparr> ch_used_at := Some (sqlite_datetime now) \<rparr>) (phone_challenges d) \<rparr>"

definition take_challenge ::
    "utc \<Rightarrow> string \<Rightarrow> string \<Rightarrow> db \<Rightarrow> (bytes option, db_error) res \<times> db" where
  "take_challenge now challenge_id tenant_id d =
    (if \<not> db_up d then (Err PoolError, d)
     else case select_challenge challenge_id tenant_id d of
       Some ch \<Rightarrow> (Ok (Some ch), mark_challenge_used now challenge_id d)
     | None \<Rightarrow> (Ok None, d))"

definition take_challenge_by_id ::
    "utc \<Rightarrow> string \<Rightarrow> db \<Rightarrow> ((string \<times> bytes) option, db_error) res \<times> db" where
  "take_challenge_by_id now challenge_id d =
    (if \<not> db_up d then (Err PoolError, d)
     else case select_challenge_by_id challenge_id d of
       Some (tenant_id, ch) \<Rightarrow> (Ok (Some (tenant_id, ch)), mark_challenge_used now challenge_id d)
     | None \<Rightarrow> (Ok None, d))"

section \<open>Assertions\<close>

record WebAuthnAssertion =
  wa_credential_id :: string
  wa_authenticator_data :: string
  wa_client_data_json :: string
  wa_signature :: string

datatype client_data_error =
    BadClientDataBase64
  | BadClientDataJson
  | WrongType
  | OriginMismatch
  | ChallengeMismatch

definition parse_and_validate_client_data ::
    "('pk, 'sig) webauthn_lib \<Rightarrow> WebAuthnAssertion \<Rightarrow> bytes \<Rightarrow> string \<Rightarrow> (ClientData, client_data_error) res" where
  "parse_and_validate_client_data W assertion expected_challenge expected_origin =
     bind_res (ok_or BadClientDataBase64 (b64url_decode W (wa_client_data_json assertion))) (\<lambda>client_data_bytes.
     bind_res (ok_or BadClientDataJson (json_client_data W client_data_bytes)) (\<lambda>client_data.
     bind_res (ensure (cd_kind client_data = ''webauthn.get'') WrongType) (\<lambda>_.
     bind_res (ensure (cd_origin client_data = expected_origin) OriginMismatch) (\<lambda>_.
     bind_res (ensure (cd_challenge client_data = b64url_encode W expected_challenge) ChallengeMismatch) (\<lambda>_.
     Ok client_data)))))"

record AuthenticatorData =
  ad_rp_id_hash :: bytes
  ad_flags :: byte
  ad_sign_count :: "32 word"

definition user_present :: "AuthenticatorData \<Rightarrow> bool" where
  "user_present a \<longleftrightarrow> ad_flags a AND 0x01 \<noteq> 0"

definition user_verified :: "AuthenticatorData \<Rightarrow> bool" where
  "user_verified a \<longleftrightarrow> ad_flags a AND 0x04 \<noteq> 0"

datatype auth_data_error = BadAuthDataBase64 | AuthDataTooShort nat

definition parse_authenticator_data ::
    "('pk, 'sig) webauthn_lib \<Rightarrow> WebAuthnAssertion \<Rightarrow> (AuthenticatorData, auth_data_error) res" where
  "parse_authenticator_data W assertion =
     bind_res (ok_or BadAuthDataBase64 (b64url_decode W (wa_authenticator_data assertion))) (\<lambda>bs.
     if length bs < 37 then Err (AuthDataTooShort (length bs))
     else Ok \<lparr> ad_rp_id_hash = take 32 bs, ad_flags = bs ! 32,
               ad_sign_count = word_of_nat (be_nat (take 4 (drop 33 bs))) \<rparr>)"

text \<open>The credential lookups. \<open>row.get::<_, u32>\<close> fails on a value outside the type's range, which
  \<open>load_credential_counter\<close> reports as \<open>Ok(None)\<close>, like every other failure.\<close>

definition live_credential :: "string \<Rightarrow> string \<Rightarrow> credential_row \<Rightarrow> bool" where
  "live_credential tenant_id credential_id r \<longleftrightarrow>
     cr_tenant_id r = tenant_id \<and> cr_credential_id r = credential_id \<and> cr_revoked_at r = None"

definition load_credential_public_key :: "string \<Rightarrow> string \<Rightarrow> db \<Rightarrow> (string option, db_error) res" where
  "load_credential_public_key tenant_id credential_id d =
    (if \<not> db_up d then Err PoolError
     else Ok (map_option cr_public_key (query_row (live_credential tenant_id credential_id) (credentials d))))"

definition u32_of_int :: "int \<Rightarrow> 32 word option" where
  "u32_of_int i = (if 0 \<le> i \<and> i < 2 ^ 32 then Some (word_of_int i) else None)"

definition load_credential_counter :: "string \<Rightarrow> string \<Rightarrow> db \<Rightarrow> (32 word option, db_error) res" where
  "load_credential_counter tenant_id credential_id d =
    (if \<not> db_up d then Ok None
     else case query_row (live_credential tenant_id credential_id) (credentials d) of
       Some r \<Rightarrow> Ok (u32_of_int (cr_counter r))
     | None \<Rightarrow> Ok None)"

definition update_credential_counter :: "utc \<Rightarrow> string \<Rightarrow> string \<Rightarrow> 32 word \<Rightarrow> db \<Rightarrow> db" where
  "update_credential_counter now tenant_id credential_id new_counter d =
    (if \<not> db_up d then d
     else d \<lparr> credentials := update_where
       (\<lambda>r. cr_tenant_id r = tenant_id \<and> cr_credential_id r = credential_id)
       (\<lambda>r. r \<lparr> cr_counter := uint new_counter, cr_last_used_at := Some (sqlite_datetime now) \<rparr>)
       (credentials d) \<rparr>)"

definition counter_is_valid :: "32 word \<Rightarrow> 32 word \<Rightarrow> bool" where
  "counter_is_valid stored asserted \<longleftrightarrow> (if stored = 0 \<or> asserted = 0 then True else asserted > stored)"

definition decode_b64_flexible :: "('pk, 'sig) webauthn_lib \<Rightarrow> string \<Rightarrow> bytes option" where
  "decode_b64_flexible W s =
    (case b64url_decode W s of Some b \<Rightarrow> Some b
     | None \<Rightarrow> (case b64std_decode W s of Some b \<Rightarrow> Some b | None \<Rightarrow> b64url_pad_decode W s))"

definition parse_public_key :: "('pk, 'sig) webauthn_lib \<Rightarrow> bytes \<Rightarrow> 'pk option" where
  "parse_public_key W b = (case p256_from_sec1 W b of Some pk \<Rightarrow> Some pk | None \<Rightarrow> p256_from_spki W b)"

definition verify_assertion_signature ::
    "('pk, 'sig) webauthn_lib \<Rightarrow> string \<Rightarrow> WebAuthnAssertion \<Rightarrow> db \<Rightarrow> bool" where
  "verify_assertion_signature W tenant_id assertion d =
    (case load_credential_public_key tenant_id (wa_credential_id assertion) d of
       Ok (Some public_key_str) \<Rightarrow>
         (case decode_b64_flexible W public_key_str of None \<Rightarrow> False | Some public_key_bytes \<Rightarrow>
         (case parse_public_key W public_key_bytes of None \<Rightarrow> False | Some public_key \<Rightarrow>
         (case decode_b64_flexible W (wa_signature assertion) of None \<Rightarrow> False | Some signature_bytes \<Rightarrow>
         (case p256_sig_from_der W signature_bytes of None \<Rightarrow> False | Some signature \<Rightarrow>
         (case decode_b64_flexible W (wa_authenticator_data assertion) of None \<Rightarrow> False | Some auth_data_bytes \<Rightarrow>
         (case decode_b64_flexible W (wa_client_data_json assertion) of None \<Rightarrow> False | Some client_data_bytes \<Rightarrow>
          p256_verify W public_key (auth_data_bytes @ sha256 W client_data_bytes) signature))))))
     | _ \<Rightarrow> False)"

text \<open>\<open>verify_assertion\<close> returns \<open>Ok(true)\<close> or \<open>Ok(false)\<close>, never \<open>Err\<close>.\<close>

definition verify_assertion ::
    "('pk, 'sig) webauthn_lib \<Rightarrow> utc \<Rightarrow> string \<Rightarrow> WebAuthnAssertion \<Rightarrow> string \<Rightarrow> db \<Rightarrow> bool \<times> db" where
  "verify_assertion W now tenant_id assertion request_id d =
    (case parse_and_validate_client_data W assertion (generate_challenge W [] request_id []) DEFAULT_RP_ORIGIN of
       Ok _ \<Rightarrow>
        (case parse_authenticator_data W assertion of
           Ok auth_data \<Rightarrow>
             if \<not> user_verified auth_data then (False, d)
             else if ad_rp_id_hash auth_data \<noteq> sha256 W (as_bytes DEFAULT_RP_ID) then (False, d)
             else if (case load_credential_counter tenant_id (wa_credential_id assertion) d of
                        Ok (Some stored_counter) \<Rightarrow>
                          \<not> counter_is_valid stored_counter (ad_sign_count auth_data)
                      | _ \<Rightarrow> False)
             then (False, d)
             else if \<not> verify_assertion_signature W tenant_id assertion d then (False, d)
             else (True, update_credential_counter now tenant_id (wa_credential_id assertion)
                           (ad_sign_count auth_data) d)
         | _ \<Rightarrow> (False, d))
     | _ \<Rightarrow> (False, d))"

section \<open>What an accepted assertion shows\<close>

definition client_data_ok ::
    "('pk, 'sig) webauthn_lib \<Rightarrow> string \<Rightarrow> string \<Rightarrow> bytes \<Rightarrow> string \<Rightarrow> bool" where
  "client_data_ok W kind origin challenge json_b64 \<longleftrightarrow>
     (\<exists>cdb cd. b64url_decode W json_b64 = Some cdb \<and> json_client_data W cdb = Some cd \<and>
        cd_kind cd = kind \<and> cd_origin cd = origin \<and> cd_challenge cd = b64url_encode W challenge)"

lemma parse_and_validate_client_data_Ok:
  "(\<exists>cd. parse_and_validate_client_data W a ch origin = Ok cd) \<longleftrightarrow>
   client_data_ok W ''webauthn.get'' origin ch (wa_client_data_json a)"
  by (auto simp: parse_and_validate_client_data_def client_data_ok_def bind_simps)

lemma parse_and_validate_client_data_no_panic:
  "parse_and_validate_client_data W a ch origin \<noteq> Panic"
  by (auto simp: parse_and_validate_client_data_def bind_simps)

lemma parse_authenticator_data_Ok:
  "parse_authenticator_data W a = Ok ad \<longleftrightarrow>
   (\<exists>bs. b64url_decode W (wa_authenticator_data a) = Some bs \<and> 37 \<le> length bs \<and>
      ad_rp_id_hash ad = take 32 bs \<and> ad_flags ad = bs ! 32 \<and>
      ad_sign_count ad = word_of_nat (be_nat (take 4 (drop 33 bs))))"
  by (cases ad) (auto simp: parse_authenticator_data_def bind_simps not_less)

lemma sign_count_no_wrap:
  "37 \<le> length bs \<Longrightarrow>
   unat (word_of_nat (be_nat (take 4 (drop 33 bs))) :: 32 word) = be_nat (take 4 (drop 33 bs))"
  using be_nat_bound [of "take 4 (drop 33 bs)"] by (simp add: unat_of_nat)

definition counter_accepted :: "string \<Rightarrow> string \<Rightarrow> 32 word \<Rightarrow> db \<Rightarrow> bool" where
  "counter_accepted tid cid asserted d \<longleftrightarrow>
    (case load_credential_counter tid cid d of Ok (Some stored) \<Rightarrow> counter_is_valid stored asserted | _ \<Rightarrow> True)"

lemma verify_assertion_True_iff:
  "verify_assertion W now tid a rid d = (True, d') \<longleftrightarrow>
   client_data_ok W ''webauthn.get'' DEFAULT_RP_ORIGIN (sha256 W (as_bytes rid)) (wa_client_data_json a) \<and>
   (\<exists>ad. parse_authenticator_data W a = Ok ad \<and> user_verified ad \<and>
      ad_rp_id_hash ad = sha256 W (as_bytes DEFAULT_RP_ID) \<and>
      counter_accepted tid (wa_credential_id a) (ad_sign_count ad) d \<and>
      verify_assertion_signature W tid a d \<and>
      d' = update_credential_counter now tid (wa_credential_id a) (ad_sign_count ad) d)"
  unfolding parse_and_validate_client_data_Ok [symmetric]
  by (auto simp: verify_assertion_def generate_challenge_def counter_accepted_def
      split: res.splits option.splits if_splits)

lemma verify_assertion_False_unchanged:
  "\<not> fst (verify_assertion W now tid a rid d) \<Longrightarrow> snd (verify_assertion W now tid a rid d) = d"
  by (auto simp: verify_assertion_def split: res.splits option.splits if_splits)

definition signature_ok :: "('pk, 'sig) webauthn_lib \<Rightarrow> credential_row \<Rightarrow> WebAuthnAssertion \<Rightarrow> bytes \<Rightarrow> bytes \<Rightarrow> bool" where
  "signature_ok W r a auth_bytes client_bytes \<longleftrightarrow>
     (\<exists>kb pk sb sg. decode_b64_flexible W (cr_public_key r) = Some kb \<and> parse_public_key W kb = Some pk \<and>
        decode_b64_flexible W (wa_signature a) = Some sb \<and> p256_sig_from_der W sb = Some sg \<and>
        p256_verify W pk (auth_bytes @ sha256 W client_bytes) sg)"

lemma decode_flexible_url: "b64url_decode W s = Some b \<Longrightarrow> decode_b64_flexible W s = Some b"
  by (simp add: decode_b64_flexible_def)

lemma verify_assertion_signature_True:
  assumes "b64url_decode W (wa_authenticator_data a) = Some ab"
    and "b64url_decode W (wa_client_data_json a) = Some cb"
  shows "verify_assertion_signature W tid a d \<longleftrightarrow>
    db_up d \<and> (\<exists>r. query_row (live_credential tid (wa_credential_id a)) (credentials d) = Some r \<and>
      signature_ok W r a ab cb)"
  using assms [THEN decode_flexible_url]
  by (auto simp: verify_assertion_signature_def load_credential_public_key_def signature_ok_def
      split: option.splits)

text \<open>The conditions under which an assertion is accepted, over the bytes it carries.\<close>

definition assertion_ok ::
    "('pk, 'sig) webauthn_lib \<Rightarrow> string \<Rightarrow> WebAuthnAssertion \<Rightarrow> string \<Rightarrow> db \<Rightarrow> bool" where
  "assertion_ok W tid a rid d \<longleftrightarrow>
     (\<exists>ab cb cd r. b64url_decode W (wa_authenticator_data a) = Some ab \<and> 37 \<le> length ab \<and>
        take 32 ab = sha256 W (as_bytes DEFAULT_RP_ID) \<and> ab ! 32 AND 0x04 \<noteq> 0 \<and>
        b64url_decode W (wa_client_data_json a) = Some cb \<and> json_client_data W cb = Some cd \<and>
        cd_kind cd = ''webauthn.get'' \<and> cd_origin cd = DEFAULT_RP_ORIGIN \<and>
        cd_challenge cd = b64url_encode W (sha256 W (as_bytes rid)) \<and>
        db_up d \<and> query_row (live_credential tid (wa_credential_id a)) (credentials d) = Some r \<and>
        (cr_counter r < 0 \<or> 2 ^ 32 \<le> cr_counter r \<or> cr_counter r = 0 \<or> be_nat (take 4 (drop 33 ab)) = 0 \<or>
           cr_counter r < int (be_nat (take 4 (drop 33 ab)))) \<and>
        signature_ok W r a ab cb)"

lemma counter_is_valid_iff:
  "counter_is_valid s n \<longleftrightarrow> unat s = 0 \<or> unat n = 0 \<or> unat s < unat n"
  by (auto simp: counter_is_valid_def word_less_nat_alt unat_eq_0)

lemma u32_counter_accepted:
  assumes "db_up d" "query_row (live_credential tid cid) (credentials d) = Some r"
  shows "counter_accepted tid cid n d \<longleftrightarrow>
    cr_counter r < 0 \<or> 2 ^ 32 \<le> cr_counter r \<or> cr_counter r = 0 \<or> unat n = 0 \<or> cr_counter r < int (unat n)"
proof -
  have *: "unat (word_of_int (cr_counter r) :: 32 word) = nat (cr_counter r)"
    if "0 \<le> cr_counter r" "cr_counter r < 2 ^ 32"
    using that by (simp add: unsigned_of_int take_bit_int_eq_self)
  then show ?thesis
    using assms
    by (auto simp: counter_accepted_def load_credential_counter_def u32_of_int_def counter_is_valid_iff
        nat_less_iff)
qed

theorem verify_assertion_iff:
  "fst (verify_assertion W now tid a rid d) \<longleftrightarrow> assertion_ok W tid a rid d"
proof
  assume "fst (verify_assertion W now tid a rid d)"
  then have "verify_assertion W now tid a rid d = (True, snd (verify_assertion W now tid a rid d))"
    by (cases "verify_assertion W now tid a rid d") auto
  then obtain ad where cd: "client_data_ok W ''webauthn.get'' DEFAULT_RP_ORIGIN (sha256 W (as_bytes rid)) (wa_client_data_json a)"
    and ad: "parse_authenticator_data W a = Ok ad" "user_verified ad"
      "ad_rp_id_hash ad = sha256 W (as_bytes DEFAULT_RP_ID)"
      "counter_accepted tid (wa_credential_id a) (ad_sign_count ad) d"
      "verify_assertion_signature W tid a d"
    unfolding verify_assertion_True_iff by blast
  obtain cb c where cb: "b64url_decode W (wa_client_data_json a) = Some cb" "json_client_data W cb = Some c"
    "cd_kind c = ''webauthn.get''" "cd_origin c = DEFAULT_RP_ORIGIN"
    "cd_challenge c = b64url_encode W (sha256 W (as_bytes rid))"
    using cd unfolding client_data_ok_def by blast
  obtain ab where ab: "b64url_decode W (wa_authenticator_data a) = Some ab" "37 \<le> length ab"
    "ad_rp_id_hash ad = take 32 ab" "ad_flags ad = ab ! 32"
    "ad_sign_count ad = word_of_nat (be_nat (take 4 (drop 33 ab)))"
    using ad(1) unfolding parse_authenticator_data_Ok by blast
  obtain r where r: "db_up d" "query_row (live_credential tid (wa_credential_id a)) (credentials d) = Some r"
    "signature_ok W r a ab cb"
    using ad(5) verify_assertion_signature_True [OF ab(1) cb(1)] by blast
  have "cr_counter r < 0 \<or> 2 ^ 32 \<le> cr_counter r \<or> cr_counter r = 0 \<or> be_nat (take 4 (drop 33 ab)) = 0
      \<or> cr_counter r < int (be_nat (take 4 (drop 33 ab)))"
    using ad(4) unfolding u32_counter_accepted [OF r(1,2)] ab(5) sign_count_no_wrap [OF ab(2)] .
  then show "assertion_ok W tid a rid d"
    unfolding assertion_ok_def using ab ad(2,3) cb r by (auto simp: user_verified_def)
next
  assume "assertion_ok W tid a rid d"
  then obtain ab cb c r where ab: "b64url_decode W (wa_authenticator_data a) = Some ab" "37 \<le> length ab"
      "take 32 ab = sha256 W (as_bytes DEFAULT_RP_ID)" "ab ! 32 AND 0x04 \<noteq> 0"
    and cb: "b64url_decode W (wa_client_data_json a) = Some cb" "json_client_data W cb = Some c"
      "cd_kind c = ''webauthn.get''" "cd_origin c = DEFAULT_RP_ORIGIN"
      "cd_challenge c = b64url_encode W (sha256 W (as_bytes rid))"
    and r: "db_up d" "query_row (live_credential tid (wa_credential_id a)) (credentials d) = Some r"
      "signature_ok W r a ab cb"
    and n: "cr_counter r < 0 \<or> 2 ^ 32 \<le> cr_counter r \<or> cr_counter r = 0 \<or> be_nat (take 4 (drop 33 ab)) = 0
      \<or> cr_counter r < int (be_nat (take 4 (drop 33 ab)))"
    unfolding assertion_ok_def by blast
  define ad where "ad = \<lparr> ad_rp_id_hash = take 32 ab, ad_flags = ab ! 32,
    ad_sign_count = word_of_nat (be_nat (take 4 (drop 33 ab))) \<rparr>"
  have parse: "parse_authenticator_data W a = Ok ad"
    unfolding parse_authenticator_data_Ok using ab by (auto simp: ad_def)
  have counter: "counter_accepted tid (wa_credential_id a) (ad_sign_count ad) d"
    using n unfolding u32_counter_accepted [OF r(1,2)] ad_def AuthenticatorData.select_convs
      sign_count_no_wrap [OF ab(2)] .
  have "verify_assertion_signature W tid a d"
    using r verify_assertion_signature_True [OF ab(1) cb(1)] by blast
  moreover have "client_data_ok W ''webauthn.get'' DEFAULT_RP_ORIGIN (sha256 W (as_bytes rid)) (wa_client_data_json a)"
    unfolding client_data_ok_def using cb by blast
  ultimately have "verify_assertion W now tid a rid d =
      (True, update_credential_counter now tid (wa_credential_id a) (ad_sign_count ad) d)"
    unfolding verify_assertion_True_iff using parse counter ab by (auto simp: user_verified_def ad_def)
  then show "fst (verify_assertion W now tid a rid d)" by simp
qed

section \<open>Replaying an accepted assertion\<close>

definition asserted_count :: "('pk, 'sig) webauthn_lib \<Rightarrow> WebAuthnAssertion \<Rightarrow> 32 word" where
  "asserted_count W a = (case parse_authenticator_data W a of Ok ad \<Rightarrow> ad_sign_count ad | _ \<Rightarrow> 0)"

lemma query_row_update_where:
  assumes "\<And>r. P (f r) = P r"
  shows "query_row P (update_where Q f rows) =
         map_option (\<lambda>r. if Q r then f r else r) (query_row P rows)"
  using assms by (induction rows) auto

lemma live_credential_counter_update:
  "query_row (live_credential tid cid) (credentials (update_credential_counter now tid cid n d)) =
   (if db_up d then map_option (\<lambda>r. r \<lparr> cr_counter := uint n, cr_last_used_at := Some (sqlite_datetime now) \<rparr>)
      (query_row (live_credential tid cid) (credentials d))
    else query_row (live_credential tid cid) (credentials d))"
  unfolding update_credential_counter_def
  by (cases "query_row (live_credential tid cid) (credentials d)")
    (auto simp: query_row_update_where live_credential_def dest: query_row_Some)

theorem verify_assertion_replay:
  assumes "fst (verify_assertion W now tid a rid d)"
  shows "fst (verify_assertion W now' tid a rid (snd (verify_assertion W now tid a rid d)))
         \<longleftrightarrow> asserted_count W a = 0"
proof -
  obtain d' where v: "verify_assertion W now tid a rid d = (True, d')"
    using assms by (cases "verify_assertion W now tid a rid d") auto
  then obtain ad where ad: "parse_authenticator_data W a = Ok ad"
    and d': "d' = update_credential_counter now tid (wa_credential_id a) (ad_sign_count ad) d"
    unfolding verify_assertion_True_iff by blast
  have ok: "assertion_ok W tid a rid d"
    using assms by (simp add: verify_assertion_iff)
  then obtain ab where ab: "b64url_decode W (wa_authenticator_data a) = Some ab" "37 \<le> length ab"
    unfolding assertion_ok_def by blast
  have n: "ad_sign_count ad = word_of_nat (be_nat (take 4 (drop 33 ab)))"
    using ad ab unfolding parse_authenticator_data_Ok by auto
  have count: "asserted_count W a = ad_sign_count ad" by (simp add: asserted_count_def ad)
  have un: "uint (ad_sign_count ad) = int (be_nat (take 4 (drop 33 ab)))"
    using sign_count_no_wrap [OF ab(2)] unfolding n by (simp only: uint_nat)
  have zero: "ad_sign_count ad = 0 \<longleftrightarrow> be_nat (take 4 (drop 33 ab)) = 0"
    using un by (metis of_nat_eq_0_iff uint_0_iff)
  have small: "int (be_nat (take 4 (drop 33 ab))) < 2 ^ 32"
    using be_nat_bound [of "take 4 (drop 33 ab)"] ab(2) by simp
  have up: "db_up d" using ok unfolding assertion_ok_def by blast
  have up': "db_up d'" by (simp add: d' update_credential_counter_def up)
  have "assertion_ok W tid a rid d' \<longleftrightarrow> be_nat (take 4 (drop 33 ab)) = 0"
    using ok ab small up up'
    unfolding assertion_ok_def d' live_credential_counter_update un
    by (auto simp: signature_ok_def un)
  then show ?thesis by (simp add: verify_assertion_iff v count zero)
qed

section \<open>Properties\<close>

text \<open>C2. An assertion is accepted exactly when its client data names an assertion, this origin and this
  request's challenge, its authenticator data carries this relying party's hash and the user-verified
  flag, the tenant has an unrevoked credential of that id whose counter does not rule it out, and the
  signature over both verifies under that credential's key. With no database nothing is accepted.\<close>
theorem assertion_accepted_iff:
  "fst (verify_assertion W now tid a rid d) = assertion_ok W tid a rid d"
  by (simp add: verify_assertion_iff)

text \<open>Sent again, an accepted assertion is accepted again if and only if its signature counter is
  zero: the counter stored after the first use stops every other replay.\<close>
lemma replay_needs_zero_counter:
  assumes "fst (verify_assertion W now tid a rid d)"
  shows "fst (verify_assertion W now' tid a rid (snd (verify_assertion W now tid a rid d)))
         \<longleftrightarrow> asserted_count W a = 0"
  by (rule verify_assertion_replay [OF assms])

definition demo_web :: "ClientData \<Rightarrow> (unit, unit) webauthn_lib" where
  "demo_web cd = \<lparr> sha256 = demo_digest, hex_encode = demo_short,
     b64url_encode = string_of_bytes, b64url_decode = (\<lambda>s. Some (as_bytes s)),
     b64std_decode = (\<lambda>s. Some (as_bytes s)), b64url_pad_decode = (\<lambda>s. Some (as_bytes s)),
     json_client_data = (\<lambda>b. Some cd), p256_from_sec1 = (\<lambda>b. Some ()), p256_from_spki = (\<lambda>b. Some ()),
     p256_sig_from_der = (\<lambda>b. Some ()), p256_verify = (\<lambda>k m s. True) \<rparr>"

definition demo_time :: utc where
  "demo_time = \<lparr> year = 2026, month = 7, day = 9, hour = 12, minute = 30, second = 5, nanos = 0 \<rparr>"

definition demo_credential :: credential_row where
  "demo_credential = \<lparr> cr_id = ''row1'', cr_tenant_id = ''t1'', cr_credential_id = ''c1'', cr_public_key = ''k'',
     cr_aaguid = None, cr_transports = None, cr_name = None, cr_verified = 1, cr_created_at = [],
     cr_last_used_at = None, cr_revoked_at = None, cr_counter = 4 \<rparr>"

definition demo_assertion :: WebAuthnAssertion where
  "demo_assertion = \<lparr> wa_credential_id = ''c1'',
     wa_authenticator_data = string_of_bytes (demo_digest (as_bytes ''localhost'') @ [4, 0, 0, 0, 9]),
     wa_client_data_json = ''json'', wa_signature = ''sig'' \<rparr>"

definition demo_get_data :: ClientData where
  "demo_get_data = \<lparr> cd_kind = ''webauthn.get'', cd_challenge = string_of_bytes (demo_digest (as_bytes ''r1'')),
     cd_origin = ''https://localhost:8443'', cd_cross_origin = False \<rparr>"

lemma demo_accepted:
  "fst (verify_assertion (demo_web demo_get_data) demo_time ''t1'' demo_assertion ''r1''
     (empty_db \<lparr> credentials := [demo_credential] \<rparr>))"
  by code_simp

lemma replay_needs_zero_counter_witness:
  "\<not> fst (verify_assertion (demo_web demo_get_data) demo_time ''t1'' demo_assertion ''r1''
     (snd (verify_assertion (demo_web demo_get_data) demo_time ''t1'' demo_assertion ''r1''
       (empty_db \<lparr> credentials := [demo_credential] \<rparr>))))"
proof -
  have "asserted_count (demo_web demo_get_data) demo_assertion \<noteq> 0" by code_simp
  then show ?thesis using replay_needs_zero_counter [OF demo_accepted] by blast
qed

end
