(* ===== verification/Challenges.thy ===== *)
theory Challenges
  imports WebAuthn
begin

text \<open>
  The challenge store as a one-shot store. The interface says what a client relies on: an operation
  that hands out a key's value spends the key, and a spent key stays spent and hands out nothing.
  Operations that run one after the other satisfy it; the last section runs two takes with their
  \<open>SELECT\<close> and \<open>UPDATE\<close> statements interleaved, as two pooled connections can.
\<close>

section \<open>The interface\<close>

locale one_shot_store =
  fixes step :: "'o \<Rightarrow> 's \<Rightarrow> bool \<times> 's"
    and key :: "'o \<Rightarrow> 'k"
    and spent :: "'k \<Rightarrow> 's \<Rightarrow> bool"
  assumes hand_out_spends: "fst (step x s) \<Longrightarrow> spent (key x) (snd (step x s))"
    and spent_refuses: "spent (key x) s \<Longrightarrow> \<not> fst (step x s)"
    and spent_stays: "spent k s \<Longrightarrow> spent k (snd (step x s))"
begin

primrec hand_outs :: "'k \<Rightarrow> 'o list \<Rightarrow> 's \<Rightarrow> nat" where
  "hand_outs k [] s = 0"
| "hand_outs k (x # xs) s =
     (if fst (step x s) \<and> key x = k then 1 else 0) + hand_outs k xs (snd (step x s))"

lemma spent_no_hand_out: "spent k s \<Longrightarrow> hand_outs k xs s = 0"
  by (induction xs arbitrary: s) (auto dest: spent_refuses spent_stays)

lemma at_most_one_hand_out: "hand_outs k xs s \<le> 1"
proof (induction xs arbitrary: s)
  case (Cons x xs)
  show ?case
  proof (cases "fst (step x s) \<and> key x = k")
    case True
    then have "spent k (snd (step x s))" using hand_out_spends by blast
    then show ?thesis using True by (simp add: spent_no_hand_out)
  next
    case False
    then show ?thesis using Cons.IH by auto
  qed
qed simp

end

section \<open>The table of challenges implements it\<close>

datatype challenge_op =
    Store utc string string bytes
  | Take utc string string
  | TakeById utc string

fun challenge_key :: "challenge_op \<Rightarrow> string" where
  "challenge_key (Store now cid tid ch) = cid"
| "challenge_key (Take now cid tid) = cid"
| "challenge_key (TakeById now cid) = cid"

definition handed_out :: "('v option, 'e) res \<Rightarrow> bool" where
  "handed_out r = (case r of Ok (Some v) \<Rightarrow> True | _ \<Rightarrow> False)"

fun challenge_step :: "challenge_op \<Rightarrow> db \<Rightarrow> bool \<times> db" where
  "challenge_step (Store now cid tid ch) d = (False, snd (store_challenge now cid tid ch d))"
| "challenge_step (Take now cid tid) d =
     (handed_out (fst (take_challenge now cid tid d)), snd (take_challenge now cid tid d))"
| "challenge_step (TakeById now cid) d =
     (handed_out (fst (take_challenge_by_id now cid d)), snd (take_challenge_by_id now cid d))"

definition challenge_spent :: "string \<Rightarrow> db \<Rightarrow> bool" where
  "challenge_spent cid d \<longleftrightarrow>
     cid \<in> ch_id ` set (phone_challenges d) \<and>
     (\<forall>r\<in>set (phone_challenges d). ch_id r = cid \<longrightarrow> ch_used_at r \<noteq> None)"

lemma mark_challenge_used_spent:
  "challenge_spent k d \<Longrightarrow> challenge_spent k (mark_challenge_used now cid d)"
  by (simp add: challenge_spent_def mark_challenge_used_def image_update_where)
    (auto simp: set_update_where)

lemma mark_challenge_used_spends:
  "r \<in> set (phone_challenges d) \<Longrightarrow> ch_id r = cid \<Longrightarrow> challenge_spent cid (mark_challenge_used now cid d)"
  by (simp add: challenge_spent_def mark_challenge_used_def image_update_where)
    (auto simp: set_update_where)

lemma store_challenge_keeps_spent:
  "challenge_spent k d \<Longrightarrow> challenge_spent k (snd (store_challenge now cid tid ch d))"
  by (auto simp: challenge_spent_def store_challenge_def list_ex_iff)

lemma select_challenge_in:
  "select_challenge cid tid d = Some ch \<Longrightarrow>
   \<exists>r\<in>set (phone_challenges d). ch_id r = cid \<and> ch_tenant_id r = tid \<and> ch_used_at r = None \<and> ch_challenge r = ch"
  by (auto simp: select_challenge_def dest!: query_row_Some)

lemma select_challenge_by_id_in:
  "select_challenge_by_id cid d = Some (tid, ch) \<Longrightarrow>
   \<exists>r\<in>set (phone_challenges d). ch_id r = cid \<and> ch_tenant_id r = tid \<and> ch_used_at r = None \<and> ch_challenge r = ch"
  by (auto simp: select_challenge_by_id_def dest!: query_row_Some)

lemma take_challenge_Some:
  "fst (take_challenge now cid tid d) = Ok (Some ch) \<Longrightarrow>
   db_up d \<and> select_challenge cid tid d = Some ch \<and> snd (take_challenge now cid tid d) = mark_challenge_used now cid d"
  by (auto simp: take_challenge_def split: if_splits option.splits)

lemma take_challenge_by_id_Some:
  "fst (take_challenge_by_id now cid d) = Ok (Some (tid, ch)) \<Longrightarrow>
   db_up d \<and> select_challenge_by_id cid d = Some (tid, ch)
   \<and> snd (take_challenge_by_id now cid d) = mark_challenge_used now cid d"
  by (auto simp: take_challenge_by_id_def split: if_splits option.splits)

lemma handed_out_iff: "handed_out r \<longleftrightarrow> (\<exists>v. r = Ok (Some v))"
  by (auto simp: handed_out_def split: res.splits option.splits)

lemma take_challenge_keeps_spent:
  "challenge_spent k d \<Longrightarrow> challenge_spent k (snd (take_challenge now cid tid d))"
  by (auto simp: take_challenge_def mark_challenge_used_spent split: option.splits)

lemma take_challenge_by_id_keeps_spent:
  "challenge_spent k d \<Longrightarrow> challenge_spent k (snd (take_challenge_by_id now cid d))"
  by (auto simp: take_challenge_by_id_def mark_challenge_used_spent split: option.splits)

interpretation challenge_store: one_shot_store challenge_step challenge_key challenge_spent
proof
  fix x and d :: db
  show "fst (challenge_step x d) \<Longrightarrow> challenge_spent (challenge_key x) (snd (challenge_step x d))"
    by (cases x)
      (auto simp: handed_out_iff dest!: take_challenge_Some take_challenge_by_id_Some
        select_challenge_in select_challenge_by_id_in intro: mark_challenge_used_spends)
  show "challenge_spent (challenge_key x) d \<Longrightarrow> \<not> fst (challenge_step x d)"
    by (cases x)
      (auto simp: handed_out_iff challenge_spent_def dest!: take_challenge_Some take_challenge_by_id_Some
        select_challenge_in select_challenge_by_id_in)
next
  fix k x and d :: db
  show "challenge_spent k d \<Longrightarrow> challenge_spent k (snd (challenge_step x d))"
    by (cases x)
      (simp_all add: store_challenge_keeps_spent take_challenge_keeps_spent take_challenge_by_id_keeps_spent)
qed

text \<open>How often a sequence of operations hands out the challenge \<open>cid\<close>.\<close>

definition challenge_hand_outs :: "string \<Rightarrow> challenge_op list \<Rightarrow> db \<Rightarrow> nat" where
  "challenge_hand_outs = challenge_store.hand_outs"

text \<open>A take only hands out what was stored for the tenant that takes it.\<close>

lemma take_challenge_store:
  assumes "fst (store_challenge now cid tid ch d) = Ok ()"
  shows "fst (take_challenge now' cid tid' (snd (store_challenge now cid tid ch d)))
         = Ok (if tid' = tid then Some ch else None)"
proof -
  have *: "db_up d" "\<forall>r\<in>set (phone_challenges d). ch_id r \<noteq> cid"
    and post: "snd (store_challenge now cid tid ch d) = d \<lparr> phone_challenges := phone_challenges d @
       [\<lparr> ch_id = cid, ch_tenant_id = tid, ch_challenge = ch,
          ch_created_at = sqlite_datetime now, ch_used_at = None \<rparr>] \<rparr>"
    using assms by (auto simp: store_challenge_def list_ex_iff split: if_splits)
  have "query_row (\<lambda>r. ch_id r = cid \<and> ch_tenant_id r = tid' \<and> ch_used_at r = None) (phone_challenges d) = None"
    using *(2) by (simp add: query_row_None)
  then show ?thesis
    using * by (simp add: post take_challenge_def select_challenge_def query_row_append)
qed

section \<open>Two connections\<close>

text \<open>One take as two statements of one connection: the select, then the update if a row was found.\<close>

datatype take_pc = Idle | Selected bytes | Finished "bytes option"

type_synonym race_state = "take_pc \<times> take_pc \<times> db"

definition take_stmt :: "utc \<Rightarrow> string \<Rightarrow> string \<Rightarrow> take_pc \<Rightarrow> db \<Rightarrow> take_pc \<times> db" where
  "take_stmt now cid tid pc d =
    (case pc of
       Idle \<Rightarrow> (case select_challenge cid tid d of Some ch \<Rightarrow> (Selected ch, d) | None \<Rightarrow> (Finished None, d))
     | Selected ch \<Rightarrow> (Finished (Some ch), mark_challenge_used now cid d)
     | Finished v \<Rightarrow> (Finished v, d))"

inductive race_reachable :: "utc \<Rightarrow> string \<Rightarrow> string \<Rightarrow> db \<Rightarrow> race_state \<Rightarrow> bool"
  for now cid tid d0 where
  race_start: "race_reachable now cid tid d0 (Idle, Idle, d0)"
| race_left: "race_reachable now cid tid d0 (p, q, d) \<Longrightarrow>
    race_reachable now cid tid d0 (fst (take_stmt now cid tid p d), q, snd (take_stmt now cid tid p d))"
| race_right: "race_reachable now cid tid d0 (p, q, d) \<Longrightarrow>
    race_reachable now cid tid d0 (p, fst (take_stmt now cid tid q d), snd (take_stmt now cid tid q d))"

lemma take_stmt_sequential:
  assumes "db_up d"
  shows "take_challenge now cid tid d =
    (case take_stmt now cid tid Idle d of (pc, d') \<Rightarrow>
     case take_stmt now cid tid pc d' of (Finished v, d'') \<Rightarrow> (Ok v, d'') | (_, d'') \<Rightarrow> (Err PoolError, d''))"
  using assms by (auto simp: take_challenge_def take_stmt_def split: option.splits)

lemma take_challenge_race:
  assumes "select_challenge cid tid d0 = Some ch"
  shows "\<exists>d. race_reachable now cid tid d0 (Finished (Some ch), Finished (Some ch), d)"
proof -
  let ?m = "mark_challenge_used now cid"
  have s: "take_stmt now cid tid Idle d0 = (Selected ch, d0)"
    using assms by (simp add: take_stmt_def)
  have m: "take_stmt now cid tid (Selected ch) d = (Finished (Some ch), ?m d)" for d
    by (simp add: take_stmt_def)
  have "race_reachable now cid tid d0 (Selected ch, Idle, d0)"
    using race_left [OF race_start [of now cid tid d0]] by (simp add: s)
  then have "race_reachable now cid tid d0 (Selected ch, Selected ch, d0)"
    using race_right by (fastforce simp: s)
  then have "race_reachable now cid tid d0 (Finished (Some ch), Selected ch, ?m d0)"
    using race_left by (fastforce simp: m)
  then have "race_reachable now cid tid d0 (Finished (Some ch), Finished (Some ch), ?m (?m d0))"
    using race_right by (fastforce simp: m)
  then show ?thesis by blast
qed

section \<open>Properties\<close>

text \<open>C4. However stores and takes (with and without a tenant) follow one another, a challenge id is
  handed out at most once.\<close>
theorem challenge_handed_out_once:
  "challenge_hand_outs cid ops d \<le> 1"
  unfolding challenge_hand_outs_def by (rule challenge_store.at_most_one_hand_out)

text \<open>A stored challenge is handed out to the tenant it was stored for, and to no other.\<close>
lemma challenge_bound_to_tenant:
  assumes "fst (store_challenge now cid tid ch d) = Ok ()"
  shows "fst (take_challenge now' cid tid' (snd (store_challenge now cid tid ch d)))
         = Ok (if tid' = tid then Some ch else None)"
  by (rule take_challenge_store [OF assms])

definition demo_tenant_db :: db where
  "demo_tenant_db = empty_db \<lparr> tenants := [\<lparr> te_id = ''t1'', te_name = ''n'', te_created_at = [],
     te_setup_password = [], te_setup_used = 0 \<rparr>] \<rparr>"

lemma challenge_bound_to_tenant_witness:
  "fst (take_challenge demo_time ''c'' ''t2'' (snd (store_challenge demo_time ''c'' ''t1'' [1] demo_tenant_db)))
   = Ok None"
proof -
  have "fst (store_challenge demo_time ''c'' ''t1'' [1] demo_tenant_db) = Ok ()" by code_simp
  from challenge_bound_to_tenant [OF this, of demo_time "''t2''"] show ?thesis by simp
qed

text \<open>One after the other, the statements of a take are \<open>take_challenge\<close>; interleaved on two
  connections, both takes hand the same challenge out.\<close>
lemma challenge_race:
  assumes "db_up d0" "select_challenge cid tid d0 = Some ch"
  shows "fst (take_challenge now cid tid d0) = Ok (Some ch) \<and>
    (\<exists>d. race_reachable now cid tid d0 (Finished (Some ch), Finished (Some ch), d))"
  using take_challenge_race [OF assms(2)] assms by (simp add: take_challenge_def)

lemma challenge_race_witness:
  "\<exists>d. race_reachable demo_time ''c'' ''t1'' (snd (store_challenge demo_time ''c'' ''t1'' [1] demo_tenant_db))
     (Finished (Some [1]), Finished (Some [1]), d)"
proof -
  let ?d = "snd (store_challenge demo_time ''c'' ''t1'' [1] demo_tenant_db)"
  have "db_up ?d" "select_challenge ''c'' ''t1'' ?d = Some [1]" by code_simp+
  from challenge_race [OF this] show ?thesis by blast
qed

end
