(* ===== verification/Attestation.thy ===== *)
theory Attestation
  imports Cbor WebAuthn
begin

unbundle bit_operations_syntax

text \<open>
  Registration: the second half of src/gateway/src/crypto/webauthn.rs, from the ceremony options to
  \<open>verify_attestation\<close> and \<open>verify_packed_attestation\<close>. \<open>limits\<close> and the number of stack frames are
  the resources of the CBOR reader (theory Cbor), which runs twice here: on the attestation object and
  on the COSE key inside it.
\<close>

section \<open>Ceremony options\<close>

record PublicKeyCredentialParameters =
  pkcp_kind :: string
  pkcp_alg :: int

record RelyingPartyEntity =
  rp_id :: string
  rp_name :: string

record UserEntity =
  ue_id :: string
  ue_name :: string
  ue_display_name :: string

record AuthenticatorSelection =
  as_authenticator_attachment :: string
  as_user_verification :: string

record PublicKeyCredentialCreationOptions =
  co_challenge :: string
  co_rp :: RelyingPartyEntity
  co_user :: UserEntity
  co_pub_key_cred_params :: "PublicKeyCredentialParameters list"
  co_authenticator_selection :: AuthenticatorSelection
  co_timeout :: nat
  co_attestation :: string

text \<open>\<open>random_challenge\<close> is what the platform's random generator fills the 32 bytes with.\<close>

definition generate_ceremony_options ::
    "('pk, 'sig) webauthn_lib \<Rightarrow> bytes \<Rightarrow> string \<Rightarrow> string \<Rightarrow> string \<Rightarrow> string \<Rightarrow> string \<Rightarrow>
     PublicKeyCredentialCreationOptions \<times> bytes" where
  "generate_ceremony_options W random_challenge tenant_id rpid rpname user_id user_name =
    (\<lparr> co_challenge = b64url_encode W random_challenge,
       co_rp = \<lparr> rp_id = rpid, rp_name = rpname \<rparr>,
       co_user = \<lparr> ue_id = b64url_encode W (as_bytes user_id), ue_name = user_name, ue_display_name = user_name \<rparr>,
       co_pub_key_cred_params =
         [\<lparr> pkcp_kind = ''public-key'', pkcp_alg = - 7 \<rparr>, \<lparr> pkcp_kind = ''public-key'', pkcp_alg = - 257 \<rparr>],
       co_authenticator_selection =
         \<lparr> as_authenticator_attachment = ''platform'', as_user_verification = ''required'' \<rparr>,
       co_timeout = 60000,
       co_attestation = ''none'' \<rparr>,
     random_challenge)"

section \<open>The attestation object\<close>

record AuthenticatorAttestationResponse =
  aa_client_data_json :: string
  aa_attestation_object :: string

record AttestationResult =
  res_credential_id :: string
  res_public_key :: string
  res_aaguid :: string
  res_sign_count :: "32 word"
  res_fmt :: string

record AttestationObject =
  ao_fmt :: string
  ao_auth_data :: bytes
  ao_att_stmt :: CborValue

datatype attestation_error =
    BadJsonBase64
  | BadJson
  | NotCreate
  | WrongOrigin
  | WrongChallenge
  | BadObjectBase64
  | CborFailure cbor_error
  | CborType cbor_type_error
  | ObjectNotMap
  | MissingFmt
  | MissingAuthData
  | AuthDataShort nat
  | RpIdMismatch
  | NotUserVerified
  | AttestedDataShort nat
  | NoAttestedData
  | CredentialIdOverflow
  | CoseNotMap
  | CoseKty
  | CoseCrv
  | CoseNoX
  | CoseNoY
  | CoseLength
  | UnsupportedFormat string
  | PackedNotMap
  | PackedNoAlg
  | PackedNoSig
  | PackedCertChain
  | PackedAlg
  | PackedKey
  | PackedDer
  | PackedSignature

primrec object_fields ::
    "(CborValue \<times> CborValue) list \<Rightarrow> string option \<Rightarrow> bytes option \<Rightarrow> CborValue \<Rightarrow>
     (string option \<times> bytes option \<times> CborValue, attestation_error) res" where
  "object_fields [] fmt auth_data att_stmt = Ok (fmt, auth_data, att_stmt)"
| "object_fields (e # es) fmt auth_data att_stmt =
     bind_res (map_err CborType (cbor_as_text (fst e))) (\<lambda>key.
     if key = ''fmt'' then
       bind_res (map_err CborType (cbor_as_text (snd e))) (\<lambda>s. object_fields es (Some s) auth_data att_stmt)
     else if key = ''authData'' then
       bind_res (map_err CborType (cbor_as_bytes (snd e))) (\<lambda>b. object_fields es fmt (Some b) att_stmt)
     else if key = ''attStmt'' then object_fields es fmt auth_data (snd e)
     else object_fields es fmt auth_data att_stmt)"

definition parse_attestation_object ::
    "limits \<Rightarrow> nat \<Rightarrow> bytes \<Rightarrow> (AttestationObject, attestation_error) res" where
  "parse_attestation_object L frames data =
     bind_res (map_err CborFailure (cbor_parse L frames data)) (\<lambda>(value, rest).
     case value of
       Map m \<Rightarrow>
         bind_res (object_fields m None None Null) (\<lambda>(fmt, auth_data, att_stmt).
         bind_res (ok_or MissingFmt fmt) (\<lambda>fmt.
         bind_res (ok_or MissingAuthData auth_data) (\<lambda>auth_data.
         Ok \<lparr> ao_fmt = fmt, ao_auth_data = auth_data, ao_att_stmt = att_stmt \<rparr>)))
     | _ \<Rightarrow> Err ObjectNotMap)"

definition extract_attested_credential_data ::
    "('pk, 'sig) webauthn_lib \<Rightarrow> bytes \<Rightarrow> (bytes \<times> bytes \<times> 32 word \<times> string, attestation_error) res" where
  "extract_attested_credential_data W auth_data =
    (if length auth_data < 37 + 18 then Err (AttestedDataShort (length auth_data))
     else if auth_data ! 32 AND 0x40 = 0 then Err NoAttestedData
     else let sign_count = word_of_nat (be_nat (take 4 (drop 33 auth_data)));
              aaguid = take 16 (drop 37 auth_data);
              cred_id_len = be_nat (take 2 (drop 53 auth_data))
          in if length auth_data < 55 + cred_id_len then Err CredentialIdOverflow
             else Ok (take cred_id_len (drop 55 auth_data), drop (55 + cred_id_len) auth_data,
                      sign_count, hex_encode W aaguid))"

record cose_fields =
  ck_kty :: "64 word option"
  ck_crv :: "64 word option"
  ck_x :: "bytes option"
  ck_y :: "bytes option"

primrec cose_scan ::
    "(CborValue \<times> CborValue) list \<Rightarrow> cose_fields \<Rightarrow> (cose_fields, attestation_error) res" where
  "cose_scan [] f = Ok f"
| "cose_scan (e # es) f =
     bind_res (map_err CborType (cbor_as_int (fst e))) (\<lambda>key.
     if key = 1 then
       bind_res (map_err CborType (cbor_as_int (snd e))) (\<lambda>v. cose_scan es (f \<lparr> ck_kty := Some v \<rparr>))
     else if key = - 1 then
       bind_res (map_err CborType (cbor_as_int (snd e))) (\<lambda>v. cose_scan es (f \<lparr> ck_crv := Some v \<rparr>))
     else if key = - 2 then
       bind_res (map_err CborType (cbor_as_bytes (snd e))) (\<lambda>v. cose_scan es (f \<lparr> ck_x := Some v \<rparr>))
     else if key = - 3 then
       bind_res (map_err CborType (cbor_as_bytes (snd e))) (\<lambda>v. cose_scan es (f \<lparr> ck_y := Some v \<rparr>))
     else cose_scan es f)"

definition cose_key_to_sec1 :: "CborValue \<Rightarrow> (bytes, attestation_error) res" where
  "cose_key_to_sec1 cose_key =
    (case cose_key of
       Map entries \<Rightarrow>
         bind_res (cose_scan entries \<lparr> ck_kty = None, ck_crv = None, ck_x = None, ck_y = None \<rparr>) (\<lambda>f.
         if ck_kty f \<noteq> Some 2 then Err CoseKty
         else if ck_crv f \<noteq> Some 1 then Err CoseCrv
         else bind_res (ok_or CoseNoX (ck_x f)) (\<lambda>x.
              bind_res (ok_or CoseNoY (ck_y f)) (\<lambda>y.
              if length x \<noteq> 32 \<or> length y \<noteq> 32 then Err CoseLength
              else Ok (0x04 # x @ y))))
     | _ \<Rightarrow> Err CoseNotMap)"

record packed_fields =
  pf_alg :: "64 word option"
  pf_sig :: "bytes option"
  pf_x5c :: bool
  pf_ecdaa :: bool

primrec packed_scan ::
    "(CborValue \<times> CborValue) list \<Rightarrow> packed_fields \<Rightarrow> (packed_fields, attestation_error) res" where
  "packed_scan [] f = Ok f"
| "packed_scan (e # es) f =
     bind_res (map_err CborType (cbor_as_text (fst e))) (\<lambda>key.
     if key = ''alg'' then
       bind_res (map_err CborType (cbor_as_int (snd e))) (\<lambda>v. packed_scan es (f \<lparr> pf_alg := Some v \<rparr>))
     else if key = ''sig'' then
       bind_res (map_err CborType (cbor_as_bytes (snd e))) (\<lambda>v. packed_scan es (f \<lparr> pf_sig := Some v \<rparr>))
     else if key = ''x5c'' then packed_scan es (f \<lparr> pf_x5c := True \<rparr>)
     else if key = ''ecdaaKeyId'' then packed_scan es (f \<lparr> pf_ecdaa := True \<rparr>)
     else packed_scan es f)"

definition verify_packed_attestation ::
    "('pk, 'sig) webauthn_lib \<Rightarrow> CborValue \<Rightarrow> bytes \<Rightarrow> bytes \<Rightarrow> bytes \<Rightarrow> (unit, attestation_error) res" where
  "verify_packed_attestation W att_stmt auth_data client_data_bytes credential_sec1 =
    (case att_stmt of
       Map entries \<Rightarrow>
         bind_res (packed_scan entries \<lparr> pf_alg = None, pf_sig = None, pf_x5c = False, pf_ecdaa = False \<rparr>) (\<lambda>f.
         bind_res (ok_or PackedNoAlg (pf_alg f)) (\<lambda>alg.
         bind_res (ok_or PackedNoSig (pf_sig f)) (\<lambda>sig_bytes.
         if pf_x5c f \<or> pf_ecdaa f then Err PackedCertChain
         else if alg \<noteq> - 7 then Err PackedAlg
         else bind_res (ok_or PackedKey (p256_from_sec1 W credential_sec1)) (\<lambda>public_key.
              bind_res (ok_or PackedDer (p256_sig_from_der W sig_bytes)) (\<lambda>signature.
              ensure (p256_verify W public_key (auth_data @ sha256 W client_data_bytes) signature)
                PackedSignature)))))
     | _ \<Rightarrow> Err PackedNotMap)"

definition verify_attestation ::
    "('pk, 'sig) webauthn_lib \<Rightarrow> limits \<Rightarrow> nat \<Rightarrow> AuthenticatorAttestationResponse \<Rightarrow> bytes \<Rightarrow> string \<Rightarrow> string \<Rightarrow>
     (AttestationResult, attestation_error) res" where
  "verify_attestation W L frames attestation expected_challenge expected_origin expected_rp_id =
     bind_res (ok_or BadJsonBase64 (b64url_decode W (aa_client_data_json attestation))) (\<lambda>client_data_bytes.
     bind_res (ok_or BadJson (json_client_data W client_data_bytes)) (\<lambda>client_data.
     bind_res (ensure (cd_kind client_data = ''webauthn.create'') NotCreate) (\<lambda>_.
     bind_res (ensure (cd_origin client_data = expected_origin) WrongOrigin) (\<lambda>_.
     bind_res (ensure (cd_challenge client_data = b64url_encode W expected_challenge) WrongChallenge) (\<lambda>_.
     bind_res (ok_or BadObjectBase64 (b64url_decode W (aa_attestation_object attestation))) (\<lambda>att_obj_bytes.
     bind_res (parse_attestation_object L frames att_obj_bytes) (\<lambda>att_obj.
     bind_res (ensure (37 \<le> length (ao_auth_data att_obj)) (AuthDataShort (length (ao_auth_data att_obj)))) (\<lambda>_.
     bind_res (ensure (take 32 (ao_auth_data att_obj) = sha256 W (as_bytes expected_rp_id)) RpIdMismatch) (\<lambda>_.
     bind_res (ensure (ao_auth_data att_obj ! 32 AND 0x04 \<noteq> 0) NotUserVerified) (\<lambda>_.
     bind_res (extract_attested_credential_data W (ao_auth_data att_obj))
       (\<lambda>(credential_id, cose_key_bytes, sign_count, aaguid_hex).
     bind_res (map_err CborFailure (cbor_parse L frames cose_key_bytes)) (\<lambda>(cose_key, _).
     bind_res (cose_key_to_sec1 cose_key) (\<lambda>sec1.
     bind_res (if ao_fmt att_obj = ''none'' then Ok ()
               else if ao_fmt att_obj = ''packed'' then
                 verify_packed_attestation W (ao_att_stmt att_obj) (ao_auth_data att_obj) client_data_bytes sec1
               else Err (UnsupportedFormat (ao_fmt att_obj))) (\<lambda>_.
     Ok \<lparr> res_credential_id = b64url_encode W credential_id, res_public_key = b64url_encode W sec1,
          res_aaguid = aaguid_hex, res_sign_count = sign_count, res_fmt = ao_fmt att_obj \<rparr>))))))))))))))"

section \<open>What an accepted registration shows\<close>

definition attested_layout :: "bytes \<Rightarrow> bytes \<Rightarrow> nat \<Rightarrow> bytes \<Rightarrow> bytes \<Rightarrow> byte \<Rightarrow> bytes \<Rightarrow> bool" where
  "attested_layout auth_data rp_hash n aaguid credential_id flags key_bytes \<longleftrightarrow>
     auth_data = rp_hash @ [flags] @ be_bytes 4 n @ aaguid @ be_bytes 2 (length credential_id) @ credential_id @ key_bytes \<and>
     length rp_hash = 32 \<and> n < 2 ^ 32 \<and> length aaguid = 16 \<and> length credential_id < 2 ^ 16"

lemma be_bytes_be_nat: "be_bytes (length bs) (be_nat bs) = bs"
proof (induction bs rule: rev_induct)
  case (snoc b bs)
  have "(be_nat bs * 256 + unat b) div 256 = be_nat bs"
    by (simp add: div_add1_eq)
  then show ?case using snoc by (simp add: be_nat_snoc)
qed simp

lemma split_at: "n \<le> length xs \<Longrightarrow> k = n + m \<Longrightarrow> drop n xs = take m (drop n xs) @ drop k xs"
  by (metis append_take_drop_id drop_drop add.commute)

lemma extract_attested_credential_data_Ok:
  assumes "extract_attested_credential_data W ad = Ok (credential_id, key_bytes, n, aaguid_hex)"
  shows "\<exists>aaguid. aaguid_hex = hex_encode W aaguid \<and> ad ! 32 AND 0x40 \<noteq> 0 \<and>
     attested_layout ad (take 32 ad) (unat n) aaguid credential_id (ad ! 32) key_bytes"
proof -
  have len: "55 \<le> length ad" and flag: "ad ! 32 AND 0x40 \<noteq> 0"
    and n: "n = word_of_nat (be_nat (take 4 (drop 33 ad)))"
    and h: "aaguid_hex = hex_encode W (take 16 (drop 37 ad))"
    and len': "55 + be_nat (take 2 (drop 53 ad)) \<le> length ad"
    and cid: "credential_id = take (be_nat (take 2 (drop 53 ad))) (drop 55 ad)"
    and key: "key_bytes = drop (55 + be_nat (take 2 (drop 53 ad))) ad"
    using assms by (auto simp: extract_attested_credential_data_def Let_def split: if_splits)
  have cidlen: "length credential_id = be_nat (take 2 (drop 53 ad))"
    using len' by (simp add: cid)
  have two: "be_bytes 2 (length credential_id) = take 2 (drop 53 ad)"
    using be_bytes_be_nat [of "take 2 (drop 53 ad)"] len by (simp add: cidlen)
  have un: "unat n = be_nat (take 4 (drop 33 ad))"
    using sign_count_no_wrap [of ad] len by (simp add: n)
  have four: "be_bytes 4 (unat n) = take 4 (drop 33 ad)"
    using be_bytes_be_nat [of "take 4 (drop 33 ad)"] len by (simp add: un)
  have small: "length credential_id < 2 ^ 16" "unat n < 2 ^ 32"
    using be_nat_bound [of "take 2 (drop 53 ad)"] be_nat_bound [of "take 4 (drop 33 ad)"] len
    by (simp_all add: cidlen un)
  have "ad = take 32 ad @ drop 32 ad" by simp
  also have "drop 32 ad = [ad ! 32] @ drop 33 ad"
    using len Cons_nth_drop_Suc [of 32 ad] by simp
  also have "drop 33 ad = take 4 (drop 33 ad) @ drop 37 ad"
    using len by (intro split_at) simp_all
  also have "drop 37 ad = take 16 (drop 37 ad) @ drop 53 ad"
    using len by (intro split_at) simp_all
  also have "drop 53 ad = take 2 (drop 53 ad) @ drop 55 ad"
    using len by (intro split_at) simp_all
  also have "drop 55 ad = credential_id @ key_bytes"
    unfolding cid key using len by (intro split_at) simp_all
  finally have "ad = take 32 ad @ [ad ! 32] @ take 4 (drop 33 ad) @ take 16 (drop 37 ad) @
      take 2 (drop 53 ad) @ credential_id @ key_bytes" by simp
  then have "attested_layout ad (take 32 ad) (unat n) (take 16 (drop 37 ad)) credential_id (ad ! 32) key_bytes"
    unfolding attested_layout_def two four using small len by simp
  then show ?thesis using h flag by blast
qed

lemma extract_attested_layout:
  assumes "attested_layout ad rp n aaguid credential_id flags key_bytes" "flags AND 0x40 \<noteq> 0"
  shows "extract_attested_credential_data W ad = Ok (credential_id, key_bytes, word_of_nat n, hex_encode W aaguid)"
    and "take 32 ad = rp" "ad ! 32 = flags" "37 \<le> length ad"
proof -
  have ad: "ad = rp @ flags # be_bytes 4 n @ aaguid @ be_bytes 2 (length credential_id) @ credential_id @ key_bytes"
    and len: "length rp = 32" "n < 2 ^ 32" "length aaguid = 16" "length credential_id < 2 ^ 16"
    using assms(1) by (auto simp: attested_layout_def)
  have d33: "drop 33 ad = be_bytes 4 n @ aaguid @ be_bytes 2 (length credential_id) @ credential_id @ key_bytes"
    using len by (simp add: ad)
  have d37: "drop 37 ad = aaguid @ be_bytes 2 (length credential_id) @ credential_id @ key_bytes"
    using len by (simp add: ad)
  have d53: "drop 53 ad = be_bytes 2 (length credential_id) @ credential_id @ key_bytes"
    using len by (simp add: ad)
  have d55: "drop 55 ad = credential_id @ key_bytes"
    using len by (simp add: ad)
  have two: "be_nat (be_bytes 2 (length credential_id)) = length credential_id"
    using len by (intro be_nat_be_bytes) simp
  have four: "be_nat (be_bytes 4 n) = n" using len by (intro be_nat_be_bytes) simp
  have "drop (length credential_id + 55) ad = drop (length credential_id) (drop 55 ad)"
    by (simp only: drop_drop)
  then have dk: "drop (55 + length credential_id) ad = key_bytes"
    by (simp add: d55 add.commute)
  show "take 32 ad = rp" "ad ! 32 = flags" "37 \<le> length ad"
    using len by (simp_all add: ad nth_append)
  then show "extract_attested_credential_data W ad = Ok (credential_id, key_bytes, word_of_nat n, hex_encode W aaguid)"
    using assms(2) len
    by (simp add: extract_attested_credential_data_def d33 d37 d53 d55 two four dk Let_def) (simp add: ad)
qed

lemma cose_key_to_sec1_Ok:
  "cose_key_to_sec1 k = Ok sec1 \<Longrightarrow>
   \<exists>x y. sec1 = 0x04 # x @ y \<and> length x = 32 \<and> length y = 32"
  by (auto simp: cose_key_to_sec1_def bind_simps split: CborValue.splits if_splits)

lemma verify_packed_attestation_Ok:
  "verify_packed_attestation W st ad cb sec1 = Ok u \<Longrightarrow>
   \<exists>pk sig_bytes sg. p256_from_sec1 W sec1 = Some pk \<and> p256_sig_from_der W sig_bytes = Some sg \<and>
     p256_verify W pk (ad @ sha256 W cb) sg"
  by (auto simp: verify_packed_attestation_def bind_simps split: CborValue.splits if_splits)

text \<open>What is stored after a registration, in terms of the bytes the browser sent.\<close>

definition registration_ok ::
    "('pk, 'sig) webauthn_lib \<Rightarrow> limits \<Rightarrow> nat \<Rightarrow> AuthenticatorAttestationResponse \<Rightarrow> bytes \<Rightarrow> string \<Rightarrow> string \<Rightarrow>
     AttestationResult \<Rightarrow> bool" where
  "registration_ok W L frames att challenge origin rp result \<longleftrightarrow>
     client_data_ok W ''webauthn.create'' origin challenge (aa_client_data_json att) \<and>
     (\<exists>ob ao credential_id key_bytes aaguid x y.
        b64url_decode W (aa_attestation_object att) = Some ob \<and>
        parse_attestation_object L frames ob = Ok ao \<and>
        attested_layout (ao_auth_data ao) (sha256 W (as_bytes rp)) (unat (res_sign_count result)) aaguid
          credential_id (ao_auth_data ao ! 32) key_bytes \<and>
        ao_auth_data ao ! 32 AND 0x04 \<noteq> 0 \<and> ao_auth_data ao ! 32 AND 0x40 \<noteq> 0 \<and>
        length x = 32 \<and> length y = 32 \<and>
        res_credential_id result = b64url_encode W credential_id \<and>
        res_public_key result = b64url_encode W (0x04 # x @ y) \<and>
        res_aaguid result = hex_encode W aaguid \<and>
        res_fmt result = ao_fmt ao \<and>
        (ao_fmt ao = ''none'' \<or> (ao_fmt ao = ''packed'' \<and>
          (\<exists>cb pk sg. b64url_decode W (aa_client_data_json att) = Some cb \<and>
             p256_from_sec1 W (0x04 # x @ y) = Some pk \<and>
             p256_verify W pk (ao_auth_data ao @ sha256 W cb) sg))))"

lemma verify_attestation_sound:
  assumes "verify_attestation W L frames att challenge origin rp = Ok result"
  shows "registration_ok W L frames att challenge origin rp result"
proof -
  obtain cb cd ob ao cid kb n ah ck rest sec1 where
    cb: "b64url_decode W (aa_client_data_json att) = Some cb" "json_client_data W cb = Some cd"
      "cd_kind cd = ''webauthn.create''" "cd_origin cd = origin" "cd_challenge cd = b64url_encode W challenge"
    and ob: "b64url_decode W (aa_attestation_object att) = Some ob" "parse_attestation_object L frames ob = Ok ao"
    and rp: "take 32 (ao_auth_data ao) = sha256 W (as_bytes rp)" "ao_auth_data ao ! 32 AND 0x04 \<noteq> 0"
    and ex: "extract_attested_credential_data W (ao_auth_data ao) = Ok (cid, kb, n, ah)"
    and ck: "cbor_parse L frames kb = Ok (ck, rest)" "cose_key_to_sec1 ck = Ok sec1"
    and fmt: "(if ao_fmt ao = ''none'' then Ok ()
               else if ao_fmt ao = ''packed'' then
                 verify_packed_attestation W (ao_att_stmt ao) (ao_auth_data ao) cb sec1
               else Err (UnsupportedFormat (ao_fmt ao))) = Ok ()"
    and result: "result = \<lparr> res_credential_id = b64url_encode W cid, res_public_key = b64url_encode W sec1,
          res_aaguid = ah, res_sign_count = n, res_fmt = ao_fmt ao \<rparr>"
    using assms by (auto simp: verify_attestation_def bind_simps)
  obtain x y where xy: "sec1 = 0x04 # x @ y" "length x = 32" "length y = 32"
    using cose_key_to_sec1_Ok [OF ck(2)] by blast
  obtain aaguid where aa: "ah = hex_encode W aaguid" "ao_auth_data ao ! 32 AND 0x40 \<noteq> 0"
    "attested_layout (ao_auth_data ao) (take 32 (ao_auth_data ao)) (unat n) aaguid cid (ao_auth_data ao ! 32) kb"
    using extract_attested_credential_data_Ok [OF ex] by blast
  have "ao_fmt ao = ''none'' \<or> (ao_fmt ao = ''packed'' \<and>
      (\<exists>pk sg. p256_from_sec1 W sec1 = Some pk \<and> p256_verify W pk (ao_auth_data ao @ sha256 W cb) sg))"
    using fmt by (auto dest!: verify_packed_attestation_Ok split: if_splits)
  moreover have "client_data_ok W ''webauthn.create'' origin challenge (aa_client_data_json att)"
    unfolding client_data_ok_def using cb by blast
  ultimately show ?thesis
    unfolding registration_ok_def using cb(1) ob rp aa xy
    by (simp add: result) blast
qed

section \<open>Registrations that are accepted\<close>

definition cose_p256 :: "bytes \<Rightarrow> bytes \<Rightarrow> CborValue" where
  "cose_p256 x y = Map
     [(UnsignedInt 1, UnsignedInt 2), (UnsignedInt 3, NegativeInt (- 7)), (NegativeInt (- 1), UnsignedInt 1),
      (NegativeInt (- 2), ByteString x), (NegativeInt (- 3), ByteString y)]"

definition none_object :: "bytes \<Rightarrow> CborValue" where
  "none_object auth_data = Map
     [(TextString ''fmt'', TextString ''none''), (TextString ''attStmt'', Map []),
      (TextString ''authData'', ByteString auth_data)]"

lemma cose_key_to_sec1_cose_p256:
  "length x = 32 \<Longrightarrow> length y = 32 \<Longrightarrow> cose_key_to_sec1 (cose_p256 x y) = Ok (0x04 # x @ y)"
  by (simp add: cose_key_to_sec1_def cose_p256_def)

lemma cbor_parse_cose_p256:
  assumes "length x = 32" "length y = 32" "5 \<le> map_cap L" "2 \<le> frames"
  shows "cbor_parse L frames (cbor_encode (cose_p256 x y) @ r) = Ok (cose_p256 x y, r)"
  by (rule cbor_roundtrip_aux) (use assms in \<open>simp_all add: cose_p256_def\<close>)

lemma parse_none_object:
  assumes "length auth_data < 2 ^ 64" "3 \<le> map_cap L" "2 \<le> frames"
  shows "parse_attestation_object L frames (cbor_encode (none_object auth_data)) =
    Ok \<lparr> ao_fmt = ''none'', ao_auth_data = auth_data, ao_att_stmt = Map [] \<rparr>"
proof -
  have "encodable L (none_object auth_data)" "depth (none_object auth_data) \<le> frames"
    using assms by (simp_all add: none_object_def as_bytes_def byte_of_char_def)
  then have "cbor_parse L frames (cbor_encode (none_object auth_data) @ []) = Ok (none_object auth_data, [])"
    by (rule cbor_roundtrip_aux)
  then show ?thesis by (simp add: parse_attestation_object_def none_object_def)
qed

theorem verify_attestation_complete:
  assumes cd: "client_data_ok W ''webauthn.create'' origin challenge (aa_client_data_json att)"
    and layout: "attested_layout ad (sha256 W (as_bytes rp)) n aaguid credential_id flags
                   (cbor_encode (cose_p256 x y) @ extensions)"
    and flags: "flags AND 0x04 \<noteq> 0" "flags AND 0x40 \<noteq> 0"
    and xy: "length x = 32" "length y = 32"
    and ob: "b64url_decode W (aa_attestation_object att) = Some (cbor_encode (none_object ad))"
    and res: "length ad < 2 ^ 64" "5 \<le> map_cap L" "2 \<le> frames"
  shows "verify_attestation W L frames att challenge origin rp =
    Ok \<lparr> res_credential_id = b64url_encode W credential_id, res_public_key = b64url_encode W (0x04 # x @ y),
         res_aaguid = hex_encode W aaguid, res_sign_count = word_of_nat n, res_fmt = ''none'' \<rparr>"
proof -
  obtain cb c where cb: "b64url_decode W (aa_client_data_json att) = Some cb" "json_client_data W cb = Some c"
    "cd_kind c = ''webauthn.create''" "cd_origin c = origin" "cd_challenge c = b64url_encode W challenge"
    using cd unfolding client_data_ok_def by blast
  have obj: "parse_attestation_object L frames (cbor_encode (none_object ad)) =
    Ok \<lparr> ao_fmt = ''none'', ao_auth_data = ad, ao_att_stmt = Map [] \<rparr>"
    using res by (intro parse_none_object) simp_all
  note ex = extract_attested_layout(1) [OF layout flags(2), of W] extract_attested_layout(2-4) [OF layout flags(2)]
  note key = cbor_parse_cose_p256 [OF xy res(2,3)] cose_key_to_sec1_cose_p256 [OF xy]
  show ?thesis
    using cb ob ex flags(1) by (simp add: verify_attestation_def obj key)
qed

section \<open>Registrations that stop the process\<close>

lemma verify_attestation_panics:
  assumes "client_data_ok W ''webauthn.create'' origin challenge (aa_client_data_json att)"
    and "b64url_decode W (aa_attestation_object att) = Some ob" and "cbor_parse L frames ob = Panic"
  shows "verify_attestation W L frames att challenge origin rp = Panic"
proof -
  obtain cb c where "b64url_decode W (aa_client_data_json att) = Some cb" "json_client_data W cb = Some c"
    "cd_kind c = ''webauthn.create''" "cd_origin c = origin" "cd_challenge c = b64url_encode W challenge"
    using assms(1) unfolding client_data_ok_def by blast
  then show ?thesis using assms(2,3) by (simp add: verify_attestation_def parse_attestation_object_def)
qed

text \<open>A panic needs a valid client data part: the object is looked at only after it.\<close>

lemma verify_attestation_panic_iff:
  "verify_attestation W L frames att challenge origin rp = Panic \<Longrightarrow>
   client_data_ok W ''webauthn.create'' origin challenge (aa_client_data_json att)"
  by (auto simp: verify_attestation_def client_data_ok_def bind_simps)

section \<open>Properties\<close>


text \<open>C10. Conversely a well-formed "none" registration with a P-256 key is accepted, whatever its
  extensions, and yields exactly the attested credential id, key, AAGUID and counter.\<close>
theorem attestation_complete:
  assumes "client_data_ok W ''webauthn.create'' origin challenge (aa_client_data_json att)"
    and "attested_layout ad (sha256 W (as_bytes rp)) n aaguid credential_id flags
           (cbor_encode (cose_p256 x y) @ extensions)"
    and "flags AND 0x04 \<noteq> 0" "flags AND 0x40 \<noteq> 0" "length x = 32" "length y = 32"
    and "b64url_decode W (aa_attestation_object att) = Some (cbor_encode (none_object ad))"
    and "length ad < 2 ^ 64" "5 \<le> map_cap L" "2 \<le> frames"
  shows "verify_attestation W L frames att challenge origin rp =
    Ok \<lparr> res_credential_id = b64url_encode W credential_id, res_public_key = b64url_encode W (0x04 # x @ y),
         res_aaguid = hex_encode W aaguid, res_sign_count = word_of_nat n, res_fmt = ''none'' \<rparr>"
  by (rule verify_attestation_complete [OF assms])

definition demo_create_data :: ClientData where
  "demo_create_data = \<lparr> cd_kind = ''webauthn.create'', cd_challenge = string_of_bytes [7],
     cd_origin = DEFAULT_RP_ORIGIN, cd_cross_origin = False \<rparr>"

definition demo_auth_data :: bytes where
  "demo_auth_data = demo_digest (as_bytes DEFAULT_RP_ID) @ [0x45] @ be_bytes 4 3 @ replicate 16 0 @ be_bytes 2 1 @ [9] @
     cbor_encode (cose_p256 (replicate 32 1) (replicate 32 2))"

definition demo_attestation :: AuthenticatorAttestationResponse where
  "demo_attestation = \<lparr> aa_client_data_json = ''json'',
     aa_attestation_object = string_of_bytes (cbor_encode (none_object demo_auth_data)) \<rparr>"

definition demo_result :: AttestationResult where
  "demo_result = \<lparr> res_credential_id = string_of_bytes [9],
     res_public_key = string_of_bytes (0x04 # replicate 32 1 @ replicate 32 2),
     res_aaguid = demo_short (replicate 16 0), res_sign_count = word_of_nat 3, res_fmt = ''none'' \<rparr>"

lemma demo_client_data_ok: "client_data_ok (demo_web demo_create_data) ''webauthn.create'' DEFAULT_RP_ORIGIN [7] s"
  by (simp add: client_data_ok_def demo_web_def demo_create_data_def)

lemma demo_layout:
  "attested_layout demo_auth_data (sha256 (demo_web demo_create_data) (as_bytes DEFAULT_RP_ID)) 3 (replicate 16 0) [9] 0x45
     (cbor_encode (cose_p256 (replicate 32 1) (replicate 32 2)) @ [])"
  by (simp add: attested_layout_def demo_auth_data_def demo_web_def)

lemma demo_auth_data_short: "length demo_auth_data < 2 ^ 64"
  by (simp add: demo_auth_data_def cose_p256_def encode_head_def)

theorem attestation_complete_witness:
  "verify_attestation (demo_web demo_create_data) \<lparr> array_cap = 8, map_cap = 8 \<rparr> 9 demo_attestation [7] DEFAULT_RP_ORIGIN DEFAULT_RP_ID
   = Ok demo_result"
proof -
  have ob: "b64url_decode (demo_web demo_create_data) (aa_attestation_object demo_attestation) =
      Some (cbor_encode (none_object demo_auth_data))"
    by (simp add: demo_web_def demo_attestation_def)
  have flags: "(0x45 :: byte) AND 0x04 \<noteq> 0" "(0x45 :: byte) AND 0x40 \<noteq> 0" by simp_all
  show ?thesis
    using attestation_complete [OF demo_client_data_ok demo_layout flags _ _ ob demo_auth_data_short,
        of "\<lparr> array_cap = 8, map_cap = 8 \<rparr>" 9]
    by (simp add: demo_result_def demo_web_def)
qed

lemma demo_attestation_verifies:
  "verify_attestation (demo_web demo_create_data) \<lparr> array_cap = 8, map_cap = 8 \<rparr> 9 demo_attestation [7]
     DEFAULT_RP_ORIGIN DEFAULT_RP_ID = Ok demo_result"
proof -
  have ob: "b64url_decode (demo_web demo_create_data) (aa_attestation_object demo_attestation) =
      Some (cbor_encode (none_object demo_auth_data))"
    by (simp add: demo_web_def demo_attestation_def)
  have flags: "(0x45 :: byte) AND 0x04 \<noteq> 0" "(0x45 :: byte) AND 0x40 \<noteq> 0" by simp_all
  show ?thesis
    using verify_attestation_complete [OF demo_client_data_ok demo_layout flags _ _ ob demo_auth_data_short,
        of "\<lparr> array_cap = 8, map_cap = 8 \<rparr>" 9]
    by (simp add: demo_result_def demo_web_def)
qed


end
