(* ===== verification/Tenants.thy ===== *)
theory Tenants
  imports Challenges Attestation
begin

text \<open>
  Tenants: tokens and credentials (src/gateway/src/tenants/auth.rs), the tenant registry
  (tenants/registry.rs) and the quotas (tenants/quotas.rs). Random tokens, ULIDs and the clock are
  arguments of the operations that draw them.
\<close>

section \<open>Tokens and credentials\<close>

datatype auth_error = AuthPool | BadAgentToken | BadPhoneToken | BadSetupPassword | AuthConstraint | NoTenantRow

definition hash_token :: "'a hash_lib_scheme \<Rightarrow> string \<Rightarrow> string" where
  "hash_token H token = hash_text H token"

text \<open>\<open>expires_at > datetime('now')\<close> compares two TEXT values.\<close>

definition agent_token_live :: "utc \<Rightarrow> string \<Rightarrow> agent_token_row \<Rightarrow> bool" where
  "agent_token_live now token_hash r \<longleftrightarrow>
     at_token_hash r = token_hash \<and>
     (case at_expires_at r of None \<Rightarrow> True | Some e \<Rightarrow> sqlite_datetime now < e) \<and>
     at_revoked_at r = None"

definition verify_agent_token ::
    "'a hash_lib_scheme \<Rightarrow> utc \<Rightarrow> string \<Rightarrow> db \<Rightarrow> (string, auth_error) res" where
  "verify_agent_token H now token d =
    (if \<not> db_up d then Err AuthPool
     else bind_res (ok_or BadAgentToken (query_row (agent_token_live now (hash_token H token)) (agent_tokens d)))
            (\<lambda>r. Ok (at_tenant_id r)))"

definition verify_phone_token :: "'a hash_lib_scheme \<Rightarrow> string \<Rightarrow> db \<Rightarrow> (string, auth_error) res" where
  "verify_phone_token H token d =
    (if \<not> db_up d then Err AuthPool
     else bind_res (ok_or BadPhoneToken
              (query_row (\<lambda>r. pt_token_hash r = hash_token H token \<and> pt_revoked_at r = None) (phone_tokens d)))
            (\<lambda>r. Ok (pt_tenant_id r)))"

definition verify_setup_password :: "'a hash_lib_scheme \<Rightarrow> string \<Rightarrow> db \<Rightarrow> (unit, auth_error) res" where
  "verify_setup_password H password d =
    (if \<not> db_up d then Err AuthPool
     else if count_where (\<lambda>t. te_setup_password t = hash_token H password \<and> te_setup_used t = 0) (tenants d) = 0
     then Err BadSetupPassword
     else Ok ())"

definition store_credential_from_attestation ::
    "utc \<Rightarrow> string \<Rightarrow> string \<Rightarrow> AttestationResult \<Rightarrow> string \<Rightarrow> db \<Rightarrow> (string, auth_error) res \<times> db" where
  "store_credential_from_attestation now cred_row_id tenant_id attestation name d =
    (if \<not> db_up d then (Err AuthPool, d)
     else if \<not> tenant_exists tenant_id d \<or> list_ex (\<lambda>r. cr_id r = cred_row_id) (credentials d)
     then (Err AuthConstraint, d)
     else (Ok cred_row_id, d \<lparr> credentials := credentials d @
       [\<lparr> cr_id = cred_row_id, cr_tenant_id = tenant_id,
          cr_credential_id = res_credential_id attestation, cr_public_key = res_public_key attestation,
          cr_aaguid = Some (res_aaguid attestation), cr_transports = Some [], cr_name = Some name,
          cr_verified = 1, cr_created_at = sqlite_datetime now, cr_last_used_at = None,
          cr_revoked_at = None, cr_counter = uint (res_sign_count attestation) \<rparr>] \<rparr>))"

text \<open>\<open>add_secs now s\<close> is chrono's \<open>checked_add_signed(Duration::seconds(s))\<close>: \<open>None\<close> when the
  duration or the result is out of range, which the \<open>unwrap\<close> turns into a panic.\<close>

definition mint_agent_token ::
    "'a hash_lib_scheme \<Rightarrow> (utc \<Rightarrow> int \<Rightarrow> utc option) \<Rightarrow> utc \<Rightarrow> string \<Rightarrow> string \<Rightarrow> string \<Rightarrow> 64 word \<Rightarrow> db \<Rightarrow>
     (string, auth_error) res \<times> db" where
  "mint_agent_token H add_secs now random_token tenant_id scope ttl_secs d =
    (let token = ''stronghold_agent_'' @ random_token in
     case add_secs now (sint ttl_secs) of
       None \<Rightarrow> (Panic, d)
     | Some e \<Rightarrow>
        if \<not> db_up d then (Err AuthPool, d)
        else if \<not> tenant_exists tenant_id d \<or> list_ex (\<lambda>r. at_token_hash r = hash_token H token) (agent_tokens d)
        then (Err AuthConstraint, d)
        else (Ok token, d \<lparr> agent_tokens := agent_tokens d @
          [\<lparr> at_tenant_id = tenant_id, at_token_hash = hash_token H token, at_scope = Some scope,
             at_created_at = sqlite_datetime now, at_expires_at = Some (to_rfc3339 e),
             at_revoked_at = None \<rparr>] \<rparr>))"

section \<open>The registry\<close>

record Tenant =
  tn_id :: string
  tn_name :: string
  tn_created_at :: string
  tn_setup_password :: string

definition setup_chars :: string where
  "setup_chars = ''ABCDEFGHIJKLMNOPQRSTUVWXYZabcdefghijklmnopqrstuvwxyz0123456789''"

text \<open>\<open>draws\<close> are the 32 numbers of \<open>gen_range(0..chars.len())\<close>.\<close>

definition generate_setup_password :: "nat list \<Rightarrow> string" where
  "generate_setup_password draws = map (\<lambda>i. setup_chars ! i) draws"

definition create_tenant ::
    "'a hash_lib_scheme \<Rightarrow> utc \<Rightarrow> string \<Rightarrow> nat list \<Rightarrow> string \<Rightarrow> db \<Rightarrow> (Tenant, auth_error) res \<times> db" where
  "create_tenant H now ulid draws name d =
    (let tid = ''tenant_'' @ ulid; created_at = to_rfc3339 now; setup_password = generate_setup_password draws in
     if \<not> db_up d then (Err AuthPool, d)
     else if tenant_exists tid d then (Err AuthConstraint, d)
     else (Ok \<lparr> tn_id = tid, tn_name = name, tn_created_at = created_at, tn_setup_password = setup_password \<rparr>,
           d \<lparr> tenants := tenants d @ [\<lparr> te_id = tid, te_name = name, te_created_at = created_at,
             te_setup_password = hash_text H setup_password, te_setup_used = 0 \<rparr>] \<rparr>))"

definition tenant_of_row :: "tenant_row \<Rightarrow> Tenant" where
  "tenant_of_row t = \<lparr> tn_id = te_id t, tn_name = te_name t, tn_created_at = te_created_at t,
     tn_setup_password = te_setup_password t \<rparr>"

definition get_tenant :: "string \<Rightarrow> db \<Rightarrow> (Tenant, auth_error) res" where
  "get_tenant tid d =
    (if \<not> db_up d then Err AuthPool
     else ok_or NoTenantRow (map_option tenant_of_row (query_row (\<lambda>t. te_id t = tid) (tenants d))))"

definition list_tenants :: "db \<Rightarrow> (Tenant list, auth_error) res" where
  "list_tenants d =
    (if \<not> db_up d then Err AuthPool else Ok (map tenant_of_row (sort_key te_created_at (tenants d))))"

section \<open>Quotas\<close>

record Quota =
  q_tenant_id :: string
  q_max_concurrent_machines :: "32 word"
  q_max_cpu_per_machine :: "32 word"
  q_max_memory_gb_per_machine :: "32 word"
  q_max_disk_gb_per_machine :: "32 word"
  q_total_cpu_budget :: "32 word"
  q_total_memory_gb_budget :: "32 word"
  q_total_disk_gb_budget :: "32 word"
  q_require_sev_snp_workers :: bool

datatype quota_error = QuotaPool | NoQuota | QuotaColumn | QuotaConstraint

definition set_quota ::
    "string \<Rightarrow> 32 word \<Rightarrow> 32 word \<Rightarrow> 32 word \<Rightarrow> db \<Rightarrow> (unit, quota_error) res \<times> db" where
  "set_quota tenant_id max_machines max_cpu max_mem d =
    (if \<not> db_up d then (Err QuotaPool, d)
     else if \<not> tenant_exists tenant_id d then (Err QuotaConstraint, d)
     else (Ok (), d \<lparr> quotas := filter (\<lambda>q. qu_tenant_id q \<noteq> tenant_id) (quotas d) @
       [\<lparr> qu_tenant_id = tenant_id, qu_max_concurrent_machines = uint max_machines,
          qu_max_cpu_per_machine = uint max_cpu, qu_max_memory_gb_per_machine = uint max_mem,
          qu_max_disk_gb_per_machine = 100, qu_total_cpu_budget = uint max_cpu,
          qu_total_memory_gb_budget = uint max_mem, qu_total_disk_gb_budget = 500,
          qu_require_sev_snp_workers = 0 \<rparr>] \<rparr>))"

definition quota_of_row :: "quota_row \<Rightarrow> (Quota, quota_error) res" where
  "quota_of_row r =
     bind_res (ok_or QuotaColumn (u32_of_int (qu_max_concurrent_machines r))) (\<lambda>a.
     bind_res (ok_or QuotaColumn (u32_of_int (qu_max_cpu_per_machine r))) (\<lambda>b.
     bind_res (ok_or QuotaColumn (u32_of_int (qu_max_memory_gb_per_machine r))) (\<lambda>c.
     bind_res (ok_or QuotaColumn (u32_of_int (qu_max_disk_gb_per_machine r))) (\<lambda>e.
     bind_res (ok_or QuotaColumn (u32_of_int (qu_total_cpu_budget r))) (\<lambda>f.
     bind_res (ok_or QuotaColumn (u32_of_int (qu_total_memory_gb_budget r))) (\<lambda>g.
     bind_res (ok_or QuotaColumn (u32_of_int (qu_total_disk_gb_budget r))) (\<lambda>h.
     Ok \<lparr> q_tenant_id = qu_tenant_id r, q_max_concurrent_machines = a, q_max_cpu_per_machine = b,
          q_max_memory_gb_per_machine = c, q_max_disk_gb_per_machine = e, q_total_cpu_budget = f,
          q_total_memory_gb_budget = g, q_total_disk_gb_budget = h,
          q_require_sev_snp_workers = (qu_require_sev_snp_workers r \<noteq> 0) \<rparr>)))))))"

definition get_quota :: "string \<Rightarrow> db \<Rightarrow> (Quota, quota_error) res" where
  "get_quota tenant_id d =
    (if \<not> db_up d then Err QuotaPool
     else bind_res (ok_or NoQuota (query_row (\<lambda>q. qu_tenant_id q = tenant_id) (quotas d))) quota_of_row)"

definition active_of :: "string \<Rightarrow> machine_row \<Rightarrow> bool" where
  "active_of tenant_id m \<longleftrightarrow> ma_tenant_id m = tenant_id \<and> ma_status m = ''active''"

definition sum_col :: "(machine_row \<Rightarrow> int option) \<Rightarrow> machine_row list \<Rightarrow> int" where
  "sum_col col ms = sum_list (map (\<lambda>m. case col m of Some v \<Rightarrow> v | None \<Rightarrow> 0) ms)"

text \<open>\<open>as u32\<close> keeps the low 32 bits, and \<open>+\<close> wraps in a release build.\<close>

definition check_capacity :: "string \<Rightarrow> 32 word \<Rightarrow> 32 word \<Rightarrow> db \<Rightarrow> (bool, quota_error) res" where
  "check_capacity tenant_id requested_cpu requested_mem_gb d =
     bind_res (get_quota tenant_id d) (\<lambda>quota.
     if requested_cpu > q_max_cpu_per_machine quota then Ok False
     else if requested_mem_gb > q_max_memory_gb_per_machine quota then Ok False
     else if \<not> db_up d then Err QuotaPool
     else let mine = filter (active_of tenant_id) (machines d) in
       if word_of_nat (length mine) \<ge> q_max_concurrent_machines quota then Ok False
       else if word_of_int (sum_col ma_cpu mine) + requested_cpu > q_total_cpu_budget quota then Ok False
       else if word_of_int (sum_col ma_memory_gb mine) + requested_mem_gb > q_total_memory_gb_budget quota
       then Ok False
       else Ok True)"

section \<open>How long a token lasts\<close>

lemma verify_agent_token_Ok:
  "verify_agent_token H now token d = Ok tid \<longleftrightarrow>
   db_up d \<and> (\<exists>r. query_row (agent_token_live now (hash_token H token)) (agent_tokens d) = Some r \<and> at_tenant_id r = tid)"
  by (auto simp: verify_agent_token_def bind_simps)

lemma verify_agent_token_live:
  "verify_agent_token H now token d = Ok tid \<Longrightarrow>
   \<exists>r\<in>set (agent_tokens d). at_token_hash r = hash_token H token \<and> at_tenant_id r = tid \<and> at_revoked_at r = None"
  by (auto simp: verify_agent_token_Ok agent_token_live_def dest!: query_row_Some)

lemma verify_phone_token_Ok:
  "verify_phone_token H token d = Ok tid \<Longrightarrow>
   db_up d \<and> (\<exists>r\<in>set (phone_tokens d). pt_token_hash r = hash_token H token \<and> pt_revoked_at r = None \<and> pt_tenant_id r = tid)"
  by (auto simp: verify_phone_token_def bind_simps split: if_splits dest!: query_row_Some)

lemma not_date_before_iff: "\<not> date_before e now \<longleftrightarrow> date_before now e \<or> same_date now e"
  by (auto simp: date_before_def same_date_def)

lemma mint_agent_token_Ok:
  assumes "fst (mint_agent_token H add_secs now rnd tid scope ttl d) = Ok token"
  shows "token = ''stronghold_agent_'' @ rnd"
    and "\<exists>e. add_secs now (sint ttl) = Some e \<and>
      snd (mint_agent_token H add_secs now rnd tid scope ttl d) = d \<lparr> agent_tokens := agent_tokens d @
          [\<lparr> at_tenant_id = tid, at_token_hash = hash_token H token, at_scope = Some scope,
             at_created_at = sqlite_datetime now, at_expires_at = Some (to_rfc3339 e),
             at_revoked_at = None \<rparr>] \<rparr>"
    and "db_up d" "\<forall>r\<in>set (agent_tokens d). at_token_hash r \<noteq> hash_token H token"
  using assms by (auto simp: mint_agent_token_def Let_def list_ex_iff split: option.splits if_splits)

lemma mint_verify:
  assumes "fst (mint_agent_token H add_secs now rnd tid scope ttl d) = Ok token"
    and "add_secs now (sint ttl) = Some e" and "valid_utc e" "valid_utc now'"
  shows "verify_agent_token H now' token (snd (mint_agent_token H add_secs now rnd tid scope ttl d)) =
         (if date_before e now' then Err BadAgentToken else Ok tid)"
proof -
  note m = mint_agent_token_Ok [OF assms(1)]
  have none: "query_row (agent_token_live now' (hash_token H token)) (agent_tokens d) = None"
    using m(4) by (auto simp: query_row_None agent_token_live_def)
  have live: "sqlite_datetime now' < to_rfc3339 e \<longleftrightarrow> \<not> date_before e now'"
    using sqlite_before_rfc3339 [OF assms(4,3)] by (simp add: not_date_before_iff)
  show ?thesis
    using m(2,3) assms(2)
    by (auto simp: verify_agent_token_def query_row_append none agent_token_live_def live)
qed

section \<open>The setup password is not consumed\<close>

lemma create_tenant_password:
  assumes "fst (create_tenant H now ulid draws name d) = Ok t"
  shows "verify_setup_password H (tn_setup_password t) (snd (create_tenant H now ulid draws name d)) = Ok ()"
    and "tn_setup_password t = generate_setup_password draws"
    and "tenant_exists (tn_id t) (snd (create_tenant H now ulid draws name d))"
  using assms
  by (auto simp: create_tenant_def verify_setup_password_def count_where_def hash_token_def
      tenant_exists_iff Let_def split: if_splits)

section \<open>The capacity check\<close>

definition quota_for :: "string \<Rightarrow> db \<Rightarrow> Quota option" where
  "quota_for tenant_id d = (case get_quota tenant_id d of Ok q \<Rightarrow> Some q | _ \<Rightarrow> None)"

definition used_cpu :: "string \<Rightarrow> db \<Rightarrow> int" where
  "used_cpu tid d = sum_col ma_cpu (filter (active_of tid) (machines d))"

definition used_mem :: "string \<Rightarrow> db \<Rightarrow> int" where
  "used_mem tid d = sum_col ma_memory_gb (filter (active_of tid) (machines d))"

definition active_count :: "string \<Rightarrow> db \<Rightarrow> nat" where
  "active_count tid d = length (filter (active_of tid) (machines d))"

text \<open>The documented check, over unbounded numbers.\<close>

definition capacity_spec :: "Quota \<Rightarrow> int \<Rightarrow> int \<Rightarrow> nat \<Rightarrow> int \<Rightarrow> int \<Rightarrow> bool" where
  "capacity_spec q req_cpu req_mem n cpu mem \<longleftrightarrow>
     req_cpu \<le> uint (q_max_cpu_per_machine q) \<and> req_mem \<le> uint (q_max_memory_gb_per_machine q) \<and>
     int n < uint (q_max_concurrent_machines q) \<and>
     cpu + req_cpu \<le> uint (q_total_cpu_budget q) \<and> mem + req_mem \<le> uint (q_total_memory_gb_budget q)"

lemma uint_add_no_wrap:
  assumes "0 \<le> s" "s + uint r < 2 ^ 32"
  shows "uint (word_of_int s + r :: 32 word) = s + uint r"
proof -
  have "uint (word_of_int s + r) = (s + uint r) mod 2 ^ 32"
    by (simp add: uint_word_ariths uint_word_of_int mod_simps)
  then show ?thesis using assms by simp
qed

lemma check_capacity_spec:
  assumes q: "get_quota tid d = Ok q"
    and nowrap: "0 \<le> used_cpu tid d" "used_cpu tid d + uint cpu < 2 ^ 32"
      "0 \<le> used_mem tid d" "used_mem tid d + uint mem < 2 ^ 32" "active_count tid d < 2 ^ 32"
  shows "check_capacity tid cpu mem d =
    Ok (capacity_spec q (uint cpu) (uint mem) (active_count tid d) (used_cpu tid d) (used_mem tid d))"
proof -
  have up: "db_up d" using q by (auto simp: get_quota_def split: if_splits)
  have n: "uint (word_of_nat (active_count tid d) :: 32 word) = int (active_count tid d)"
    using nowrap(5) by (simp add: unsigned_of_nat take_bit_nat_eq_self)
  note add = uint_add_no_wrap [OF nowrap(1,2)] uint_add_no_wrap [OF nowrap(3,4)]
  show ?thesis
    using up add n
    by (auto simp: check_capacity_def q Let_def capacity_spec_def word_less_def word_le_def
        used_cpu_def [symmetric] used_mem_def [symmetric] active_count_def [symmetric])
qed

lemma u32_of_int_uint [simp]: "u32_of_int (uint w) = Some w"
  using uint_bounded [of w] by (simp add: u32_of_int_def)

lemma u32_of_int_small: "u32_of_int 100 = Some 100" "u32_of_int 500 = Some 500"
  by (simp_all add: u32_of_int_def)

lemma set_get_quota:
  assumes "fst (set_quota tid n cpu mem d) = Ok ()"
  shows "get_quota tid (snd (set_quota tid n cpu mem d)) =
    Ok \<lparr> q_tenant_id = tid, q_max_concurrent_machines = n, q_max_cpu_per_machine = cpu,
         q_max_memory_gb_per_machine = mem, q_max_disk_gb_per_machine = 100, q_total_cpu_budget = cpu,
         q_total_memory_gb_budget = mem, q_total_disk_gb_budget = 500, q_require_sev_snp_workers = False \<rparr>"
proof -
  have "query_row (\<lambda>q. qu_tenant_id q = tid) (filter (\<lambda>q. qu_tenant_id q \<noteq> tid) (quotas d)) = None"
    by (simp add: query_row_None)
  then show ?thesis
    using assms
    by (auto simp: set_quota_def get_quota_def quota_of_row_def query_row_append u32_of_int_small split: if_splits)
qed

lemma set_quota_machines [simp]: "machines (snd (set_quota tid n cpu mem d)) = machines d"
  by (simp add: set_quota_def)

text \<open>The total budget that \<open>set\<close> writes is the cap of one machine, so a tenant with one machine of
  the largest allowed size can start no other, whatever \<open>max_machines\<close> is.\<close>

lemma set_quota_single_full_machine:
  assumes ok: "fst (set_quota tid n cpu mem d) = Ok ()"
    and full: "used_cpu tid d = uint cpu" and req: "0 < uint rcpu" "uint cpu + uint rcpu < 2 ^ 32"
    and others: "0 \<le> used_mem tid d" "used_mem tid d + uint rmem < 2 ^ 32" "active_count tid d < 2 ^ 32"
  shows "check_capacity tid rcpu rmem (snd (set_quota tid n cpu mem d)) = Ok False"
proof -
  let ?d = "snd (set_quota tid n cpu mem d)"
  have same: "used_cpu tid ?d = used_cpu tid d" "used_mem tid ?d = used_mem tid d"
    "active_count tid ?d = active_count tid d"
    by (simp_all add: used_cpu_def used_mem_def active_count_def)
  show ?thesis
    unfolding check_capacity_spec [OF set_get_quota [OF ok], unfolded same, OF
        uint_nonnegative [of cpu, folded full] req(2) [folded full] others]
    using req by (simp add: capacity_spec_def full)
qed

section \<open>Properties\<close>

text \<open>A freshly minted agent token verifies until the end of the UTC day on which it expires, not
  until its expiry time: the stored RFC 3339 text and SQLite's clock compare by their dates.\<close>
lemma agent_token_lifetime:
  assumes "fst (mint_agent_token H add_secs now rnd tid scope ttl d) = Ok token"
    and "add_secs now (sint ttl) = Some e" "valid_utc e" "valid_utc now'"
  shows "verify_agent_token H now' token (snd (mint_agent_token H add_secs now rnd tid scope ttl d)) =
         (if date_before e now' then Err BadAgentToken else Ok tid)"
  by (rule mint_verify [OF assms])

definition demo_hash :: hash_lib where
  "demo_hash = \<lparr> sha256 = demo_digest, hex_encode = demo_hex \<rparr>"

lemma agent_token_lifetime_witness:
  "verify_agent_token demo_hash (demo_time \<lparr> hour := 23 \<rparr>) ''stronghold_agent_x''
     (snd (mint_agent_token demo_hash (\<lambda>t s. Some t) demo_time ''x'' ''t1'' ''all'' 0 demo_tenant_db)) = Ok ''t1''"
proof -
  have "fst (mint_agent_token demo_hash (\<lambda>t s. Some t) demo_time ''x'' ''t1'' ''all'' 0 demo_tenant_db) =
      Ok ''stronghold_agent_x''" by code_simp
  then show ?thesis
    using agent_token_lifetime [of demo_hash "\<lambda>t s. Some t" demo_time "''x''" "''t1''" "''all''" 0 demo_tenant_db
        "''stronghold_agent_x''" demo_time "demo_time \<lparr> hour := 23 \<rparr>"]
    by (simp add: valid_utc_def demo_time_def date_before_def)
qed

text \<open>C11. The capacity check decides the documented condition (per-machine caps, number of machines,
  total budgets) as long as the sums it adds up stay below 2^32.\<close>
theorem capacity_check_correct:
  assumes "get_quota tid d = Ok q"
    and "0 \<le> used_cpu tid d" "used_cpu tid d + uint cpu < 2 ^ 32"
    and "0 \<le> used_mem tid d" "used_mem tid d + uint mem < 2 ^ 32" "active_count tid d < 2 ^ 32"
  shows "check_capacity tid cpu mem d =
    Ok (capacity_spec q (uint cpu) (uint mem) (active_count tid d) (used_cpu tid d) (used_mem tid d))"
  by (rule check_capacity_spec [OF assms])

theorem capacity_check_correct_witness:
  "check_capacity ''t1'' 4 8 (snd (set_quota ''t1'' 5 8 16 demo_tenant_db)) = Ok True"
proof -
  let ?d = "snd (set_quota ''t1'' 5 8 16 demo_tenant_db)"
  have q: "get_quota ''t1'' ?d = Ok \<lparr> q_tenant_id = ''t1'', q_max_concurrent_machines = 5,
      q_max_cpu_per_machine = 8, q_max_memory_gb_per_machine = 16, q_max_disk_gb_per_machine = 100,
      q_total_cpu_budget = 8, q_total_memory_gb_budget = 16, q_total_disk_gb_budget = 500,
      q_require_sev_snp_workers = False \<rparr>"
    by code_simp
  have none: "used_cpu ''t1'' ?d = 0" "used_mem ''t1'' ?d = 0" "active_count ''t1'' ?d = 0" by code_simp+
  show ?thesis using capacity_check_correct [OF q, of 4 8] by (simp add: none capacity_spec_def)
qed

text \<open>A quota written by \<open>set\<close> has a total budget equal to one machine's cap: a tenant whose active
  machines add up to that cap is refused every further machine, whatever number of machines it may have.\<close>
lemma set_quota_budget_is_one_machine:
  assumes "fst (set_quota tid n cpu mem d) = Ok ()" "used_cpu tid d = uint cpu"
    and "0 < uint rcpu" "uint cpu + uint rcpu < 2 ^ 32"
    and "0 \<le> used_mem tid d" "used_mem tid d + uint rmem < 2 ^ 32" "active_count tid d < 2 ^ 32"
  shows "check_capacity tid rcpu rmem (snd (set_quota tid n cpu mem d)) = Ok False"
  by (rule set_quota_single_full_machine [OF assms])

definition demo_machine :: machine_row where
  "demo_machine = \<lparr> ma_id = ''m1'', ma_tenant_id = ''t1'', ma_image = ''i'', ma_worker = ''w'', ma_status = ''active'',
     ma_cpu = Some 8, ma_memory_gb = Some 4, ma_worker_sev_snp = 0, ma_connect_token_hash = None,
     ma_created_at = [], ma_expires_at = sqlite_datetime demo_time, ma_killed_at = None \<rparr>"

lemma set_quota_budget_is_one_machine_witness:
  "check_capacity ''t1'' 1 1 (snd (set_quota ''t1'' 5 8 16 (demo_tenant_db \<lparr> machines := [demo_machine] \<rparr>))) = Ok False"
proof -
  let ?d = "demo_tenant_db \<lparr> machines := [demo_machine] \<rparr>"
  have "fst (set_quota ''t1'' 5 8 16 ?d) = Ok ()" "used_cpu ''t1'' ?d = uint (8 :: 32 word)"
    "used_mem ''t1'' ?d = 4" "active_count ''t1'' ?d = 1" by code_simp+
  then show ?thesis
    using set_quota_budget_is_one_machine [of "''t1''" 5 8 16 ?d 1 1] by simp
qed

end
