(* ===== verification/HybridSig.thy ===== *)
theory HybridSig
  imports Prelude Demo
begin

text \<open>
  The audit log's signing keys: src/gateway/src/crypto/hybrid_sig.rs. The two signature schemes and
  standard base64 are crates, the fields of \<open>sig_lib\<close>. The key directory is a map from paths to file
  contents; file modes and the durability calls (fsync) are not modelled, and reading or writing an
  existing path does not fail.
\<close>

section \<open>Keys and signatures\<close>

definition ED25519_SECRET_LEN :: nat where "ED25519_SECRET_LEN = 32"
definition ED25519_SIG_LEN :: nat where "ED25519_SIG_LEN = 64"
definition MLDSA_SEED_LEN :: nat where "MLDSA_SEED_LEN = 32"
definition MLDSA_PUBLIC_LEN :: nat where "MLDSA_PUBLIC_LEN = 1952"
definition MLDSA_SIG_LEN :: nat where "MLDSA_SIG_LEN = 3309"

record sig_lib = hash_lib +
  b64_encode :: "bytes \<Rightarrow> string"
  b64_decode :: "string \<Rightarrow> bytes option"
  ed_public_of :: "bytes \<Rightarrow> bytes"
  ed_sign :: "bytes \<Rightarrow> bytes \<Rightarrow> bytes"
  ed_verify :: "bytes \<Rightarrow> bytes \<Rightarrow> bytes \<Rightarrow> bool"
  ml_public_of :: "bytes \<Rightarrow> bytes"
  ml_sign :: "bytes \<Rightarrow> bytes \<Rightarrow> bytes"
  ml_sig_wf :: "bytes \<Rightarrow> bool"
  ml_verify :: "bytes \<Rightarrow> bytes \<Rightarrow> bytes \<Rightarrow> bool"

record AuditKeys =
  ed25519_secret :: bytes
  ed25519_public :: bytes
  mldsa_secret :: bytes
  mldsa_public :: bytes

record DualSignature =
  sig_ed25519 :: string
  sig_mldsa65 :: string

text \<open>\<open>generate\<close> draws the two 32-byte seeds.\<close>

definition generate_audit_keys :: "'a sig_lib_scheme \<Rightarrow> bytes \<Rightarrow> bytes \<Rightarrow> AuditKeys" where
  "generate_audit_keys G ed_seed ml_seed =
     \<lparr> ed25519_secret = ed_seed, ed25519_public = ed_public_of G ed_seed,
       mldsa_secret = ml_seed, mldsa_public = ml_public_of G ml_seed \<rparr>"

definition sign_mldsa65 :: "'a sig_lib_scheme \<Rightarrow> AuditKeys \<Rightarrow> bytes \<Rightarrow> string" where
  "sign_mldsa65 G k message =
    (if length (mldsa_secret k) \<noteq> MLDSA_SEED_LEN then []
     else b64_encode G (ml_sign G (mldsa_secret k) message))"

definition sign :: "'a sig_lib_scheme \<Rightarrow> AuditKeys \<Rightarrow> bytes \<Rightarrow> DualSignature" where
  "sign G k message =
     \<lparr> sig_ed25519 = b64_encode G (ed_sign G (ed25519_secret k) message),
       sig_mldsa65 = sign_mldsa65 G k message \<rparr>"

definition verify_mldsa65 :: "'a sig_lib_scheme \<Rightarrow> AuditKeys \<Rightarrow> bytes \<Rightarrow> string \<Rightarrow> bool" where
  "verify_mldsa65 G k message sig_b64 =
    (if length (mldsa_public k) \<noteq> MLDSA_PUBLIC_LEN then False
     else case b64_decode G sig_b64 of
       None \<Rightarrow> False
     | Some sig_bytes \<Rightarrow>
        if length sig_bytes \<noteq> MLDSA_SIG_LEN then False
        else if \<not> ml_sig_wf G sig_bytes then False
        else ml_verify G (mldsa_public k) message sig_bytes)"

definition verify :: "'a sig_lib_scheme \<Rightarrow> AuditKeys \<Rightarrow> bytes \<Rightarrow> DualSignature \<Rightarrow> bool" where
  "verify G k message sg =
    (case b64_decode G (sig_ed25519 sg) of
       None \<Rightarrow> False
     | Some ed_sig_bytes \<Rightarrow>
        if length ed_sig_bytes \<noteq> ED25519_SIG_LEN then False
        else if \<not> ed_verify G (ed25519_public k) message ed_sig_bytes then False
        else if sig_mldsa65 sg = [] then True
        else verify_mldsa65 G k message (sig_mldsa65 sg))"

definition fingerprints :: "'a sig_lib_scheme \<Rightarrow> AuditKeys \<Rightarrow> string \<times> string" where
  "fingerprints G k =
     (hex_encode G (sha256 G (ed25519_public k)), hex_encode G (sha256 G (mldsa_public k)))"

section \<open>Keys on disk\<close>

type_synonym files = "string \<Rightarrow> bytes option"

datatype key_error = KeyFileMissing string | KeyFileLength nat | KeyPublicMismatch

definition ed_key_path :: "string \<Rightarrow> string" where "ed_key_path dir = dir @ ''/audit_ed25519.key''"
definition ed_pub_path :: "string \<Rightarrow> string" where "ed_pub_path dir = dir @ ''/audit_ed25519.pub''"
definition ml_key_path :: "string \<Rightarrow> string" where "ml_key_path dir = dir @ ''/audit_mldsa65.key''"
definition ml_pub_path :: "string \<Rightarrow> string" where "ml_pub_path dir = dir @ ''/audit_mldsa65.pub''"

definition save_keys :: "AuditKeys \<Rightarrow> string \<Rightarrow> files \<Rightarrow> files" where
  "save_keys k dir fs =
     fs (ed_key_path dir \<mapsto> ed25519_secret k, ed_pub_path dir \<mapsto> ed25519_public k,
         ml_key_path dir \<mapsto> mldsa_secret k, ml_pub_path dir \<mapsto> mldsa_public k)"

definition load_keys :: "'a sig_lib_scheme \<Rightarrow> string \<Rightarrow> files \<Rightarrow> (AuditKeys, key_error) res \<times> files" where
  "load_keys G dir fs =
    (case fs (ed_key_path dir) of
       None \<Rightarrow> (Err (KeyFileMissing (ed_key_path dir)), fs)
     | Some secret_bytes \<Rightarrow>
        if length secret_bytes \<noteq> ED25519_SECRET_LEN then (Err (KeyFileLength (length secret_bytes)), fs)
        else
          let public = ed_public_of G secret_bytes;
              ml_secret = (case fs (ml_key_path dir) of Some b \<Rightarrow> b | None \<Rightarrow> replicate 32 0);
              ml_public = (case fs (ml_pub_path dir) of Some b \<Rightarrow> b | None \<Rightarrow> replicate 1952 0);
              k = \<lparr> ed25519_secret = secret_bytes, ed25519_public = public,
                    mldsa_secret = ml_secret, mldsa_public = ml_public \<rparr>
          in case fs (ed_pub_path dir) of
               Some stored_pub \<Rightarrow> if stored_pub \<noteq> public then (Err KeyPublicMismatch, fs) else (Ok k, fs)
             | None \<Rightarrow> (Ok k, fs (ed_pub_path dir \<mapsto> public)))"

definition load_or_generate_keys ::
    "'a sig_lib_scheme \<Rightarrow> bytes \<Rightarrow> bytes \<Rightarrow> string \<Rightarrow> files \<Rightarrow> (AuditKeys, key_error) res \<times> files" where
  "load_or_generate_keys G ed_seed ml_seed dir fs =
    (if fs (ed_key_path dir) \<noteq> None then load_keys G dir fs
     else let k = generate_audit_keys G ed_seed ml_seed in (Ok k, save_keys k dir fs))"

section \<open>Signing and verifying\<close>

text \<open>The documented behaviour of the two schemes and of base64 that the signatures rest on.\<close>

definition sig_lib_ok :: "'a sig_lib_scheme \<Rightarrow> bool" where
  "sig_lib_ok G \<longleftrightarrow>
     (\<forall>b. b64_decode G (b64_encode G b) = Some b) \<and>
     (\<forall>s m. length s = 32 \<longrightarrow> length (ed_sign G s m) = 64 \<and> ed_verify G (ed_public_of G s) m (ed_sign G s m)) \<and>
     (\<forall>s m. length s = 32 \<longrightarrow> length (ml_public_of G s) = 1952 \<and> length (ml_sign G s m) = 3309 \<and>
        ml_sig_wf G (ml_sign G s m) \<and> ml_verify G (ml_public_of G s) m (ml_sign G s m))"

definition keys_ok :: "'a sig_lib_scheme \<Rightarrow> AuditKeys \<Rightarrow> bool" where
  "keys_ok G k \<longleftrightarrow> length (ed25519_secret k) = 32 \<and> ed25519_public k = ed_public_of G (ed25519_secret k) \<and>
     length (mldsa_secret k) = 32 \<and> mldsa_public k = ml_public_of G (mldsa_secret k)"

lemma generate_keys_ok:
  "length a = 32 \<Longrightarrow> length b = 32 \<Longrightarrow> keys_ok G (generate_audit_keys G a b)"
  by (simp add: keys_ok_def generate_audit_keys_def)

lemma verify_mldsa65_sign:
  assumes "sig_lib_ok G" "keys_ok G k"
  shows "verify_mldsa65 G k m (sign_mldsa65 G k m)"
  using assms
  by (simp add: verify_mldsa65_def sign_mldsa65_def sig_lib_ok_def keys_ok_def MLDSA_SEED_LEN_def
      MLDSA_PUBLIC_LEN_def MLDSA_SIG_LEN_def)

lemma verify_sign:
  assumes "sig_lib_ok G" "keys_ok G k"
  shows "verify G k m (sign G k m)"
proof -
  have "b64_decode G (sig_ed25519 (sign G k m)) = Some (ed_sign G (ed25519_secret k) m)"
    using assms(1) by (simp add: sign_def sig_lib_ok_def)
  moreover have "length (ed_sign G (ed25519_secret k) m) = 64"
    "ed_verify G (ed25519_public k) m (ed_sign G (ed25519_secret k) m)"
    using assms by (auto simp: sig_lib_ok_def keys_ok_def)
  ultimately show ?thesis
    using verify_mldsa65_sign [OF assms, of m]
    by (simp add: verify_def ED25519_SIG_LEN_def) (simp add: sign_def)
qed

text \<open>Dropping the second signature never makes a valid pair invalid.\<close>

lemma verify_without_mldsa:
  "verify G k m sg \<Longrightarrow> verify G k m (sg \<lparr> sig_mldsa65 := [] \<rparr>)"
  by (auto simp: verify_def split: option.splits if_splits)

lemma key_paths_distinct:
  "ed_key_path dir \<noteq> ed_pub_path dir" "ed_key_path dir \<noteq> ml_key_path dir" "ed_key_path dir \<noteq> ml_pub_path dir"
  "ed_pub_path dir \<noteq> ml_key_path dir" "ed_pub_path dir \<noteq> ml_pub_path dir" "ml_key_path dir \<noteq> ml_pub_path dir"
  by (simp_all add: ed_key_path_def ed_pub_path_def ml_key_path_def ml_pub_path_def)

lemma save_load_keys:
  assumes "keys_ok G k"
  shows "load_keys G dir (save_keys k dir fs) = (Ok k, save_keys k dir fs)"
proof -
  have files: "save_keys k dir fs (ed_key_path dir) = Some (ed25519_secret k)"
    "save_keys k dir fs (ed_pub_path dir) = Some (ed25519_public k)"
    "save_keys k dir fs (ml_key_path dir) = Some (mldsa_secret k)"
    "save_keys k dir fs (ml_pub_path dir) = Some (mldsa_public k)"
    using key_paths_distinct [of dir] by (simp_all add: save_keys_def)
  show ?thesis
    using assms
    by (simp add: load_keys_def files keys_ok_def ED25519_SECRET_LEN_def Let_def)
qed

lemma load_keys_public:
  "fst (load_keys G dir fs) = Ok k \<Longrightarrow>
   ed25519_public k = ed_public_of G (ed25519_secret k) \<and> length (ed25519_secret k) = 32"
  by (auto simp: load_keys_def Let_def ED25519_SECRET_LEN_def split: option.splits if_splits)

lemma load_keys_tampered_public:
  assumes "fs (ed_key_path dir) = Some s" "length s = 32"
    and "fs (ed_pub_path dir) = Some p" "p \<noteq> ed_public_of G s"
  shows "load_keys G dir fs = (Err KeyPublicMismatch, fs)"
  using assms by (simp add: load_keys_def ED25519_SECRET_LEN_def)

section \<open>Properties\<close>

text \<open>Keys written to a directory are the keys read back from it, and a message they sign verifies
  under them with both schemes.\<close>
lemma saved_keys_verify:
  assumes "sig_lib_ok G" "keys_ok G k"
  shows "fst (load_keys G dir (save_keys k dir fs)) = Ok k \<and> verify G k m (sign G k m)
    \<and> sig_mldsa65 (sign G k m) = b64_encode G (ml_sign G (mldsa_secret k) m)"
  using save_load_keys [OF assms(2)] verify_sign [OF assms] assms(2)
  by (simp add: sign_def sign_mldsa65_def keys_ok_def MLDSA_SEED_LEN_def)

definition demo_sig :: sig_lib where
  "demo_sig = \<lparr> sha256 = demo_digest, hex_encode = demo_hex, b64_encode = string_of_bytes,
     b64_decode = (\<lambda>s. Some (as_bytes s)), ed_public_of = (\<lambda>s. s), ed_sign = (\<lambda>s m. s @ s),
     ed_verify = (\<lambda>p m g. g = p @ p), ml_public_of = (\<lambda>s. take 1952 (s @ replicate 1952 0)),
     ml_sign = (\<lambda>s m. take 3309 (s @ replicate 3309 0)), ml_sig_wf = (\<lambda>b. True), ml_verify = (\<lambda>p m g. True) \<rparr>"

definition demo_keys :: "byte \<Rightarrow> AuditKeys" where
  "demo_keys b = generate_audit_keys demo_sig (replicate 32 b) (replicate 32 b)"

lemma demo_sig_ok: "sig_lib_ok demo_sig"
  by (simp add: sig_lib_ok_def demo_sig_def)

lemma demo_keys_ok: "keys_ok demo_sig (demo_keys b)"
  unfolding demo_keys_def by (rule generate_keys_ok) simp_all

lemma demo_hash_length: "length (hash_text demo_sig m) = 64"
  by (simp add: hash_text_def demo_sig_def)

lemma saved_keys_verify_witness:
  "fst (load_keys demo_sig ''k'' (save_keys (demo_keys 1) ''k'' (\<lambda>_. None))) = Ok (demo_keys 1)"
  using saved_keys_verify [OF demo_sig_ok demo_keys_ok] by blast

end
