(* ===== verification/AuditLog.thy ===== *)
theory AuditLog
  imports Db HybridSig
begin

text \<open>
  The audit log: its writer (src/gateway/src/audit/log.rs), its verifier (audit/verify.rs) and its
  exporter (audit/export.rs). The text of a JSON payload and the SEV-SNP report are arguments; the
  attestation driver answers with the report's hash or fails.
\<close>

section \<open>Writing\<close>

datatype audit_error = AuditPool | AuditColumn | AuditConstraint | AuditNoTable | AuditKeysError

definition ZERO_HASH :: string where
  "ZERO_HASH = ''0000000000000000000000000000000000000000000000000000000000000000''"

definition message :: "string \<Rightarrow> string \<Rightarrow> string \<Rightarrow> string \<Rightarrow> string \<Rightarrow> string \<Rightarrow> string" where
  "message ts tenant_id machine_id event payload prev_hash =
     ts @ ''|'' @ tenant_id @ ''|'' @ machine_id @ ''|'' @ event @ ''|'' @ payload @ ''|'' @ prev_hash"

definition tenant_rows :: "string \<Rightarrow> db \<Rightarrow> audit_row list" where
  "tenant_rows tid d = sort_key au_seq (filter (\<lambda>r. au_tenant_id r = tid) (audit_entries d))"

definition last_hash :: "string \<Rightarrow> db \<Rightarrow> string" where
  "last_hash tid d = (if tenant_rows tid d = [] then ZERO_HASH else au_hash (last (tenant_rows tid d)))"

definition next_seq :: "db \<Rightarrow> int" where
  "next_seq d = foldr max (map au_seq (audit_entries d)) 0 + 1"

definition audit_row_of ::
    "'a sig_lib_scheme \<Rightarrow> AuditKeys \<Rightarrow> utc \<Rightarrow> string option \<Rightarrow> int \<Rightarrow> string \<Rightarrow> string \<Rightarrow> string \<Rightarrow> string \<Rightarrow> string \<Rightarrow>
     audit_row" where
  "audit_row_of G keys now report_hash sq tenant_id machine_id event payload prev_hash =
    (let ts = to_rfc3339 now;
         m = message ts tenant_id machine_id event payload prev_hash;
         sg = sign G keys (as_bytes m)
     in \<lparr> au_seq = sq, au_tenant_id = tenant_id, au_ts = ts, au_machine_id = Some machine_id,
          au_event = event, au_payload = Some payload, au_prev_hash = prev_hash, au_hash = hash_text G m,
          au_sig_ed25519 = sig_ed25519 sg, au_sig_mldsa65 = sig_mldsa65 sg,
          au_sev_snp_report_hash = report_hash \<rparr>)"

definition entry ::
    "'a sig_lib_scheme \<Rightarrow> utc \<Rightarrow> string option \<Rightarrow> string \<Rightarrow> string \<Rightarrow> string \<Rightarrow> string \<Rightarrow> AuditKeys \<Rightarrow> db \<Rightarrow>
     (unit, audit_error) res \<times> db" where
  "entry G now report_hash tenant_id machine_id event payload keys d =
    (if \<not> db_up d then (Err AuditPool, d)
     else if \<not> tenant_exists tenant_id d then (Err AuditConstraint, d)
     else (Ok (), d \<lparr> audit_entries := audit_entries d @
       [audit_row_of G keys now report_hash (next_seq d) tenant_id machine_id event payload (last_hash tenant_id d)] \<rparr>))"

text \<open>The JSON text of the rotation payload: \<open>serde_json\<close> writes the keys of an object in order.\<close>

definition rotation_payload :: "string \<Rightarrow> string \<Rightarrow> string" where
  "rotation_payload new_fp old_fp =
     ''{\"new_ed25519_fingerprint\":\"'' @ new_fp @ ''\",\"old_ed25519_fingerprint\":\"'' @ old_fp @
     ''\",\"reason\":\"scheduled_rotation\",\"rotation\":\"audit_keys\"}''"

definition rotate_audit_keys ::
    "'a sig_lib_scheme \<Rightarrow> utc \<Rightarrow> string option \<Rightarrow> bytes \<Rightarrow> bytes \<Rightarrow> string \<Rightarrow> string \<Rightarrow> AuditKeys \<Rightarrow> db \<Rightarrow>
     (AuditKeys, audit_error) res \<times> db" where
  "rotate_audit_keys G now report_hash ed_seed ml_seed tenant_id machine_id old_keys d =
    (let new_keys = generate_audit_keys G ed_seed ml_seed;
         payload = rotation_payload (fst (fingerprints G new_keys)) (fst (fingerprints G old_keys))
     in case entry G now report_hash tenant_id machine_id ''key_rotation'' payload old_keys d of
          (Ok _, d') \<Rightarrow> (Ok new_keys, d')
        | (Err e, d') \<Rightarrow> (Err e, d')
        | (Panic, d') \<Rightarrow> (Panic, d'))"

section \<open>Verifying\<close>

datatype verify_problem =
    ChainBroken int string string
  | HashMismatch int string string
  | SignatureFailed int

record VerifyReport =
  vr_tenant_id :: string
  vr_entries_checked :: nat
  vr_errors :: "verify_problem list"

definition report_is_ok :: "VerifyReport \<Rightarrow> bool" where
  "report_is_ok r \<longleftrightarrow> vr_errors r = []"

text \<open>A row is read into strings: a NULL in \<open>machine_id\<close> or \<open>payload\<close> is an error.\<close>

definition row_message :: "string \<Rightarrow> audit_row \<Rightarrow> string option" where
  "row_message tid r =
    (case (au_machine_id r, au_payload r) of
       (Some m, Some p) \<Rightarrow> Some (message (au_ts r) tid m (au_event r) p (au_prev_hash r))
     | _ \<Rightarrow> None)"

definition row_signature :: "audit_row \<Rightarrow> DualSignature" where
  "row_signature r = \<lparr> sig_ed25519 = au_sig_ed25519 r, sig_mldsa65 = au_sig_mldsa65 r \<rparr>"

definition check_row ::
    "'a sig_lib_scheme \<Rightarrow> AuditKeys \<Rightarrow> string \<Rightarrow> audit_row \<Rightarrow> string \<Rightarrow> verify_problem list" where
  "check_row G keys prev_hash r msg =
     (if au_prev_hash r \<noteq> prev_hash then [ChainBroken (au_seq r) prev_hash (au_prev_hash r)] else []) @
     (if hash_text G msg \<noteq> au_hash r then [HashMismatch (au_seq r) (au_hash r) (hash_text G msg)] else []) @
     (if \<not> verify G keys (as_bytes msg) (row_signature r) then [SignatureFailed (au_seq r)] else [])"

fun walk_rows ::
    "'a sig_lib_scheme \<Rightarrow> AuditKeys \<Rightarrow> string \<Rightarrow> (audit_row \<times> string) list \<Rightarrow> verify_problem list" where
  "walk_rows G keys prev_hash [] = []"
| "walk_rows G keys prev_hash ((r, msg) # rs) = check_row G keys prev_hash r msg @ walk_rows G keys (au_hash r) rs"

fun read_rows :: "string \<Rightarrow> audit_row list \<Rightarrow> (audit_row \<times> string) list option" where
  "read_rows tid [] = Some []"
| "read_rows tid (r # rs) =
    (case (row_message tid r, read_rows tid rs) of (Some m, Some ms) \<Rightarrow> Some ((r, m) # ms) | _ \<Rightarrow> None)"

definition verify_with_pool ::
    "'a sig_lib_scheme \<Rightarrow> string \<Rightarrow> AuditKeys \<Rightarrow> db \<Rightarrow> (VerifyReport, audit_error) res" where
  "verify_with_pool G tenant_id keys d =
    (if \<not> db_up d then Err AuditPool
     else bind_res (ok_or AuditColumn (read_rows tenant_id (tenant_rows tenant_id d))) (\<lambda>entries.
       Ok \<lparr> vr_tenant_id = tenant_id, vr_entries_checked = length entries,
            vr_errors = walk_rows G keys ZERO_HASH entries \<rparr>))"

text \<open>The offline verifier opens a database file of its own: SQLite creates an empty one when there is
  none, and preparing the query then fails for want of the table. The signatures are checked in a
  second pass, and skipped when the keys cannot be loaded.\<close>

definition audit_db_path :: "string \<Rightarrow> string" where
  "audit_db_path tid = ''/var/lib/stronghold/audit/'' @ tid @ ''.db''"

definition gateway_db_path :: string where
  "gateway_db_path = ''/var/lib/stronghold/stronghold.db''"

definition keys_dir :: string where
  "keys_dir = ''/var/lib/stronghold/keys/''"

fun walk_hashes :: "'a sig_lib_scheme \<Rightarrow> string \<Rightarrow> (audit_row \<times> string) list \<Rightarrow> verify_problem list" where
  "walk_hashes G prev_hash [] = []"
| "walk_hashes G prev_hash ((r, msg) # rs) =
     (if au_prev_hash r \<noteq> prev_hash then [ChainBroken (au_seq r) prev_hash (au_prev_hash r)] else []) @
     (if hash_text G msg \<noteq> au_hash r then [HashMismatch (au_seq r) (au_hash r) (hash_text G msg)] else []) @
     walk_hashes G (au_hash r) rs"

definition signature_failures ::
    "'a sig_lib_scheme \<Rightarrow> AuditKeys \<Rightarrow> (audit_row \<times> string) list \<Rightarrow> verify_problem list" where
  "signature_failures G keys entries =
     map (\<lambda>(r, m). SignatureFailed (au_seq r))
       (filter (\<lambda>(r, m). \<not> verify G keys (as_bytes m) (row_signature r)) entries)"

definition verify_tenant ::
    "'a sig_lib_scheme \<Rightarrow> bytes \<Rightarrow> bytes \<Rightarrow> string \<Rightarrow> (string \<Rightarrow> db option) \<Rightarrow> files \<Rightarrow>
     (unit, audit_error + nat) res \<times> files" where
  "verify_tenant G ed_seed ml_seed tenant_id databases fs =
    (case databases (audit_db_path tenant_id) of
       None \<Rightarrow> (Err (Inl AuditNoTable), fs)
     | Some d \<Rightarrow>
        (case read_rows tenant_id (tenant_rows tenant_id d) of
           None \<Rightarrow> (Err (Inl AuditColumn), fs)
         | Some entries \<Rightarrow>
            let (keys, fs') = load_or_generate_keys G ed_seed ml_seed keys_dir fs;
                errors = walk_hashes G ZERO_HASH entries @
                  (case keys of Ok k \<Rightarrow> signature_failures G k entries | _ \<Rightarrow> [])
            in (if errors = [] then Ok () else Err (Inr (length errors)), fs')))"

section \<open>Exporting\<close>

datatype ExportFormat = Json | Text

record ExportOptions =
  eo_tenant_id :: string
  eo_from :: "string option"
  eo_to :: "string option"
  eo_machine_id :: "string option"
  eo_format :: ExportFormat

type_synonym export_row = "string \<times> string \<times> string \<times> string \<times> string"

definition export_selected :: "ExportOptions \<Rightarrow> audit_row \<Rightarrow> bool" where
  "export_selected opts r \<longleftrightarrow>
     au_tenant_id r = eo_tenant_id opts \<and>
     (case eo_from opts of Some f \<Rightarrow> f \<le> au_ts r | None \<Rightarrow> True) \<and>
     (case eo_to opts of Some t \<Rightarrow> au_ts r \<le> t | None \<Rightarrow> True) \<and>
     (case eo_machine_id opts of Some m \<Rightarrow> au_machine_id r = Some m | None \<Rightarrow> True)"

fun export_rows :: "audit_row list \<Rightarrow> export_row list option" where
  "export_rows [] = Some []"
| "export_rows (r # rs) =
    (case (au_machine_id r, au_payload r, export_rows rs) of
       (Some m, Some p, Some es) \<Rightarrow> Some ((au_ts r, m, au_event r, p, au_hash r) # es)
     | _ \<Rightarrow> None)"

text \<open>\<open>&hash[..16]\<close> panics on a string of fewer than 16 bytes (and inside a multi-byte character).
  The JSON writer is serde_json's.\<close>

fun text_export :: "export_row list \<Rightarrow> (string, audit_error) res" where
  "text_export [] = Ok []"
| "text_export ((ts, machine, event, payload, hash) # rs) =
    (if length hash < 16 \<or> \<not> valid_utf8 (as_bytes (take 16 hash)) then Panic
     else bind_res (text_export rs) (\<lambda>rest.
       Ok (''['' @ ts @ ''] machine='' @ machine @ '' event='' @ event @ '' hash='' @ take 16 hash @
           [CHR 0x0A] @ ''  payload='' @ payload @ [CHR 0x0A, CHR 0x0A] @ rest)))"

definition export_with_pool ::
    "(export_row list \<Rightarrow> string) \<Rightarrow> ExportOptions \<Rightarrow> db \<Rightarrow> (string, audit_error) res" where
  "export_with_pool json_pretty opts d =
    (if \<not> db_up d then Err AuditPool
     else bind_res (ok_or AuditColumn (export_rows (sort_key au_seq (filter (export_selected opts) (audit_entries d)))))
       (\<lambda>rows. case eo_format opts of Json \<Rightarrow> Ok (json_pretty rows) | Text \<Rightarrow> text_export rows))"

section \<open>Hash chains\<close>

text \<open>A chain of records, each of which carries the digest of its predecessor. The record's text
  determines the digest it carries once the digests' size is known.\<close>

locale hash_chain =
  fixes prev :: "'r \<Rightarrow> 'h" and stored :: "'r \<Rightarrow> 'h" and content :: "'r \<Rightarrow> 'm"
    and digest :: "'m \<Rightarrow> 'h" and size_of :: "'h \<Rightarrow> nat"
  assumes prev_of_content: "content r = content r' \<Longrightarrow> size_of (prev r) = size_of (prev r') \<Longrightarrow> prev r = prev r'"
begin

fun linked :: "'h \<Rightarrow> 'r list \<Rightarrow> bool" where
  "linked h [] = True"
| "linked h (r # rs) = (prev r = h \<and> stored r = digest (content r) \<and> linked (stored r) rs)"

fun tip :: "'h \<Rightarrow> 'r list \<Rightarrow> 'h" where
  "tip h [] = h"
| "tip h (r # rs) = tip (stored r) rs"

lemma linked_snoc: "linked h (rs @ [r]) \<longleftrightarrow> linked h rs \<and> prev r = tip h rs \<and> stored r = digest (content r)"
  by (induction rs arbitrary: h) auto

lemma tip_snoc [simp]: "tip h (rs @ [r]) = stored r"
  by (induction rs arbitrary: h) auto

lemma linked_take: "linked h rs \<Longrightarrow> linked h (take n rs)"
  by (induction rs arbitrary: h n) (auto simp: take_Cons split: nat.splits)

lemma tip_last: "tip h rs = (if rs = [] then h else stored (last rs))"
  by (induction rs arbitrary: h) auto

lemma same_tip_same_texts:
  assumes "length rs = length rs'" "linked h rs" "linked h rs'" "tip h rs = tip h rs'"
    and "\<forall>r\<in>set rs \<union> set rs'. size_of (prev r) = k"
  shows "map content rs = map content rs' \<or> (\<exists>m m'. m \<noteq> m' \<and> digest m = digest m')"
  using assms
proof (induction rs arbitrary: rs' rule: rev_induct)
  case (snoc r rs)
  then obtain q qs where rs': "rs' = qs @ [q]" by (cases rs' rule: rev_cases) auto
  have digests: "digest (content r) = digest (content q)"
    using snoc.prems by (simp add: rs' linked_snoc)
  show ?case
  proof (cases "content r = content q")
    case True
    moreover have "size_of (prev r) = size_of (prev q)" using snoc.prems(5) by (simp add: rs')
    ultimately have "prev r = prev q" by (rule prev_of_content)
    then have "map content rs = map content qs \<or> (\<exists>m m'. m \<noteq> m' \<and> digest m = digest m')"
      using snoc.prems by (intro snoc.IH) (auto simp: rs' linked_snoc)
    then show ?thesis using True by (auto simp: rs')
  next
    case False
    then show ?thesis using digests by blast
  qed
qed simp

end

text \<open>An audit row's text, with an absent column read as the empty text.\<close>

definition row_text :: "string \<Rightarrow> audit_row \<Rightarrow> string" where
  "row_text tid r = message (au_ts r) tid (case au_machine_id r of Some m \<Rightarrow> m | None \<Rightarrow> [])
     (au_event r) (case au_payload r of Some p \<Rightarrow> p | None \<Rightarrow> []) (au_prev_hash r)"

lemma row_text_prev:
  assumes "row_text tid r = row_text tid r'" "length (au_prev_hash r) = length (au_prev_hash r')"
  shows "au_prev_hash r = au_prev_hash r'"
proof -
  obtain a b where "row_text tid r = a @ au_prev_hash r" "row_text tid r' = b @ au_prev_hash r'"
    unfolding row_text_def message_def by (metis append.assoc)
  then show ?thesis using assms by (metis append_eq_append_conv)
qed

interpretation audit_chain: hash_chain au_prev_hash au_hash "row_text tid" digest length
  for tid :: string and digest :: "string \<Rightarrow> string"
  by unfold_locales (rule row_text_prev)

definition readable :: "audit_row \<Rightarrow> bool" where
  "readable r \<longleftrightarrow> au_machine_id r \<noteq> None \<and> au_payload r \<noteq> None"

lemma row_message_text: "row_message tid r = (if readable r then Some (row_text tid r) else None)"
  by (auto simp: row_message_def readable_def row_text_def split: option.splits)

lemma read_rows_eq:
  "read_rows tid rows =
   (if \<forall>r\<in>set rows. readable r then Some (map (\<lambda>r. (r, row_text tid r)) rows) else None)"
  by (induction rows) (auto simp: row_message_text)

definition signed :: "'a sig_lib_scheme \<Rightarrow> AuditKeys \<Rightarrow> string \<Rightarrow> audit_row \<Rightarrow> bool" where
  "signed G keys tid r \<longleftrightarrow> verify G keys (as_bytes (row_text tid r)) (row_signature r)"

lemma walk_rows_clean:
  "walk_rows G keys h (map (\<lambda>r. (r, row_text tid r)) rows) = [] \<longleftrightarrow>
   audit_chain.linked tid (hash_text G) h rows \<and> (\<forall>r\<in>set rows. signed G keys tid r)"
  by (induction rows arbitrary: h) (auto simp: check_row_def signed_def)

definition clean :: "'a sig_lib_scheme \<Rightarrow> string \<Rightarrow> AuditKeys \<Rightarrow> db \<Rightarrow> bool" where
  "clean G tid keys d \<longleftrightarrow>
     (case verify_with_pool G tid keys d of Ok rep \<Rightarrow> report_is_ok rep | _ \<Rightarrow> False)"

lemma verify_with_pool_Ok:
  "verify_with_pool G tid keys d = Ok rep \<longleftrightarrow>
   db_up d \<and> (\<forall>r\<in>set (tenant_rows tid d). readable r) \<and>
   rep = \<lparr> vr_tenant_id = tid, vr_entries_checked = length (tenant_rows tid d),
     vr_errors = walk_rows G keys ZERO_HASH (map (\<lambda>r. (r, row_text tid r)) (tenant_rows tid d)) \<rparr>"
  by (auto simp: verify_with_pool_def read_rows_eq)

lemma clean_iff:
  "clean G tid keys d \<longleftrightarrow> db_up d \<and> (\<forall>r\<in>set (tenant_rows tid d). readable r \<and> signed G keys tid r)
     \<and> audit_chain.linked tid (hash_text G) ZERO_HASH (tenant_rows tid d)"
proof -
  have "clean G tid keys d \<longleftrightarrow> (\<exists>rep. verify_with_pool G tid keys d = Ok rep \<and> report_is_ok rep)"
    by (auto simp: clean_def split: res.splits)
  then show ?thesis
    unfolding verify_with_pool_Ok by (auto simp: report_is_ok_def walk_rows_clean)
qed

section \<open>What the writer maintains\<close>

text \<open>Rows are appended with growing sequence numbers, so the tenant's rows are the table's in order.\<close>

definition audit_wf :: "db \<Rightarrow> bool" where
  "audit_wf d \<longleftrightarrow> sorted (map au_seq (audit_entries d))"

lemma foldr_max_ge: "x \<in> set xs \<Longrightarrow> x \<le> foldr max xs (0 :: int)"
  by (induction xs) auto

lemma next_seq_greater: "r \<in> set (audit_entries d) \<Longrightarrow> au_seq r < next_seq d"
  using foldr_max_ge [of "au_seq r" "map au_seq (audit_entries d)"] by (auto simp: next_seq_def)

lemma tenant_rows_wf:
  assumes "audit_wf d"
  shows "tenant_rows tid d = filter (\<lambda>r. au_tenant_id r = tid) (audit_entries d)"
  using assms unfolding tenant_rows_def audit_wf_def
  by (intro sort_key_id_if_sorted) (simp add: sorted_filter)

lemma last_hash_tip:
  "last_hash tid d = audit_chain.tip ZERO_HASH (tenant_rows tid d)"
  by (simp add: last_hash_def audit_chain.tip_last)

lemma audit_wf_append:
  assumes "audit_wf d" "au_seq r = next_seq d"
  shows "audit_wf (d \<lparr> audit_entries := audit_entries d @ [r] \<rparr>)"
  using assms next_seq_greater by (fastforce simp: audit_wf_def sorted_append less_imp_le)

lemma audit_row_of_simps [simp]:
  "au_tenant_id (audit_row_of G k now rh sq tid mid ev pl ph) = tid"
  "au_seq (audit_row_of G k now rh sq tid mid ev pl ph) = sq"
  "au_prev_hash (audit_row_of G k now rh sq tid mid ev pl ph) = ph"
  "readable (audit_row_of G k now rh sq tid mid ev pl ph)"
  by (simp_all add: audit_row_of_def Let_def readable_def)

lemma audit_row_of_text:
  "row_text tid (audit_row_of G k now rh sq tid mid ev pl ph) = message (to_rfc3339 now) tid mid ev pl ph"
  "au_hash (audit_row_of G k now rh sq tid mid ev pl ph) = hash_text G (message (to_rfc3339 now) tid mid ev pl ph)"
  "row_signature (audit_row_of G k now rh sq tid mid ev pl ph) =
     sign G k (as_bytes (message (to_rfc3339 now) tid mid ev pl ph))"
  by (simp_all add: audit_row_of_def Let_def row_text_def row_signature_def)

lemma entry_wf: "audit_wf d \<Longrightarrow> audit_wf (snd (entry G now rh tid mid ev pl k d))"
  by (simp add: entry_def audit_wf_append)

lemma entry_up [simp]: "db_up (snd (entry G now rh tid mid ev pl k d)) = db_up d"
  by (simp add: entry_def)

lemma entry_tenants [simp]: "tenant_exists t (snd (entry G now rh tid mid ev pl k d)) = tenant_exists t d"
  by (simp add: entry_def tenant_exists_def)

lemma entry_tenant_rows:
  assumes "audit_wf d"
  shows "tenant_rows t (snd (entry G now rh tid mid ev pl k d)) =
    tenant_rows t d @ (if db_up d \<and> tenant_exists tid d \<and> t = tid
      then [audit_row_of G k now rh (next_seq d) tid mid ev pl (last_hash tid d)] else [])"
  using assms entry_wf [OF assms, of G now rh tid mid ev pl k]
  by (auto simp: tenant_rows_wf) (auto simp: entry_def)

lemma entry_keeps_clean:
  assumes "audit_wf d" "clean G t k d" "sig_lib_ok G" "keys_ok G k"
  shows "clean G t k (snd (entry G now rh tid mid ev pl k d))"
  using assms(2) verify_sign [OF assms(3,4)]
  by (auto simp: clean_iff entry_tenant_rows [OF assms(1)] audit_chain.linked_snoc signed_def
      audit_row_of_text last_hash_tip)

section \<open>Logs written by the gateway verify\<close>

record audit_write =
  w_now :: utc
  w_report :: "string option"
  w_tenant :: string
  w_machine :: string
  w_event :: string
  w_payload :: string

definition write_one :: "'a sig_lib_scheme \<Rightarrow> AuditKeys \<Rightarrow> audit_write \<Rightarrow> db \<Rightarrow> db" where
  "write_one G k w d =
     snd (entry G (w_now w) (w_report w) (w_tenant w) (w_machine w) (w_event w) (w_payload w) k d)"

definition write_all :: "'a sig_lib_scheme \<Rightarrow> AuditKeys \<Rightarrow> audit_write list \<Rightarrow> db \<Rightarrow> db" where
  "write_all G k ws d = fold (write_one G k) ws d"

lemma write_all_clean:
  assumes "audit_wf d" "clean G t k d" "sig_lib_ok G" "keys_ok G k"
  shows "audit_wf (write_all G k ws d) \<and> clean G t k (write_all G k ws d)"
  using assms(1,2) unfolding write_all_def
proof (induction ws arbitrary: d)
  case (Cons w ws)
  have "audit_wf (write_one G k w d)" "clean G t k (write_one G k w d)"
    using Cons.prems assms(3,4) by (simp_all add: write_one_def entry_wf entry_keeps_clean)
  then show ?case using Cons.IH by simp
qed simp

lemma write_all_count:
  assumes "audit_wf d"
  shows "length (tenant_rows t (write_all G k ws d)) = length (tenant_rows t d) +
    (if db_up d \<and> tenant_exists t d then length (filter (\<lambda>w. w_tenant w = t) ws) else 0)"
  using assms unfolding write_all_def
proof (induction ws arbitrary: d)
  case (Cons w ws)
  have "audit_wf (write_one G k w d)" using Cons.prems by (simp add: write_one_def entry_wf)
  from Cons.IH [OF this] Cons.prems show ?case
    by (auto simp: write_one_def entry_tenant_rows)
qed simp

lemma written_log_verifies:
  assumes "sig_lib_ok G" "keys_ok G k" "db_up d" "audit_entries d = []"
  shows "\<exists>rep. verify_with_pool G t k (write_all G k ws d) = Ok rep \<and> report_is_ok rep \<and>
    vr_entries_checked rep = (if tenant_exists t d then length (filter (\<lambda>w. w_tenant w = t) ws) else 0)"
proof -
  have wf: "audit_wf d" using assms(4) by (simp add: audit_wf_def)
  have none: "tenant_rows t d = []" using assms(4) by (simp add: tenant_rows_def)
  have "clean G t k d" using assms(3) by (simp add: clean_iff none)
  then have "clean G t k (write_all G k ws d)" using write_all_clean wf assms(1,2) by blast
  then obtain rep where rep: "verify_with_pool G t k (write_all G k ws d) = Ok rep" "report_is_ok rep"
    by (auto simp: clean_def split: res.splits)
  then have "vr_entries_checked rep = length (tenant_rows t (write_all G k ws d))"
    by (simp add: verify_with_pool_Ok)
  then show ?thesis
    using rep write_all_count [OF wf, of t G k ws] assms(3) by (simp add: none)
qed

section \<open>What a clean log excludes, and what it does not\<close>

lemma linked_prev_lengths:
  assumes "\<And>m. length (hash_text G m) = 64" "length h = 64" "audit_chain.linked tid (hash_text G) h rows"
  shows "\<forall>r\<in>set rows. length (au_prev_hash r) = 64"
  using assms(2,3)
proof (induction rows arbitrary: h)
  case (Cons r rows)
  then have "length (au_hash r) = 64" by (simp add: assms(1))
  then show ?case using Cons by auto
qed simp

lemma clean_logs_same_tip:
  assumes "\<And>m. length (hash_text G m) = 64" "clean G tid k d" "clean G tid k' d'"
    and "length (tenant_rows tid d) = length (tenant_rows tid d')" "last_hash tid d = last_hash tid d'"
  shows "map (row_text tid) (tenant_rows tid d) = map (row_text tid) (tenant_rows tid d')
    \<or> (\<exists>m m'. m \<noteq> m' \<and> hash_text G m = hash_text G m')"
proof (rule audit_chain.same_tip_same_texts)
  show "length (tenant_rows tid d) = length (tenant_rows tid d')" by (rule assms(4))
  show l: "audit_chain.linked tid (hash_text G) ZERO_HASH (tenant_rows tid d)"
    and l': "audit_chain.linked tid (hash_text G) ZERO_HASH (tenant_rows tid d')"
    using assms(2,3) by (simp_all add: clean_iff)
  show "audit_chain.tip ZERO_HASH (tenant_rows tid d) = audit_chain.tip ZERO_HASH (tenant_rows tid d')"
    using assms(5) by (simp add: last_hash_tip)
  have z: "length ZERO_HASH = 64" by (simp add: ZERO_HASH_def)
  show "\<forall>r\<in>set (tenant_rows tid d) \<union> set (tenant_rows tid d'). length (au_prev_hash r) = 64"
    using linked_prev_lengths [OF assms(1) z l] linked_prev_lengths [OF assms(1) z l'] by blast
qed

text \<open>Deleting the newest rows leaves a log that verifies.\<close>

definition truncate_log :: "nat \<Rightarrow> db \<Rightarrow> db" where
  "truncate_log n d = d \<lparr> audit_entries := take n (audit_entries d) \<rparr>"

lemma filter_take: "\<exists>k. filter P (take n xs) = take k (filter P xs)"
proof (induction xs arbitrary: n)
  case (Cons x xs)
  show ?case
  proof (cases n)
    case (Suc m)
    obtain k where "filter P (take m xs) = take k (filter P xs)" using Cons.IH by blast
    then show ?thesis using Suc by (cases "P x") (auto intro: exI [of _ "Suc k"] exI [of _ k])
  qed auto
qed simp

lemma truncated_log_clean:
  assumes "audit_wf d" "clean G tid k d"
  shows "clean G tid k (truncate_log n d)"
proof -
  have "audit_wf (truncate_log n d)"
    using assms(1) by (simp add: audit_wf_def truncate_log_def take_map [symmetric] sorted_wrt_take)
  moreover obtain j where "filter (\<lambda>r. au_tenant_id r = tid) (take n (audit_entries d)) =
      take j (filter (\<lambda>r. au_tenant_id r = tid) (audit_entries d))" using filter_take by blast
  ultimately have "tenant_rows tid (truncate_log n d) = take j (tenant_rows tid d)"
    using assms(1) by (simp add: tenant_rows_wf truncate_log_def)
  then show ?thesis
    using assms(2) by (auto simp: clean_iff truncate_log_def audit_chain.linked_take dest: in_set_takeD)
qed

text \<open>So does dropping every post-quantum signature.\<close>

definition strip_mldsa :: "db \<Rightarrow> db" where
  "strip_mldsa d = d \<lparr> audit_entries := map (\<lambda>r. r \<lparr> au_sig_mldsa65 := [] \<rparr>) (audit_entries d) \<rparr>"

lemma strip_linked:
  "audit_chain.linked tid H h (map (\<lambda>r. r \<lparr> au_sig_mldsa65 := [] \<rparr>) rows) = audit_chain.linked tid H h rows"
  by (induction rows arbitrary: h) (simp_all add: row_text_def)

lemma strip_mldsa_clean:
  assumes "audit_wf d" "clean G tid k d"
  shows "clean G tid k (strip_mldsa d)"
proof -
  have "audit_wf (strip_mldsa d)" using assms(1) by (simp add: audit_wf_def strip_mldsa_def comp_def)
  then have rows: "tenant_rows tid (strip_mldsa d) = map (\<lambda>r. r \<lparr> au_sig_mldsa65 := [] \<rparr>) (tenant_rows tid d)"
    using assms(1) by (simp add: tenant_rows_wf strip_mldsa_def filter_map comp_def)
  have "signed G k tid (r \<lparr> au_sig_mldsa65 := [] \<rparr>)" if "signed G k tid r" for r
    using verify_without_mldsa [OF that [unfolded signed_def]]
    by (simp add: signed_def row_text_def row_signature_def)
  then show ?thesis
    using assms(2) unfolding clean_iff rows strip_linked
    by (auto simp: strip_mldsa_def readable_def)
qed

section \<open>Key rotation\<close>

text \<open>\<open>A\<close>'s signatures do not verify under \<open>B\<close>'s Ed25519 key.\<close>

definition foreign :: "'a sig_lib_scheme \<Rightarrow> AuditKeys \<Rightarrow> AuditKeys \<Rightarrow> bool" where
  "foreign G a b \<longleftrightarrow> (\<forall>m. \<not> ed_verify G (ed25519_public b) m (ed_sign G (ed25519_secret a) m))"

lemma foreign_not_verified:
  assumes "sig_lib_ok G" "foreign G a b"
  shows "\<not> verify G b m (sign G a m)"
  using assms by (auto simp: verify_def sign_def sig_lib_ok_def foreign_def)

lemma rotated_log_not_clean:
  assumes lib: "sig_lib_ok G" and wf: "audit_wf d" and up: "db_up d" "tenant_exists tid d"
    and rot: "rotate_audit_keys G now rh s1 s2 tid mid old d = (Ok new, d1)"
    and d2: "d2 = snd (entry G now' rh' tid mid' ev pl new d1)"
    and foreign: "foreign G old new" "foreign G new old"
  shows "\<not> clean G tid old d2 \<and> \<not> clean G tid new d2"
proof -
  define pl0 where "pl0 = rotation_payload (fst (fingerprints G (generate_audit_keys G s1 s2))) (fst (fingerprints G old))"
  have d1: "d1 = snd (entry G now rh tid mid ''key_rotation'' pl0 old d)"
    using rot by (auto simp: rotate_audit_keys_def Let_def pl0_def split: prod.splits res.splits)
  have wf1: "audit_wf d1" using wf by (simp add: d1 entry_wf)
  define r1 where "r1 = audit_row_of G old now rh (next_seq d) tid mid ''key_rotation'' pl0 (last_hash tid d)"
  define r2 where "r2 = audit_row_of G new now' rh' (next_seq d1) tid mid' ev pl (last_hash tid d1)"
  have rows: "tenant_rows tid d2 = tenant_rows tid d @ [r1, r2]"
    using up entry_tenant_rows [OF wf1, of tid G now' rh' tid mid' ev pl new]
      entry_tenant_rows [OF wf, of tid G now rh tid mid "''key_rotation''" pl0 old]
    by (simp add: d2 d1 r1_def r2_def)
  have "\<not> signed G new tid r1" "\<not> signed G old tid r2"
    using foreign_not_verified [OF lib foreign(1)] foreign_not_verified [OF lib foreign(2)]
    by (simp_all add: signed_def r1_def r2_def audit_row_of_text)
  then show ?thesis by (auto simp: clean_iff rows)
qed

section \<open>The offline verifier reads another file\<close>

lemma audit_db_path_not_gateway: "audit_db_path tid \<noteq> gateway_db_path"
  by (simp add: audit_db_path_def gateway_db_path_def)

lemma verify_tenant_gateway_only:
  "fst (verify_tenant G s1 s2 tid [gateway_db_path \<mapsto> d] fs) = Err (Inl AuditNoTable)"
  using audit_db_path_not_gateway [of tid] by (simp add: verify_tenant_def)

section \<open>Properties\<close>


definition demo_write :: "string \<Rightarrow> audit_write" where
  "demo_write ev = \<lparr> w_now = \<lparr> year = 2026, month = 1, day = 2, hour = 3, minute = 4, second = 5, nanos = 6 \<rparr>,
     w_report = None, w_tenant = ''t1'', w_machine = ''m1'', w_event = ev, w_payload = ''{}'' \<rparr>"

definition demo_log_db :: db where
  "demo_log_db = empty_db \<lparr> tenants := [\<lparr> te_id = ''t1'', te_name = ''n'', te_created_at = [],
     te_setup_password = [], te_setup_used = 0 \<rparr>] \<rparr>"

definition demo_log :: db where
  "demo_log = write_all demo_sig (demo_keys 1) [demo_write ''a'', demo_write ''b''] demo_log_db"

lemma demo_log_db_simps: "db_up demo_log_db" "audit_entries demo_log_db = []" "tenant_exists ''t1'' demo_log_db"
  by (simp_all add: demo_log_db_def empty_db_def tenant_exists_def)


lemma demo_log_wf_clean: "audit_wf demo_log \<and> clean demo_sig ''t1'' (demo_keys 1) demo_log"
  unfolding demo_log_def
  by (rule write_all_clean)
    (simp_all add: demo_sig_ok demo_keys_ok audit_wf_def clean_iff tenant_rows_def demo_log_db_simps)

text \<open>Two logs of a tenant that both verify, with as many entries and the same last hash, have the
  same signed text in every entry, or exhibit a collision of the hash function.\<close>
lemma clean_logs_agree:
  assumes "\<And>m. length (hash_text G m) = 64" "clean G tid k d" "clean G tid k' d'"
    and "length (tenant_rows tid d) = length (tenant_rows tid d')" "last_hash tid d = last_hash tid d'"
  shows "map (row_text tid) (tenant_rows tid d) = map (row_text tid) (tenant_rows tid d')
    \<or> (\<exists>m m'. m \<noteq> m' \<and> hash_text G m = hash_text G m')"
  by (rule clean_logs_same_tip [OF assms])

lemma clean_logs_agree_witness:
  "map (row_text ''t1'') (tenant_rows ''t1'' demo_log) = map (row_text ''t1'') (tenant_rows ''t1'' (strip_mldsa demo_log))
    \<or> (\<exists>m m'. m \<noteq> m' \<and> hash_text demo_sig m = hash_text demo_sig m')"
proof (rule clean_logs_agree [OF demo_hash_length])
  show "clean demo_sig ''t1'' (demo_keys 1) demo_log" using demo_log_wf_clean by blast
  then show c: "clean demo_sig ''t1'' (demo_keys 1) (strip_mldsa demo_log)"
    using demo_log_wf_clean strip_mldsa_clean by blast
  have wf: "audit_wf demo_log" using demo_log_wf_clean by blast
  have wf': "audit_wf (strip_mldsa demo_log)" using wf by (simp add: audit_wf_def strip_mldsa_def comp_def)
  show "length (tenant_rows ''t1'' demo_log) = length (tenant_rows ''t1'' (strip_mldsa demo_log))"
    by (simp add: tenant_rows_wf wf wf') (simp add: strip_mldsa_def filter_map comp_def)
  show "last_hash ''t1'' demo_log = last_hash ''t1'' (strip_mldsa demo_log)"
    by (simp add: last_hash_def tenant_rows_wf wf wf') (simp add: strip_mldsa_def filter_map comp_def last_map)
qed

text \<open>The verifier does not notice that the newest entries were deleted, nor that every ML-DSA-65
  signature was removed: a log that verifies still verifies after either.\<close>
lemma log_undetected_changes:
  assumes "audit_wf d" "clean G tid k d"
  shows "clean G tid k (truncate_log n d) \<and> clean G tid k (strip_mldsa d)"
  using truncated_log_clean [OF assms] strip_mldsa_clean [OF assms] by blast

lemma log_undetected_changes_witness:
  "clean demo_sig ''t1'' (demo_keys 1) (truncate_log 1 demo_log) \<and>
   clean demo_sig ''t1'' (demo_keys 1) (strip_mldsa demo_log)"
  by (rule log_undetected_changes) (use demo_log_wf_clean in blast)+

text \<open>Once the keys have been rotated and the new keys have signed an entry, the log verifies neither
  under the old keys nor under the new ones.\<close>
lemma rotation_breaks_verification:
  assumes "sig_lib_ok G" "audit_wf d" "db_up d" "tenant_exists tid d"
    and "rotate_audit_keys G now rh s1 s2 tid mid old d = (Ok new, d1)"
    and "d2 = snd (entry G now' rh' tid mid' ev pl new d1)"
    and "foreign G old new" "foreign G new old"
  shows "\<not> clean G tid old d2 \<and> \<not> clean G tid new d2"
  by (rule rotated_log_not_clean [OF assms])

lemma demo_foreign: "a \<noteq> b \<Longrightarrow> foreign demo_sig (demo_keys a) (demo_keys b)"
  by (simp add: foreign_def demo_sig_def demo_keys_def generate_audit_keys_def)

lemma rotate_Ok:
  assumes "db_up d" "tenant_exists tid d"
  shows "\<exists>d1. rotate_audit_keys G now rh s1 s2 tid mid old d = (Ok (generate_audit_keys G s1 s2), d1)"
  using assms by (simp add: rotate_audit_keys_def entry_def Let_def)

lemma rotation_breaks_verification_witness:
  "\<exists>d2. \<not> clean demo_sig ''t1'' (demo_keys 1) d2 \<and> \<not> clean demo_sig ''t1'' (demo_keys 2) d2"
proof -
  let ?t = "w_now (demo_write [])"
  obtain d1 where rot: "rotate_audit_keys demo_sig ?t None (replicate 32 2) (replicate 32 2) ''t1'' ''m1'' (demo_keys 1)
      demo_log_db = (Ok (demo_keys 2), d1)"
    unfolding demo_keys_def [of 2] using rotate_Ok [OF demo_log_db_simps(1,3)] by blast
  have wf: "audit_wf demo_log_db" by (simp add: audit_wf_def demo_log_db_simps)
  have "foreign demo_sig (demo_keys 1) (demo_keys 2)" "foreign demo_sig (demo_keys 2) (demo_keys 1)"
    by (rule demo_foreign, simp)+
  from rotation_breaks_verification [OF demo_sig_ok wf demo_log_db_simps(1,3) rot refl this]
  show ?thesis by blast
qed

text \<open>The offline verifier reads a database file per tenant which the gateway never writes: with the
  gateway's own database on disk it finds no table and fails, whatever the log holds.\<close>
lemma offline_verifier_finds_no_log:
  "fst (verify_tenant G s1 s2 tid [gateway_db_path \<mapsto> d] fs) = Err (Inl AuditNoTable)"
  by (rule verify_tenant_gateway_only)

section \<open>Two writers\<close>

text \<open>\<open>entry\<close> is two statements on one connection: it reads the newest hash, then inserts the row that
  links to it. Nothing holds other writers off in between.\<close>

definition insert_linked ::
    "'a sig_lib_scheme \<Rightarrow> string option \<Rightarrow> AuditKeys \<Rightarrow> audit_write \<Rightarrow> string \<Rightarrow> db \<Rightarrow> db" where
  "insert_linked G rh k w prev_hash d = d \<lparr> audit_entries := audit_entries d @
     [audit_row_of G k (w_now w) rh (next_seq d) (w_tenant w) (w_machine w) (w_event w) (w_payload w) prev_hash] \<rparr>"

lemma entry_two_statements:
  assumes "db_up d" "tenant_exists (w_tenant w) d"
  shows "snd (entry G (w_now w) rh (w_tenant w) (w_machine w) (w_event w) (w_payload w) k d) =
    insert_linked G rh k w (last_hash (w_tenant w) d) d"
  using assms by (simp add: entry_def insert_linked_def)

lemma insert_linked_wf: "audit_wf d \<Longrightarrow> audit_wf (insert_linked G rh k w h d)"
  by (simp add: insert_linked_def audit_wf_append)

lemma insert_linked_rows:
  assumes "audit_wf d"
  shows "tenant_rows (w_tenant w) (insert_linked G rh k w h d) = tenant_rows (w_tenant w) d @
    [audit_row_of G k (w_now w) rh (next_seq d) (w_tenant w) (w_machine w) (w_event w) (w_payload w) h]"
  using assms by (simp add: tenant_rows_wf insert_linked_wf) (simp add: insert_linked_def)

text \<open>Two requests that write to one tenant's log at the same time break it: when both read the newest
  hash before either inserts, the log of two genuine entries no longer verifies under the keys that
  signed it, although one after the other they leave it intact.\<close>
lemma concurrent_writes_break_log:
  assumes "audit_wf d" "clean G tid k d" "sig_lib_ok G" "keys_ok G k" "w_tenant w1 = tid" "w_tenant w2 = tid"
    and "tenant_exists tid d"
    and "hash_text G (message (to_rfc3339 (w_now w1)) tid (w_machine w1) (w_event w1) (w_payload w1) (last_hash tid d))
      \<noteq> last_hash tid d"
  shows "clean G tid k (write_all G k [w1 \<lparr> w_report := rh \<rparr>, w2 \<lparr> w_report := rh \<rparr>] d) \<and>
    \<not> clean G tid k (insert_linked G rh k w2 (last_hash tid d) (insert_linked G rh k w1 (last_hash tid d) d))"
proof
  show "clean G tid k (write_all G k [w1 \<lparr> w_report := rh \<rparr>, w2 \<lparr> w_report := rh \<rparr>] d)"
    using write_all_clean assms(1-4) by blast
  let ?d1 = "insert_linked G rh k w1 (last_hash tid d) d"
  have rows: "tenant_rows tid (insert_linked G rh k w2 (last_hash tid d) ?d1) = (tenant_rows tid d @
      [audit_row_of G k (w_now w1) rh (next_seq d) tid (w_machine w1) (w_event w1) (w_payload w1) (last_hash tid d)]) @
      [audit_row_of G k (w_now w2) rh (next_seq ?d1) tid (w_machine w2) (w_event w2) (w_payload w2) (last_hash tid d)]"
    using insert_linked_rows [OF insert_linked_wf [OF assms(1)], of w2 G rh k "last_hash tid d" G rh k w1 "last_hash tid d"]
      insert_linked_rows [OF assms(1), of w1 G rh k "last_hash tid d"] assms(5,6) by simp
  have "\<not> audit_chain.linked tid (hash_text G) ZERO_HASH (tenant_rows tid (insert_linked G rh k w2 (last_hash tid d) ?d1))"
    unfolding rows audit_chain.linked_snoc audit_chain.tip_snoc
    using assms(8) by (simp add: audit_row_of_text)
  then show "\<not> clean G tid k (insert_linked G rh k w2 (last_hash tid d) ?d1)" by (simp add: clean_iff)
qed

lemma concurrent_writes_break_log_witness:
  "\<not> clean demo_sig ''t1'' (demo_keys 1)
     (insert_linked demo_sig None (demo_keys 1) (demo_write ''b'') (last_hash ''t1'' demo_log_db)
       (insert_linked demo_sig None (demo_keys 1) (demo_write ''a'') (last_hash ''t1'' demo_log_db) demo_log_db))"
proof -
  have wf: "audit_wf demo_log_db" by (simp add: audit_wf_def demo_log_db_simps)
  have cl: "clean demo_sig ''t1'' (demo_keys 1) demo_log_db"
    by (simp add: clean_iff tenant_rows_def demo_log_db_simps)
  have t: "w_tenant (demo_write ''a'') = ''t1''" "w_tenant (demo_write ''b'') = ''t1''" by (simp_all add: demo_write_def)
  have z: "last_hash ''t1'' demo_log_db = ZERO_HASH" by (simp add: last_hash_def tenant_rows_def demo_log_db_simps)
  let ?m = "message (to_rfc3339 (w_now (demo_write ''a''))) ''t1'' (w_machine (demo_write ''a'')) (w_event (demo_write ''a''))
      (w_payload (demo_write ''a'')) (last_hash ''t1'' demo_log_db)"
  have "dec 4 2026 = ''2026''" by code_simp
  then obtain r where "?m = CHR ''2'' # r" by (simp add: message_def to_rfc3339_def date_text_def demo_write_def)
  moreover have "byte_of_char (CHR ''2'') = 50" by code_simp
  moreover have "demo_hex_digit (50 div 16) = CHR ''3''" by code_simp
  ultimately have "hd (hash_text demo_sig ?m) = CHR ''3''"
    by (simp add: hash_text_def demo_sig_def demo_digest_def demo_hex_def as_bytes_def)
  moreover have "hd ZERO_HASH = CHR ''0''" by (simp add: ZERO_HASH_def)
  ultimately have "hash_text demo_sig ?m \<noteq> last_hash ''t1'' demo_log_db" unfolding z by auto
  from concurrent_writes_break_log [OF wf cl demo_sig_ok demo_keys_ok t demo_log_db_simps(3) this]
  show ?thesis by blast
qed

end
