(* ===== verification/Vault.thy ===== *)
theory Vault
  imports HybridSig
begin

text \<open>
  Encryption at rest: the credential vault (src/gateway/src/crypto/vault.rs) and the sealing of keys to
  a measurement (src/gateway/src/tee/sealing.rs and the pass-through of tee/no_sev.rs). HKDF-SHA256 and
  AES-256-GCM are crates, the fields of \<open>aead_lib\<close>; random nonces are arguments.
\<close>

section \<open>The crates\<close>

record aead_lib =
  hkdf_sha256 :: "bytes option \<Rightarrow> bytes \<Rightarrow> bytes \<Rightarrow> nat \<Rightarrow> bytes"
  gcm_encrypt :: "bytes \<Rightarrow> bytes \<Rightarrow> bytes \<Rightarrow> bytes option"
  gcm_decrypt :: "bytes \<Rightarrow> bytes \<Rightarrow> bytes \<Rightarrow> bytes option"

text \<open>The documented behaviour of the two: HKDF yields as many bytes as asked for, decryption inverts
  encryption under the same key and nonce, and a ciphertext does not authenticate under another key.\<close>

definition aead_ok :: "aead_lib \<Rightarrow> bool" where
  "aead_ok A \<longleftrightarrow>
     (\<forall>salt ikm info n. length (hkdf_sha256 A salt ikm info n) = n) \<and>
     (\<forall>k n p. length k = 32 \<longrightarrow> length n = 12 \<longrightarrow>
        (\<exists>c. gcm_encrypt A k n p = Some c \<and> gcm_decrypt A k n c = Some p)) \<and>
     (\<forall>k k' n p c. gcm_encrypt A k n p = Some c \<longrightarrow> k \<noteq> k' \<longrightarrow> gcm_decrypt A k' n c = None)"

section \<open>The vault\<close>

datatype vault_error = BadNonce nat | EncryptFailed | DecryptFailed | SealedTooShort nat

definition VAULT_INFO :: string where
  "VAULT_INFO = ''stronghold-credential-vault-v1''"

definition NONCE_LEN :: nat where "NONCE_LEN = 12"
definition KEY_LEN :: nat where "KEY_LEN = 32"

definition derive_tenant_key :: "aead_lib \<Rightarrow> string \<Rightarrow> AuditKeys \<Rightarrow> bytes" where
  "derive_tenant_key A tenant_id keys =
     hkdf_sha256 A (Some (as_bytes tenant_id)) (ed25519_secret keys) (as_bytes VAULT_INFO) KEY_LEN"

definition encrypt :: "aead_lib \<Rightarrow> bytes \<Rightarrow> bytes \<Rightarrow> bytes \<Rightarrow> (bytes \<times> bytes, vault_error) res" where
  "encrypt A nonce plaintext tenant_key =
     bind_res (ok_or EncryptFailed (gcm_encrypt A tenant_key nonce plaintext)) (\<lambda>c. Ok (c, nonce))"

definition decrypt :: "aead_lib \<Rightarrow> bytes \<Rightarrow> bytes \<Rightarrow> bytes \<Rightarrow> (bytes, vault_error) res" where
  "decrypt A ciphertext nonce tenant_key =
    (if length nonce \<noteq> NONCE_LEN then Err (BadNonce (length nonce))
     else ok_or DecryptFailed (gcm_decrypt A tenant_key nonce ciphertext))"

section \<open>Sealing\<close>

definition SEAL_INFO :: string where
  "SEAL_INFO = ''stronghold-seal-keys-v1''"

definition derive_sealing_key :: "aead_lib \<Rightarrow> string \<Rightarrow> bytes" where
  "derive_sealing_key A measurement = hkdf_sha256 A None (as_bytes measurement) (as_bytes SEAL_INFO) KEY_LEN"

definition seal_with_key :: "aead_lib \<Rightarrow> bytes \<Rightarrow> bytes \<Rightarrow> bytes \<Rightarrow> (bytes, vault_error) res" where
  "seal_with_key A nonce key plaintext =
     bind_res (ok_or EncryptFailed (gcm_encrypt A key nonce plaintext)) (\<lambda>c. Ok (nonce @ c))"

definition unseal_with_key :: "aead_lib \<Rightarrow> bytes \<Rightarrow> bytes \<Rightarrow> (bytes, vault_error) res" where
  "unseal_with_key A key sealed =
    (if length sealed < NONCE_LEN then Err (SealedTooShort (length sealed))
     else ok_or DecryptFailed (gcm_decrypt A key (take NONCE_LEN sealed) (drop NONCE_LEN sealed)))"

definition seal_with_measurement :: "aead_lib \<Rightarrow> bytes \<Rightarrow> string \<Rightarrow> bytes \<Rightarrow> (bytes, vault_error) res" where
  "seal_with_measurement A nonce measurement plaintext =
     seal_with_key A nonce (derive_sealing_key A measurement) plaintext"

definition unseal_with_measurement :: "aead_lib \<Rightarrow> string \<Rightarrow> bytes \<Rightarrow> (bytes, vault_error) res" where
  "unseal_with_measurement A measurement sealed =
     unseal_with_key A (derive_sealing_key A measurement) sealed"

text \<open>Without SEV-SNP nothing is sealed.\<close>

definition seal_keys_no_sev :: "bytes \<Rightarrow> (bytes, vault_error) res" where
  "seal_keys_no_sev keys = Ok keys"

definition unseal_keys_no_sev :: "bytes \<Rightarrow> (bytes, vault_error) res" where
  "unseal_keys_no_sev sealed = Ok sealed"

section \<open>Round trips\<close>

lemma aead_roundtrip:
  assumes "aead_ok A" "length k = 32" "length n = 12"
  shows "\<exists>c. gcm_encrypt A k n p = Some c \<and> gcm_decrypt A k n c = Some p"
  using assms by (simp add: aead_ok_def)

lemma aead_wrong_key:
  assumes "aead_ok A" "gcm_encrypt A k n p = Some c" "k \<noteq> k'"
  shows "gcm_decrypt A k' n c = None"
  using assms unfolding aead_ok_def by blast

lemma length_derived [simp]:
  "aead_ok A \<Longrightarrow> length (derive_tenant_key A tid k) = 32"
  "aead_ok A \<Longrightarrow> length (derive_sealing_key A m) = 32"
  by (simp_all add: aead_ok_def derive_tenant_key_def derive_sealing_key_def KEY_LEN_def)

lemma decrypt_encrypt:
  assumes "aead_ok A" "length nonce = 12" "length k = 32"
  shows "\<exists>c. encrypt A nonce p k = Ok (c, nonce) \<and> decrypt A c nonce k = Ok p"
  using aead_roundtrip [OF assms(1,3,2), of p] assms(2)
  by (auto simp: encrypt_def decrypt_def NONCE_LEN_def)

lemma decrypt_wrong_key:
  assumes "aead_ok A" "encrypt A nonce p k = Ok (c, n)" "k \<noteq> k'" "length nonce = 12"
  shows "decrypt A c n k' = Err DecryptFailed"
proof -
  have "gcm_encrypt A k nonce p = Some c" "n = nonce"
    using assms(2) by (auto simp: encrypt_def bind_simps)
  then show ?thesis using aead_wrong_key [OF assms(1) _ assms(3)] assms(4)
    by (simp add: decrypt_def NONCE_LEN_def)
qed

lemma unseal_seal:
  assumes "aead_ok A" "length nonce = 12"
  shows "\<exists>s. seal_with_measurement A nonce m p = Ok s \<and>
    unseal_with_measurement A m' s =
      (if derive_sealing_key A m' = derive_sealing_key A m then Ok p else Err DecryptFailed)"
proof -
  obtain c where c: "gcm_encrypt A (derive_sealing_key A m) nonce p = Some c"
    "gcm_decrypt A (derive_sealing_key A m) nonce c = Some p"
    using aead_roundtrip [OF assms(1) _ assms(2)] assms(1) by force
  then have "seal_with_measurement A nonce m p = Ok (nonce @ c)"
    by (simp add: seal_with_measurement_def seal_with_key_def)
  moreover have "unseal_with_measurement A m' (nonce @ c) =
      (if derive_sealing_key A m' = derive_sealing_key A m then Ok p else Err DecryptFailed)"
    using c(2) aead_wrong_key [OF assms(1) c(1), of "derive_sealing_key A m'"] assms(2)
    by (auto simp: unseal_with_measurement_def unseal_with_key_def NONCE_LEN_def)
  ultimately show ?thesis by blast
qed

section \<open>Properties\<close>

text \<open>A credential encrypted under a tenant's key is decrypted under the same tenant's key, and under
  no key derived for another tenant or from other audit keys: the vault is lost when those rotate.\<close>
lemma vault_key_bound:
  assumes "aead_ok A" "length nonce = 12"
  shows "\<exists>c. encrypt A nonce p (derive_tenant_key A tid k) = Ok (c, nonce) \<and>
    decrypt A c nonce (derive_tenant_key A tid' k') =
      (if derive_tenant_key A tid' k' = derive_tenant_key A tid k then Ok p else Err DecryptFailed)"
proof -
  have len: "length (derive_tenant_key A tid k) = 32" using assms(1) by simp
  obtain c where c: "encrypt A nonce p (derive_tenant_key A tid k) = Ok (c, nonce)"
    "decrypt A c nonce (derive_tenant_key A tid k) = Ok p"
    using decrypt_encrypt [OF assms len] by blast
  have "decrypt A c nonce (derive_tenant_key A tid' k') = Err DecryptFailed"
    if "derive_tenant_key A tid' k' \<noteq> derive_tenant_key A tid k"
    using decrypt_wrong_key [OF assms(1) c(1) _ assms(2)] that by metis
  then show ?thesis using c by auto
qed

definition demo_aead :: aead_lib where
  "demo_aead = \<lparr> hkdf_sha256 = (\<lambda>salt ikm info n. take n (ikm @ replicate n 0)),
     gcm_encrypt = (\<lambda>k n p. if length k = 32 then Some (k @ p) else None),
     gcm_decrypt = (\<lambda>k n c. if length k = 32 \<and> take 32 c = k then Some (drop 32 c) else None) \<rparr>"

lemma demo_aead_ok: "aead_ok demo_aead"
  unfolding aead_ok_def
proof (intro conjI allI impI)
  fix k k' n p c
  assume "gcm_encrypt demo_aead k n p = Some c" "k \<noteq> k'"
  then show "gcm_decrypt demo_aead k' n c = None"
    by (auto simp: demo_aead_def split: if_splits)
qed (simp_all add: demo_aead_def)

lemma vault_key_bound_witness:
  "\<exists>c. encrypt demo_aead (replicate 12 0) [1, 2] (derive_tenant_key demo_aead ''t1'' (demo_keys 1)) = Ok (c, replicate 12 0) \<and>
    decrypt demo_aead c (replicate 12 0) (derive_tenant_key demo_aead ''t1'' (demo_keys 2)) = Err DecryptFailed"
proof -
  have "derive_tenant_key demo_aead ''t1'' (demo_keys 2) \<noteq> derive_tenant_key demo_aead ''t1'' (demo_keys 1)"
    by (simp add: derive_tenant_key_def demo_aead_def demo_keys_def generate_audit_keys_def KEY_LEN_def)
  then show ?thesis
    using vault_key_bound [OF demo_aead_ok, of "replicate 12 0" "[1, 2]" "''t1''" "demo_keys 1" "''t1''" "demo_keys 2"]
    by simp
qed

text \<open>Keys sealed to a measurement are unsealed under that measurement and under no measurement that
  derives another key.\<close>
lemma sealing_bound_to_measurement:
  assumes "aead_ok A" "length nonce = 12"
  shows "\<exists>s. seal_with_measurement A nonce m p = Ok s \<and>
    unseal_with_measurement A m' s =
      (if derive_sealing_key A m' = derive_sealing_key A m then Ok p else Err DecryptFailed)"
  by (rule unseal_seal [OF assms])

lemma sealing_bound_to_measurement_witness:
  "\<exists>s. seal_with_measurement demo_aead (replicate 12 0) ''m'' [5] = Ok s \<and>
    unseal_with_measurement demo_aead ''n'' s = Err DecryptFailed"
proof -
  have "derive_sealing_key demo_aead ''n'' \<noteq> derive_sealing_key demo_aead ''m''" by code_simp
  then show ?thesis
    using sealing_bound_to_measurement [OF demo_aead_ok, of "replicate 12 0" "''m''" "[5]" "''n''"] by simp
qed

end
