(* ===== verification/Cluster.thy ===== *)
theory Cluster
  imports Tenants Vault
begin

text \<open>
  The scheduler: src/gateway/src/machines/scheduler.rs without the PTY pumps. The k3s cluster is a list
  of pods and of workspace claims in the one namespace all tenants share; \<open>kube_up\<close> tells whether a
  client connects and the API server answers (a missing object is its answer 404, not a failure).
  ULIDs and environment variables are arguments.
\<close>

section \<open>The cluster\<close>

record pod =
  po_name :: string
  po_app :: string
  po_tenant :: string
  po_image :: string
  po_cpu_millis :: "32 word"
  po_memory_gb :: "32 word"
  po_env :: "(string \<times> string) list"
  po_work_claim :: "string option"

record cluster =
  kube_up :: bool
  pods :: "pod list"
  pvcs :: "(string \<times> string) list"

datatype sched_error = SchedQuota quota_error | QuotaExceeded | KubeError

record ScheduledMachine =
  sm_id :: string
  sm_worker :: string
  sm_sev_snp_attested :: bool

record ComputeRequest =
  cq_cpu :: "32 word option"
  cq_memory_gb :: "32 word option"
  cq_dedicated :: "bool option"
  cq_gpu :: "bool option"

record OrderRequest =
  or_image :: string
  or_ttl_secs :: "64 word"
  or_reason :: string
  or_compute :: ComputeRequest
  or_ephemeral_volumes :: "string list"

section \<open>Names\<close>

text \<open>\<open>str::to_lowercase\<close> followed by the character-wise replacement: an ASCII character is lowered and
  kept when it is a letter or a digit; of the others, the Kelvin sign lowers to \<open>k\<close>, the dotted capital I
  to \<open>i\<close> and a combining dot, and every other non-ASCII character lowers to one non-ASCII character.\<close>

definition sanitize_char :: "string \<Rightarrow> string" where
  "sanitize_char ch =
    (if length ch = 1 \<and> ascii_char (hd ch) then
       (if ascii_alnum (hd ch) then [lower_char (hd ch)] else ''-'')
     else if ch = [CHR 0xE2, CHR 0x84, CHR 0xAA] then ''k''
     else if ch = [CHR 0xC4, CHR 0xB0] then ''i-''
     else ''-'')"

definition trim_dashes :: "string \<Rightarrow> string" where
  "trim_dashes s = rev (dropWhile (\<lambda>c. c = CHR ''-'') (rev (dropWhile (\<lambda>c. c = CHR ''-'') s)))"

definition pvc_name_for_tenant :: "string \<Rightarrow> string" where
  "pvc_name_for_tenant tenant_id =
    (let sanitized = concat (map sanitize_char (utf8_chars tenant_id));
         trimmed = trim_dashes sanitized;
         name = (if trimmed = [] then ''tenant'' else trimmed)
     in ''work-'' @ name)"

section \<open>Operations\<close>

definition ensure_pvc :: "string option \<Rightarrow> string \<Rightarrow> cluster \<Rightarrow> (unit, sched_error) res \<times> cluster" where
  "ensure_pvc env_storage_class pvc_name k =
    (if \<not> kube_up k then (Err KubeError, k)
     else if list_ex (\<lambda>c. fst c = pvc_name) (pvcs k) then (Ok (), k)
     else let storage_class = (case env_storage_class of Some s \<Rightarrow> s | None \<Rightarrow> ''local-path'')
          in (Ok (), k \<lparr> pvcs := pvcs k @ [(pvc_name, storage_class)] \<rparr>))"

definition load_credential_env_vars :: "aead_lib \<Rightarrow> AuditKeys \<Rightarrow> string \<Rightarrow> db \<Rightarrow> (string \<times> string) list" where
  "load_credential_env_vars A keys tenant_id d =
    (if \<not> db_up d then []
     else let tenant_key = derive_tenant_key A tenant_id keys in
       concat (map (\<lambda>r. case ac_env_var r of
           None \<Rightarrow> []
         | Some env_var \<Rightarrow>
            (case decrypt A (ac_encrypted_value r) (ac_nonce r) tenant_key of
               Ok p \<Rightarrow> [(env_var, from_utf8_lossy p)]
             | _ \<Rightarrow> []))
         (filter (\<lambda>r. ac_tenant_id r = tenant_id) (agent_credentials d))))"

definition create_pod :: "pod \<Rightarrow> cluster \<Rightarrow> (unit, sched_error) res \<times> cluster" where
  "create_pod p k =
    (if \<not> kube_up k \<or> list_ex (\<lambda>q. po_name q = po_name p) (pods k) then (Err KubeError, k)
     else (Ok (), k \<lparr> pods := pods k @ [p] \<rparr>))"

definition requested_cpu :: "OrderRequest \<Rightarrow> 32 word" where
  "requested_cpu req = (case cq_cpu (or_compute req) of Some c \<Rightarrow> c | None \<Rightarrow> 4)"

definition requested_memory_gb :: "OrderRequest \<Rightarrow> 32 word" where
  "requested_memory_gb req = (case cq_memory_gb (or_compute req) of Some m \<Rightarrow> m | None \<Rightarrow> 8)"

definition schedule ::
    "aead_lib \<Rightarrow> AuditKeys \<Rightarrow> string option \<Rightarrow> string \<Rightarrow> string \<Rightarrow> OrderRequest \<Rightarrow> db \<Rightarrow> cluster \<Rightarrow>
     (ScheduledMachine, sched_error) res \<times> cluster" where
  "schedule A keys env_storage_class ulid tenant_id req d k =
    (case check_capacity tenant_id (requested_cpu req) (requested_memory_gb req) d of
       Err e \<Rightarrow> (Err (SchedQuota e), k)
     | Panic \<Rightarrow> (Panic, k)
     | Ok can_schedule \<Rightarrow>
        if \<not> can_schedule then (Err QuotaExceeded, k)
        else let pod_name = ''agent-'' @ lower_ascii ulid; work_pvc = pvc_name_for_tenant tenant_id in
          if \<not> kube_up k then (Err KubeError, k)
          else (case ensure_pvc env_storage_class work_pvc k of
              (Err e, k') \<Rightarrow> (Err e, k')
            | (Panic, k') \<Rightarrow> (Panic, k')
            | (Ok _, k') \<Rightarrow>
               let p = \<lparr> po_name = pod_name, po_app = ''stronghold-agent'', po_tenant = tenant_id,
                         po_image = or_image req, po_cpu_millis = requested_cpu req * 1000,
                         po_memory_gb = requested_memory_gb req,
                         po_env = load_credential_env_vars A keys tenant_id d,
                         po_work_claim = Some work_pvc \<rparr>
               in (case create_pod p k' of
                     (Ok _, k'') \<Rightarrow>
                       (Ok \<lparr> sm_id = pod_name, sm_worker = ''k3s-default'', sm_sev_snp_attested = False \<rparr>, k'')
                   | (Err e, k'') \<Rightarrow> (Err e, k'')
                   | (Panic, k'') \<Rightarrow> (Panic, k''))))"

definition schedule_workflow_pod ::
    "string \<Rightarrow> string \<Rightarrow> string \<Rightarrow> cluster \<Rightarrow> (ScheduledMachine, sched_error) res \<times> cluster" where
  "schedule_workflow_pod ulid tenant_id img k =
    (let pod_name = ''wf-'' @ lower_ascii ulid;
         p = \<lparr> po_name = pod_name, po_app = ''stronghold-workflow'', po_tenant = tenant_id, po_image = img,
               po_cpu_millis = 1000, po_memory_gb = 2, po_env = [], po_work_claim = None \<rparr>
     in (case create_pod p k of
           (Ok _, k') \<Rightarrow> (Ok \<lparr> sm_id = pod_name, sm_worker = ''k3s-default'', sm_sev_snp_attested = False \<rparr>, k')
         | (Err e, k') \<Rightarrow> (Err e, k')
         | (Panic, k') \<Rightarrow> (Panic, k')))"

text \<open>Deleting a pod that is not there is the 404 that both kills turn into success.\<close>

definition kill_pod :: "string \<Rightarrow> cluster \<Rightarrow> (unit, sched_error) res \<times> cluster" where
  "kill_pod machine_id k =
    (if \<not> kube_up k then (Err KubeError, k)
     else (Ok (), k \<lparr> pods := filter (\<lambda>p. po_name p \<noteq> machine_id) (pods k) \<rparr>))"

definition kill_pod_force :: "string \<Rightarrow> cluster \<Rightarrow> (unit, sched_error) res \<times> cluster" where
  "kill_pod_force machine_id k = kill_pod machine_id k"

definition list_pods :: "cluster \<Rightarrow> (string list, sched_error) res" where
  "list_pods k = (if \<not> kube_up k then Err KubeError else Ok (map po_name (pods k)))"

section \<open>Workspace names\<close>

definition name_char :: "char \<Rightarrow> bool" where
  "name_char c \<longleftrightarrow> ascii_lower c \<or> ascii_digit c \<or> c = CHR ''-''"

lemma lower_char_name:
  assumes "ascii_alnum c"
  shows "ascii_lower (lower_char c) \<or> ascii_digit (lower_char c)"
proof (cases "ascii_upper c")
  case True
  then have "65 \<le> (of_char c :: nat)" "(of_char c :: nat) \<le> 90"
    by (simp_all add: ascii_upper_def less_eq_char_def)
  then have "(of_char (lower_char c) :: nat) = of_char c + 32"
    using True by (simp add: lower_char_def of_char_of)
  then show ?thesis
    using \<open>65 \<le> of_char c\<close> \<open>of_char c \<le> 90\<close> by (simp add: ascii_lower_def less_eq_char_def)
next
  case False
  then show ?thesis using assms by (auto simp: lower_char_def ascii_alnum_def)
qed

lemma sanitize_char_name: "c \<in> set (sanitize_char ch) \<Longrightarrow> name_char c"
  using lower_char_name
  by (auto simp: sanitize_char_def name_char_def ascii_lower_def less_eq_char_def split: if_splits)

lemma trim_dashes_subset: "set (trim_dashes s) \<subseteq> set s"
  unfolding trim_dashes_def by (auto dest!: set_dropWhileD)

lemma trim_dashes_last: "trim_dashes s \<noteq> [] \<Longrightarrow> last (trim_dashes s) \<noteq> CHR ''-''"
  using hd_dropWhile [of "\<lambda>c. c = CHR ''-''" "rev (dropWhile (\<lambda>c. c = CHR ''-'') s)"]
  by (simp add: trim_dashes_def last_rev)

lemma trim_dashes_id: "s = [] \<or> (hd s \<noteq> CHR ''-'' \<and> last s \<noteq> CHR ''-'') \<Longrightarrow> trim_dashes s = s"
  by (auto simp: trim_dashes_def dropWhile_eq_self_iff [THEN iffD2] hd_rev)

lemma utf8_chars_ascii: "\<forall>c\<in>set s. ascii_char c \<Longrightarrow> utf8_chars s = map (\<lambda>c. [c]) s"
proof (induction s)
  case (Cons c s)
  then have IH: "utf8_chars s = map (\<lambda>c. [c]) s" by simp
  have "\<not> cont_char x" if "x \<in> set s" for x
    using Cons.prems that by (auto simp: ascii_char_def cont_char_def)
  then show ?case unfolding utf8_chars.simps IH by (cases s) auto
qed simp

lemma pvc_name_chars:
  "\<exists>n. pvc_name_for_tenant tid = ''work-'' @ n \<and> n \<noteq> [] \<and> last n \<noteq> CHR ''-'' \<and> (\<forall>c\<in>set n. name_char c)"
proof -
  define s where "s = concat (map sanitize_char (utf8_chars tid))"
  have s: "name_char c" if "c \<in> set s" for c
    using that sanitize_char_name by (auto simp: s_def)
  define n where "n = (if trim_dashes s = [] then ''tenant'' else trim_dashes s)"
  have "pvc_name_for_tenant tid = ''work-'' @ n"
    by (simp add: pvc_name_for_tenant_def Let_def s_def n_def)
  moreover have "n \<noteq> []" "last n \<noteq> CHR ''-''"
    using trim_dashes_last [of s] by (auto simp: n_def)
  moreover have "\<forall>c\<in>set n. name_char c"
    using s trim_dashes_subset [of s]
    by (auto simp: n_def name_char_def ascii_lower_def less_eq_char_def)
  ultimately show ?thesis by blast
qed

text \<open>Names made of lower-case letters, digits and inner dashes are kept, so distinct tenants of that
  form have distinct workspaces; every other tenant shares its workspace with one of that form.\<close>

definition plain_name :: "string \<Rightarrow> bool" where
  "plain_name s \<longleftrightarrow> s \<noteq> [] \<and> hd s \<noteq> CHR ''-'' \<and> last s \<noteq> CHR ''-'' \<and> (\<forall>c\<in>set s. name_char c)"

lemma sanitize_char_plain:
  assumes "name_char c"
  shows "sanitize_char [c] = [c]"
proof -
  consider "ascii_lower c" | "ascii_digit c" | "c = CHR ''-''" using assms by (auto simp: name_char_def)
  then show ?thesis
  proof cases
    case 1
    then have "ascii_char c" "\<not> ascii_upper c"
      by (auto simp: ascii_lower_def ascii_char_def ascii_upper_def less_eq_char_def)
    then show ?thesis using 1 by (simp add: sanitize_char_def ascii_alnum_def lower_char_def)
  next
    case 2
    then have "ascii_char c" "\<not> ascii_upper c"
      by (auto simp: ascii_digit_def ascii_char_def ascii_upper_def less_eq_char_def)
    then show ?thesis using 2 by (simp add: sanitize_char_def ascii_alnum_def lower_char_def)
  next
    case 3
    then show ?thesis
      by (simp add: sanitize_char_def ascii_alnum_def ascii_char_def ascii_lower_def ascii_upper_def ascii_digit_def
          less_eq_char_def)
  qed
qed

lemma name_char_ascii: "name_char c \<Longrightarrow> ascii_char c"
  by (auto simp: name_char_def ascii_char_def ascii_lower_def ascii_digit_def less_eq_char_def)

lemma pvc_name_plain:
  assumes "plain_name tid"
  shows "pvc_name_for_tenant tid = ''work-'' @ tid"
proof -
  have "utf8_chars tid = map (\<lambda>c. [c]) tid"
    using assms by (intro utf8_chars_ascii) (auto simp: plain_name_def name_char_ascii)
  moreover have "concat (map sanitize_char (map (\<lambda>c. [c]) cs)) = cs" if "\<forall>c\<in>set cs. name_char c" for cs
    using that by (induction cs) (auto simp: sanitize_char_plain)
  then have "concat (map sanitize_char (map (\<lambda>c. [c]) tid)) = tid"
    using assms unfolding plain_name_def by blast
  moreover have "trim_dashes tid = tid" using assms by (intro trim_dashes_id) (simp add: plain_name_def)
  ultimately show ?thesis
    using assms by (simp add: pvc_name_for_tenant_def Let_def plain_name_def del: map_map)
qed

section \<open>Killing pods\<close>

lemma kill_pod_pods:
  assumes "kill_pod m k = (Ok (), k')"
  shows "pods k' = filter (\<lambda>p. po_name p \<noteq> m) (pods k)" "kube_up k'" "pvcs k' = pvcs k"
  using assms by (auto simp: kill_pod_def split: if_splits)

lemma schedule_Ok:
  assumes "schedule A keys sc ulid tid req d k = (Ok sm, k')"
  shows "check_capacity tid (requested_cpu req) (requested_memory_gb req) d = Ok True"
    and "sm_id sm = ''agent-'' @ lower_ascii ulid"
    and "\<exists>p. pods k' = pods k @ [p] \<and> po_name p = sm_id sm \<and> po_tenant p = tid \<and>
           po_work_claim p = Some (pvc_name_for_tenant tid) \<and> po_image p = or_image req \<and>
           po_env p = load_credential_env_vars A keys tid d"
    and "pvc_name_for_tenant tid \<in> fst ` set (pvcs k')"
proof -
  have ensure: "pvc_name_for_tenant tid \<in> fst ` set (pvcs c)"
    if "ensure_pvc sc (pvc_name_for_tenant tid) k = (r, c)" "r = Ok ()" for r c
    using that by (force simp: ensure_pvc_def list_ex_iff Let_def image_iff split: if_splits)
  have same: "pods c = pods k" if "ensure_pvc sc (pvc_name_for_tenant tid) k = (r, c)" for r c
    using that by (auto simp: ensure_pvc_def Let_def split: if_splits)
  show "check_capacity tid (requested_cpu req) (requested_memory_gb req) d = Ok True"
    "sm_id sm = ''agent-'' @ lower_ascii ulid"
    "\<exists>p. pods k' = pods k @ [p] \<and> po_name p = sm_id sm \<and> po_tenant p = tid \<and>
           po_work_claim p = Some (pvc_name_for_tenant tid) \<and> po_image p = or_image req \<and>
           po_env p = load_credential_env_vars A keys tid d"
    "pvc_name_for_tenant tid \<in> fst ` set (pvcs k')"
    using assms ensure same
    by (auto simp: schedule_def create_pod_def Let_def split: res.splits if_splits prod.splits)
qed

section \<open>Properties\<close>

text \<open>A tenant's workspace name is a valid Kubernetes name (letters, digits and dashes, not ending in a
  dash), and for a tenant id that is already of that form it is that id. It is not injective in general:
  the tenants a_b and a-b mount the same workspace.\<close>
lemma workspace_names:
  "(\<exists>n. pvc_name_for_tenant tid = ''work-'' @ n \<and> n \<noteq> [] \<and> last n \<noteq> CHR ''-'' \<and> (\<forall>c\<in>set n. name_char c)) \<and>
   (plain_name tid \<longrightarrow> pvc_name_for_tenant tid = ''work-'' @ tid) \<and>
   pvc_name_for_tenant ''a_b'' = pvc_name_for_tenant ''a-b''"
proof -
  have "pvc_name_for_tenant ''a_b'' = pvc_name_for_tenant ''a-b''" by code_simp
  then show ?thesis using pvc_name_chars pvc_name_plain by blast
qed

lemma workspace_names_witness: "pvc_name_for_tenant ''t-9'' = ''work-t-9''"
proof -
  have "plain_name ''t-9''" by code_simp
  then show ?thesis using workspace_names [of "''t-9''"] by simp
qed

end
