(* ===== verification/Sessions.thy ===== *)
theory Sessions
  imports Cluster AuditLog Challenges
begin

text \<open>
  Sessions: src/gateway/src/sessions/manager.rs. The gateway's state is the database and the cluster.
  What the file takes from crates, from SQLite's date functions and from random generators is
  \<open>session_env\<close> or an argument; JSON payloads are association lists that \<open>json_text\<close> serialises.
  A handler that waits is split where it waits: the polls it makes are the list of the databases it sees.
\<close>

section \<open>State and environment\<close>

record app =
  adb :: db
  cluster :: cluster

datatype jvalue = JStr string | JNum int

text \<open>\<open>sql_add t n\<close> is SQLite's \<open>datetime(t, '+n seconds')\<close>, NULL outside the supported years.\<close>

record session_env =
  e_sig :: sig_lib
  e_aead :: aead_lib
  e_keys :: AuditKeys
  e_storage_class :: "string option"
  e_report_hash :: "string option"
  sql_add :: "string \<Rightarrow> int \<Rightarrow> string option"
  add_secs :: "utc \<Rightarrow> int \<Rightarrow> utc option"
  parse_rfc3339 :: "string \<Rightarrow> utc option"
  json_text :: "(string \<times> jvalue) list \<Rightarrow> string"

datatype SessionError =
    NotFound
  | Expired
  | Database
  | Pool
  | Scheduling sched_error
  | Auditing audit_error

datatype Decision = Approved | Denied | Timeout

record OrderResponse =
  rs_machine_id :: string
  rs_connect_token :: string
  rs_expires_at :: string
  rs_worker :: string
  rs_worker_sev_snp_attested :: bool
  rs_pty_endpoint :: string
  rs_audit_stream :: string

record ExtendRequest =
  ex_machine_id :: string
  ex_additional_secs :: "64 word"

text \<open>A \<open>u64\<close> parameter of a statement must fit SQLite's signed integers.\<close>

definition sql_u64 :: "64 word \<Rightarrow> int option" where
  "sql_u64 w = (if uint w < 2 ^ 63 then Some (uint w) else None)"

section \<open>Pending sessions\<close>

definition pending_row ::
    "utc \<Rightarrow> string \<Rightarrow> string \<Rightarrow> string option \<Rightarrow> string option \<Rightarrow> int \<Rightarrow> string \<Rightarrow> int \<Rightarrow> pending_session_row" where
  "pending_row now sid tid machine img ttl reason is_extend =
     \<lparr> ps_id = sid, ps_tenant_id = tid, ps_machine_id = machine, ps_image = img, ps_ttl_secs = Some ttl,
       ps_reason = Some reason, ps_status = ''pending'', ps_is_extend = is_extend,
       ps_created_at = sqlite_datetime now, ps_decided_at = None \<rparr>"

definition insert_pending :: "pending_session_row \<Rightarrow> db \<Rightarrow> (unit, SessionError) res \<times> db" where
  "insert_pending r d =
    (if \<not> tenant_exists (ps_tenant_id r) d \<or> list_ex (\<lambda>q. ps_id q = ps_id r) (pending_sessions d)
     then (Err Database, d)
     else (Ok (), d \<lparr> pending_sessions := pending_sessions d @ [r] \<rparr>))"

definition create_pending ::
    "('pk, 'sig) webauthn_lib \<Rightarrow> utc \<Rightarrow> string \<Rightarrow> string \<Rightarrow> OrderRequest \<Rightarrow> db \<Rightarrow> (string, SessionError) res \<times> db" where
  "create_pending W now ulid tenant_id req d =
    (let session_id = ''sess_'' @ ulid in
     if \<not> db_up d then (Err Pool, d)
     else case sql_u64 (or_ttl_secs req) of
       None \<Rightarrow> (Err Database, d)
     | Some ttl \<Rightarrow>
        (case insert_pending (pending_row now session_id tenant_id None (Some (or_image req)) ttl (or_reason req) 0) d of
           (Ok _, d') \<Rightarrow>
             (case store_challenge now session_id tenant_id (generate_challenge W [] session_id []) d' of
                (Ok _, d'') \<Rightarrow> (Ok session_id, d'')
              | (Err _, d'') \<Rightarrow> (Err Database, d'')
              | (Panic, d'') \<Rightarrow> (Panic, d''))
         | (Err e, d') \<Rightarrow> (Err e, d')
         | (Panic, d') \<Rightarrow> (Panic, d')))"

definition check_decision :: "string \<Rightarrow> db \<Rightarrow> (Decision option, SessionError) res" where
  "check_decision session_id d =
    (if \<not> db_up d then Err Pool
     else case query_row (\<lambda>r. ps_id r = session_id) (pending_sessions d) of
       None \<Rightarrow> Err Database
     | Some r \<Rightarrow>
        if ps_status r = ''approved'' then Ok (Some Approved)
        else if ps_status r = ''denied'' then Ok (Some Denied)
        else Ok None)"

text \<open>The polls that fit into the timeout, in order.\<close>

primrec wait_for_decision :: "string \<Rightarrow> db list \<Rightarrow> (Decision, SessionError) res" where
  "wait_for_decision session_id [] = Ok Timeout"
| "wait_for_decision session_id (d # ds) =
     bind_res (check_decision session_id d) (\<lambda>decision.
       case decision of Some x \<Rightarrow> Ok x | None \<Rightarrow> wait_for_decision session_id ds)"

definition set_session_status :: "string \<Rightarrow> utc \<Rightarrow> string \<Rightarrow> db \<Rightarrow> (unit, SessionError) res \<times> db" where
  "set_session_status status now session_id d =
    (if \<not> db_up d then (Err Pool, d)
     else (Ok (), d \<lparr> pending_sessions := update_where (\<lambda>r. ps_id r = session_id)
       (\<lambda>r. r \<lparr> ps_status := status, ps_decided_at := Some (sqlite_datetime now) \<rparr>) (pending_sessions d) \<rparr>))"

definition approve_session :: "utc \<Rightarrow> string \<Rightarrow> db \<Rightarrow> (unit, SessionError) res \<times> db" where
  "approve_session = set_session_status ''approved''"

definition deny_session :: "utc \<Rightarrow> string \<Rightarrow> db \<Rightarrow> (unit, SessionError) res \<times> db" where
  "deny_session = set_session_status ''denied''"

section \<open>Machines\<close>

definition connect_token_of :: "string \<Rightarrow> string" where
  "connect_token_of ulid = ''stronghold_sess_'' @ ulid"

definition insert_machine :: "machine_row \<Rightarrow> db \<Rightarrow> (unit, SessionError) res \<times> db" where
  "insert_machine m d =
    (if \<not> tenant_exists (ma_tenant_id m) d \<or> list_ex (\<lambda>q. ma_id q = ma_id m) (machines d)
     then (Err Database, d)
     else (Ok (), d \<lparr> machines := machines d @ [m] \<rparr>))"

definition with_audit ::
    "session_env \<Rightarrow> utc \<Rightarrow> string \<Rightarrow> string \<Rightarrow> string \<Rightarrow> (string \<times> jvalue) list \<Rightarrow> 'a \<Rightarrow> db \<Rightarrow>
     ('a, SessionError) res \<times> db" where
  "with_audit E now tenant_id machine_id event payload x d =
    (case entry (e_sig E) now (e_report_hash E) tenant_id machine_id event (json_text E payload) (e_keys E) d of
       (Ok _, d') \<Rightarrow> (Ok x, d')
     | (Err e, d') \<Rightarrow> (Err (Auditing e), d')
     | (Panic, d') \<Rightarrow> (Panic, d'))"

definition started_machine ::
    "session_env \<Rightarrow> utc \<Rightarrow> string \<Rightarrow> string \<Rightarrow> string \<Rightarrow> OrderRequest \<Rightarrow> ScheduledMachine \<Rightarrow> machine_row" where
  "started_machine E now expires connect_token tenant_id req machine =
     \<lparr> ma_id = sm_id machine, ma_tenant_id = tenant_id, ma_image = or_image req,
       ma_worker = sm_worker machine, ma_status = ''active'',
       ma_cpu = Some (uint (requested_cpu req)), ma_memory_gb = Some (uint (requested_memory_gb req)),
       ma_worker_sev_snp = 0, ma_connect_token_hash = Some (hash_text (e_sig E) connect_token),
       ma_created_at = sqlite_datetime now, ma_expires_at = expires, ma_killed_at = None \<rparr>"

text \<open>The part of \<open>finalize_session\<close> after the pod was scheduled works on the database alone.\<close>

definition record_machine ::
    "session_env \<Rightarrow> utc \<Rightarrow> string \<Rightarrow> string \<Rightarrow> string \<Rightarrow> OrderRequest \<Rightarrow> ScheduledMachine \<Rightarrow> db \<Rightarrow>
     (OrderResponse, SessionError) res \<times> db" where
  "record_machine E now connect_token tenant_id session_id req machine d =
    (if \<not> db_up d then (Err Pool, d)
     else case Option.bind (sql_u64 (or_ttl_secs req)) (sql_add E (sqlite_datetime now)) of
       None \<Rightarrow> (Err Database, d)
     | Some expires \<Rightarrow>
        (case insert_machine (started_machine E now expires connect_token tenant_id req machine) d of
           (Err e, d1) \<Rightarrow> (Err e, d1)
         | (Panic, d1) \<Rightarrow> (Panic, d1)
         | (Ok _, d1) \<Rightarrow>
            (case with_audit E now tenant_id (sm_id machine) ''session_started''
                  [(''session_id'', JStr session_id), (''image'', JStr (or_image req)),
                   (''ttl_secs'', JNum (uint (or_ttl_secs req))), (''reason'', JStr (or_reason req))] () d1 of
               (Err e, d2) \<Rightarrow> (Err e, d2)
             | (Panic, d2) \<Rightarrow> (Panic, d2)
             | (Ok _, d2) \<Rightarrow>
                (case add_secs E now (sint (or_ttl_secs req)) of
                   None \<Rightarrow> (Panic, d2)
                 | Some e \<Rightarrow>
                    (Ok \<lparr> rs_machine_id = sm_id machine, rs_connect_token = connect_token,
                          rs_expires_at = to_rfc3339 e, rs_worker = sm_worker machine,
                          rs_worker_sev_snp_attested = sm_sev_snp_attested machine,
                          rs_pty_endpoint = ''/agent/'' @ sm_id machine @ ''/pty'',
                          rs_audit_stream = ''/agent/'' @ sm_id machine @ ''/audit'' \<rparr>, d2)))))"

definition finalize_session ::
    "session_env \<Rightarrow> utc \<Rightarrow> string \<Rightarrow> string \<Rightarrow> string \<Rightarrow> string \<Rightarrow> OrderRequest \<Rightarrow> app \<Rightarrow>
     (OrderResponse, SessionError) res \<times> app" where
  "finalize_session E now pod_ulid token_ulid tenant_id session_id req s =
    (case schedule (e_aead E) (e_keys E) (e_storage_class E) pod_ulid tenant_id req (adb s) (cluster s) of
       (Err e, k) \<Rightarrow> (Err (Scheduling e), s \<lparr> cluster := k \<rparr>)
     | (Panic, k) \<Rightarrow> (Panic, s \<lparr> cluster := k \<rparr>)
     | (Ok machine, k) \<Rightarrow>
        (case record_machine E now (connect_token_of token_ulid) tenant_id session_id req machine (adb s) of
           (r, d) \<Rightarrow> (r, \<lparr> adb = d, cluster = k \<rparr>)))"

definition utc_after :: "utc \<Rightarrow> utc \<Rightarrow> bool" where
  "utc_after a b \<longleftrightarrow> date_before b a \<or> (same_date a b \<and> (clock_before b a \<or>
     (hour a = hour b \<and> minute a = minute b \<and> second a = second b \<and> nanos b < nanos a)))"

definition resume_session ::
    "session_env \<Rightarrow> utc \<Rightarrow> string \<Rightarrow> string \<Rightarrow> string \<Rightarrow> db \<Rightarrow> (OrderResponse, SessionError) res" where
  "resume_session E now token_ulid tenant_id machine_id d =
    (if \<not> db_up d then Err Pool
     else case query_row (\<lambda>m. ma_id m = machine_id \<and> ma_tenant_id m = tenant_id \<and> ma_status m = ''active'') (machines d) of
       None \<Rightarrow> Err NotFound
     | Some m \<Rightarrow>
        (case parse_rfc3339 E (ma_expires_at m) of
           None \<Rightarrow> Err Expired
         | Some e \<Rightarrow>
            if utc_after now e then Err Expired
            else Ok \<lparr> rs_machine_id = ma_id m, rs_connect_token = connect_token_of token_ulid,
                      rs_expires_at = ma_expires_at m, rs_worker = ma_worker m,
                      rs_worker_sev_snp_attested = (ma_worker_sev_snp m = 1),
                      rs_pty_endpoint = ''/agent/'' @ machine_id @ ''/pty'',
                      rs_audit_stream = ''/agent/'' @ machine_id @ ''/audit'' \<rparr>))"

definition end_session ::
    "string \<Rightarrow> string \<Rightarrow> string \<Rightarrow> session_env \<Rightarrow> utc \<Rightarrow> string \<Rightarrow> string \<Rightarrow> app \<Rightarrow> (unit, SessionError) res \<times> app" where
  "end_session status event reason E now tenant_id machine_id s =
    (case kill_pod machine_id (cluster s) of
       (Err e, k) \<Rightarrow> (Err (Scheduling e), s \<lparr> cluster := k \<rparr>)
     | (Panic, k) \<Rightarrow> (Panic, s \<lparr> cluster := k \<rparr>)
     | (Ok _, k) \<Rightarrow>
        let s1 = s \<lparr> cluster := k \<rparr> in
        if \<not> db_up (adb s1) then (Err Pool, s1)
        else let d = (adb s1) \<lparr> machines := update_where (\<lambda>m. ma_id m = machine_id \<and> ma_tenant_id m = tenant_id)
                 (\<lambda>m. m \<lparr> ma_status := status, ma_killed_at := Some (sqlite_datetime now) \<rparr>) (machines (adb s1)) \<rparr>
             in (case with_audit E now tenant_id machine_id event [(''reason'', JStr reason)] () d of
                   (r, d') \<Rightarrow> (r, s1 \<lparr> adb := d' \<rparr>)))"

definition release_session ::
    "session_env \<Rightarrow> utc \<Rightarrow> string \<Rightarrow> string \<Rightarrow> app \<Rightarrow> (unit, SessionError) res \<times> app" where
  "release_session = end_session ''released'' ''session_released'' ''agent_released''"

definition revoke_session ::
    "session_env \<Rightarrow> utc \<Rightarrow> string \<Rightarrow> string \<Rightarrow> app \<Rightarrow> (unit, SessionError) res \<times> app" where
  "revoke_session = end_session ''revoked'' ''session_revoked'' ''phone_revoked''"

section \<open>Extensions\<close>

definition create_extend_request ::
    "utc \<Rightarrow> string \<Rightarrow> string \<Rightarrow> ExtendRequest \<Rightarrow> db \<Rightarrow> (string, SessionError) res \<times> db" where
  "create_extend_request now ulid tenant_id req d =
    (let session_id = ''ext_'' @ ulid in
     if \<not> db_up d then (Err Pool, d)
     else case sql_u64 (ex_additional_secs req) of
       None \<Rightarrow> (Err Database, d)
     | Some secs \<Rightarrow>
        (case insert_pending (pending_row now session_id tenant_id (Some (ex_machine_id req)) None secs ''extend session'' 1) d of
           (Ok _, d') \<Rightarrow> (Ok session_id, d')
         | (Err e, d') \<Rightarrow> (Err e, d')
         | (Panic, d') \<Rightarrow> (Panic, d')))"

text \<open>\<open>expires_at\<close> is NOT NULL: the update fails when a selected row's new expiry would be NULL.\<close>

definition extend_machine :: "session_env \<Rightarrow> string \<Rightarrow> string \<Rightarrow> int \<Rightarrow> db \<Rightarrow> db option" where
  "extend_machine E tenant_id machine_id secs d =
    (let sel = (\<lambda>m. ma_id m = machine_id \<and> ma_tenant_id m = tenant_id) in
     if list_ex (\<lambda>m. sel m \<and> sql_add E (ma_expires_at m) secs = None) (machines d) then None
     else Some (d \<lparr> machines := update_where sel
       (\<lambda>m. m \<lparr> ma_expires_at := the (sql_add E (ma_expires_at m) secs) \<rparr>) (machines d) \<rparr>))"

definition finalize_extend ::
    "session_env \<Rightarrow> utc \<Rightarrow> string \<Rightarrow> string \<Rightarrow> string \<Rightarrow> ExtendRequest \<Rightarrow> app \<Rightarrow>
     (OrderResponse, SessionError) res \<times> app" where
  "finalize_extend E now token_ulid tenant_id session_id req s =
    (if \<not> db_up (adb s) then (Err Pool, s)
     else case Option.bind (sql_u64 (ex_additional_secs req))
                 (\<lambda>secs. extend_machine E tenant_id (ex_machine_id req) secs (adb s)) of
       None \<Rightarrow> (Err Database, s)
     | Some d \<Rightarrow>
        (case with_audit E now tenant_id (ex_machine_id req) ''session_extended''
              [(''session_id'', JStr session_id), (''additional_secs'', JNum (uint (ex_additional_secs req)))] () d of
           (Err e, d') \<Rightarrow> (Err e, s \<lparr> adb := d' \<rparr>)
         | (Panic, d') \<Rightarrow> (Panic, s \<lparr> adb := d' \<rparr>)
         | (Ok _, d') \<Rightarrow>
            (resume_session E now token_ulid tenant_id (ex_machine_id req) d', s \<lparr> adb := d' \<rparr>)))"

section \<open>The stream of approval requests\<close>

record approval_request =
  aq_request_id :: string
  aq_image :: string
  aq_ttl_secs :: int
  aq_reason :: string
  aq_created_at :: string

datatype sse_event = ApprovalRequest approval_request | Heartbeat

definition request_of_row :: "pending_session_row \<Rightarrow> approval_request" where
  "request_of_row r = \<lparr> aq_request_id = ps_id r,
     aq_image = (case ps_image r of Some i \<Rightarrow> i | None \<Rightarrow> []),
     aq_ttl_secs = (case ps_ttl_secs r of Some t \<Rightarrow> t | None \<Rightarrow> 0),
     aq_reason = (case ps_reason r of Some t \<Rightarrow> t | None \<Rightarrow> []),
     aq_created_at = ps_created_at r \<rparr>"

fun emit_new :: "pending_session_row list \<Rightarrow> string set \<Rightarrow> sse_event list \<times> string set" where
  "emit_new [] seen = ([], seen)"
| "emit_new (r # rs) seen =
    (if ps_id r \<in> seen then emit_new rs seen
     else case emit_new rs (insert (ps_id r) seen) of (evs, seen') \<Rightarrow> (ApprovalRequest (request_of_row r) # evs, seen'))"

datatype tick = PollTick db | HeartbeatTick

definition stream_tick :: "string \<Rightarrow> tick \<Rightarrow> string set \<Rightarrow> sse_event list \<times> string set" where
  "stream_tick tenant_id t seen =
    (case t of
       HeartbeatTick \<Rightarrow> ([Heartbeat], seen)
     | PollTick d \<Rightarrow>
        if \<not> db_up d then ([], seen)
        else emit_new (filter (\<lambda>r. ps_tenant_id r = tenant_id \<and> ps_status r = ''pending'') (pending_sessions d)) seen)"

primrec pending_approval_stream :: "string \<Rightarrow> tick list \<Rightarrow> string set \<Rightarrow> sse_event list" where
  "pending_approval_stream tenant_id [] seen = []"
| "pending_approval_stream tenant_id (t # ts) seen =
    (case stream_tick tenant_id t seen of (evs, seen') \<Rightarrow> evs @ pending_approval_stream tenant_id ts seen')"

section \<open>The stream announces each request once\<close>

fun request_ids :: "sse_event list \<Rightarrow> string list" where
  "request_ids [] = []"
| "request_ids (ApprovalRequest a # es) = aq_request_id a # request_ids es"
| "request_ids (Heartbeat # es) = request_ids es"

lemma request_ids_append [simp]: "request_ids (a @ b) = request_ids a @ request_ids b"
  by (induction a rule: request_ids.induct) auto

lemma emit_new_ids:
  assumes "emit_new rs seen = (evs, seen')"
  shows "distinct (request_ids evs)" "set (request_ids evs) = ps_id ` set rs - seen"
    "seen' = seen \<union> ps_id ` set rs"
  using assms
proof (induction rs arbitrary: seen evs)
  case (Cons r rs)
  {
    case 1
    then show ?case
      using Cons.IH(1,2)
      by (cases "ps_id r \<in> seen") (fastforce simp: request_of_row_def split: prod.splits)+
  next
    case 2
    then show ?case
      using Cons.IH(2)
      by (cases "ps_id r \<in> seen") (auto simp: request_of_row_def split: prod.splits)
  next
    case 3
    then show ?case
      using Cons.IH(3)
      by (cases "ps_id r \<in> seen") (auto split: prod.splits)
  }
qed simp_all

lemma stream_tick_ids:
  assumes "stream_tick tid t seen = (evs, seen')"
  shows "distinct (request_ids evs)" "set (request_ids evs) \<inter> seen = {}"
    "seen' = seen \<union> set (request_ids evs)"
proof -
  have "distinct (request_ids evs) \<and> set (request_ids evs) \<inter> seen = {} \<and> seen' = seen \<union> set (request_ids evs)"
  proof (cases t)
    case (PollTick d)
    show ?thesis
    proof (cases "db_up d")
      case True
      then have e: "emit_new (filter (\<lambda>r. ps_tenant_id r = tid \<and> ps_status r = ''pending'') (pending_sessions d)) seen
          = (evs, seen')" using assms PollTick by (simp add: stream_tick_def)
      show ?thesis unfolding emit_new_ids(2,3) [OF e] using emit_new_ids(1) [OF e] by blast
    qed (use assms PollTick in \<open>simp add: stream_tick_def\<close>)
  qed (use assms in \<open>auto simp: stream_tick_def\<close>)
  then show "distinct (request_ids evs)" "set (request_ids evs) \<inter> seen = {}"
    "seen' = seen \<union> set (request_ids evs)" by blast+
qed

lemma stream_ids:
  "distinct (request_ids (pending_approval_stream tid ts seen)) \<and>
   set (request_ids (pending_approval_stream tid ts seen)) \<inter> seen = {}"
proof (induction ts arbitrary: seen)
  case (Cons t ts)
  obtain evs seen' where t: "stream_tick tid t seen = (evs, seen')" by fastforce
  note ids = stream_tick_ids [OF t]
  show ?case using Cons.IH [of seen'] ids by (auto simp: t)
qed simp

lemma stream_announces:
  assumes "PollTick d \<in> set ts" "db_up d" "r \<in> set (pending_sessions d)"
    and "ps_tenant_id r = tid" "ps_status r = ''pending''"
  shows "ps_id r \<in> set (request_ids (pending_approval_stream tid ts seen)) \<union> seen"
  using assms(1)
proof (induction ts arbitrary: seen)
  case (Cons t ts)
  obtain evs seen' where t: "stream_tick tid t seen = (evs, seen')" by fastforce
  note ids = stream_tick_ids [OF t]
  show ?case
  proof (cases "t = PollTick d")
    case True
    then have "emit_new (filter (\<lambda>r. ps_tenant_id r = tid \<and> ps_status r = ''pending'') (pending_sessions d)) seen
        = (evs, seen')" using t assms(2) by (simp add: stream_tick_def)
    from emit_new_ids(2) [OF this] assms(3-5) have "ps_id r \<in> set (request_ids evs) \<union> seen" by auto
    then show ?thesis by (auto simp: t)
  next
    case False
    then have "ps_id r \<in> set (request_ids (pending_approval_stream tid ts seen')) \<union> seen'"
      using Cons by auto
    then show ?thesis using ids by (auto simp: t)
  qed
qed simp

lemma stream_sound:
  assumes "x \<in> set (request_ids (pending_approval_stream tid ts seen))"
  shows "\<exists>d. PollTick d \<in> set ts \<and> db_up d \<and>
    (\<exists>r\<in>set (pending_sessions d). ps_id r = x \<and> ps_tenant_id r = tid \<and> ps_status r = ''pending'')"
  using assms
proof (induction ts arbitrary: seen)
  case (Cons t ts)
  obtain evs seen' where t: "stream_tick tid t seen = (evs, seen')" by fastforce
  from Cons.prems consider "x \<in> set (request_ids evs)" | "x \<in> set (request_ids (pending_approval_stream tid ts seen'))"
    by (auto simp: t)
  then show ?case
  proof cases
    case 1
    then obtain d where d: "t = PollTick d" using t by (cases t) (auto simp: stream_tick_def)
    then have up: "db_up d"
      and "emit_new (filter (\<lambda>r. ps_tenant_id r = tid \<and> ps_status r = ''pending'') (pending_sessions d)) seen
        = (evs, seen')" using t 1 by (auto simp: stream_tick_def split: if_splits)
    from emit_new_ids(2) [OF this(2)] 1 show ?thesis using d up by auto
  next
    case 2
    then show ?thesis using Cons.IH by fastforce
  qed
qed simp

section \<open>A session that was started cannot be resumed\<close>

lemma with_audit_machines [simp]:
  "machines (snd (with_audit E now tid mid ev pl x d)) = machines d"
  by (auto simp: with_audit_def entry_def split: prod.splits res.splits)

lemma with_audit_up [simp]: "db_up (snd (with_audit E now tid mid ev pl x d)) = db_up d"
  by (auto simp: with_audit_def entry_def split: prod.splits res.splits)

lemma with_audit_other [simp]:
  "pending_sessions (snd (with_audit E now tid mid ev pl x d)) = pending_sessions d"
  "phone_challenges (snd (with_audit E now tid mid ev pl x d)) = phone_challenges d"
  by (auto simp: with_audit_def entry_def split: prod.splits res.splits)

lemma insert_machine_Ok:
  "insert_machine m d = (Ok (), d') \<Longrightarrow>
   d' = d \<lparr> machines := machines d @ [m] \<rparr> \<and> (\<forall>q\<in>set (machines d). ma_id q \<noteq> ma_id m)"
  by (auto simp: insert_machine_def list_ex_iff split: if_splits)

lemma record_machine_Ok:
  assumes "record_machine E now tok tid sid req sm d = (Ok rsp, d')"
  shows "\<exists>ttl expires. sql_u64 (or_ttl_secs req) = Some ttl \<and> sql_add E (sqlite_datetime now) ttl = Some expires \<and>
     machines d' = machines d @ [started_machine E now expires tok tid req sm] \<and>
     (\<forall>q\<in>set (machines d). ma_id q \<noteq> sm_id sm) \<and> db_up d' \<and>
     rs_machine_id rsp = sm_id sm \<and> rs_connect_token rsp = tok"
proof -
  have up: "db_up d" using assms by (auto simp: record_machine_def split: if_splits)
  obtain expires where ex: "Option.bind (sql_u64 (or_ttl_secs req)) (sql_add E (sqlite_datetime now)) = Some expires"
    using assms up by (auto simp: record_machine_def split: option.splits)
  obtain d1 where ins: "insert_machine (started_machine E now expires tok tid req sm) d = (Ok (), d1)"
    using assms up ex by (auto simp: record_machine_def split: prod.splits res.splits)
  note i = insert_machine_Ok [OF ins]
  have d': "d' = snd (with_audit E now tid (sm_id sm) ''session_started''
      [(''session_id'', JStr sid), (''image'', JStr (or_image req)),
       (''ttl_secs'', JNum (uint (or_ttl_secs req))), (''reason'', JStr (or_reason req))] () d1)"
    and rsp: "rs_machine_id rsp = sm_id sm" "rs_connect_token rsp = tok"
    using assms up ex ins
    by (auto simp: record_machine_def split: prod.splits res.splits option.splits)
  obtain ttl where "sql_u64 (or_ttl_secs req) = Some ttl" "sql_add E (sqlite_datetime now) ttl = Some expires"
    using ex by (cases "sql_u64 (or_ttl_secs req)") auto
  then show ?thesis using i rsp up by (auto simp: d' started_machine_def)
qed

lemma finalize_session_Ok:
  assumes "finalize_session E now u1 u2 tid sid req s = (Ok rsp, s')"
  shows "\<exists>m ttl. sql_u64 (or_ttl_secs req) = Some ttl \<and>
     sql_add E (sqlite_datetime now) ttl = Some (ma_expires_at m) \<and>
     machines (adb s') = machines (adb s) @ [m] \<and> ma_id m = rs_machine_id rsp \<and> ma_tenant_id m = tid \<and>
     ma_status m = ''active'' \<and>
     ma_connect_token_hash m = Some (hash_text (e_sig E) (rs_connect_token rsp)) \<and>
     (\<forall>q\<in>set (machines (adb s)). ma_id q \<noteq> ma_id m) \<and> db_up (adb s')"
proof -
  obtain sm k d' where rec: "record_machine E now (connect_token_of u2) tid sid req sm (adb s) = (Ok rsp, d')"
    and s': "adb s' = d'"
    using assms by (auto simp: finalize_session_def split: prod.splits res.splits)
  from record_machine_Ok [OF rec] obtain ttl expires where
    "sql_u64 (or_ttl_secs req) = Some ttl" "sql_add E (sqlite_datetime now) ttl = Some expires"
    "machines d' = machines (adb s) @ [started_machine E now expires (connect_token_of u2) tid req sm]"
    "\<forall>q\<in>set (machines (adb s)). ma_id q \<noteq> sm_id sm" "db_up d'"
    "rs_machine_id rsp = sm_id sm" "rs_connect_token rsp = connect_token_of u2" by blast
  then show ?thesis
    by (intro exI [of _ "started_machine E now expires (connect_token_of u2) tid req sm"] exI [of _ ttl])
      (simp add: s' started_machine_def)
qed

lemma resume_after_finalize:
  assumes "finalize_session E now u1 u2 tid sid req s = (Ok rsp, s')"
    and sqlite: "\<And>t n x. sql_add E t n = Some x \<Longrightarrow> \<exists>u. x = sqlite_datetime u"
    and chrono: "\<And>u. parse_rfc3339 E (sqlite_datetime u) = None"
  shows "resume_session E now' u3 tid (rs_machine_id rsp) (adb s') = Err Expired"
proof -
  obtain m ttl where m: "sql_add E (sqlite_datetime now) ttl = Some (ma_expires_at m)"
    "machines (adb s') = machines (adb s) @ [m]" "ma_id m = rs_machine_id rsp" "ma_tenant_id m = tid"
    "ma_status m = ''active''" "\<forall>q\<in>set (machines (adb s)). ma_id q \<noteq> ma_id m" "db_up (adb s')"
    using finalize_session_Ok [OF assms(1)] by blast
  have "query_row (\<lambda>q. ma_id q = ma_id m \<and> ma_tenant_id q = tid \<and> ma_status q = ''active'') (machines (adb s)) = None"
    using m(6) by (simp add: query_row_None)
  then have "query_row (\<lambda>q. ma_id q = rs_machine_id rsp \<and> ma_tenant_id q = tid \<and> ma_status q = ''active'')
      (machines (adb s')) = Some m"
    using m by (simp add: query_row_append)
  moreover have "parse_rfc3339 E (ma_expires_at m) = None"
    using sqlite [OF m(1)] chrono by auto
  ultimately show ?thesis using m(7) by (simp add: resume_session_def)
qed

section \<open>Killing a machine of another tenant\<close>

lemma end_session_cluster:
  assumes "end_session st ev why E now tid mid s = (r, s')" "kube_up (cluster s)"
  shows "pods (cluster s') = filter (\<lambda>p. po_name p \<noteq> mid) (pods (cluster s))"
  using assms by (auto simp: end_session_def kill_pod_def Let_def split: prod.splits if_splits)

lemma end_session_machines:
  assumes "end_session st ev why E now tid mid s = (r, s')"
    and "\<forall>m\<in>set (machines (adb s)). ma_id m = mid \<longrightarrow> ma_tenant_id m \<noteq> tid"
  shows "machines (adb s') = machines (adb s)"
proof -
  have same: "update_where (\<lambda>m. ma_id m = mid \<and> ma_tenant_id m = tid) f (machines (adb s)) = machines (adb s)" for f
    using assms(2) by (auto simp: update_where_def intro!: map_idI)
  have aud: "machines d' = machines d" if "with_audit E now tid mid ev pl () d = (r', d')" for pl d r' d'
    using with_audit_machines [of E now tid mid ev pl "()" d] that by simp
  show ?thesis using assms(1) same
    by (auto simp: end_session_def kill_pod_def Let_def split: prod.splits if_splits dest!: aud)
qed

section \<open>A machine that is started but not recorded\<close>

lemma finalize_session_leak:
  assumes "schedule (e_aead E) (e_keys E) (e_storage_class E) u1 tid req (adb s) (cluster s) = (Ok sm, k)"
    and "\<And>n. sql_u64 (or_ttl_secs req) = Some n \<Longrightarrow> sql_add E (sqlite_datetime now) n = None"
  shows "\<exists>e s'. finalize_session E now u1 u2 tid sid req s = (Err e, s') \<and>
    (\<exists>p. pods (cluster s') = pods (cluster s) @ [p] \<and> po_name p = sm_id sm) \<and> adb s' = adb s"
proof -
  have none: "Option.bind (sql_u64 (or_ttl_secs req)) (sql_add E (sqlite_datetime now)) = None"
    using assms(2) by (cases "sql_u64 (or_ttl_secs req)") auto
  obtain p where "pods k = pods (cluster s) @ [p]" "po_name p = sm_id sm"
    using schedule_Ok(3) [OF assms(1)] by blast
  then show ?thesis using assms(1) none
    by (cases "db_up (adb s)") (auto simp: finalize_session_def record_machine_def)
qed

section \<open>Properties\<close>

text \<open>C14. Whatever a tenant's phone polls, its stream announces every request at most once, and announces
  exactly the requests of that tenant that some successful poll saw pending.\<close>
theorem stream_announces_once:
  "distinct (request_ids (pending_approval_stream tid ts {})) \<and>
   set (request_ids (pending_approval_stream tid ts {})) =
     {ps_id r |r d. PollTick d \<in> set ts \<and> db_up d \<and> r \<in> set (pending_sessions d) \<and>
        ps_tenant_id r = tid \<and> ps_status r = ''pending''}"
proof -
  have "ps_id r \<in> set (request_ids (pending_approval_stream tid ts {}))"
    if "PollTick d \<in> set ts" "db_up d" "r \<in> set (pending_sessions d)" "ps_tenant_id r = tid" "ps_status r = ''pending''"
    for r d using stream_announces [OF that, of "{}"] by simp
  then show ?thesis using stream_ids stream_sound by blast
qed

text \<open>A session that was just started can never be resumed, not even before it expires: its expiry is
  stored in the format of SQLite's \<open>datetime\<close>, and resuming parses it as RFC 3339.\<close>
lemma started_session_cannot_resume:
  assumes "finalize_session E now u1 u2 tid sid req s = (Ok rsp, s')"
    and sqlite: "\<And>t n x. sql_add E t n = Some x \<Longrightarrow> \<exists>u. x = sqlite_datetime u"
    and chrono: "\<And>u. parse_rfc3339 E (sqlite_datetime u) = None"
  shows "resume_session E now' u3 tid (rs_machine_id rsp) (adb s') = Err Expired"
  by (rule resume_after_finalize [OF assms])

definition demo_light_sig :: sig_lib where
  "demo_light_sig = \<lparr> sha256 = demo_digest, hex_encode = demo_short, b64_encode = string_of_bytes,
     b64_decode = (\<lambda>s. Some (as_bytes s)), ed_public_of = (\<lambda>s. s), ed_sign = (\<lambda>s m. s @ s),
     ed_verify = (\<lambda>p m g. g = p @ p), ml_public_of = (\<lambda>s. s), ml_sign = (\<lambda>s m. s),
     ml_sig_wf = (\<lambda>b. True), ml_verify = (\<lambda>p m g. True) \<rparr>"

definition demo_env :: session_env where
  "demo_env = \<lparr> e_sig = demo_light_sig, e_aead = demo_aead,
     e_keys = \<lparr> ed25519_secret = [], ed25519_public = [], mldsa_secret = [], mldsa_public = [] \<rparr>,
     e_storage_class = None, e_report_hash = None,
     sql_add = (\<lambda>t n. if n < 1000000 then Some (sqlite_datetime demo_time) else None),
     add_secs = (\<lambda>t n. Some t),
     parse_rfc3339 = (\<lambda>s. if length s = 19 then None else Some demo_time), json_text = (\<lambda>p. ''{}'') \<rparr>"

definition demo_app :: app where
  "demo_app = \<lparr> adb = snd (set_quota ''t1'' 5 8 16 demo_tenant_db), cluster = \<lparr> kube_up = True, pods = [], pvcs = [] \<rparr> \<rparr>"

definition demo_order :: "64 word \<Rightarrow> OrderRequest" where
  "demo_order ttl = \<lparr> or_image = ''i'', or_ttl_secs = ttl, or_reason = ''r'',
     or_compute = \<lparr> cq_cpu = Some 2, cq_memory_gb = Some 2, cq_dedicated = None, cq_gpu = None \<rparr>,
     or_ephemeral_volumes = [] \<rparr>"

lemma demo_finalize_ok:
  "is_ok (fst (finalize_session demo_env demo_time ''p'' ''k'' ''t1'' ''sess_1'' (demo_order 60) demo_app))"
  by code_simp

lemma started_session_cannot_resume_witness:
  "is_ok (fst (finalize_session demo_env demo_time ''p'' ''k'' ''t1'' ''sess_1'' (demo_order 60) demo_app)) \<and>
   resume_session demo_env demo_time ''k2'' ''t1'' ''agent-p''
     (adb (snd (finalize_session demo_env demo_time ''p'' ''k'' ''t1'' ''sess_1'' (demo_order 60) demo_app))) = Err Expired"
proof -
  let ?f = "finalize_session demo_env demo_time ''p'' ''k'' ''t1'' ''sess_1'' (demo_order 60) demo_app"
  note ok = demo_finalize_ok
  have mid: "(case fst ?f of Ok rsp \<Rightarrow> rs_machine_id rsp | _ \<Rightarrow> []) = ''agent-p''" by code_simp
  obtain rsp where f: "?f = (Ok rsp, snd ?f)" and fst: "fst ?f = Ok rsp" using ok by (rule is_ok_fstE)
  have id: "rs_machine_id rsp = ''agent-p''" using mid unfolding fst by simp
  have "\<exists>u. x = sqlite_datetime u" if "sql_add demo_env t n = Some x" for t n x
    using that by (auto simp: demo_env_def split: if_splits)
  moreover have "parse_rfc3339 demo_env (sqlite_datetime u) = None" for u
    by (simp add: demo_env_def sqlite_datetime_def)
  ultimately show ?thesis
    using started_session_cannot_resume [OF f, of demo_time "''k2''"] ok unfolding id by blast
qed

text \<open>When SQLite cannot represent the expiry of an approved order (or its lifetime does not fit a
  signed column), the order fails with a pod running that no row of the database records.\<close>
lemma unrecorded_machine:
  assumes "schedule (e_aead E) (e_keys E) (e_storage_class E) u1 tid req (adb s) (cluster s) = (Ok sm, k)"
    and "\<And>n. sql_u64 (or_ttl_secs req) = Some n \<Longrightarrow> sql_add E (sqlite_datetime now) n = None"
  shows "\<exists>e s'. finalize_session E now u1 u2 tid sid req s = (Err e, s') \<and>
    (\<exists>p. pods (cluster s') = pods (cluster s) @ [p] \<and> po_name p = sm_id sm) \<and> adb s' = adb s"
  by (rule finalize_session_leak [OF assms])

lemma unrecorded_machine_witness:
  "\<exists>e s'. finalize_session demo_env demo_time ''p'' ''k'' ''t1'' ''sess_1'' (demo_order 2000000) demo_app = (Err e, s') \<and>
     pods (cluster s') \<noteq> [] \<and> machines (adb s') = []"
proof -
  let ?sch = "schedule (e_aead demo_env) (e_keys demo_env) (e_storage_class demo_env) ''p'' ''t1'' (demo_order 2000000)
    (adb demo_app) (cluster demo_app)"
  have "is_ok (fst ?sch)" by code_simp
  then obtain sm where sch: "?sch = (Ok sm, snd ?sch)" by (rule is_ok_fstE)
  have none: "sql_add demo_env (sqlite_datetime demo_time) n = None"
    if "sql_u64 (or_ttl_secs (demo_order 2000000)) = Some n" for n
  proof -
    have "sql_u64 (or_ttl_secs (demo_order 2000000)) = Some 2000000" by code_simp
    then show ?thesis using that by (simp add: demo_env_def)
  qed
  have "machines (adb demo_app) = []" by code_simp
  then show ?thesis using unrecorded_machine [OF sch none, of "''k''" "''sess_1''"] by force
qed

end
