(* ===== verification/Routes.thy ===== *)
theory Routes
  imports Sessions
begin

text \<open>
  The HTTP handlers of sessions and approvals: src/gateway/src/routes/phone.rs and routes/agent.rs.
  A response is \<open>Ok\<close> of the body or \<open>Err\<close> of a status code and its reason; the deserialisation of
  requests and the delivery of pushes and of event streams are not modelled. \<open>order\<close> and \<open>extend\<close> hold
  the request open while others run, so each is two operations: up to the push, and from the polls on.
\<close>

section \<open>Requests and errors\<close>

datatype http_reason =
    MissingAuthorization
  | NotBearer
  | BadToken auth_error
  | ChallengeStore db_error
  | ChallengeGone
  | AttestationRejected
  | CredentialIdMismatch
  | CredentialStore auth_error
  | AssertionRejected
  | InvalidDecision string
  | SessionFailed SessionError
  | PushFailed
  | TenantDenied
  | ApprovalTimedOut

type_synonym 'a http = "('a, nat \<times> http_reason) res"

text \<open>A header value is read as text when it is visible ASCII (or blank or tab).\<close>

definition header_text :: "string option \<Rightarrow> string option" where
  "header_text h = (case h of
     None \<Rightarrow> None
   | Some v \<Rightarrow> if list_all (\<lambda>c. c = CHR 0x09 \<or> (CHR 0x20 \<le> c \<and> c \<le> CHR 0x7E)) v then Some v else None)"

definition extract_token :: "string option \<Rightarrow> string http" where
  "extract_token authorization =
     bind_res (ok_or (401, MissingAuthorization) (header_text authorization)) (\<lambda>auth.
     if \<not> starts_with auth ''Bearer '' then Err (401, NotBearer) else Ok (drop 7 auth))"

definition extract_phone_token :: "string option \<Rightarrow> string http" where
  "extract_phone_token authorization =
     bind_res (ok_or (401, MissingAuthorization) (header_text authorization)) (\<lambda>auth.
     if \<not> starts_with auth ''Bearer '' then Err (401, NotBearer) else Ok (drop 7 auth))"

definition authenticate_phone :: "'a hash_lib_scheme \<Rightarrow> string option \<Rightarrow> db \<Rightarrow> string http" where
  "authenticate_phone H authorization d =
     bind_res (extract_phone_token authorization) (\<lambda>token.
     map_err (\<lambda>e. (401, BadToken e)) (verify_phone_token H token d))"

definition authenticate_agent :: "'a hash_lib_scheme \<Rightarrow> utc \<Rightarrow> string \<Rightarrow> db \<Rightarrow> string http" where
  "authenticate_agent H now token d = map_err (\<lambda>e. (401, BadToken e)) (verify_agent_token H now token d)"

section \<open>The phone: registration\<close>

record ('pk, 'sig) web_env =
  web :: "('pk, 'sig) webauthn_lib"
  cbor_limits :: limits
  stack_frames :: nat

definition finish_ceremony ::
    "('pk, 'sig) web_env \<Rightarrow> utc \<Rightarrow> string \<Rightarrow> string \<Rightarrow> string \<Rightarrow> string \<Rightarrow> string \<Rightarrow> string \<Rightarrow> db \<Rightarrow>
     (string \<times> string) http \<times> db" where
  "finish_ceremony N now row_ulid challenge_id credential_id_hint attestation_object_b64 client_data_json_b64 name d =
    (case take_challenge_by_id now challenge_id d of
       (Err e, d1) \<Rightarrow> (Err (500, ChallengeStore e), d1)
     | (Panic, d1) \<Rightarrow> (Panic, d1)
     | (Ok None, d1) \<Rightarrow> (Err (401, ChallengeGone), d1)
     | (Ok (Some (tenant_id, challenge)), d1) \<Rightarrow>
        (case verify_attestation (web N) (cbor_limits N) (stack_frames N)
            \<lparr> aa_client_data_json = client_data_json_b64, aa_attestation_object = attestation_object_b64 \<rparr>
            challenge DEFAULT_RP_ORIGIN DEFAULT_RP_ID of
           Err e \<Rightarrow> (Err (401, AttestationRejected), d1)
         | Panic \<Rightarrow> (Panic, d1)
         | Ok result \<Rightarrow>
            if res_credential_id result \<noteq> credential_id_hint then (Err (400, CredentialIdMismatch), d1)
            else (case store_credential_from_attestation now row_ulid tenant_id result name d1 of
                (Ok _, d2) \<Rightarrow> (Ok (tenant_id, res_credential_id result), d2)
              | (Err e, d2) \<Rightarrow> (Err (500, CredentialStore e), d2)
              | (Panic, d2) \<Rightarrow> (Panic, d2))))"

record EnrollRequest =
  er_challenge_id :: string
  er_credential_id :: string
  er_attestation_object :: string
  er_client_data_json :: string
  er_name :: string

record EnrollResponse =
  en_tenant_id :: string
  en_credential_id :: string
  en_verified :: bool

definition enroll ::
    "('pk, 'sig) web_env \<Rightarrow> utc \<Rightarrow> string \<Rightarrow> EnrollRequest \<Rightarrow> db \<Rightarrow> EnrollResponse http \<times> db" where
  "enroll N now row_ulid req d =
    (case finish_ceremony N now row_ulid (er_challenge_id req) (er_credential_id req)
        (er_attestation_object req) (er_client_data_json req) (er_name req) d of
       (r, d') \<Rightarrow> (bind_res r (\<lambda>(tid, cid). Ok \<lparr> en_tenant_id = tid, en_credential_id = cid, en_verified = True \<rparr>), d'))"

definition ceremony_finish ::
    "('pk, 'sig) web_env \<Rightarrow> utc \<Rightarrow> string \<Rightarrow> EnrollRequest \<Rightarrow> db \<Rightarrow> (string \<times> string) http \<times> db" where
  "ceremony_finish N now row_ulid req d =
    (case finish_ceremony N now row_ulid (er_challenge_id req) (er_credential_id req)
        (er_attestation_object req) (er_client_data_json req) (er_name req) d of
       (r, d') \<Rightarrow> (bind_res r (\<lambda>(tid, cid). Ok (cid, tid)), d'))"

definition ceremony_begin ::
    "('pk, 'sig) web_env \<Rightarrow> utc \<Rightarrow> bytes \<Rightarrow> string \<Rightarrow> string \<Rightarrow> db \<Rightarrow>
     (PublicKeyCredentialCreationOptions \<times> string) http \<times> db" where
  "ceremony_begin N now random_challenge ulid tenant_id d =
    (let (options, challenge) = generate_ceremony_options (web N) random_challenge tenant_id DEFAULT_RP_ID
           ''Stronghold'' tenant_id tenant_id
     in (case store_challenge now ulid tenant_id challenge d of
           (Ok _, d') \<Rightarrow> (Ok (options, ulid), d')
         | (Err e, d') \<Rightarrow> (Err (500, ChallengeStore e), d')
         | (Panic, d') \<Rightarrow> (Panic, d')))"

section \<open>The phone: decisions\<close>

record DecideRequest =
  dr_session_id :: string
  dr_decision :: string
  dr_credential_id :: string
  dr_authenticator_data :: string
  dr_client_data_json :: string
  dr_signature :: string

definition assertion_of :: "DecideRequest \<Rightarrow> WebAuthnAssertion" where
  "assertion_of req = \<lparr> wa_credential_id = dr_credential_id req,
     wa_authenticator_data = dr_authenticator_data req, wa_client_data_json = dr_client_data_json req,
     wa_signature = dr_signature req \<rparr>"

definition apply_decision :: "utc \<Rightarrow> DecideRequest \<Rightarrow> db \<Rightarrow> (string \<times> string) http \<times> db" where
  "apply_decision now req d =
    (let answer = (\<lambda>(r, d'). (bind_res (map_err (\<lambda>e. (500, SessionFailed e)) r)
                                (\<lambda>_. Ok (dr_session_id req, dr_decision req)), d'))
     in if dr_decision req = ''approve'' then answer (approve_session now (dr_session_id req) d)
        else if dr_decision req = ''deny'' then answer (deny_session now (dr_session_id req) d)
        else (Err (400, InvalidDecision (dr_decision req)), d))"

definition decide ::
    "('pk, 'sig) web_env \<Rightarrow> utc \<Rightarrow> string option \<Rightarrow> DecideRequest \<Rightarrow> db \<Rightarrow> (string \<times> string) http \<times> db" where
  "decide N now authorization req d =
    (case authenticate_phone (web N) authorization d of
       Err e \<Rightarrow> (Err e, d)
     | Panic \<Rightarrow> (Panic, d)
     | Ok tenant_id \<Rightarrow>
        (case take_challenge now (dr_session_id req) tenant_id d of
           (Err e, d1) \<Rightarrow> (Err (500, ChallengeStore e), d1)
         | (Panic, d1) \<Rightarrow> (Panic, d1)
         | (Ok None, d1) \<Rightarrow> (Err (401, ChallengeGone), d1)
         | (Ok (Some _), d1) \<Rightarrow>
            (case verify_assertion (web N) now tenant_id (assertion_of req) (dr_session_id req) d1 of
               (verified, d2) \<Rightarrow>
                 if \<not> verified then (Err (401, AssertionRejected), d2)
                 else apply_decision now req d2)))"

definition revoke ::
    "session_env \<Rightarrow> utc \<Rightarrow> string option \<Rightarrow> string \<Rightarrow> app \<Rightarrow> nat http \<times> app" where
  "revoke E now authorization machine_id s =
    (case authenticate_phone (e_sig E) authorization (adb s) of
       Err e \<Rightarrow> (Err e, s)
     | Panic \<Rightarrow> (Panic, s)
     | Ok tenant_id \<Rightarrow>
        (case revoke_session E now tenant_id machine_id s of
           (r, s') \<Rightarrow> (bind_res (map_err (\<lambda>e. (500, SessionFailed e)) r) (\<lambda>_. Ok 200), s')))"

text \<open>The stream of a phone that connected: \<open>ticks\<close> are the timer events and the databases they see.\<close>

definition pending_sse :: "'a hash_lib_scheme \<Rightarrow> string option \<Rightarrow> db \<Rightarrow> tick list \<Rightarrow> sse_event list http" where
  "pending_sse H authorization d ticks =
     bind_res (authenticate_phone H authorization d) (\<lambda>tenant_id. Ok (pending_approval_stream tenant_id ticks {}))"

section \<open>The agent\<close>

definition agent_tenant :: "session_env \<Rightarrow> utc \<Rightarrow> string option \<Rightarrow> db \<Rightarrow> string http" where
  "agent_tenant E now authorization d =
     bind_res (extract_token authorization) (\<lambda>token. authenticate_agent (e_sig E) now token d)"

definition order_begin ::
    "('pk, 'sig) web_env \<Rightarrow> session_env \<Rightarrow> utc \<Rightarrow> string \<Rightarrow> bool \<Rightarrow> string option \<Rightarrow> OrderRequest \<Rightarrow> db \<Rightarrow>
     (string \<times> string) http \<times> db" where
  "order_begin N E now ulid push_ok authorization req d =
    (case agent_tenant E now authorization d of
       Err e \<Rightarrow> (Err e, d)
     | Panic \<Rightarrow> (Panic, d)
     | Ok tenant_id \<Rightarrow>
        (case create_pending (web N) now ulid tenant_id req d of
           (Err e, d') \<Rightarrow> (Err (500, SessionFailed e), d')
         | (Panic, d') \<Rightarrow> (Panic, d')
         | (Ok session_id, d') \<Rightarrow>
            if push_ok then (Ok (tenant_id, session_id), d') else (Err (502, PushFailed), d')))"

definition session_response :: "('a, SessionError) res \<Rightarrow> 'a http" where
  "session_response r = map_err (\<lambda>e. (500, SessionFailed e)) r"

definition order_end ::
    "session_env \<Rightarrow> utc \<Rightarrow> string \<Rightarrow> string \<Rightarrow> string \<Rightarrow> string \<Rightarrow> OrderRequest \<Rightarrow> db list \<Rightarrow> app \<Rightarrow>
     OrderResponse http \<times> app" where
  "order_end E now pod_ulid token_ulid tenant_id session_id req polls s =
    (case wait_for_decision session_id polls of
       Err e \<Rightarrow> (Err (500, SessionFailed e), s)
     | Panic \<Rightarrow> (Panic, s)
     | Ok Approved \<Rightarrow>
        (case finalize_session E now pod_ulid token_ulid tenant_id session_id req s of
           (r, s') \<Rightarrow> (session_response r, s'))
     | Ok Denied \<Rightarrow> (Err (403, TenantDenied), s)
     | Ok Timeout \<Rightarrow> (Err (408, ApprovalTimedOut), s))"

definition resume ::
    "session_env \<Rightarrow> utc \<Rightarrow> string \<Rightarrow> string option \<Rightarrow> string \<Rightarrow> db \<Rightarrow> OrderResponse http" where
  "resume E now token_ulid authorization machine_id d =
     bind_res (agent_tenant E now authorization d) (\<lambda>tenant_id.
     map_err (\<lambda>e. (case e of NotFound \<Rightarrow> 404 | Expired \<Rightarrow> 410 | _ \<Rightarrow> 500, SessionFailed e))
       (resume_session E now token_ulid tenant_id machine_id d))"

definition release ::
    "session_env \<Rightarrow> utc \<Rightarrow> string option \<Rightarrow> string \<Rightarrow> app \<Rightarrow> nat http \<times> app" where
  "release E now authorization machine_id s =
    (case agent_tenant E now authorization (adb s) of
       Err e \<Rightarrow> (Err e, s)
     | Panic \<Rightarrow> (Panic, s)
     | Ok tenant_id \<Rightarrow>
        (case release_session E now tenant_id machine_id s of
           (r, s') \<Rightarrow> (bind_res (session_response r) (\<lambda>_. Ok 200), s')))"

definition extend_begin ::
    "session_env \<Rightarrow> utc \<Rightarrow> string \<Rightarrow> bool \<Rightarrow> string option \<Rightarrow> ExtendRequest \<Rightarrow> db \<Rightarrow> (string \<times> string) http \<times> db" where
  "extend_begin E now ulid push_ok authorization req d =
    (case agent_tenant E now authorization d of
       Err e \<Rightarrow> (Err e, d)
     | Panic \<Rightarrow> (Panic, d)
     | Ok tenant_id \<Rightarrow>
        (case create_extend_request now ulid tenant_id req d of
           (Err e, d') \<Rightarrow> (Err (500, SessionFailed e), d')
         | (Panic, d') \<Rightarrow> (Panic, d')
         | (Ok session_id, d') \<Rightarrow>
            if push_ok then (Ok (tenant_id, session_id), d') else (Err (502, PushFailed), d')))"

definition extend_end ::
    "session_env \<Rightarrow> utc \<Rightarrow> string \<Rightarrow> string \<Rightarrow> string \<Rightarrow> ExtendRequest \<Rightarrow> db list \<Rightarrow> app \<Rightarrow> OrderResponse http \<times> app" where
  "extend_end E now token_ulid tenant_id session_id req polls s =
    (case wait_for_decision session_id polls of
       Err e \<Rightarrow> (Err (500, SessionFailed e), s)
     | Panic \<Rightarrow> (Panic, s)
     | Ok Approved \<Rightarrow>
        (case finalize_extend E now token_ulid tenant_id session_id req s of (r, s') \<Rightarrow> (session_response r, s'))
     | Ok Denied \<Rightarrow> (Err (403, TenantDenied), s)
     | Ok Timeout \<Rightarrow> (Err (408, ApprovalTimedOut), s))"

section \<open>What a decision does\<close>

lemma query_rows_cong:
  "(\<And>r. r \<in> set rows \<Longrightarrow> P r = Q r) \<Longrightarrow> query_row P rows = query_row Q rows"
  by (induction rows) auto

lemma mark_used_fields [simp]:
  "db_up (mark_challenge_used now cid d) = db_up d"
  "credentials (mark_challenge_used now cid d) = credentials d"
  "pending_sessions (mark_challenge_used now cid d) = pending_sessions d"
  "tenants (mark_challenge_used now cid d) = tenants d"
  by (simp_all add: mark_challenge_used_def)

lemma assertion_ok_cong:
  "db_up d = db_up d' \<Longrightarrow> credentials d = credentials d' \<Longrightarrow> assertion_ok W tid a rid d = assertion_ok W tid a rid d'"
  by (simp add: assertion_ok_def)

lemma verify_assertion_keeps:
  "db_up (snd (verify_assertion W now tid a rid d)) = db_up d"
  "pending_sessions (snd (verify_assertion W now tid a rid d)) = pending_sessions d"
  "phone_challenges (snd (verify_assertion W now tid a rid d)) = phone_challenges d"
  by (auto simp: verify_assertion_def update_credential_counter_def split: res.split)

lemma take_challenge_outcome:
  "take_challenge now cid tid d =
    (if \<not> db_up d then (Err PoolError, d)
     else case select_challenge cid tid d of None \<Rightarrow> (Ok None, d)
        | Some ch \<Rightarrow> (Ok (Some ch), mark_challenge_used now cid d))"
  by (simp add: take_challenge_def split: option.split)

definition may_decide ::
    "('pk, 'sig) web_env \<Rightarrow> string option \<Rightarrow> DecideRequest \<Rightarrow> db \<Rightarrow> bool" where
  "may_decide N auth req d \<longleftrightarrow>
     (\<exists>tid. authenticate_phone (web N) auth d = Ok tid \<and> select_challenge (dr_session_id req) tid d \<noteq> None \<and>
        assertion_ok (web N) tid (assertion_of req) (dr_session_id req) d) \<and>
     (dr_decision req = ''approve'' \<or> dr_decision req = ''deny'')"

lemma set_session_status_outcome:
  "db_up d \<Longrightarrow> fst (set_session_status st now sid d) = Ok ()"
  "db_up d \<Longrightarrow> pending_sessions (snd (set_session_status st now sid d)) =
     update_where (\<lambda>r. ps_id r = sid) (\<lambda>r. r \<lparr> ps_status := st, ps_decided_at := Some (sqlite_datetime now) \<rparr>)
       (pending_sessions d)"
  by (simp_all add: set_session_status_def)

lemma apply_decision_outcome:
  assumes "db_up d"
  shows "is_ok (fst (apply_decision now req d)) \<longleftrightarrow> dr_decision req = ''approve'' \<or> dr_decision req = ''deny''"
    and "pending_sessions (snd (apply_decision now req d)) =
      (if is_ok (fst (apply_decision now req d))
       then update_where (\<lambda>r. ps_id r = dr_session_id req)
              (\<lambda>r. r \<lparr> ps_status := if dr_decision req = ''approve'' then ''approved'' else ''denied'',
                       ps_decided_at := Some (sqlite_datetime now) \<rparr>) (pending_sessions d)
       else pending_sessions d)"
  using set_session_status_outcome [OF assms]
  by (auto simp: apply_decision_def approve_session_def deny_session_def Let_def split_beta)

lemma decide_pending:
  shows "is_ok (fst (decide N now auth req d)) \<longleftrightarrow> may_decide N auth req d"
    and "pending_sessions (snd (decide N now auth req d)) =
      (if may_decide N auth req d
       then update_where (\<lambda>r. ps_id r = dr_session_id req)
              (\<lambda>r. r \<lparr> ps_status := if dr_decision req = ''approve'' then ''approved'' else ''denied'',
                       ps_decided_at := Some (sqlite_datetime now) \<rparr>) (pending_sessions d)
       else pending_sessions d)"
proof -
  have "(is_ok (fst (decide N now auth req d)) \<longleftrightarrow> may_decide N auth req d) \<and>
    pending_sessions (snd (decide N now auth req d)) =
      (if may_decide N auth req d
       then update_where (\<lambda>r. ps_id r = dr_session_id req)
              (\<lambda>r. r \<lparr> ps_status := if dr_decision req = ''approve'' then ''approved'' else ''denied'',
                       ps_decided_at := Some (sqlite_datetime now) \<rparr>) (pending_sessions d)
       else pending_sessions d)"
  proof (cases "\<exists>tid ch. authenticate_phone (web N) auth d = Ok tid \<and> db_up d \<and>
      select_challenge (dr_session_id req) tid d = Some ch")
    case True
    then obtain tid ch where a: "authenticate_phone (web N) auth d = Ok tid" "db_up d"
      "select_challenge (dr_session_id req) tid d = Some ch" by blast
    let ?m = "mark_challenge_used now (dr_session_id req) d"
    let ?v = "verify_assertion (web N) now tid (assertion_of req) (dr_session_id req) ?m"
    have dec: "decide N now auth req d =
        (if \<not> fst ?v then (Err (401, AssertionRejected), snd ?v) else apply_decision now req (snd ?v))"
      using a by (simp add: decide_def take_challenge_outcome split_beta)
    have v: "fst ?v \<longleftrightarrow> assertion_ok (web N) tid (assertion_of req) (dr_session_id req) d"
      unfolding verify_assertion_iff by (rule assertion_ok_cong) simp_all
    have may: "may_decide N auth req d \<longleftrightarrow> fst ?v \<and> (dr_decision req = ''approve'' \<or> dr_decision req = ''deny'')"
      unfolding v may_decide_def using a by auto
    have up: "db_up (snd ?v)" "pending_sessions (snd ?v) = pending_sessions d"
      using a(2) by (simp_all add: verify_assertion_keeps)
    show ?thesis
      using apply_decision_outcome [OF up(1), of now req] up(2) unfolding dec may by auto
  next
    case False
    then have "\<not> may_decide N auth req d" by (auto simp: may_decide_def assertion_ok_def)
    moreover have "\<not> is_ok (fst (decide N now auth req d))" "snd (decide N now auth req d) = d"
      using False by (auto simp: decide_def take_challenge_outcome split: res.split option.split)
    ultimately show ?thesis by simp
  qed
  then show "is_ok (fst (decide N now auth req d)) \<longleftrightarrow> may_decide N auth req d"
    "pending_sessions (snd (decide N now auth req d)) =
      (if may_decide N auth req d
       then update_where (\<lambda>r. ps_id r = dr_session_id req)
              (\<lambda>r. r \<lparr> ps_status := if dr_decision req = ''approve'' then ''approved'' else ''denied'',
                       ps_decided_at := Some (sqlite_datetime now) \<rparr>) (pending_sessions d)
       else pending_sessions d)" by blast+
qed

section \<open>A request gets one attempt\<close>

lemma spent_select: "challenge_spent cid d \<Longrightarrow> select_challenge cid tid d = None"
  by (cases "select_challenge cid tid d") (auto simp: challenge_spent_def dest!: select_challenge_in)

lemma decide_phone_challenges:
  assumes "authenticate_phone (web N) auth d = Ok tid" "db_up d" "select_challenge (dr_session_id req) tid d = Some ch"
  shows "phone_challenges (snd (decide N now auth req d)) =
    phone_challenges (mark_challenge_used now (dr_session_id req) d)"
proof -
  have "phone_challenges (snd (apply_decision now req e)) = phone_challenges e" for e
    by (auto simp: apply_decision_def approve_session_def deny_session_def set_session_status_def Let_def)
  then show ?thesis
    using assms by (auto simp: decide_def take_challenge_outcome split_beta verify_assertion_keeps)
qed

lemma decide_spends:
  assumes "authenticate_phone (web N) auth d = Ok tid" "db_up d" "select_challenge (dr_session_id req) tid d = Some ch"
  shows "challenge_spent (dr_session_id req) (snd (decide N now auth req d))"
proof -
  obtain r where "r \<in> set (phone_challenges d)" "ch_id r = dr_session_id req"
    using select_challenge_in [OF assms(3)] by blast
  from mark_challenge_used_spends [OF this] show ?thesis
    using decide_phone_challenges [OF assms, of now] by (simp add: challenge_spent_def)
qed

section \<open>Registration\<close>

lemma store_credential_outcome:
  "store_credential_from_attestation now u tid res name d = (Ok x, d') \<longleftrightarrow>
   db_up d \<and> tenant_exists tid d \<and> (\<forall>r\<in>set (credentials d). cr_id r \<noteq> u) \<and> x = u \<and>
   d' = d \<lparr> credentials := credentials d @
       [\<lparr> cr_id = u, cr_tenant_id = tid, cr_credential_id = res_credential_id res, cr_public_key = res_public_key res,
          cr_aaguid = Some (res_aaguid res), cr_transports = Some [], cr_name = Some name,
          cr_verified = 1, cr_created_at = sqlite_datetime now, cr_last_used_at = None,
          cr_revoked_at = None, cr_counter = uint (res_sign_count res) \<rparr>] \<rparr>"
  by (auto simp: store_credential_from_attestation_def list_ex_iff)

lemma finish_ceremony_Ok:
  "finish_ceremony N now u cid hint ob js name d = (Ok (tid, cred), d') \<longleftrightarrow>
   cred = hint \<and> db_up d \<and>
   (\<exists>ch res. select_challenge_by_id cid d = Some (tid, ch) \<and>
      verify_attestation (web N) (cbor_limits N) (stack_frames N)
        \<lparr> aa_client_data_json = js, aa_attestation_object = ob \<rparr> ch DEFAULT_RP_ORIGIN DEFAULT_RP_ID = Ok res \<and>
      res_credential_id res = hint \<and>
      store_credential_from_attestation now u tid res name (mark_challenge_used now cid d) = (Ok u, d'))"
  (is "?l \<longleftrightarrow> ?r")
proof
  assume ?l
  moreover have "x = u" if "store_credential_from_attestation now u t res name e = (Ok x, e')" for x t res e e'
    using that by (simp add: store_credential_outcome)
  ultimately show ?r
    by (auto simp: finish_ceremony_def take_challenge_by_id_def split: if_splits option.splits res.splits prod.splits)
next
  assume ?r
  then show ?l by (auto simp: finish_ceremony_def take_challenge_by_id_def)
qed

section \<open>Properties\<close>

text \<open>C6. The verdict endpoint answers with success exactly when the caller's phone token is live, an unused
  challenge of its tenant exists under the session's id, the assertion is acceptable and the verdict is
  approve or deny. Then, and only then, it changes a status: that of the named session.\<close>
theorem decide_outcome:
  "(is_ok (fst (decide N now auth req d)) \<longleftrightarrow> may_decide N auth req d) \<and>
   pending_sessions (snd (decide N now auth req d)) =
     (if may_decide N auth req d
      then update_where (\<lambda>r. ps_id r = dr_session_id req)
             (\<lambda>r. r \<lparr> ps_status := if dr_decision req = ''approve'' then ''approved'' else ''denied'',
                      ps_decided_at := Some (sqlite_datetime now) \<rparr>) (pending_sessions d)
      else pending_sessions d)"
  using decide_pending by blast

text \<open>A request gets one attempt: once its challenge was handed to a verdict, even a rejected one, no
  later verdict on it succeeds or changes any status.\<close>
lemma one_attempt_per_request:
  assumes "authenticate_phone (web N) auth d = Ok tid" "db_up d"
    and "select_challenge (dr_session_id req) tid d = Some ch" "dr_session_id req' = dr_session_id req"
  shows "\<not> is_ok (fst (decide N now' auth' req' (snd (decide N now auth req d)))) \<and>
    pending_sessions (snd (decide N now' auth' req' (snd (decide N now auth req d)))) =
      pending_sessions (snd (decide N now auth req d))"
proof -
  have "\<not> may_decide N auth' req' (snd (decide N now auth req d))"
    using spent_select [OF decide_spends [OF assms(1-3), of now]] by (simp add: may_decide_def assms(4))
  then show ?thesis by (simp add: decide_pending)
qed

definition demo_phone_db :: db where
  "demo_phone_db = demo_tenant_db \<lparr>
     credentials := [demo_credential],
     phone_tokens := [\<lparr> pt_tenant_id = ''t1'', pt_token_hash = hash_token demo_short_hash ''p'', pt_created_at = [],
        pt_revoked_at = None \<rparr>],
     agent_tokens := [\<lparr> at_tenant_id = ''t1'', at_token_hash = hash_token demo_short_hash ''a'', at_scope = None,
        at_created_at = [], at_expires_at = None, at_revoked_at = None \<rparr>] \<rparr>"

definition demo_net :: "string \<Rightarrow> (unit, unit) web_env" where
  "demo_net sid = \<lparr> web = demo_web (demo_get_data \<lparr> cd_challenge := string_of_bytes (demo_digest (as_bytes sid)) \<rparr>),
     cbor_limits = \<lparr> array_cap = 8, map_cap = 8 \<rparr>, stack_frames = 9 \<rparr>"

definition demo_verdict :: "string \<Rightarrow> string \<Rightarrow> DecideRequest" where
  "demo_verdict sid verdict = \<lparr> dr_session_id = sid, dr_decision = verdict, dr_credential_id = ''c1'',
     dr_authenticator_data = wa_authenticator_data demo_assertion, dr_client_data_json = ''json'',
     dr_signature = ''sig'' \<rparr>"

definition demo_request_db :: db where
  "demo_request_db = snd (create_pending (web (demo_net ''sess_1'')) demo_time ''1'' ''t1'' (demo_order 60) demo_phone_db)"

lemma one_attempt_per_request_witness:
  "is_ok (fst (decide (demo_net ''sess_1'') demo_time (Some ''Bearer p'') (demo_verdict ''sess_1'' ''deny'') demo_request_db)) \<and>
   \<not> is_ok (fst (decide (demo_net ''sess_1'') demo_time (Some ''Bearer p'') (demo_verdict ''sess_1'' ''approve'')
     (snd (decide (demo_net ''sess_1'') demo_time (Some ''Bearer p'') (demo_verdict ''sess_1'' ''deny'') demo_request_db))))"
proof -
  let ?N = "demo_net ''sess_1''" and ?auth = "Some ''Bearer p''"
  have a: "authenticate_phone (web ?N) ?auth demo_request_db = Ok ''t1''" by code_simp
  have u: "db_up demo_request_db" by code_simp
  have sel: "select_challenge (dr_session_id (demo_verdict ''sess_1'' ''deny'')) ''t1'' demo_request_db =
      Some (demo_digest (as_bytes ''sess_1''))" by code_simp
  have "is_ok (fst (decide ?N demo_time ?auth (demo_verdict ''sess_1'' ''deny'') demo_request_db))" by code_simp
  then show ?thesis
    using one_attempt_per_request [OF a u sel, of "demo_verdict ''sess_1'' ''approve''"]
    by (simp add: demo_verdict_def)
qed

text \<open>C8. Registering a phone stores exactly the attested credential, for the tenant whose unused challenge
  is named, and only when the attestation verifies against that challenge and the announced id matches.\<close>
theorem enrollment_accepted_iff:
  "finish_ceremony N now u cid hint ob js name d = (Ok (tid, cred), d') \<longleftrightarrow>
   cred = hint \<and> db_up d \<and> tenant_exists tid d \<and> u \<notin> cr_id ` set (credentials d) \<and>
   (\<exists>ch res. select_challenge_by_id cid d = Some (tid, ch) \<and>
      verify_attestation (web N) (cbor_limits N) (stack_frames N)
        \<lparr> aa_client_data_json = js, aa_attestation_object = ob \<rparr> ch DEFAULT_RP_ORIGIN DEFAULT_RP_ID = Ok res \<and>
      res_credential_id res = hint \<and>
      d' = (mark_challenge_used now cid d) \<lparr> credentials := credentials d @
       [\<lparr> cr_id = u, cr_tenant_id = tid, cr_credential_id = hint, cr_public_key = res_public_key res,
          cr_aaguid = Some (res_aaguid res), cr_transports = Some [], cr_name = Some name,
          cr_verified = 1, cr_created_at = sqlite_datetime now, cr_last_used_at = None,
          cr_revoked_at = None, cr_counter = uint (res_sign_count res) \<rparr>] \<rparr>)"
  unfolding finish_ceremony_Ok store_credential_outcome
  by (auto simp: tenant_exists_def image_iff)

text \<open>A stranger can register a phone for any tenant: no token and no setup password is asked for.
  Beginning a ceremony and finishing it with an attestation over the challenge it returned stores a live
  credential of that tenant.\<close>
lemma stranger_registers_phone:
  assumes "ceremony_begin N now rnd cid tid d = (Ok (opts, cid'), d1)"
    and "verify_attestation (web N) (cbor_limits N) (stack_frames N)
        \<lparr> aa_client_data_json = er_client_data_json req, aa_attestation_object = er_attestation_object req \<rparr>
        rnd DEFAULT_RP_ORIGIN DEFAULT_RP_ID = Ok res"
    and "er_challenge_id req = cid'" "er_credential_id req = res_credential_id res"
    and "\<forall>r\<in>set (credentials d). cr_id r \<noteq> u"
  shows "is_ok (fst (enroll N now' u req d1)) \<and>
    (\<exists>r\<in>set (credentials (snd (enroll N now' u req d1))). live_credential tid (res_credential_id res) r)"
proof -
  have st: "store_challenge now cid tid rnd d = (Ok (), d1)" and cid: "cid' = cid"
    using assms(1)
    by (auto simp: ceremony_begin_def generate_ceremony_options_def split: prod.splits res.splits)
  have new: "db_up d" "tenant_exists tid d" "\<forall>r\<in>set (phone_challenges d). ch_id r \<noteq> cid"
    and d1: "d1 = d \<lparr> phone_challenges := phone_challenges d @
       [\<lparr> ch_id = cid, ch_tenant_id = tid, ch_challenge = rnd, ch_created_at = sqlite_datetime now, ch_used_at = None \<rparr>] \<rparr>"
    using st by (auto simp: store_challenge_def list_ex_iff split: if_splits)
  have "query_row (\<lambda>r. ch_id r = cid \<and> ch_used_at r = None) (phone_challenges d) = None"
    using new(3) by (simp add: query_row_None)
  then have sel: "select_challenge_by_id cid d1 = Some (tid, rnd)"
    by (simp add: d1 select_challenge_by_id_def query_row_append)
  have ten: "tenant_exists tid (mark_challenge_used now' cid d1)"
    using new(2) by (simp add: d1 tenant_exists_def)
  have fresh: "\<forall>r\<in>set (credentials d1). cr_id r \<noteq> u" using assms(5) by (simp add: d1)
  obtain d2 where sc: "store_credential_from_attestation now' u tid res (er_name req) (mark_challenge_used now' cid d1) = (Ok u, d2)"
    using ten fresh new(1) by (auto simp: store_credential_outcome d1)
  have "finish_ceremony N now' u cid (res_credential_id res) (er_attestation_object req) (er_client_data_json req)
      (er_name req) d1 = (Ok (tid, res_credential_id res), d2)"
    unfolding finish_ceremony_Ok using sel assms(2) sc new(1) by (simp add: d1)
  then have "enroll N now' u req d1 = (Ok \<lparr> en_tenant_id = tid, en_credential_id = res_credential_id res, en_verified = True \<rparr>, d2)"
    by (simp add: enroll_def assms(3,4) cid)
  moreover have "\<exists>r\<in>set (credentials d2). live_credential tid (res_credential_id res) r"
    using sc by (auto simp: store_credential_outcome live_credential_def)
  ultimately show ?thesis by simp
qed

definition demo_enrollment :: EnrollRequest where
  "demo_enrollment = \<lparr> er_challenge_id = ''01U'', er_credential_id = res_credential_id demo_result,
     er_attestation_object = aa_attestation_object demo_attestation,
     er_client_data_json = aa_client_data_json demo_attestation, er_name = ''phone'' \<rparr>"

definition demo_reg_net :: "(unit, unit) web_env" where
  "demo_reg_net = \<lparr> web = demo_web demo_create_data, cbor_limits = \<lparr> array_cap = 8, map_cap = 8 \<rparr>, stack_frames = 9 \<rparr>"

lemma stranger_registers_phone_witness:
  "is_ok (fst (enroll demo_reg_net demo_time ''row9'' demo_enrollment
     (snd (ceremony_begin demo_reg_net demo_time [7] ''01U'' ''t1'' demo_tenant_db))))"
proof -
  have "is_ok (fst (ceremony_begin demo_reg_net demo_time [7] ''01U'' ''t1'' demo_tenant_db))"
    by (simp add: ceremony_begin_def generate_ceremony_options_def store_challenge_def demo_tenant_db_def
        empty_db_def tenant_exists_def)
  then obtain x where b: "ceremony_begin demo_reg_net demo_time [7] ''01U'' ''t1'' demo_tenant_db =
      (Ok x, snd (ceremony_begin demo_reg_net demo_time [7] ''01U'' ''t1'' demo_tenant_db))"
    by (rule is_ok_fstE)
  have "snd x = ''01U''"
    using b [THEN arg_cong [of _ _ fst]]
    by (cases x) (simp add: ceremony_begin_def generate_ceremony_options_def split_beta split: res.splits)
  then obtain opts where x: "x = (opts, ''01U'')" by (cases x) simp
  have enr: "er_challenge_id demo_enrollment = ''01U''" "er_credential_id demo_enrollment = res_credential_id demo_result"
    by (simp_all add: demo_enrollment_def)
  have att: "verify_attestation (web demo_reg_net) (cbor_limits demo_reg_net) (stack_frames demo_reg_net)
      \<lparr> aa_client_data_json = er_client_data_json demo_enrollment,
        aa_attestation_object = er_attestation_object demo_enrollment \<rparr> [7] DEFAULT_RP_ORIGIN DEFAULT_RP_ID = Ok demo_result"
    using demo_attestation_verifies by (simp add: demo_reg_net_def demo_enrollment_def demo_attestation_def)
  have fresh: "\<forall>r\<in>set (credentials demo_tenant_db). cr_id r \<noteq> ''row9''"
    by (simp add: demo_tenant_db_def empty_db_def)
  show ?thesis
    using stranger_registers_phone [OF b [unfolded x] att enr fresh, of demo_time] by blast
qed

text \<open>A phone revokes any machine by its name: the pod is deleted before ownership is looked at, so the pod
  of another tenant dies while that tenant's row still says active.\<close>
lemma revoke_ignores_ownership:
  assumes "authenticate_phone (e_sig E) auth (adb s) = Ok tid" "kube_up (cluster s)"
    and "\<forall>m\<in>set (machines (adb s)). ma_id m = mid \<longrightarrow> ma_tenant_id m \<noteq> tid"
  shows "pods (cluster (snd (revoke E now auth mid s))) = filter (\<lambda>p. po_name p \<noteq> mid) (pods (cluster s)) \<and>
    machines (adb (snd (revoke E now auth mid s))) = machines (adb s)"
proof -
  obtain r s' where e: "end_session ''revoked'' ''session_revoked'' ''phone_revoked'' E now tid mid s = (r, s')" by fastforce
  have "snd (revoke E now auth mid s) = s'"
    using e by (simp add: revoke_def assms(1) revoke_session_def)
  then show ?thesis
    using end_session_cluster [OF e assms(2)] end_session_machines [OF e assms(3)] by simp
qed

lemma revoke_ignores_ownership_witness:
  "pods (cluster (snd (revoke demo_env demo_time (Some ''Bearer p'') ''m1''
     \<lparr> adb = demo_phone_db \<lparr> machines := [demo_machine \<lparr> ma_tenant_id := ''t2'' \<rparr>] \<rparr>,
       cluster = \<lparr> kube_up = True, pods = [\<lparr> po_name = ''m1'', po_app = [], po_tenant = ''t2'', po_image = [],
         po_cpu_millis = 1, po_memory_gb = 1, po_env = [], po_work_claim = None \<rparr>], pvcs = [] \<rparr> \<rparr>))) = []"
proof -
  let ?s = "\<lparr> adb = demo_phone_db \<lparr> machines := [demo_machine \<lparr> ma_tenant_id := ''t2'' \<rparr>] \<rparr>,
       cluster = \<lparr> kube_up = True, pods = [\<lparr> po_name = ''m1'', po_app = [], po_tenant = ''t2'', po_image = [],
         po_cpu_millis = 1, po_memory_gb = 1, po_env = [], po_work_claim = None \<rparr>], pvcs = [] \<rparr> \<rparr>"
  have a: "authenticate_phone (e_sig demo_env) (Some ''Bearer p'') (adb ?s) = Ok ''t1''" by code_simp
  show ?thesis
    using revoke_ignores_ownership [OF a, of "''m1''" demo_time] by simp
qed

end
