(* ===== verification/Gateway.thy ===== *)
theory Gateway
  imports Routes
begin

text \<open>
  The running gateway: the handlers of theory Routes as the steps of a transition system over the
  database and the cluster, with the decisions it accepted as history. Waiting handlers interleave with
  all others because their second halves are steps of their own. The invariant says who can approve what.
\<close>

section \<open>Steps\<close>

record decision_event =
  dc_tenant :: string
  dc_request :: DecideRequest
  dc_db :: db

definition is_ulid :: "string \<Rightarrow> bool" where
  "is_ulid u \<longleftrightarrow> length u = 26 \<and> list_all (\<lambda>c. ascii_digit c \<or> ascii_upper c) u"

text \<open>What \<open>decide\<close> adds to the history: the tenant, the request, and the database in which the assertion
  was verified.\<close>

definition decided ::
    "('pk, 'sig) web_env \<Rightarrow> utc \<Rightarrow> string option \<Rightarrow> DecideRequest \<Rightarrow> db \<Rightarrow> decision_event list" where
  "decided N now auth req d =
    (case authenticate_phone (web N) auth d of
       Ok tid \<Rightarrow> if is_ok (fst (decide N now auth req d))
         then [\<lparr> dc_tenant = tid, dc_request = req, dc_db = snd (take_challenge now (dr_session_id req) tid d) \<rparr>]
         else []
     | _ \<Rightarrow> [])"

inductive reachable :: "('pk, 'sig) web_env \<Rightarrow> session_env \<Rightarrow> db \<Rightarrow> decision_event list \<Rightarrow> app \<Rightarrow> bool"
  for N E d0 where
  start: "pending_sessions d0 = [] \<Longrightarrow> phone_challenges d0 = [] \<Longrightarrow> reachable N E d0 [] \<lparr> adb = d0, cluster = k \<rparr>"
| step_ceremony_begin: "reachable N E d0 h s \<Longrightarrow> is_ulid u \<Longrightarrow>
    reachable N E d0 h (s \<lparr> adb := snd (ceremony_begin N now rnd u tid (adb s)) \<rparr>)"
| step_enroll: "reachable N E d0 h s \<Longrightarrow> reachable N E d0 h (s \<lparr> adb := snd (enroll N now u ereq (adb s)) \<rparr>)"
| step_ceremony_finish: "reachable N E d0 h s \<Longrightarrow>
    reachable N E d0 h (s \<lparr> adb := snd (ceremony_finish N now u ereq (adb s)) \<rparr>)"
| step_decide: "reachable N E d0 h s \<Longrightarrow>
    reachable N E d0 (decided N now auth req (adb s) @ h) (s \<lparr> adb := snd (decide N now auth req (adb s)) \<rparr>)"
| step_revoke: "reachable N E d0 h s \<Longrightarrow> reachable N E d0 h (snd (revoke E now auth mid s))"
| step_order_begin: "reachable N E d0 h s \<Longrightarrow>
    reachable N E d0 h (s \<lparr> adb := snd (order_begin N E now u push_ok auth oreq (adb s)) \<rparr>)"
| step_order_end: "reachable N E d0 h s \<Longrightarrow>
    reachable N E d0 h (snd (order_end E now u1 u2 tid sid oreq polls s))"
| step_release: "reachable N E d0 h s \<Longrightarrow> reachable N E d0 h (snd (release E now auth mid s))"
| step_extend_begin: "reachable N E d0 h s \<Longrightarrow>
    reachable N E d0 h (s \<lparr> adb := snd (extend_begin E now u push_ok auth xreq (adb s)) \<rparr>)"
| step_extend_end: "reachable N E d0 h s \<Longrightarrow>
    reachable N E d0 h (snd (extend_end E now u2 tid sid xreq polls s))"
| step_mint: "reachable N E d0 h s \<Longrightarrow>
    reachable N E d0 h (s \<lparr> adb := snd (mint_agent_token (e_sig E) (add_secs E) now rnd_token tid scope ttl (adb s)) \<rparr>)"
| step_create_tenant: "reachable N E d0 h s \<Longrightarrow>
    reachable N E d0 h (s \<lparr> adb := snd (create_tenant (e_sig E) now u draws name (adb s)) \<rparr>)"
| step_set_quota: "reachable N E d0 h s \<Longrightarrow>
    reachable N E d0 h (s \<lparr> adb := snd (set_quota tid n cpu mem (adb s)) \<rparr>)"

section \<open>The invariant\<close>

definition challenge_keys :: "db \<Rightarrow> (string \<times> string) list" where
  "challenge_keys d = map (\<lambda>c. (ch_id c, ch_tenant_id c)) (phone_challenges d)"

definition approves ::
    "('pk, 'sig) web_env \<Rightarrow> string \<Rightarrow> string \<Rightarrow> decision_event \<Rightarrow> bool" where
  "approves N tid sid x \<longleftrightarrow> dc_tenant x = tid \<and> dr_session_id (dc_request x) = sid \<and>
     dr_decision (dc_request x) = ''approve'' \<and>
     assertion_ok (web N) tid (assertion_of (dc_request x)) sid (dc_db x)"

definition row_inv ::
    "('pk, 'sig) web_env \<Rightarrow> decision_event list \<Rightarrow> (string \<times> string) list \<Rightarrow> pending_session_row \<Rightarrow> bool" where
  "row_inv N h keys r \<longleftrightarrow>
     (starts_with (ps_id r) ''sess_'' \<or> starts_with (ps_id r) ''ext_'') \<and>
     (ps_status r = ''approved'' \<longrightarrow> (\<exists>x\<in>set h. approves N (ps_tenant_id r) (ps_id r) x)) \<and>
     (\<forall>t. (ps_id r, t) \<in> set keys \<longrightarrow> t = ps_tenant_id r \<and> starts_with (ps_id r) ''sess_'') \<and>
     (starts_with (ps_id r) ''ext_'' \<longrightarrow> ps_status r = ''pending'')"

definition gateway_inv :: "('pk, 'sig) web_env \<Rightarrow> decision_event list \<Rightarrow> db \<Rightarrow> bool" where
  "gateway_inv N h d \<longleftrightarrow>
     (\<forall>r\<in>set (pending_sessions d). row_inv N h (challenge_keys d) r) \<and>
     (\<forall>(c, t)\<in>set (challenge_keys d). is_ulid c \<or> c \<in> ps_id ` set (pending_sessions d))"

text \<open>Steps that touch neither table keep it.\<close>

lemma gateway_inv_cong:
  "pending_sessions d' = pending_sessions d \<Longrightarrow> challenge_keys d' = challenge_keys d \<Longrightarrow>
   gateway_inv N h d' = gateway_inv N h d"
  by (simp add: gateway_inv_def)

definition same_approvals :: "db \<Rightarrow> db \<Rightarrow> bool" where
  "same_approvals d d' \<longleftrightarrow> pending_sessions d' = pending_sessions d \<and> challenge_keys d' = challenge_keys d \<and>
     phone_tokens d' = phone_tokens d"

lemma same_approvals_refl [simp]: "same_approvals d d"
  by (simp add: same_approvals_def)

lemma same_approvals_trans: "same_approvals a b \<Longrightarrow> same_approvals b c \<Longrightarrow> same_approvals a c"
  by (simp add: same_approvals_def)

lemma same_approvals_inv: "same_approvals d d' \<Longrightarrow> gateway_inv N h d \<Longrightarrow> gateway_inv N h d'"
  using gateway_inv_cong by (auto simp: same_approvals_def)

lemma mark_keeps: "same_approvals d (mark_challenge_used now cid d)"
  by (simp add: same_approvals_def challenge_keys_def mark_challenge_used_def map_update_where)

lemma take_keeps: "same_approvals d (snd (take_challenge now cid tid d))"
  by (simp add: take_challenge_def mark_keeps split: option.split)

lemma take_by_id_keeps: "same_approvals d (snd (take_challenge_by_id now cid d))"
  by (auto simp: take_challenge_by_id_def mark_keeps split: option.split)

lemma entry_keeps: "same_approvals d (snd (entry G now rh tid mid ev pl k d))"
  by (simp add: entry_def same_approvals_def challenge_keys_def)

lemma with_audit_keeps: "same_approvals d (snd (with_audit E now tid mid ev pl x d))"
  by (auto simp: same_approvals_def challenge_keys_def with_audit_def entry_def split: prod.splits res.splits)

lemma counter_keeps: "same_approvals d (update_credential_counter now tid cid n d)"
  by (simp add: update_credential_counter_def same_approvals_def challenge_keys_def)

lemma verify_keeps: "same_approvals d (snd (verify_assertion W now tid a rid d))"
  by (auto simp: verify_assertion_def counter_keeps split: res.split)

lemma store_credential_keeps: "same_approvals d (snd (store_credential_from_attestation now u tid res name d))"
  by (simp add: store_credential_from_attestation_def same_approvals_def challenge_keys_def)

lemma finish_ceremony_keeps: "same_approvals d (snd (finish_ceremony N now u cid hint ob js name d))"
proof -
  note t = take_by_id_keeps [of d now cid]
  note st = same_approvals_trans [OF t store_credential_keeps]
  show ?thesis
    using t st by (auto simp: finish_ceremony_def split_beta split: res.split option.split)
qed

lemma enroll_keeps: "same_approvals d (snd (enroll N now u req d))"
  using finish_ceremony_keeps [of d N now u "er_challenge_id req" "er_credential_id req"
      "er_attestation_object req" "er_client_data_json req" "er_name req"]
  by (simp add: enroll_def split_beta)

lemma ceremony_finish_keeps: "same_approvals d (snd (ceremony_finish N now u req d))"
  using finish_ceremony_keeps [of d N now u "er_challenge_id req" "er_credential_id req"
      "er_attestation_object req" "er_client_data_json req" "er_name req"]
  by (simp add: ceremony_finish_def split_beta)

lemma mint_keeps: "same_approvals d (snd (mint_agent_token H f now rnd tid scope ttl d))"
  by (simp add: mint_agent_token_def same_approvals_def challenge_keys_def Let_def split: option.split)

lemma create_tenant_keeps: "same_approvals d (snd (create_tenant H now u draws name d))"
  by (simp add: create_tenant_def same_approvals_def challenge_keys_def Let_def)

lemma set_quota_keeps: "same_approvals d (snd (set_quota tid n cpu mem d))"
  by (simp add: set_quota_def same_approvals_def challenge_keys_def)

lemma end_session_keeps: "same_approvals (adb s) (adb (snd (end_session st ev why E now tid mid s)))"
proof -
  have "same_approvals (adb s) (snd (with_audit E now tid mid ev pl () ((adb s) \<lparr> machines := ms \<rparr>)))" for pl ms
    by (rule same_approvals_trans [OF _ with_audit_keeps]) (simp add: same_approvals_def challenge_keys_def)
  then show ?thesis by (auto simp: end_session_def split_beta Let_def split: res.split)
qed

lemma revoke_keeps: "same_approvals (adb s) (adb (snd (revoke E now auth mid s)))"
  by (auto simp: revoke_def revoke_session_def split_beta end_session_keeps split: res.split)

lemma release_keeps: "same_approvals (adb s) (adb (snd (release E now auth mid s)))"
  by (auto simp: release_def release_session_def split_beta end_session_keeps split: res.split)

lemma insert_machine_keeps: "same_approvals d (snd (insert_machine m d))"
  by (simp add: insert_machine_def same_approvals_def challenge_keys_def)

lemma record_machine_keeps: "same_approvals d (snd (record_machine E now tok tid sid req sm d))"
proof -
  have i: "same_approvals d (snd (insert_machine m d))" for m by (rule insert_machine_keeps)
  have "same_approvals d (snd (with_audit E now tid mid ev pl x (snd (insert_machine m d))))" for mid ev pl x m
    by (rule same_approvals_trans [OF i with_audit_keeps])
  then show ?thesis using i
    by (auto simp: record_machine_def split_beta split: res.split option.split)
qed

lemma order_end_keeps: "same_approvals (adb s) (adb (snd (order_end E now u1 u2 tid sid req polls s)))"
  by (auto simp: order_end_def finalize_session_def split_beta record_machine_keeps
      split: res.split Decision.split)

lemma extend_machine_keeps: "extend_machine E tid mid secs d = Some d' \<Longrightarrow> same_approvals d d'"
  by (auto simp: extend_machine_def Let_def same_approvals_def challenge_keys_def split: if_splits)

lemma extend_end_keeps: "same_approvals (adb s) (adb (snd (extend_end E now u2 tid sid req polls s)))"
proof -
  have "same_approvals (adb s) (snd (with_audit E now tid mid ev pl x d'))"
    if "Option.bind n (\<lambda>secs. extend_machine E tid mid secs (adb s)) = Some d'" for mid ev pl x d' n
    using that extend_machine_keeps same_approvals_trans [OF _ with_audit_keeps]
    by (cases n) fastforce+
  then show ?thesis
    by (auto simp: extend_end_def finalize_extend_def split_beta split: res.split Decision.split option.split)
qed

section \<open>Steps that add rows\<close>

lemma is_ulid_prefix:
  assumes "is_ulid c"
  shows "\<not> starts_with c ''sess_''" "\<not> starts_with c ''ext_''"
proof -
  have "ascii_digit (hd c) \<or> ascii_upper (hd c)"
    using assms by (cases c) (auto simp: is_ulid_def)
  then have "hd c \<noteq> CHR ''s''" "hd c \<noteq> CHR ''e''"
    by (auto simp: ascii_digit_def ascii_upper_def less_eq_char_def)
  then show "\<not> starts_with c ''sess_''" "\<not> starts_with c ''ext_''"
    by (auto simp: starts_with_iff)
qed

lemma sess_not_ext: "starts_with c ''sess_'' \<Longrightarrow> \<not> starts_with c ''ext_''"
  by (auto simp: starts_with_iff)

lemma starts_with_append [simp]: "starts_with (p @ r) p"
  by (auto simp: starts_with_iff)

lemma insert_pending_inv:
  assumes inv: "gateway_inv N h d" and ok: "insert_pending r d = (Ok (), d')"
    and r: "starts_with (ps_id r) ''sess_'' \<or> starts_with (ps_id r) ''ext_''" "ps_status r = ''pending''"
  shows "gateway_inv N h d'" "r \<in> set (pending_sessions d')"
    "\<forall>t. (ps_id r, t) \<notin> set (challenge_keys d')"
    "\<forall>q\<in>set (pending_sessions d'). ps_id q = ps_id r \<longrightarrow> q = r"
proof -
  have new: "ps_id r \<notin> ps_id ` set (pending_sessions d)" and d': "d' = d \<lparr> pending_sessions := pending_sessions d @ [r] \<rparr>"
    using ok by (auto simp: insert_pending_def list_ex_iff split: if_splits)
  have keys: "challenge_keys d' = challenge_keys d" by (simp add: d' challenge_keys_def)
  show nokey: "\<forall>t. (ps_id r, t) \<notin> set (challenge_keys d')"
    using inv new r(1) is_ulid_prefix unfolding keys gateway_inv_def by blast
  have "row_inv N h (challenge_keys d') r" using r nokey by (simp add: row_inv_def)
  moreover have ps: "pending_sessions d' = pending_sessions d @ [r]" by (simp add: d')
  ultimately show "gateway_inv N h d'" using inv by (auto simp: gateway_inv_def keys)
  show "r \<in> set (pending_sessions d')" by (simp add: ps)
  show "\<forall>q\<in>set (pending_sessions d'). ps_id q = ps_id r \<longrightarrow> q = r"
    using new by (auto simp: ps image_iff)
qed

lemma insert_pending_fails: "fst (insert_pending r d) \<noteq> Ok () \<Longrightarrow> snd (insert_pending r d) = d"
  by (auto simp: insert_pending_def split: if_splits)

lemma store_challenge_Ok:
  "store_challenge now cid tid ch d = (Ok (), d') \<Longrightarrow>
   challenge_keys d' = challenge_keys d @ [(cid, tid)] \<and> pending_sessions d' = pending_sessions d"
  by (auto simp: store_challenge_def challenge_keys_def split: if_splits)

lemma store_challenge_fails: "fst (store_challenge now cid tid ch d) \<noteq> Ok () \<Longrightarrow> snd (store_challenge now cid tid ch d) = d"
  by (auto simp: store_challenge_def split: if_splits)

lemma store_session_challenge_inv:
  assumes inv: "gateway_inv N h d" and ok: "store_challenge now (ps_id r) (ps_tenant_id r) ch d = (Ok (), d')"
    and r: "r \<in> set (pending_sessions d)" "starts_with (ps_id r) ''sess_''"
    and uniq: "\<forall>q\<in>set (pending_sessions d). ps_id q = ps_id r \<longrightarrow> q = r"
  shows "gateway_inv N h d'"
proof -
  note d' = store_challenge_Ok [OF ok]
  have "row_inv N h (challenge_keys d') q" if q: "q \<in> set (pending_sessions d)" for q
  proof -
    have "row_inv N h (challenge_keys d) q" using inv q by (simp add: gateway_inv_def)
    then show ?thesis using d' r uniq q by (auto simp: row_inv_def)
  qed
  then show ?thesis using inv d' r(1) by (auto simp: gateway_inv_def)
qed

lemma store_ulid_challenge_inv:
  assumes inv: "gateway_inv N h d" and ok: "store_challenge now u tid ch d = (Ok (), d')" and u: "is_ulid u"
  shows "gateway_inv N h d'"
proof -
  note d' = store_challenge_Ok [OF ok]
  have "row_inv N h (challenge_keys d') q" if q: "q \<in> set (pending_sessions d)" for q
  proof -
    have inv: "row_inv N h (challenge_keys d) q" using inv q by (simp add: gateway_inv_def)
    then have "ps_id q \<noteq> u" using is_ulid_prefix [OF u] by (auto simp: row_inv_def)
    then show ?thesis using inv d' by (auto simp: row_inv_def)
  qed
  then show ?thesis using inv d' u by (auto simp: gateway_inv_def)
qed

lemma ceremony_begin_inv:
  assumes "gateway_inv N h d" "is_ulid u"
  shows "gateway_inv N h (snd (ceremony_begin N now rnd u tid d))"
proof -
  have "gateway_inv N h (snd (store_challenge now u tid ch d))" for ch
  proof (cases "fst (store_challenge now u tid ch d) = Ok ()")
    case True
    then have "store_challenge now u tid ch d = (Ok (), snd (store_challenge now u tid ch d))"
      by (cases "store_challenge now u tid ch d") auto
    then show ?thesis using store_ulid_challenge_inv assms by blast
  qed (simp add: store_challenge_fails assms)
  then show ?thesis
    by (auto simp: ceremony_begin_def split_beta generate_ceremony_options_def Let_def split: res.split)
qed

lemma insert_pending_cases:
  obtains (ok) d' where "insert_pending r d = (Ok (), d')" | (err) e where "insert_pending r d = (Err e, d)"
proof (cases "tenant_exists (ps_tenant_id r) d \<and> \<not> list_ex (\<lambda>q. ps_id q = ps_id r) (pending_sessions d)")
  case True
  then show ?thesis by (intro ok) (auto simp: insert_pending_def)
next
  case False
  then show ?thesis by (intro err [of Database]) (auto simp: insert_pending_def)
qed

lemma pending_with_challenge_inv:
  assumes inv: "gateway_inv N h d" and r: "ps_id r = sid" "ps_tenant_id r = tid" "ps_status r = ''pending''"
    and sess: "starts_with sid ''sess_''"
  shows "gateway_inv N h (snd (case insert_pending r d of
           (Ok _, d') \<Rightarrow>
             (case store_challenge now sid tid ch d' of
                (Ok _, d'') \<Rightarrow> (Ok sid, d'') | (Err _, d'') \<Rightarrow> (Err Database, d'') | (Panic, d'') \<Rightarrow> (Panic, d''))
         | (Err e, d') \<Rightarrow> (Err e, d') | (Panic, d') \<Rightarrow> (Panic, d')))"
proof (cases rule: insert_pending_cases [of r d])
  case (ok d')
  note i = insert_pending_inv [OF inv ok, unfolded r(1), OF disjI1 [OF sess] r(3)]
  have "gateway_inv N h (snd (store_challenge now sid tid ch d'))"
  proof (cases "fst (store_challenge now sid tid ch d') = Ok ()")
    case True
    then have "store_challenge now (ps_id r) (ps_tenant_id r) ch d' = (Ok (), snd (store_challenge now sid tid ch d'))"
      by (cases "store_challenge now sid tid ch d'") (simp add: r)
    from store_session_challenge_inv [OF i(1) this i(2), unfolded r(1), OF sess i(4)] show ?thesis .
  qed (simp add: store_challenge_fails i(1))
  then show ?thesis by (auto simp: ok split_beta split: res.split)
qed (simp add: inv)

lemma create_pending_inv:
  assumes "gateway_inv N h d"
  shows "gateway_inv N h (snd (create_pending W now u tid req d))"
proof -
  have sess: "starts_with (''sess_'' @ u) ''sess_''" by (simp only: starts_with_append)
  note p = pending_with_challenge_inv [OF assms _ _ _ sess]
  show ?thesis unfolding create_pending_def Let_def
  proof (cases "db_up d")
    case True
    then show "gateway_inv N h (snd (if \<not> db_up d then (Err Pool, d)
       else case sql_u64 (or_ttl_secs req) of None \<Rightarrow> (Err Database, d)
         | Some ttl \<Rightarrow> (case insert_pending (pending_row now (''sess_'' @ u) tid None (Some (or_image req)) ttl (or_reason req) 0) d of
           (Ok _, d') \<Rightarrow>
             (case store_challenge now (''sess_'' @ u) tid (generate_challenge W [] (''sess_'' @ u) []) d' of
                (Ok _, d'') \<Rightarrow> (Ok (''sess_'' @ u), d'') | (Err _, d'') \<Rightarrow> (Err Database, d'') | (Panic, d'') \<Rightarrow> (Panic, d''))
         | (Err e, d') \<Rightarrow> (Err e, d') | (Panic, d') \<Rightarrow> (Panic, d'))))"
    proof (cases "sql_u64 (or_ttl_secs req)")
      case (Some ttl)
      show ?thesis unfolding Some option.case
        using True by (simp only: not_True_eq_False if_False)
          (rule p; simp add: pending_row_def)
    qed (use assms in simp)
  qed (use assms in simp)
qed

lemma create_extend_inv:
  assumes "gateway_inv N h d"
  shows "gateway_inv N h (snd (create_extend_request now u tid req d))"
proof -
  have "gateway_inv N h (snd (insert_pending (pending_row now (''ext_'' @ u) tid m None ttl reason 1) d))" for m ttl reason
  proof -
    define r where "r = pending_row now (''ext_'' @ u) tid m None ttl reason 1"
    have r: "starts_with (ps_id r) ''ext_''" "ps_status r = ''pending''"
      by (auto simp: r_def pending_row_def starts_with_iff)
    show ?thesis unfolding r_def [symmetric]
      by (cases rule: insert_pending_cases [of r d])
        (use assms insert_pending_inv(1) [OF assms _ disjI2 [OF r(1)] r(2)] in auto)
  qed
  then show ?thesis
    using assms by (auto simp: create_extend_request_def Let_def split_beta split: option.split res.split)
qed

lemma order_begin_inv:
  "gateway_inv N h d \<Longrightarrow> gateway_inv N h (snd (order_begin N' E now u ok auth req d))"
  using create_pending_inv by (auto simp: order_begin_def split_beta split: res.split)

lemma extend_begin_inv:
  "gateway_inv N h d \<Longrightarrow> gateway_inv N h (snd (extend_begin E now u ok auth req d))"
  using create_extend_inv by (auto simp: extend_begin_def split_beta split: res.split)

section \<open>Decisions\<close>

lemma row_inv_mono: "row_inv N h keys r \<Longrightarrow> row_inv N (x @ h) keys r"
  by (auto simp: row_inv_def)

lemma gateway_inv_mono: "gateway_inv N h d \<Longrightarrow> gateway_inv N (x @ h) d"
  by (auto simp: gateway_inv_def intro: row_inv_mono)

lemma select_challenge_key:
  "select_challenge cid tid d = Some ch \<Longrightarrow> (cid, tid) \<in> set (challenge_keys d)"
  by (drule select_challenge_in) (force simp: challenge_keys_def)

lemma set_session_status_inv:
  assumes inv: "gateway_inv N h d" and key: "(sid, tid) \<in> set (challenge_keys d)"
    and st: "st = ''approved'' \<Longrightarrow> \<exists>x\<in>set h. approves N tid sid x"
  shows "gateway_inv N h (snd (set_session_status st now sid d))"
proof (cases "db_up d")
  case True
  let ?d = "snd (set_session_status st now sid d)"
  have keys: "challenge_keys ?d = challenge_keys d" by (simp add: set_session_status_def challenge_keys_def)
  have ids: "ps_id ` set (pending_sessions ?d) = ps_id ` set (pending_sessions d)"
    by (simp add: set_session_status_def image_update_where)
  have "row_inv N h (challenge_keys d) q" if q: "q \<in> set (pending_sessions ?d)" for q
  proof -
    obtain r where r: "r \<in> set (pending_sessions d)"
      "q = (if ps_id r = sid then r \<lparr> ps_status := st, ps_decided_at := Some (sqlite_datetime now) \<rparr> else r)"
      using q True by (auto simp: set_session_status_def set_update_where)
    have ri: "row_inv N h (challenge_keys d) r" using inv r(1) by (simp add: gateway_inv_def)
    show ?thesis
    proof (cases "ps_id r = sid")
      case True
      have own: "tid = ps_tenant_id r" "starts_with sid ''sess_''"
        using ri key True by (auto simp: row_inv_def)
      show ?thesis using ri r(2) True own st sess_not_ext [OF own(2)] by (auto simp: row_inv_def)
    qed (use ri r in simp)
  qed
  then show ?thesis using inv by (simp add: gateway_inv_def keys ids)
qed (use inv in \<open>simp add: set_session_status_def\<close>)

lemma decide_verified:
  assumes "is_ok (fst (decide N now auth req d))"
  shows "\<exists>tid ch d1. authenticate_phone (web N) auth d = Ok tid \<and>
    take_challenge now (dr_session_id req) tid d = (Ok (Some ch), d1) \<and>
    fst (verify_assertion (web N) now tid (assertion_of req) (dr_session_id req) d1)"
  using assms by (auto simp: decide_def split: res.splits prod.splits option.splits if_splits)

lemma decide_inv:
  assumes inv: "gateway_inv N h d"
  shows "gateway_inv N (decided N now auth req d @ h) (snd (decide N now auth req d))"
proof (cases "authenticate_phone (web N) auth d")
  case (Ok tid)
  let ?sid = "dr_session_id req"
  let ?t = "take_challenge now ?sid tid d"
  let ?v = "verify_assertion (web N) now tid (assertion_of req) ?sid (snd ?t)"
  let ?h = "decided N now auth req d @ h"
  have t: "gateway_inv N ?h (snd ?t)" by (rule gateway_inv_mono [OF same_approvals_inv [OF take_keeps inv]])
  have v: "same_approvals d (snd ?v)" by (rule same_approvals_trans [OF take_keeps verify_keeps])
  have v': "gateway_inv N ?h (snd ?v)" by (rule gateway_inv_mono [OF same_approvals_inv [OF v inv]])
  show ?thesis
  proof (cases "\<exists>ch. fst ?t = Ok (Some ch) \<and> fst ?v")
    case True
    then obtain ch where ch: "fst ?t = Ok (Some ch)" "fst ?v" by blast
    have dec: "decide N now auth req d = apply_decision now req (snd ?v)"
      using Ok ch by (simp add: decide_def split_beta)
    have "(?sid, tid) \<in> set (challenge_keys d)" using take_challenge_Some [OF ch(1)] select_challenge_key by blast
    then have key: "(?sid, tid) \<in> set (challenge_keys (snd ?v))" using v by (simp add: same_approvals_def)
    have event: "\<exists>x\<in>set ?h. approves N tid ?sid x"
      if "dr_decision req = ''approve''" "is_ok (fst (decide N now auth req d))"
      using that Ok ch(2) by (simp add: decided_def approves_def verify_assertion_iff)
    show ?thesis
    proof (cases "db_up (snd ?v)")
      case up: True
      have "is_ok (fst (decide N now auth req d))" if "dr_decision req = ''approve''"
        using that up by (simp add: dec apply_decision_def approve_session_def set_session_status_def)
      then have ev: "dr_decision req = ''approve'' \<Longrightarrow> \<exists>x\<in>set ?h. approves N tid ?sid x"
        using event by blast
      have "gateway_inv N ?h (snd (approve_session now ?sid (snd ?v)))" if "dr_decision req = ''approve''"
        unfolding approve_session_def using set_session_status_inv [OF v' key] ev [OF that] by blast
      moreover have "gateway_inv N ?h (snd (deny_session now ?sid (snd ?v)))"
        unfolding deny_session_def using set_session_status_inv [OF v' key, of "''denied''"] by simp
      ultimately show ?thesis using v' by (auto simp: dec apply_decision_def split_beta Let_def)
    next
      case False
      then show ?thesis using v'
        by (simp add: dec apply_decision_def approve_session_def deny_session_def set_session_status_def Let_def)
    qed
  next
    case False
    then show ?thesis using t v' Ok
      by (auto simp: decide_def split_beta split: res.split option.split)
  qed
qed (use inv in \<open>simp_all add: decide_def decided_def\<close>)

section \<open>The invariant holds in every reachable state\<close>

lemma reachable_inv: "reachable N E d0 h s \<Longrightarrow> gateway_inv N h (adb s)"
proof (induction rule: reachable.induct)
  case (start k)
  then show ?case by (simp add: gateway_inv_def challenge_keys_def)
next
  case (step_ceremony_begin h s u now rnd tid)
  then show ?case using ceremony_begin_inv by simp
next
  case (step_decide h s now auth req)
  then show ?case using decide_inv by simp
next
  case (step_order_begin h s now u ok auth req)
  then show ?case using order_begin_inv by simp
next
  case (step_extend_begin h s now u ok auth req)
  then show ?case using extend_begin_inv by simp
qed (simp_all add: same_approvals_inv [OF enroll_keeps] same_approvals_inv [OF ceremony_finish_keeps]
    same_approvals_inv [OF revoke_keeps] same_approvals_inv [OF release_keeps]
    same_approvals_inv [OF order_end_keeps] same_approvals_inv [OF extend_end_keeps]
    same_approvals_inv [OF mint_keeps] same_approvals_inv [OF create_tenant_keeps]
    same_approvals_inv [OF set_quota_keeps])

section \<open>Phone tokens\<close>

text \<open>No step of the gateway writes the table of phone tokens.\<close>

lemma same_approvals_tokens: "same_approvals d d' \<Longrightarrow> phone_tokens d' = phone_tokens d"
  by (simp add: same_approvals_def)

lemma store_challenge_tokens: "phone_tokens (snd (store_challenge now cid tid ch d)) = phone_tokens d"
  by (simp add: store_challenge_def)

lemma insert_pending_tokens: "phone_tokens (snd (insert_pending r d)) = phone_tokens d"
  by (simp add: insert_pending_def)

lemma create_pending_tokens: "phone_tokens (snd (create_pending W now u tid req d)) = phone_tokens d"
  using insert_pending_tokens store_challenge_tokens
  by (auto simp: create_pending_def Let_def split_beta split: option.split res.split)

lemma create_extend_tokens: "phone_tokens (snd (create_extend_request now u tid req d)) = phone_tokens d"
  using insert_pending_tokens
  by (auto simp: create_extend_request_def Let_def split_beta split: option.split res.split)

lemma decide_tokens: "phone_tokens (snd (decide N now auth req d)) = phone_tokens d"
proof -
  have a: "phone_tokens (snd (apply_decision now req e)) = phone_tokens e" for e
    by (auto simp: apply_decision_def approve_session_def deny_session_def set_session_status_def Let_def)
  have v: "phone_tokens (snd (verify_assertion W now tid asr sid (snd (take_challenge now sid tid d)))) = phone_tokens d"
    for W :: "('pk, 'sig) webauthn_lib" and tid asr sid
    using same_approvals_tokens [OF same_approvals_trans [OF take_keeps verify_keeps]] .
  have t: "phone_tokens (snd (take_challenge now sid tid d)) = phone_tokens d" for sid tid
    by (rule same_approvals_tokens [OF take_keeps])
  show ?thesis by (auto simp: decide_def split_beta a v t split: res.split option.split)
qed

lemma reachable_tokens: "reachable N E d0 h s \<Longrightarrow> phone_tokens (adb s) = phone_tokens d0"
proof (induction rule: reachable.induct)
  case (step_ceremony_begin h s u now rnd tid)
  then show ?case
    by (auto simp: store_challenge_tokens ceremony_begin_def split_beta Let_def generate_ceremony_options_def
        split: res.split)
next
  case (step_order_begin h s now u ok auth req)
  then show ?case by (auto simp: create_pending_tokens order_begin_def split_beta split: res.split)
next
  case (step_extend_begin h s now u ok auth req)
  then show ?case by (auto simp: create_extend_tokens extend_begin_def split_beta split: res.split)
qed (simp_all add: decide_tokens same_approvals_tokens [OF enroll_keeps] same_approvals_tokens [OF ceremony_finish_keeps]
    same_approvals_tokens [OF revoke_keeps] same_approvals_tokens [OF release_keeps]
    same_approvals_tokens [OF order_end_keeps] same_approvals_tokens [OF extend_end_keeps]
    same_approvals_tokens [OF mint_keeps] same_approvals_tokens [OF create_tenant_keeps]
    same_approvals_tokens [OF set_quota_keeps])

lemma no_tokens_no_phone: "phone_tokens d = [] \<Longrightarrow> \<not> is_ok (authenticate_phone H auth d)"
  by (auto simp: authenticate_phone_def bind_simps verify_phone_token_def split: if_splits)

lemma no_tokens_no_history: "reachable N E d0 h s \<Longrightarrow> phone_tokens d0 = [] \<Longrightarrow> h = []"
proof (induction rule: reachable.induct)
  case (step_decide h s now auth req)
  then have "\<not> is_ok (authenticate_phone (web N) auth (adb s))"
    using reachable_tokens no_tokens_no_phone by metis
  then show ?case using step_decide by (auto simp: decided_def split: res.split)
qed auto

section \<open>Polls\<close>

lemma wait_Approved:
  "wait_for_decision sid polls = Ok Approved \<Longrightarrow>
   \<exists>d\<in>set polls. \<exists>r\<in>set (pending_sessions d). ps_id r = sid \<and> ps_status r = ''approved''"
proof (induction polls)
  case (Cons d ds)
  show ?case
  proof (cases "check_decision sid d")
    case (Ok x)
    show ?thesis
    proof (cases x)
      case None
      then show ?thesis using Cons Ok by auto
    next
      case (Some y)
      then have "y = Approved" using Cons.prems Ok by simp
      then obtain r where "query_row (\<lambda>r. ps_id r = sid) (pending_sessions d) = Some r" "ps_status r = ''approved''"
        using Ok Some by (auto simp: check_decision_def split: if_splits option.splits)
      then show ?thesis using query_row_Some by fastforce
    qed
  qed (use Cons in auto)
qed simp

section \<open>Properties\<close>


definition demo_ordered :: app where
  "demo_ordered = \<lparr> adb = snd (order_begin (demo_net ''sess_1'') demo_env demo_time ''1'' True (Some ''Bearer a'')
     (demo_order 60) demo_phone_db), cluster = cluster demo_app \<rparr>"

definition demo_approved :: app where
  "demo_approved = demo_ordered \<lparr> adb := snd (decide (demo_net ''sess_1'') demo_time (Some ''Bearer p'')
     (demo_verdict ''sess_1'' ''approve'') (adb demo_ordered)) \<rparr>"

definition demo_history :: "decision_event list" where
  "demo_history = decided (demo_net ''sess_1'') demo_time (Some ''Bearer p'')
     (demo_verdict ''sess_1'' ''approve'') (adb demo_ordered)"

lemma demo_phone_db_start: "pending_sessions demo_phone_db = []" "phone_challenges demo_phone_db = []"
  by (simp_all add: demo_phone_db_def demo_tenant_db_def empty_db_def)

lemma demo_approved_reachable: "reachable (demo_net ''sess_1'') demo_env demo_phone_db demo_history demo_approved"
proof -
  have "reachable (demo_net ''sess_1'') demo_env demo_phone_db [] \<lparr> adb = demo_phone_db, cluster = cluster demo_app \<rparr>"
    by (rule start [OF demo_phone_db_start])
  from step_order_begin [OF this, of demo_time "''1''" True "Some ''Bearer a''" "demo_order 60"]
  have "reachable (demo_net ''sess_1'') demo_env demo_phone_db [] demo_ordered" by (simp add: demo_ordered_def)
  from step_decide [OF this, of demo_time "Some ''Bearer p''" "demo_verdict ''sess_1'' ''approve''"]
  show ?thesis by (simp add: demo_approved_def demo_history_def)
qed

lemma demo_approved_row:
  "\<exists>r. pending_sessions (adb demo_approved) = [r] \<and> ps_status r = ''approved'' \<and> ps_id r = ''sess_1'' \<and> ps_tenant_id r = ''t1''"
proof -
  have "map (\<lambda>r. (ps_status r, ps_id r, ps_tenant_id r)) (pending_sessions (adb demo_approved)) =
      [(''approved'', ''sess_1'', ''t1'')]" by code_simp
  then show ?thesis by (cases "pending_sessions (adb demo_approved)") auto
qed




text \<open>A request to extend a session can never be granted: no challenge is ever stored for it, so no
  verdict reaches it and every wait for it times out or fails.\<close>
lemma extension_never_granted:
  assumes "extend_begin E now u push_ok auth req d = (Ok (tid, sid), d')"
    and "\<forall>d\<in>set polls. \<exists>h s. reachable N E d0 h s \<and> adb s = d"
  shows "\<not> is_ok (fst (extend_end E now' u2 tid sid req' polls s))"
proof -
  have sid: "starts_with sid ''ext_''"
    using assms(1) by (auto simp: extend_begin_def create_extend_request_def Let_def starts_with_iff
        split: res.splits prod.splits if_splits option.splits)
  have "wait_for_decision sid polls \<noteq> Ok Approved"
  proof
    assume "wait_for_decision sid polls = Ok Approved"
    from wait_Approved [OF this] obtain d r where r: "d \<in> set polls" "r \<in> set (pending_sessions d)" "ps_id r = sid"
      "ps_status r = ''approved''" by blast
    obtain h s\<^sub>1 where "reachable N E d0 h s\<^sub>1" "adb s\<^sub>1 = d" using assms(2) r(1) by blast
    then have "row_inv N h (challenge_keys d) r" using reachable_inv r(2) unfolding gateway_inv_def by blast
    then show False using sid r(3,4) by (simp add: row_inv_def)
  qed
  then show ?thesis by (auto simp: extend_end_def split: res.splits Decision.splits)
qed

definition demo_extension :: ExtendRequest where
  "demo_extension = \<lparr> ex_machine_id = ''m1'', ex_additional_secs = 60 \<rparr>"

lemma extension_never_granted_witness:
  "\<not> is_ok (fst (extend_end demo_env demo_time ''k'' ''t1'' ''ext_1'' demo_extension [adb demo_approved] demo_app))"
proof -
  let ?b = "extend_begin demo_env demo_time ''1'' True (Some ''Bearer a'') demo_extension (adb demo_approved)"
  have "fst ?b = Ok (''t1'', ''ext_1'')" by code_simp
  then have b: "?b = (Ok (''t1'', ''ext_1''), snd ?b)" by (metis prod.collapse)
  have "\<forall>d\<in>set [adb demo_approved]. \<exists>h s. reachable (demo_net ''sess_1'') demo_env demo_phone_db h s \<and> adb s = d"
    using demo_approved_reachable by auto
  from extension_never_granted [OF b this] show ?thesis .
qed

text \<open>Nothing in the gateway issues a phone token: from a database without one, no phone ever
  authenticates, no verdict is ever accepted and no session is ever approved.\<close>
lemma no_phone_token_no_approval:
  assumes "reachable N E d0 h s" "phone_tokens d0 = []"
  shows "h = [] \<and> \<not> is_ok (authenticate_phone H auth (adb s)) \<and>
    (\<forall>r\<in>set (pending_sessions (adb s)). ps_status r \<noteq> ''approved'')"
proof -
  have h: "h = []" by (rule no_tokens_no_history [OF assms])
  have "\<not> is_ok (authenticate_phone H auth (adb s))"
    using no_tokens_no_phone reachable_tokens [OF assms(1)] assms(2) by metis
  moreover have "row_inv N [] (challenge_keys (adb s)) r" if "r \<in> set (pending_sessions (adb s))" for r
    using reachable_inv [OF assms(1)] that unfolding gateway_inv_def h by blast
  ultimately show ?thesis using h unfolding row_inv_def by fastforce
qed

lemma no_phone_token_no_approval_witness:
  "\<not> is_ok (authenticate_phone demo_short_hash (Some ''Bearer p'') (snd (mint_agent_token (e_sig demo_env) (add_secs demo_env)
     demo_time ''x'' ''t1'' ''all'' 60 demo_tenant_db)))"
proof -
  have d: "pending_sessions demo_tenant_db = []" "phone_challenges demo_tenant_db = []" "phone_tokens demo_tenant_db = []"
    by (simp_all add: demo_tenant_db_def empty_db_def)
  have "reachable (demo_net ''s'') demo_env demo_tenant_db [] \<lparr> adb = demo_tenant_db, cluster = cluster demo_app \<rparr>"
    by (rule start [OF d(1,2)])
  from step_mint [OF this, of demo_time "''x''" "''t1''" "''all''" 60]
  show ?thesis using no_phone_token_no_approval [OF _ d(3)] by fastforce
qed

end
