(* ===== verification/Workflow.thy ===== *)
theory Workflow
  imports "HOL-Library.AList" "HOL-Library.Multiset" Json Routes
begin

text \<open>
  Workflows: the DAG walker (src/gateway/src/workflow/engine.rs), the execution of one step
  (workflow/executor.rs) and the handlers (routes/workflows.rs). What a pod does with a task is an
  argument (\<open>attempt\<close>). The steps of a wave run concurrently in the code; here they run one after the
  other in the order of the list, and they share nothing but the database and the cluster.
\<close>

section \<open>DAGs\<close>

record Step =
  st_id :: string
  st_task :: string
  st_image :: "string option"
  st_ttl_secs :: "64 word option"
  st_context :: "json option"
  st_depends_on :: "string list"
  st_condition :: "string option"
  st_max_retries :: "int option"

record Dag =
  dag_steps :: "Step list"

text \<open>\<open>hash_order\<close> is the order in which a \<open>HashSet\<close> yields its elements; \<open>parse_dag\<close> is serde's derived
  deserialiser; \<open>error_text\<close> prints the errors of the Kubernetes client.\<close>

datatype step_error = NoRunRow | StepPool | ScheduleFailed sched_error | NoKubeConfig | PodNotReady | ExecRefused | ExecTimedOut

record workflow_lib = json_lib +
  parse_dag :: "string \<Rightarrow> Dag option"
  hash_order :: "string list \<Rightarrow> string list"
  error_text :: "step_error \<Rightarrow> string"

definition effective_max_retries :: "Step \<Rightarrow> int" where
  "effective_max_retries st = (case st_max_retries st of Some n \<Rightarrow> n | None \<Rightarrow> 3)"

definition effective_image :: "Step \<Rightarrow> string" where
  "effective_image st = (case st_image st of Some i \<Rightarrow> i | None \<Rightarrow> ''stronghold/rocky-base:latest'')"

definition effective_ttl :: "Step \<Rightarrow> 64 word" where
  "effective_ttl st = (case st_ttl_secs st of Some t \<Rightarrow> t | None \<Rightarrow> 3600)"

section \<open>Conditions\<close>

type_synonym results = "(string \<times> json) list"

definition value_equals :: "'x json_lib_scheme \<Rightarrow> json \<Rightarrow> string \<Rightarrow> bool" where
  "value_equals J actual expected =
    (case actual of
       JNumber n \<Rightarrow>
         (case parse_i64 expected of
            Some i \<Rightarrow> as_i64 n = Some i
          | None \<Rightarrow> (case f64_parse J expected of Some f \<Rightarrow> as_f64 n = f | None \<Rightarrow> False))
     | JBool b \<Rightarrow> if expected = ''true'' then b else if expected = ''false'' then \<not> b else False
     | JText s \<Rightarrow> s = trim_matches (CHR ''\"'') expected
     | JNull \<Rightarrow> expected = ''null''
     | _ \<Rightarrow> False)"

fun walk_path :: "string list \<Rightarrow> json \<Rightarrow> json option" where
  "walk_path [] v = Some v"
| "walk_path (seg # segs) v = (case jget seg v of Some w \<Rightarrow> walk_path segs w | None \<Rightarrow> None)"

definition resolve_path :: "string \<Rightarrow> results \<Rightarrow> json option" where
  "resolve_path path results =
    (case split_on (CHR ''.'') path of
       [] \<Rightarrow> None
     | seg # segs \<Rightarrow> (case map_of results seg of Some v \<Rightarrow> walk_path segs v | None \<Rightarrow> None))"

definition evaluate_condition :: "'x json_lib_scheme \<Rightarrow> string \<Rightarrow> results \<Rightarrow> bool" where
  "evaluate_condition J condition results =
    (let cond = trim condition in
     if cond = [] then True
     else case split_once '' == '' cond of
       Some (lhs, rhs) \<Rightarrow>
         (case resolve_path (trim lhs) results of
            Some actual \<Rightarrow> value_equals J actual (trim rhs) | None \<Rightarrow> False)
     | None \<Rightarrow>
        (case split_once '' != '' cond of
           Some (lhs, rhs) \<Rightarrow>
             (case resolve_path (trim lhs) results of
                Some actual \<Rightarrow> \<not> value_equals J actual (trim rhs) | None \<Rightarrow> True)
         | None \<Rightarrow> False))"

section \<open>Running one step\<close>

definition DEFAULT_IMAGE :: string where
  "DEFAULT_IMAGE = ''localhost:30500/stronghold/rust-stable:latest''"

record StepResult =
  sr_exit_code :: int
  sr_stdout :: string
  sr_stderr :: string
  sr_duration_ms :: "64 word"

record exec_status =
  xs_status :: "string option"
  xs_message :: "string option"

text \<open>What the Kubernetes API shows of a pod: nothing yet, an error, or the pod with its conditions
  (type and status) if it has any.\<close>

datatype pod_poll = PodMissing | PollError | PodSeen "(string \<times> string) list option option"

datatype exec_reply = Refused | TimedOut | Exited "exec_status option" string string

text \<open>One attempt: the clock, the pod's ULID, the polls before the readiness deadline, the reply of the
  exec call, whether the API server answers the final kill, and the measured time.\<close>

record attempt =
  at_start :: utc
  at_end :: utc
  at_ulid :: string
  at_polls :: "pod_poll list"
  at_exec :: exec_reply
  at_kill_up :: bool
  at_ms :: "64 word"

definition is_pod_ready :: "(string \<times> string) list option option \<Rightarrow> bool" where
  "is_pod_ready status =
    (case status of
       None \<Rightarrow> False
     | Some None \<Rightarrow> False
     | Some (Some conditions) \<Rightarrow> list_ex (\<lambda>(ty, st). ty = ''Ready'' \<and> st = ''True'') conditions)"

primrec wait_for_pod_ready :: "pod_poll list \<Rightarrow> bool" where
  "wait_for_pod_ready [] = False"
| "wait_for_pod_ready (p # ps) =
    (case p of PodSeen status \<Rightarrow> is_pod_ready status \<or> wait_for_pod_ready ps | _ \<Rightarrow> wait_for_pod_ready ps)"

definition parse_exit_code :: "exec_status \<Rightarrow> int" where
  "parse_exit_code status =
    (if xs_status status = Some ''Success'' then 0
     else case xs_message status of
       None \<Rightarrow> - 1
     | Some msg \<Rightarrow>
        (if split_whitespace msg = [] then - 1
         else case parse_i32 (last (split_whitespace msg)) of Some code \<Rightarrow> code | None \<Rightarrow> - 1))"

definition run_pod_exec :: "exec_reply \<Rightarrow> (int \<times> string \<times> string, step_error) res" where
  "run_pod_exec reply =
    (case reply of
       Refused \<Rightarrow> Err ExecRefused
     | TimedOut \<Rightarrow> Err ExecTimedOut
     | Exited status out err \<Rightarrow> Ok (case status of Some s \<Rightarrow> parse_exit_code s | None \<Rightarrow> 0, out, err))"

definition load_tenant_id :: "string \<Rightarrow> db \<Rightarrow> (string, step_error) res" where
  "load_tenant_id run_id d =
    (if \<not> db_up d then Err StepPool
     else bind_res (ok_or NoRunRow (query_row (\<lambda>r. wr_id r = run_id) (workflow_runs d))) (\<lambda>r. Ok (wr_tenant_id r)))"

definition audit_json ::
    "'x json_lib_scheme \<Rightarrow> session_env \<Rightarrow> utc \<Rightarrow> string \<Rightarrow> string \<Rightarrow> string \<Rightarrow> (string \<times> json) list \<Rightarrow> db \<Rightarrow>
     (unit, audit_error) res \<times> db" where
  "audit_json J E now tenant_id machine_id event payload d =
     entry (e_sig E) now (e_report_hash E) tenant_id machine_id event (json_print J (JObject payload)) (e_keys E) d"

text \<open>The part of \<open>execute_step\<close> between the creation of the pod and its end.\<close>

definition run_in_pod :: "attempt \<Rightarrow> (int \<times> string \<times> string, step_error) res" where
  "run_in_pod a = (if wait_for_pod_ready (at_polls a) then run_pod_exec (at_exec a) else Err PodNotReady)"

definition kill_workflow_pod :: "bool \<Rightarrow> string \<Rightarrow> cluster \<Rightarrow> cluster" where
  "kill_workflow_pod up pod_id k = (snd (kill_pod_force pod_id (k \<lparr> kube_up := up \<rparr>))) \<lparr> kube_up := kube_up k \<rparr>"

definition execute_step ::
    "'x workflow_lib_scheme \<Rightarrow> session_env \<Rightarrow> attempt \<Rightarrow> string \<Rightarrow> Step \<Rightarrow> app \<Rightarrow> (StepResult, step_error) res \<times> app" where
  "execute_step J E a run_id st s =
    (case load_tenant_id run_id (adb s) of
       Err e \<Rightarrow> (Err e, s)
     | Panic \<Rightarrow> (Panic, s)
     | Ok tenant_id \<Rightarrow>
        let img = (case st_image st of Some i \<Rightarrow> i | None \<Rightarrow> DEFAULT_IMAGE);
            d1 = snd (audit_json J E (at_start a) tenant_id [] ''workflow_step_started''
                   [(''image'', JText img), (''run_id'', JText run_id), (''step_id'', JText (st_id st)),
                    (''task'', JText (st_task st))] (adb s))
        in (case schedule_workflow_pod (at_ulid a) tenant_id img (cluster s) of
              (Err e, k) \<Rightarrow> (Err (ScheduleFailed e), \<lparr> adb = d1, cluster = k \<rparr>)
            | (Panic, k) \<Rightarrow> (Panic, \<lparr> adb = d1, cluster = k \<rparr>)
            | (Ok machine, k) \<Rightarrow>
               let pod_id = sm_id machine; k' = kill_workflow_pod (at_kill_up a) pod_id k
               in (case run_in_pod a of
                     Ok (exit_code, out, err) \<Rightarrow>
                       (Ok \<lparr> sr_exit_code = exit_code, sr_stdout = out, sr_stderr = err, sr_duration_ms = at_ms a \<rparr>,
                        \<lparr> adb = snd (audit_json J E (at_end a) tenant_id pod_id ''workflow_step_completed''
                            [(''duration_ms'', jint (uint (at_ms a))), (''exit_code'', jint exit_code), (''run_id'', JText run_id),
                             (''stderr_len'', jint (int (length err))), (''stdout_len'', jint (int (length out))),
                             (''step_id'', JText (st_id st))] d1), cluster = k' \<rparr>)
                   | Err e \<Rightarrow>
                       (Err e, \<lparr> adb = snd (audit_json J E (at_end a) tenant_id pod_id ''workflow_step_completed''
                            [(''duration_ms'', jint (uint (at_ms a))), (''error'', JText (error_text J e)),
                             (''exit_code'', jint (- 1)), (''run_id'', JText run_id), (''step_id'', JText (st_id st))] d1),
                            cluster = k' \<rparr>)
                   | Panic \<Rightarrow> (Panic, \<lparr> adb = d1, cluster = k' \<rparr>))))"

definition step_result_json :: "StepResult \<Rightarrow> json" where
  "step_result_json r = JObject [(''duration_ms'', jint (uint (sr_duration_ms r))), (''exit_code'', jint (sr_exit_code r)),
     (''stderr'', JText (sr_stderr r)), (''stdout'', JText (sr_stdout r))]"

text \<open>\<open>0..=max_retries\<close> is empty when \<open>max_retries\<close> is negative.\<close>

datatype dag_error =
    DagPool
  | NoRun
  | NoWorkflow
  | InvalidDag
  | Stuck nat nat
  | StepFailed string int "step_error option"
  | StepsFailed
  | DagAudit audit_error

primrec attempts ::
    "'x workflow_lib_scheme \<Rightarrow> session_env \<Rightarrow> (nat \<Rightarrow> attempt) \<Rightarrow> string \<Rightarrow> Step \<Rightarrow> nat \<Rightarrow> nat \<Rightarrow> step_error option \<Rightarrow> app \<Rightarrow>
     (json, dag_error) res \<times> app" where
  "attempts J E ats run_id st 0 i last_error s =
     (Err (StepFailed (st_id st) (effective_max_retries st) last_error), s)"
| "attempts J E ats run_id st (Suc n) i last_error s =
    (case execute_step J E (ats i) run_id st s of
       (Ok r, s') \<Rightarrow> (Ok (JObject [(''result'', step_result_json r)]), s')
     | (Err e, s') \<Rightarrow> attempts J E ats run_id st n (Suc i) (Some e) s'
     | (Panic, s') \<Rightarrow> (Panic, s'))"

definition run_step_with_retries ::
    "'x workflow_lib_scheme \<Rightarrow> session_env \<Rightarrow> (nat \<Rightarrow> attempt) \<Rightarrow> string \<Rightarrow> Step \<Rightarrow> app \<Rightarrow> (json, dag_error) res \<times> app" where
  "run_step_with_retries J E ats run_id st s =
     attempts J E ats run_id st (nat (effective_max_retries st + 1)) 0 None s"

section \<open>The walker\<close>

definition dependencies_met :: "Step \<Rightarrow> string list \<Rightarrow> bool" where
  "dependencies_met st completed \<longleftrightarrow> list_all (\<lambda>dep. dep \<in> set completed) (st_depends_on st)"

definition find_ready_steps :: "Step list \<Rightarrow> string list \<Rightarrow> Step list" where
  "find_ready_steps steps completed =
     filter (\<lambda>st. dependencies_met st completed) (filter (\<lambda>st. st_id st \<notin> set completed) steps)"

text \<open>\<open>completed\<close> is a set: a list without duplicates, in the order in which the elements were added.\<close>

definition add_id :: "string \<Rightarrow> string list \<Rightarrow> string list" where
  "add_id x xs = (if x \<in> set xs then xs else xs @ [x])"

definition run_update :: "string \<Rightarrow> (workflow_run_row \<Rightarrow> workflow_run_row) \<Rightarrow> db \<Rightarrow> (unit, dag_error) res \<times> db" where
  "run_update run_id f d =
    (if \<not> db_up d then (Err DagPool, d)
     else (Ok (), d \<lparr> workflow_runs := update_where (\<lambda>r. wr_id r = run_id) f (workflow_runs d) \<rparr>))"

definition ids_json :: "'x json_lib_scheme \<Rightarrow> string list \<Rightarrow> string" where
  "ids_json J ids = json_print J (JArray (map JText ids))"

definition update_step_arrays ::
    "'x workflow_lib_scheme \<Rightarrow> string \<Rightarrow> string list \<Rightarrow> string list \<Rightarrow> db \<Rightarrow> (unit, dag_error) res \<times> db" where
  "update_step_arrays J run_id current completed d =
     run_update run_id (\<lambda>r. r \<lparr> wr_current_steps := Some (ids_json J current),
       wr_completed_steps := Some (ids_json J (hash_order J completed)) \<rparr>) d"

definition step_results_json :: "results \<Rightarrow> json" where
  "step_results_json results =
     JObject (sort_key fst (concat (map (\<lambda>(k, v). case jget ''result'' v of Some inner \<Rightarrow> [(k, inner)] | None \<Rightarrow> []) results)))"

definition update_step_results ::
    "'x workflow_lib_scheme \<Rightarrow> string \<Rightarrow> results \<Rightarrow> db \<Rightarrow> (unit, dag_error) res \<times> db" where
  "update_step_results J run_id results d =
     run_update run_id (\<lambda>r. r \<lparr> wr_step_results := Some (json_print J (step_results_json results)) \<rparr>) d"

definition persist ::
    "'x workflow_lib_scheme \<Rightarrow> string \<Rightarrow> string list \<Rightarrow> results \<Rightarrow> db \<Rightarrow> (unit, dag_error) res \<times> db" where
  "persist J run_id completed results d =
    (case update_step_arrays J run_id [] completed d of
       (Ok _, d1) \<Rightarrow> update_step_results J run_id results d1
     | (Err e, d1) \<Rightarrow> (Err e, d1)
     | (Panic, d1) \<Rightarrow> (Panic, d1))"

definition condition_met :: "'x json_lib_scheme \<Rightarrow> results \<Rightarrow> Step \<Rightarrow> bool" where
  "condition_met J results st =
     evaluate_condition J (case st_condition st of Some c \<Rightarrow> c | None \<Rightarrow> []) results"

definition skip_all :: "Step list \<Rightarrow> results \<Rightarrow> string list \<Rightarrow> results \<times> string list" where
  "skip_all to_skip results completed =
     fold (\<lambda>st (rs, cs). (AList.update (st_id st) (JObject [(''result'', JObject [(''skipped'', JBool True)])]) rs,
                          add_id (st_id st) cs)) to_skip (results, completed)"

text \<open>\<open>run w i st\<close> runs the \<open>i\<close>th step of wave \<open>w\<close>. A batch is run to its end even when a step of it fails.\<close>

type_synonym runner = "nat \<Rightarrow> nat \<Rightarrow> Step \<Rightarrow> app \<Rightarrow> (json, dag_error) res \<times> app"

fun run_batch ::
    "runner \<Rightarrow> nat \<Rightarrow> nat \<Rightarrow> Step list \<Rightarrow> bool \<Rightarrow> results \<Rightarrow> string list \<Rightarrow> app \<Rightarrow> bool \<times> results \<times> string list \<times> app" where
  "run_batch run w i [] failed results completed s = (failed, results, completed, s)"
| "run_batch run w i (st # sts) failed results completed s =
    (case run w i st s of
       (Ok result, s') \<Rightarrow>
         run_batch run w (Suc i) sts failed (AList.update (st_id st) result results) (add_id (st_id st) completed) s'
     | (_, s') \<Rightarrow> run_batch run w (Suc i) sts True results completed s')"

definition launch ::
    "'x workflow_lib_scheme \<Rightarrow> runner \<Rightarrow> string \<Rightarrow> nat \<Rightarrow> Step list \<Rightarrow> results \<Rightarrow> string list \<Rightarrow> app \<Rightarrow>
     (results \<times> string list, dag_error) res \<times> app" where
  "launch J run run_id w to_run results completed s =
    (case update_step_arrays J run_id (map st_id to_run) completed (adb s) of
       (Err e, d) \<Rightarrow> (Err e, s \<lparr> adb := d \<rparr>)
     | (Panic, d) \<Rightarrow> (Panic, s \<lparr> adb := d \<rparr>)
     | (Ok _, d) \<Rightarrow>
        (case run_batch run w 0 to_run False results completed (s \<lparr> adb := d \<rparr>) of
           (failed, results', completed', s') \<Rightarrow>
             (case persist J run_id completed' results' (adb s') of
                (Err e, d') \<Rightarrow> (Err e, s' \<lparr> adb := d' \<rparr>)
              | (Panic, d') \<Rightarrow> (Panic, s' \<lparr> adb := d' \<rparr>)
              | (Ok _, d') \<Rightarrow>
                 if failed then (Err StepsFailed, s' \<lparr> adb := d' \<rparr>)
                 else (Ok (results', completed'), s' \<lparr> adb := d' \<rparr>))))"

text \<open>One round of the loop of \<open>execute_dag\<close>.\<close>

definition run_wave ::
    "'x workflow_lib_scheme \<Rightarrow> runner \<Rightarrow> string \<Rightarrow> Step list \<Rightarrow> nat \<Rightarrow> results \<Rightarrow> string list \<Rightarrow> app \<Rightarrow>
     (results \<times> string list, dag_error) res \<times> app" where
  "run_wave J run run_id steps w results completed s =
    (let ready = find_ready_steps steps completed in
     if ready = [] then (Err (Stuck (length completed) (length steps)), s)
     else
       let to_run = filter (condition_met J results) ready;
           to_skip = filter (\<lambda>st. \<not> condition_met J results st) ready;
           (results1, completed1) = skip_all to_skip results completed
       in (case (if to_skip = [] then (Ok (), adb s) else persist J run_id completed1 results1 (adb s)) of
             (Err e, d) \<Rightarrow> (Err e, s \<lparr> adb := d \<rparr>)
           | (Panic, d) \<Rightarrow> (Panic, s \<lparr> adb := d \<rparr>)
           | (Ok _, d) \<Rightarrow>
              if to_run = [] then (Ok (results1, completed1), s \<lparr> adb := d \<rparr>)
              else launch J run run_id w to_run results1 completed1 (s \<lparr> adb := d \<rparr>)))"

section \<open>The loop ends\<close>

lemma set_add_id [simp]: "set (add_id x xs) = insert x (set xs)"
  by (auto simp: add_id_def)

lemma distinct_add_id [simp]: "distinct xs \<Longrightarrow> distinct (add_id x xs)"
  by (simp add: add_id_def)

lemma skip_all_completed:
  "set (snd (skip_all sts results completed)) = set completed \<union> st_id ` set sts"
  by (induction sts arbitrary: results completed) (auto simp: skip_all_def)

lemma run_batch_completed:
  assumes "run_batch run w i sts f results completed s = (failed, results', completed', s')"
  shows "set completed \<subseteq> set completed' \<and> set completed' \<subseteq> set completed \<union> st_id ` set sts \<and>
    (\<not> failed \<longrightarrow> \<not> f \<and> set completed' = set completed \<union> st_id ` set sts)"
  using assms
proof (induction sts arbitrary: i f results completed s)
  case (Cons st sts)
  obtain r s1 where r: "run w i st s = (r, s1)" by fastforce
  show ?case
  proof (cases r)
    case (Ok v)
    then have "run_batch run w (Suc i) sts f (AList.update (st_id st) v results) (add_id (st_id st) completed) s1 =
        (failed, results', completed', s')" using Cons.prems r by simp
    from Cons.IH [OF this] show ?thesis by auto
  next
    case (Err e)
    then have "run_batch run w (Suc i) sts True results completed s1 = (failed, results', completed', s')"
      using Cons.prems r by simp
    from Cons.IH [OF this] show ?thesis by auto
  next
    case Panic
    then have "run_batch run w (Suc i) sts True results completed s1 = (failed, results', completed', s')"
      using Cons.prems r by simp
    from Cons.IH [OF this] show ?thesis by auto
  qed
qed simp

lemma ready_steps_ids:
  "st \<in> set (find_ready_steps steps completed) \<longleftrightarrow>
   st \<in> set steps \<and> st_id st \<notin> set completed \<and> set (st_depends_on st) \<subseteq> set completed"
  by (auto simp: find_ready_steps_def dependencies_met_def list_all_iff)

lemma launch_Ok:
  assumes "launch J run run_id w to_run results completed s = (Ok (results', completed'), s')"
  shows "\<exists>s1 s2. run_batch run w 0 to_run False results completed s1 = (False, results', completed', s2)"
  using assms by (auto simp: launch_def split: prod.splits res.splits if_splits)

lemma launch_completed:
  assumes "launch J run run_id w to_run results completed s = (Ok (results', completed'), s')"
  shows "set completed' = set completed \<union> st_id ` set to_run"
  using launch_Ok [OF assms] run_batch_completed by blast

lemma run_wave_progress:
  assumes "run_wave J run run_id steps w results completed s = (Ok (results', completed'), s')"
  shows "set completed' = set completed \<union> st_id ` set (find_ready_steps steps completed)"
    and "find_ready_steps steps completed \<noteq> []"
proof -
  show ne: "find_ready_steps steps completed \<noteq> []"
    using assms by (auto simp: run_wave_def Let_def split: if_splits)
  let ?ready = "find_ready_steps steps completed"
  let ?skip = "filter (\<lambda>st. \<not> condition_met J results st) ?ready" and ?run = "filter (condition_met J results) ?ready"
  obtain r1 c1 where sk: "skip_all ?skip results completed = (r1, c1)" by fastforce
  have c1: "set c1 = set completed \<union> st_id ` set ?skip" using skip_all_completed [of ?skip results completed] sk by simp
  have un: "st_id ` set ?ready = st_id ` set ?skip \<union> st_id ` set ?run" by auto
  show "set completed' = set completed \<union> st_id ` set ?ready"
  proof (cases "?run = []")
    case True
    then have "completed' = c1"
      using assms ne sk by (auto simp: run_wave_def Let_def simp del: filter_empty_conv split: prod.splits res.splits if_splits)
    then show ?thesis using c1 un True by simp
  next
    case False
    then obtain s1 where "launch J run run_id w ?run r1 c1 s1 = (Ok (results', completed'), s')"
      using assms ne sk by (auto simp: run_wave_def Let_def simp del: filter_empty_conv split: prod.splits res.splits if_splits)
    from launch_completed [OF this] show ?thesis using c1 un by auto
  qed
qed

function execute_dag ::
    "'x workflow_lib_scheme \<Rightarrow> runner \<Rightarrow> string \<Rightarrow> Step list \<Rightarrow> nat \<Rightarrow> results \<Rightarrow> string list \<Rightarrow> app \<Rightarrow>
     (unit, dag_error) res \<times> app" where
  "execute_dag J run run_id steps w results completed s =
    (if length completed < length steps then
       (case run_wave J run run_id steps w results completed s of
          (Ok (results', completed'), s') \<Rightarrow> execute_dag J run run_id steps (Suc w) results' completed' s'
        | (Err e, s') \<Rightarrow> (Err e, s')
        | (Panic, s') \<Rightarrow> (Panic, s'))
     else (Ok (), s))"
  by pat_completeness auto

lemma wave_measure:
  assumes "run_wave J run run_id steps w results completed s = (Ok (results', completed'), s')"
  shows "card (st_id ` set steps - set completed') < card (st_id ` set steps - set completed)"
proof -
  let ?ready = "find_ready_steps steps completed"
  obtain st where st: "st \<in> set ?ready" using run_wave_progress(2) [OF assms] by (cases ?ready) auto
  have "st_id st \<in> st_id ` set steps - set completed" "st_id st \<in> set completed'" "set completed \<subseteq> set completed'"
    using st unfolding run_wave_progress(1) [OF assms] by (auto simp: ready_steps_ids)
  then have "st_id ` set steps - set completed' \<subset> st_id ` set steps - set completed" by blast
  then show ?thesis by (simp add: psubset_card_mono)
qed

termination execute_dag
proof (relation "measure (\<lambda>(J, run, run_id, steps, w, results, completed, s). card (st_id ` set steps - set completed))")
qed (auto dest: wave_measure [OF sym])

declare execute_dag.simps [simp del]

section \<open>A whole run\<close>

definition load_run :: "string \<Rightarrow> db \<Rightarrow> (string \<times> string \<times> string, dag_error) res" where
  "load_run run_id d =
    (if \<not> db_up d then Err DagPool
     else bind_res (ok_or NoRun (query_row (\<lambda>r. wr_id r = run_id) (workflow_runs d))) (\<lambda>r.
          bind_res (ok_or NoWorkflow (query_row (\<lambda>f. wf_id f = wr_workflow_id r) (workflows d))) (\<lambda>f.
          Ok (wr_workflow_id r, wr_tenant_id r, wf_dag f))))"

definition set_run_running :: "utc \<Rightarrow> string \<Rightarrow> db \<Rightarrow> (unit, dag_error) res \<times> db" where
  "set_run_running now run_id d = run_update run_id (\<lambda>r. r \<lparr> wr_status := ''running'',
     wr_started_at := Some (case wr_started_at r of Some t \<Rightarrow> t | None \<Rightarrow> sqlite_datetime now),
     wr_current_steps := Some (case wr_current_steps r of Some t \<Rightarrow> t | None \<Rightarrow> ''[]''),
     wr_completed_steps := Some (case wr_completed_steps r of Some t \<Rightarrow> t | None \<Rightarrow> ''[]'') \<rparr>) d"

definition finalize_run :: "utc \<Rightarrow> string \<Rightarrow> string \<Rightarrow> db \<Rightarrow> (unit, dag_error) res \<times> db" where
  "finalize_run now run_id status d = run_update run_id (\<lambda>r. r \<lparr> wr_status := status,
     wr_finished_at := Some (sqlite_datetime now), wr_current_steps := Some ''[]'' \<rparr>) d"

text \<open>Every \<open>?\<close> returns early; the outcome of the walk is returned last.\<close>

definition advance_dag ::
    "'x workflow_lib_scheme \<Rightarrow> session_env \<Rightarrow> runner \<Rightarrow> utc \<Rightarrow> utc \<Rightarrow> string \<Rightarrow> app \<Rightarrow> (unit, dag_error) res \<times> app" where
  "advance_dag J E run now1 now2 run_id s =
    (case load_run run_id (adb s) of
       Err e \<Rightarrow> (Err e, s)
     | Panic \<Rightarrow> (Panic, s)
     | Ok (workflow_id, tenant_id, dag_json) \<Rightarrow>
        (case parse_dag J dag_json of
           None \<Rightarrow> (Err InvalidDag, s)
         | Some dag \<Rightarrow>
            (case set_run_running now1 run_id (adb s) of
               (Err e, d) \<Rightarrow> (Err e, s \<lparr> adb := d \<rparr>)
             | (Panic, d) \<Rightarrow> (Panic, s \<lparr> adb := d \<rparr>)
             | (Ok _, d) \<Rightarrow>
                (case execute_dag J run run_id (dag_steps dag) 0 [] [] (s \<lparr> adb := d \<rparr>) of
                   (Panic, s1) \<Rightarrow> (Panic, s1)
                 | (outcome, s1) \<Rightarrow>
                    let ok = (outcome = Ok ()); status = (if ok then ''completed'' else ''failed'') in
                    (case finalize_run now2 run_id status (adb s1) of
                       (Err e, d2) \<Rightarrow> (Err e, s1 \<lparr> adb := d2 \<rparr>)
                     | (Panic, d2) \<Rightarrow> (Panic, s1 \<lparr> adb := d2 \<rparr>)
                     | (Ok _, d2) \<Rightarrow>
                        (case audit_json J E now2 tenant_id []
                            (if ok then ''workflow_completed'' else ''workflow_failed'')
                            [(''run_id'', JText run_id), (''status'', JText status),
                             (''step_count'', jint (int (length (dag_steps dag)))),
                             (''tenant_id'', JText tenant_id), (''workflow_id'', JText workflow_id)] d2 of
                           (Err e, d3) \<Rightarrow> (Err (DagAudit e), s1 \<lparr> adb := d3 \<rparr>)
                         | (Panic, d3) \<Rightarrow> (Panic, s1 \<lparr> adb := d3 \<rparr>)
                         | (Ok _, d3) \<Rightarrow> (outcome, s1 \<lparr> adb := d3 \<rparr>)))))))"

definition execute_workflow ::
    "'x workflow_lib_scheme \<Rightarrow> session_env \<Rightarrow> (nat \<Rightarrow> nat \<Rightarrow> nat \<Rightarrow> attempt) \<Rightarrow> utc \<Rightarrow> utc \<Rightarrow> string \<Rightarrow> app \<Rightarrow>
     (unit, dag_error) res \<times> app" where
  "execute_workflow J E ats now1 now2 run_id s =
     advance_dag J E (\<lambda>w i st. run_step_with_retries J E (ats w i) run_id st) now1 now2 run_id s"

section \<open>The handlers\<close>

datatype wf_http = WfAuth http_reason | WfNotFound string | WfDatabase

type_synonym 'a wf_res = "('a, nat \<times> wf_http) res"

definition wf_tenant :: "session_env \<Rightarrow> utc \<Rightarrow> string option \<Rightarrow> db \<Rightarrow> string wf_res" where
  "wf_tenant E now authorization d = map_err (\<lambda>(c, r). (c, WfAuth r)) (agent_tenant E now authorization d)"

definition create_workflow ::
    "'x json_lib_scheme \<Rightarrow> session_env \<Rightarrow> utc \<Rightarrow> string \<Rightarrow> string option \<Rightarrow> string \<Rightarrow> json \<Rightarrow> db \<Rightarrow> (string \<times> string) wf_res \<times> db" where
  "create_workflow J E now ulid authorization name dag d =
    (case wf_tenant E now authorization d of
       Err e \<Rightarrow> (Err e, d)
     | Panic \<Rightarrow> (Panic, d)
     | Ok tenant_id \<Rightarrow>
        let workflow_id = ''wf_'' @ ulid in
        if \<not> db_up d \<or> \<not> tenant_exists tenant_id d \<or> list_ex (\<lambda>f. wf_id f = workflow_id) (workflows d)
        then (Err (500, WfDatabase), d)
        else (Ok (workflow_id, ''draft''), d \<lparr> workflows := workflows d @
          [\<lparr> wf_id = workflow_id, wf_tenant_id = tenant_id, wf_name = name, wf_dag = json_print J dag,
             wf_status = ''draft'', wf_created_at = sqlite_datetime now \<rparr>] \<rparr>))"

record GetWorkflowResponse =
  gw_id :: string
  gw_name :: string
  gw_dag :: json
  gw_status :: string
  gw_created_at :: string

definition get_workflow ::
    "'x json_lib_scheme \<Rightarrow> session_env \<Rightarrow> utc \<Rightarrow> string option \<Rightarrow> string \<Rightarrow> db \<Rightarrow> GetWorkflowResponse wf_res" where
  "get_workflow J E now authorization workflow_id d =
     bind_res (wf_tenant E now authorization d) (\<lambda>tenant_id.
     if \<not> db_up d then Err (500, WfDatabase)
     else bind_res (ok_or (404, WfNotFound workflow_id)
         (query_row (\<lambda>f. wf_id f = workflow_id \<and> wf_tenant_id f = tenant_id) (workflows d))) (\<lambda>f.
     Ok \<lparr> gw_id = wf_id f, gw_name = wf_name f,
          gw_dag = (case json_parse J (wf_dag f) of Some v \<Rightarrow> v | None \<Rightarrow> JNull),
          gw_status = wf_status f, gw_created_at = wf_created_at f \<rparr>))"

text \<open>\<open>ORDER BY created_at DESC\<close>; SQLite leaves the order of equal times open, here it is the newest row first.\<close>

definition list_workflows ::
    "session_env \<Rightarrow> utc \<Rightarrow> string option \<Rightarrow> db \<Rightarrow> (string \<times> string \<times> string \<times> string) list wf_res" where
  "list_workflows E now authorization d =
     bind_res (wf_tenant E now authorization d) (\<lambda>tenant_id.
     if \<not> db_up d then Err (500, WfDatabase)
     else Ok (map (\<lambda>f. (wf_id f, wf_name f, wf_status f, wf_created_at f))
       (rev (sort_key wf_created_at (filter (\<lambda>f. wf_tenant_id f = tenant_id) (workflows d))))))"

text \<open>The run is spawned after the response; \<open>execute_workflow\<close> is that task.\<close>

definition run_workflow ::
    "session_env \<Rightarrow> utc \<Rightarrow> string \<Rightarrow> string option \<Rightarrow> string \<Rightarrow> db \<Rightarrow> (string \<times> string) wf_res \<times> db" where
  "run_workflow E now ulid authorization workflow_id d =
    (case wf_tenant E now authorization d of
       Err e \<Rightarrow> (Err e, d)
     | Panic \<Rightarrow> (Panic, d)
     | Ok tenant_id \<Rightarrow>
        if \<not> db_up d then (Err (500, WfDatabase), d)
        else if count_where (\<lambda>f. wf_id f = workflow_id \<and> wf_tenant_id f = tenant_id) (workflows d) = 0
        then (Err (404, WfNotFound workflow_id), d)
        else
          let run_id = ''wfr_'' @ ulid in
          if \<not> tenant_exists tenant_id d \<or> list_ex (\<lambda>r. wr_id r = run_id) (workflow_runs d)
          then (Err (500, WfDatabase), d)
          else (Ok (run_id, ''running''), d \<lparr> workflow_runs := workflow_runs d @
            [\<lparr> wr_id = run_id, wr_workflow_id = workflow_id, wr_tenant_id = tenant_id, wr_status = ''running'',
               wr_current_steps = Some ''[]'', wr_completed_steps = Some ''[]'',
               wr_started_at = Some (sqlite_datetime now), wr_finished_at = None, wr_result = None,
               wr_step_results = None \<rparr>] \<rparr>))"

record GetRunResponse =
  gr_id :: string
  gr_workflow_id :: string
  gr_status :: string
  gr_current_steps :: json
  gr_completed_steps :: json
  gr_started_at :: "string option"
  gr_finished_at :: "string option"

definition steps_column :: "'x json_lib_scheme \<Rightarrow> string option \<Rightarrow> json" where
  "steps_column J col = (case Option.bind col (json_parse J) of Some v \<Rightarrow> v | None \<Rightarrow> JArray [])"

definition get_run ::
    "'x json_lib_scheme \<Rightarrow> session_env \<Rightarrow> utc \<Rightarrow> string option \<Rightarrow> string \<Rightarrow> db \<Rightarrow> GetRunResponse wf_res" where
  "get_run J E now authorization run_id d =
     bind_res (wf_tenant E now authorization d) (\<lambda>tenant_id.
     if \<not> db_up d then Err (500, WfDatabase)
     else bind_res (ok_or (404, WfNotFound run_id)
         (query_row (\<lambda>r. wr_id r = run_id \<and> wr_tenant_id r = tenant_id) (workflow_runs d))) (\<lambda>r.
     Ok \<lparr> gr_id = wr_id r, gr_workflow_id = wr_workflow_id r, gr_status = wr_status r,
          gr_current_steps = steps_column J (wr_current_steps r),
          gr_completed_steps = steps_column J (wr_completed_steps r),
          gr_started_at = wr_started_at r, gr_finished_at = wr_finished_at r \<rparr>))"

section \<open>Conditions\<close>

lemma split_once_blank_op:
  assumes "CHR '' '' \<notin> set a" "p = CHR '' '' # q"
  shows "split_once p (a @ p @ b) = Some (a, b)"
proof (rule split_once_append)
  fix k assume k: "k < length a"
  then have "drop k (a @ p @ b) = a ! k # drop (Suc k) a @ p @ b" by (simp add: Cons_nth_drop_Suc)
  moreover have "a ! k \<noteq> CHR '' ''" using assms(1) k by (metis nth_mem)
  ultimately show "\<not> starts_with (drop k (a @ p @ b)) p" using assms(2) by (simp add: starts_with_iff)
qed

lemma first_split:
  "x \<notin> set a \<Longrightarrow> x \<notin> set u \<Longrightarrow> a @ x # p = u @ x # q \<Longrightarrow> a = u \<and> p = q"
  by (induction a arbitrary: u) (auto simp: Cons_eq_append_conv append_eq_Cons_conv)

lemma not_contains_op:
  assumes "CHR '' '' \<notin> set a" "CHR '' '' \<notin> set b"
  shows "\<not> contains (a @ '' != '' @ b) '' == ''"
proof
  assume "contains (a @ '' != '' @ b) '' == ''"
  then obtain u v where uv: "a @ '' != '' @ b = u @ '' == '' @ v" unfolding contains_iff by blast
  show False
  proof (cases "CHR '' '' \<in> set u")
    case True
    then obtain u1 u2 where u: "u = u1 @ CHR '' '' # u2" "CHR '' '' \<notin> set u1" by (meson split_list_first)
    then have "a @ CHR '' '' # (''!= '' @ b) = u1 @ CHR '' '' # (u2 @ '' == '' @ v)" using uv by simp
    then have "''!= '' @ b = u2 @ '' == '' @ v"
      using first_split [OF assms(1) u(2)] by blast
    then have "count_list (''!= '' @ b) (CHR '' '') = count_list (u2 @ '' == '' @ v) (CHR '' '')" by simp
    then show False using assms(2) by simp
  next
    case False
    then have "a @ CHR '' '' # (''!= '' @ b) = u @ CHR '' '' # (''== '' @ v)" using uv by simp
    then have "''!= '' @ b = ''== '' @ v" using first_split [OF assms(1) False] by blast
    then show False by simp
  qed
qed

section \<open>The order of execution\<close>

text \<open>A list of ids is in dependency order when every id names a step all of whose dependencies come earlier.\<close>

definition in_dag_order :: "Step list \<Rightarrow> string list \<Rightarrow> bool" where
  "in_dag_order steps c \<longleftrightarrow>
     (\<forall>i<length c. \<exists>st\<in>set steps. st_id st = c ! i \<and> set (st_depends_on st) \<subseteq> set (take i c))"

definition wave_inv :: "Step list \<Rightarrow> string list \<Rightarrow> bool" where
  "wave_inv steps c \<longleftrightarrow> distinct c \<and> in_dag_order steps c"

lemma wave_inv_Nil [simp]: "wave_inv steps []"
  by (simp add: wave_inv_def in_dag_order_def)

lemma wave_inv_ids:
  assumes "wave_inv steps c"
  shows "set c \<subseteq> st_id ` set steps"
proof
  fix x assume "x \<in> set c"
  then obtain i where "i < length c" "c ! i = x" by (auto simp: in_set_conv_nth)
  then obtain st where "st \<in> set steps" "st_id st = x"
    using assms unfolding wave_inv_def in_dag_order_def by blast
  then show "x \<in> st_id ` set steps" by blast
qed

lemma wave_inv_add:
  assumes "wave_inv steps c" "st \<in> set steps" "set (st_depends_on st) \<subseteq> set c"
  shows "wave_inv steps (add_id (st_id st) c)"
proof (cases "st_id st \<in> set c")
  case False
  have "\<exists>s\<in>set steps. st_id s = (c @ [st_id st]) ! i \<and> set (st_depends_on s) \<subseteq> set (take i (c @ [st_id st]))"
    if "i < length (c @ [st_id st])" for i
  proof (cases "i < length c")
    case True
    then show ?thesis using assms(1) by (simp add: wave_inv_def in_dag_order_def nth_append)
  next
    case F: False
    then have "i = length c" using that by simp
    then show ?thesis using assms(2,3) by auto
  qed
  then show ?thesis using assms(1) False by (simp add: add_id_def wave_inv_def in_dag_order_def)
qed (use assms in \<open>simp add: add_id_def\<close>)

definition runnable :: "Step list \<Rightarrow> string list \<Rightarrow> Step list \<Rightarrow> bool" where
  "runnable steps c sts \<longleftrightarrow> (\<forall>st\<in>set sts. st \<in> set steps \<and> set (st_depends_on st) \<subseteq> set c)"

lemma skip_all_inv:
  "runnable steps c sts \<Longrightarrow> wave_inv steps c \<Longrightarrow> wave_inv steps (snd (skip_all sts results c))"
proof (induction sts arbitrary: results c)
  case (Cons st sts)
  have "wave_inv steps (add_id (st_id st) c)" using Cons.prems by (intro wave_inv_add) (auto simp: runnable_def)
  moreover have "runnable steps (add_id (st_id st) c) sts" using Cons.prems by (auto simp: runnable_def)
  ultimately show ?case using Cons.IH by (simp add: skip_all_def)
qed (simp add: skip_all_def)

lemma run_batch_inv:
  assumes "run_batch run w i sts f results c s = (failed, results', c', s')" "runnable steps c sts" "wave_inv steps c"
  shows "wave_inv steps c'"
  using assms
proof (induction sts arbitrary: i f results c s)
  case (Cons st sts)
  obtain r s1 where r: "run w i st s = (r, s1)" by fastforce
  have run: "runnable steps c sts" using Cons.prems(2) by (simp add: runnable_def)
  show ?case
  proof (cases r)
    case (Ok v)
    then have b: "run_batch run w (Suc i) sts f (AList.update (st_id st) v results) (add_id (st_id st) c) s1 =
        (failed, results', c', s')" using Cons.prems(1) r by simp
    show ?thesis
    proof (rule Cons.IH [OF b])
      show "runnable steps (add_id (st_id st) c) sts" using run by (auto simp: runnable_def)
      show "wave_inv steps (add_id (st_id st) c)"
        using Cons.prems(2,3) by (intro wave_inv_add) (auto simp: runnable_def)
    qed
  next
    case (Err e)
    then show ?thesis using Cons.prems(1,3) r run by (auto intro: Cons.IH)
  next
    case Panic
    then show ?thesis using Cons.prems(1,3) r run by (auto intro: Cons.IH)
  qed
qed simp

lemma run_wave_inv:
  assumes "run_wave J run run_id steps w results c s = (Ok (results', c'), s')" "wave_inv steps c"
  shows "wave_inv steps c'"
proof -
  let ?ready = "find_ready_steps steps c"
  let ?skip = "filter (\<lambda>st. \<not> condition_met J results st) ?ready" and ?run = "filter (condition_met J results) ?ready"
  have ne: "?ready \<noteq> []" by (rule run_wave_progress(2) [OF assms(1)])
  obtain r1 c1 where sk: "skip_all ?skip results c = (r1, c1)" by fastforce
  have run: "runnable steps c ?skip" "runnable steps c ?run" by (auto simp: runnable_def ready_steps_ids)
  have c1: "wave_inv steps c1" using skip_all_inv [OF run(1) assms(2), of results] sk by simp
  have sub: "set c \<subseteq> set c1" using skip_all_completed [of ?skip results c] sk by auto
  show ?thesis
  proof (cases "?run = []")
    case True
    then have "c' = c1"
      using assms(1) ne sk by (auto simp: run_wave_def Let_def simp del: filter_empty_conv split: prod.splits res.splits if_splits)
    then show ?thesis using c1 by simp
  next
    case False
    then obtain s1 where "launch J run run_id w ?run r1 c1 s1 = (Ok (results', c'), s')"
      using assms(1) ne sk by (auto simp: run_wave_def Let_def simp del: filter_empty_conv split: prod.splits res.splits if_splits)
    then obtain s2 s3 where "run_batch run w 0 ?run False r1 c1 s2 = (False, results', c', s3)"
      using launch_Ok by blast
    moreover have "runnable steps c1 ?run" using run(2) sub unfolding runnable_def by blast
    ultimately show ?thesis using run_batch_inv c1 by blast
  qed
qed

lemma execute_dag_Ok:
  assumes "execute_dag J run run_id steps w results c s = (Ok (), s')" "wave_inv steps c"
  shows "\<exists>c'. wave_inv steps c' \<and> length steps \<le> length c'"
  using assms
proof (induction J run run_id steps w results c s rule: execute_dag.induct)
  case (1 J run run_id steps w results c s)
  show ?case
  proof (cases "length c < length steps")
    case True
    obtain r s1 where r: "run_wave J run run_id steps w results c s = (r, s1)" by fastforce
    then obtain results' c' where ok: "r = Ok (results', c')"
      using "1.prems"(1) True by (cases r) (auto simp: execute_dag.simps [of J run run_id steps w results c s])
    have "execute_dag J run run_id steps (Suc w) results' c' s1 = (Ok (), s')"
      using "1.prems"(1) True r ok by (simp add: execute_dag.simps [of J run run_id steps w results c s])
    then show ?thesis using "1.IH" [OF True, of r s1] r ok run_wave_inv "1.prems"(2) by (metis prod.inject)
  next
    case False
    then show ?thesis using "1.prems"(2) by (auto simp: not_less)
  qed
qed

lemma complete_order:
  assumes "wave_inv steps c" "length steps \<le> length c"
  shows "distinct (map st_id steps)" "set c = st_id ` set steps" "length c = length steps"
proof -
  have len: "length c = card (set c)" using assms(1) by (simp add: wave_inv_def distinct_card)
  have le: "card (set c) \<le> card (st_id ` set steps)" using wave_inv_ids [OF assms(1)] by (simp add: card_mono)
  have "card (st_id ` set steps) \<le> length steps" by (metis card_length list.set_map length_map)
  then have eq: "card (st_id ` set steps) = length steps" "length c = length steps" using len le assms(2) by linarith+
  show "length c = length steps" by (rule eq(2))
  show "distinct (map st_id steps)" using eq(1) by (intro card_distinct) simp
  show "set c = st_id ` set steps"
    using wave_inv_ids [OF assms(1)] len eq by (intro card_subset_eq) auto
qed

text \<open>The reference: the steps have distinct ids and can be listed so that dependencies come first.\<close>

definition schedulable :: "Step list \<Rightarrow> bool" where
  "schedulable steps \<longleftrightarrow> distinct (map st_id steps) \<and>
     (\<exists>ys. mset ys = mset steps \<and> (\<forall>i<length ys. set (st_depends_on (ys ! i)) \<subseteq> st_id ` set (take i ys)))"

lemma complete_schedulable:
  assumes "wave_inv steps c" "length steps \<le> length c"
  shows "schedulable steps"
proof -
  note co = complete_order [OF assms]
  have inj: "inj_on st_id (set steps)" and ds: "distinct steps" using co(1) by (auto simp: distinct_map)
  define f where "f x = the_inv_into (set steps) st_id x" for x
  have f: "f x \<in> set steps" "st_id (f x) = x" if "x \<in> set c" for x
    using that co(2) inj unfolding f_def by (auto intro: the_inv_into_into f_the_inv_into_f)
  have fst_id: "f (st_id st) = st" if "st \<in> set steps" for st using that inj by (simp add: f_def the_inv_into_f_f)
  let ?ys = "map f c"
  have "inj_on f (set c)" using f(2) by (metis inj_on_inverseI)
  then have d: "distinct ?ys" using assms(1) by (simp add: distinct_map wave_inv_def)
  have "set ?ys = set steps" using f co(2) fst_id by force
  then have m: "mset ?ys = mset steps" using d ds set_eq_iff_mset_eq_distinct by blast
  have "set (st_depends_on (?ys ! i)) \<subseteq> st_id ` set (take i ?ys)" if i: "i < length ?ys" for i
  proof -
    obtain st where st: "st \<in> set steps" "st_id st = c ! i" "set (st_depends_on st) \<subseteq> set (take i c)"
      using assms(1) i by (auto simp: wave_inv_def in_dag_order_def)
    have "?ys ! i = st" using fst_id [OF st(1)] st(2) i by simp
    moreover have "st_id ` set (take i ?ys) = (\<lambda>x. x) ` set (take i c)"
      unfolding take_map set_map image_image using f(2) by (intro image_cong) (auto dest: in_set_takeD)
    ultimately show ?thesis using st(3) by simp
  qed
  then show ?thesis using m co(1) unfolding schedulable_def by blast
qed

section \<open>Progress\<close>

lemma schedulable_progress:
  assumes "schedulable steps" "wave_inv steps c" "length c < length steps"
  shows "find_ready_steps steps c \<noteq> []"
proof -
  obtain ys where ys: "mset ys = mset steps" "\<And>i. i < length ys \<Longrightarrow> set (st_depends_on (ys ! i)) \<subseteq> st_id ` set (take i ys)"
    using assms(1) unfolding schedulable_def by blast
  have set: "set ys = set steps" by (rule mset_eq_setD [OF ys(1)])
  have "card (set c) < card (st_id ` set steps)"
    using assms(1,3) card_length [of c] by (simp add: schedulable_def distinct_card flip: set_map)
  then have "\<not> st_id ` set steps \<subseteq> set c" using card_mono by (metis List.finite_set leD)
  then obtain st where "st \<in> set ys" "st_id st \<notin> set c" using set by blast
  then have ex: "\<exists>i. i < length ys \<and> st_id (ys ! i) \<notin> set c" by (metis in_set_conv_nth)
  define i where "i = (LEAST i. i < length ys \<and> st_id (ys ! i) \<notin> set c)"
  have i: "i < length ys" "st_id (ys ! i) \<notin> set c" using LeastI_ex [OF ex] by (auto simp: i_def)
  have least: "\<not> (j < length ys \<and> st_id (ys ! j) \<notin> set c)" if "j < i" for j
    using not_less_Least that unfolding i_def by blast
  have "st_id x \<in> set c" if "x \<in> set (take i ys)" for x
  proof -
    obtain j where "j < i" "j < length ys" "x = ys ! j" using \<open>x \<in> set (take i ys)\<close> i(1) by (auto simp: in_set_conv_nth)
    then show ?thesis using least by blast
  qed
  then have "set (st_depends_on (ys ! i)) \<subseteq> set c" using ys(2) [OF i(1)] by blast
  moreover have "ys ! i \<in> set steps" using i(1) set by (metis nth_mem)
  ultimately have "ys ! i \<in> set (find_ready_steps steps c)" using i(2) by (simp add: ready_steps_ids)
  then show ?thesis by auto
qed

text \<open>A runner that always succeeds and leaves the database up.\<close>

definition reliable :: "runner \<Rightarrow> bool" where
  "reliable run \<longleftrightarrow> (\<forall>w i st s. db_up (adb s) \<longrightarrow> is_ok (fst (run w i st s)) \<and> db_up (adb (snd (run w i st s))))"

lemma reliableD:
  assumes "reliable run" "db_up (adb s)"
  obtains v s' where "run w i st s = (Ok v, s')" "db_up (adb s')"
proof -
  have "is_ok (fst (run w i st s))" "db_up (adb (snd (run w i st s)))" using assms by (auto simp: reliable_def)
  then show ?thesis by (cases "run w i st s"; cases "fst (run w i st s)") (auto intro: that)
qed

lemma run_update_up: "db_up d \<Longrightarrow> \<exists>d'. run_update run_id f d = (Ok (), d') \<and> db_up d'"
  by (simp add: run_update_def)

lemma persist_up: "db_up d \<Longrightarrow> \<exists>d'. persist J run_id c results d = (Ok (), d') \<and> db_up d'"
  by (simp add: persist_def update_step_arrays_def update_step_results_def run_update_def)

lemma run_batch_reliable:
  assumes "reliable run" "db_up (adb s)"
  shows "\<exists>results' c' s'. run_batch run w i sts False results c s = (False, results', c', s') \<and> db_up (adb s')"
  using assms(2)
proof (induction sts arbitrary: i results c s)
  case (Cons st sts)
  obtain v s' where "run w i st s = (Ok v, s')" "db_up (adb s')" by (rule reliableD [OF assms(1) Cons.prems])
  then show ?case using Cons.IH by simp
qed simp

lemma launch_reliable:
  assumes "reliable run" "db_up (adb s)"
  shows "\<exists>results' c' s'. launch J run run_id w sts results c s = (Ok (results', c'), s') \<and> db_up (adb s')"
proof -
  obtain d where d: "update_step_arrays J run_id (map st_id sts) c (adb s) = (Ok (), d)" "db_up d"
    using run_update_up assms(2) unfolding update_step_arrays_def by blast
  obtain results' c' s' where b: "run_batch run w 0 sts False results c (s \<lparr> adb := d \<rparr>) = (False, results', c', s')" "db_up (adb s')"
    using run_batch_reliable [OF assms(1), of "s \<lparr> adb := d \<rparr>"] d(2) by fastforce
  obtain d' where "persist J run_id c' results' (adb s') = (Ok (), d')" "db_up d'" using persist_up b(2) by blast
  then show ?thesis using d b by (simp add: launch_def)
qed

lemma run_wave_reliable:
  assumes "reliable run" "db_up (adb s)" "find_ready_steps steps c \<noteq> []"
  shows "\<exists>results' c' s'. run_wave J run run_id steps w results c s = (Ok (results', c'), s') \<and> db_up (adb s')"
proof -
  let ?ready = "find_ready_steps steps c"
  let ?skip = "filter (\<lambda>st. \<not> condition_met J results st) ?ready" and ?run = "filter (condition_met J results) ?ready"
  obtain r1 c1 where sk: "skip_all ?skip results c = (r1, c1)" by fastforce
  obtain d where d: "(if ?skip = [] then (Ok (), adb s) else persist J run_id c1 r1 (adb s)) = (Ok (), d)" "db_up d"
    using persist_up [OF assms(2), of J run_id c1 r1] assms(2) by metis
  obtain results' c' s' where
    "launch J run run_id w ?run r1 c1 (s \<lparr> adb := d \<rparr>) = (Ok (results', c'), s')" "db_up (adb s')"
    using launch_reliable [OF assms(1), of "s \<lparr> adb := d \<rparr>"] d(2) by fastforce
  then show ?thesis using assms(3) sk d by (simp add: run_wave_def Let_def del: filter_empty_conv)
qed

lemma execute_dag_reliable:
  assumes "reliable run" "schedulable steps" "wave_inv steps c" "db_up (adb s)"
  shows "\<exists>s'. execute_dag J run run_id steps w results c s = (Ok (), s')"
  using assms
proof (induction J run run_id steps w results c s rule: execute_dag.induct)
  case (1 J run run_id steps w results c s)
  show ?case
  proof (cases "length c < length steps")
    case True
    obtain results' c' s' where r: "run_wave J run run_id steps w results c s = (Ok (results', c'), s')" "db_up (adb s')"
      using run_wave_reliable "1.prems"(1,4) schedulable_progress [OF "1.prems"(2,3) True] by blast
    have "\<exists>s''. execute_dag J run run_id steps (Suc w) results' c' s' = (Ok (), s'')"
      by (rule "1.IH" [OF True r(1) [symmetric] refl refl "1.prems"(1,2) run_wave_inv [OF r(1) "1.prems"(3)] r(2)])
    then show ?thesis using True r(1) by (simp add: execute_dag.simps [of J run run_id steps w results c s])
  qed (simp add: execute_dag.simps [of J run run_id steps w results c s])
qed

section \<open>Demonstration values\<close>

definition demo_wf_lib :: workflow_lib where
  "demo_wf_lib = \<lparr> json_print = (\<lambda>v. ''{}''), json_parse = (\<lambda>t. None), f64_parse = (\<lambda>t. None),
     parse_dag = (\<lambda>t. None), hash_order = (\<lambda>xs. xs), error_text = (\<lambda>e. []) \<rparr>"

definition demo_step :: "string \<Rightarrow> string list \<Rightarrow> Step" where
  "demo_step i deps = \<lparr> st_id = i, st_task = ''make'', st_image = None, st_ttl_secs = None, st_context = None,
     st_depends_on = deps, st_condition = None, st_max_retries = None \<rparr>"

definition demo_runner :: runner where
  "demo_runner = (\<lambda>w i st s. (Ok (JObject []), s))"

definition demo_attempt :: attempt where
  "demo_attempt = \<lparr> at_start = demo_time, at_end = demo_time, at_ulid = ''1'', at_polls = [], at_exec = Refused,
     at_kill_up = True, at_ms = 0 \<rparr>"

definition demo_agent_db :: db where
  "demo_agent_db = demo_tenant_db \<lparr>
     agent_tokens := [\<lparr> at_tenant_id = ''t1'', at_token_hash = hash_token (e_sig demo_env) ''a'', at_scope = None,
        at_created_at = [], at_expires_at = None, at_revoked_at = None \<rparr>],
     workflows := [\<lparr> wf_id = ''wf_1'', wf_tenant_id = ''t1'', wf_name = ''w'', wf_dag = ''{}'', wf_status = ''draft'',
        wf_created_at = [] \<rparr>] \<rparr>"

text \<open>C15. \<open>execute_dag\<close> decides schedulability: when every step succeeds and the database answers, it
  completes exactly the DAGs whose ids are distinct and whose dependencies name steps that can come
  first; a cycle, an unknown dependency or a repeated id makes it fail.\<close>
theorem dag_completes_iff:
  assumes "reliable run" "db_up (adb s)"
  shows "is_ok (fst (execute_dag J run run_id steps 0 [] [] s)) \<longleftrightarrow> schedulable steps"
proof
  assume "is_ok (fst (execute_dag J run run_id steps 0 [] [] s))"
  then obtain s' where "execute_dag J run run_id steps 0 [] [] s = (Ok (), s')"
    by (cases "execute_dag J run run_id steps 0 [] [] s"; cases "fst (execute_dag J run run_id steps 0 [] [] s)") auto
  from execute_dag_Ok [OF this] show "schedulable steps" using complete_schedulable by auto
next
  assume "schedulable steps"
  then show "is_ok (fst (execute_dag J run run_id steps 0 [] [] s))"
    using execute_dag_reliable [OF assms(1) _ wave_inv_Nil assms(2), of steps J run_id 0 "[]"] by auto
qed

theorem dag_completes_iff_witness:
  "schedulable [demo_step ''b'' [''a''], demo_step ''a'' []] \<and> \<not> schedulable [demo_step ''b'' [''a''], demo_step ''a'' [''b'']]"
proof -
  have rel: "reliable demo_runner" by (simp add: reliable_def demo_runner_def)
  have up: "db_up (adb demo_app)" by code_simp
  have "is_ok (fst (execute_dag demo_wf_lib demo_runner ''r'' [demo_step ''b'' [''a''], demo_step ''a'' []] 0 [] [] demo_app))"
    by code_simp
  moreover have "\<not> is_ok (fst (execute_dag demo_wf_lib demo_runner ''r'' [demo_step ''b'' [''a''], demo_step ''a'' [''b'']] 0 [] [] demo_app))"
    by code_simp
  ultimately show ?thesis using dag_completes_iff [OF rel up] by blast
qed

section \<open>Operators of conditions\<close>

lemma trim_plain:
  assumes "utf8_chars s \<noteq> []" "\<not> white (hd (utf8_chars s))" "\<not> white (last (utf8_chars s))"
  shows "trim s = s"
  using assms by (intro trim_id) simp

section \<open>Steps and retries\<close>

lemma pods_after_kill:
  assumes "\<not> list_ex (\<lambda>q. po_name q = n) (pods k)" "po_name p = n"
  shows "kill_workflow_pod True n (k \<lparr> pods := pods k @ [p] \<rparr>) = k"
proof -
  have "filter (\<lambda>q. po_name q \<noteq> n) (pods k @ [p]) = pods k"
    using assms by (auto simp: list_ex_iff filter_id_conv)
  then show ?thesis by (simp add: kill_workflow_pod_def kill_pod_force_def kill_pod_def)
qed

lemma kill_workflow_pod_down: "kill_workflow_pod False n k = k"
  by (simp add: kill_workflow_pod_def kill_pod_force_def kill_pod_def)

lemma load_tenant_id_cases:
  "load_tenant_id run_id d \<noteq> Panic"
  by (simp add: load_tenant_id_def ok_or_def split: option.split)

definition workflow_pod :: "string \<Rightarrow> string \<Rightarrow> string \<Rightarrow> pod" where
  "workflow_pod ulid tenant_id img = \<lparr> po_name = ''wf-'' @ lower_ascii ulid, po_app = ''stronghold-workflow'',
     po_tenant = tenant_id, po_image = img, po_cpu_millis = 1000, po_memory_gb = 2, po_env = [], po_work_claim = None \<rparr>"

lemma schedule_workflow_pod_eq:
  "schedule_workflow_pod ulid tenant_id img k =
    (if kube_up k \<and> \<not> list_ex (\<lambda>q. po_name q = ''wf-'' @ lower_ascii ulid) (pods k)
     then (Ok \<lparr> sm_id = ''wf-'' @ lower_ascii ulid, sm_worker = ''k3s-default'', sm_sev_snp_attested = False \<rparr>,
           k \<lparr> pods := pods k @ [workflow_pod ulid tenant_id img] \<rparr>)
     else (Err KubeError, k))"
  by (simp add: schedule_workflow_pod_def create_pod_def Let_def workflow_pod_def)

lemma run_in_pod_not_Panic: "run_in_pod a \<noteq> Panic"
  by (simp add: run_in_pod_def run_pod_exec_def split: exec_reply.split)

text \<open>C16. A step leaves the cluster as it found it, whether it succeeds or fails, provided the API server
  answers the final delete; if it does not, exactly the pod of the step stays behind, and nothing retries.\<close>
theorem step_leaves_no_pod:
  "cluster (snd (execute_step J E a run_id st s)) =
    (case load_tenant_id run_id (adb s) of
       Ok t \<Rightarrow>
         if \<not> at_kill_up a \<and> kube_up (cluster s) \<and> \<not> list_ex (\<lambda>q. po_name q = ''wf-'' @ lower_ascii (at_ulid a)) (pods (cluster s))
         then (cluster s) \<lparr> pods := pods (cluster s) @
           [workflow_pod (at_ulid a) t (case st_image st of Some i \<Rightarrow> i | None \<Rightarrow> DEFAULT_IMAGE)] \<rparr>
         else cluster s
     | _ \<Rightarrow> cluster s)"
proof -
  let ?k = "cluster s" and ?n = "''wf-'' @ lower_ascii (at_ulid a)"
  consider (err) e where "load_tenant_id run_id (adb s) = Err e" | (ok) t where "load_tenant_id run_id (adb s) = Ok t"
    using load_tenant_id_cases by (cases "load_tenant_id run_id (adb s)") auto
  then show ?thesis
  proof cases
    case err
    then show ?thesis by (simp add: execute_step_def)
  next
    case ok
    show ?thesis
    proof (cases "kube_up ?k \<and> \<not> list_ex (\<lambda>q. po_name q = ?n) (pods ?k)")
      case True
      have "kill_workflow_pod True ?n (?k \<lparr> pods := pods ?k @ [workflow_pod (at_ulid a) t i] \<rparr>) = ?k" for i
        using True by (intro pods_after_kill) (auto simp: workflow_pod_def)
      then show ?thesis using ok True run_in_pod_not_Panic [of a]
        by (cases "at_kill_up a")
          (auto simp: execute_step_def Let_def schedule_workflow_pod_eq kill_workflow_pod_down split: res.split)
    next
      case False
      then show ?thesis using ok by (auto simp: execute_step_def Let_def schedule_workflow_pod_eq)
    qed
  qed
qed

primrec after_attempts ::
    "'x workflow_lib_scheme \<Rightarrow> session_env \<Rightarrow> (nat \<Rightarrow> attempt) \<Rightarrow> string \<Rightarrow> Step \<Rightarrow> nat \<Rightarrow> nat \<Rightarrow> app \<Rightarrow> app" where
  "after_attempts J E ats run_id st i 0 s = s"
| "after_attempts J E ats run_id st i (Suc k) s =
     after_attempts J E ats run_id st (Suc i) k (snd (execute_step J E (ats i) run_id st s))"

lemma execute_step_not_Panic: "fst (execute_step J E a run_id st s) \<noteq> Panic"
  using load_tenant_id_cases [of run_id "adb s"] run_in_pod_not_Panic [of a]
  by (auto simp: execute_step_def Let_def schedule_workflow_pod_eq split: res.splits prod.splits)

lemma attempts_Ok_iff:
  "attempts J E ats run_id st n i last_error s = (Ok v, s') \<longleftrightarrow>
   (\<exists>k<n. \<exists>r. (\<forall>j<k. \<not> is_ok (fst (execute_step J E (ats (i + j)) run_id st (after_attempts J E ats run_id st i j s)))) \<and>
      execute_step J E (ats (i + k)) run_id st (after_attempts J E ats run_id st i k s) = (Ok r, s') \<and>
      v = JObject [(''result'', step_result_json r)])"
proof (induction n arbitrary: i last_error s)
  case (Suc n)
  obtain x s1 where x: "execute_step J E (ats i) run_id st s = (x, s1)" by fastforce
  let ?P = "\<lambda>n i s. \<exists>k<n. \<exists>r. (\<forall>j<k. \<not> is_ok (fst (execute_step J E (ats (i + j)) run_id st (after_attempts J E ats run_id st i j s)))) \<and>
      execute_step J E (ats (i + k)) run_id st (after_attempts J E ats run_id st i k s) = (Ok r, s') \<and>
      v = JObject [(''result'', step_result_json r)]"
  have step: "?P (Suc n) i s \<longleftrightarrow> (\<exists>r. (x, s1) = (Ok r, s') \<and> v = JObject [(''result'', step_result_json r)]) \<or>
      \<not> is_ok x \<and> ?P n (Suc i) s1"
    by (simp add: Ex_less_Suc2 All_less_Suc2 x) blast
  show ?case
  proof (cases x)
    case (Ok r)
    then show ?thesis unfolding step by (simp add: x) auto
  next
    case (Err e)
    then show ?thesis unfolding step by (simp add: x Suc.IH)
  next
    case Panic
    then show ?thesis using execute_step_not_Panic [of J E "ats i" run_id st s] x by simp
  qed
qed simp

text \<open>A step is attempted in order until the first attempt that ran to its end, at most \<open>max_retries + 1\<close>
  times (not at all when \<open>max_retries\<close> is negative); its result is that of this attempt, whatever
  its exit code.\<close>
lemma retries_first_success:
  "run_step_with_retries J E ats run_id st s = (Ok v, s') \<longleftrightarrow>
   (\<exists>k r. int k \<le> effective_max_retries st \<and>
      list_all (\<lambda>j. \<not> is_ok (fst (execute_step J E (ats j) run_id st (after_attempts J E ats run_id st 0 j s)))) [0..<k] \<and>
      execute_step J E (ats k) run_id st (after_attempts J E ats run_id st 0 k s) = (Ok r, s') \<and>
      v = JObject [(''result'', step_result_json r)])"
proof -
  have "k < nat (effective_max_retries st + 1) \<longleftrightarrow> int k \<le> effective_max_retries st" for k by linarith
  then show ?thesis unfolding run_step_with_retries_def by (simp add: attempts_Ok_iff list_all_iff Ball_def)
qed

text \<open>\<open>==\<close> and \<open>!=\<close> compare the value a path resolves to with the literal, and each is the negation of the
  other on every path; so a path that does not resolve (a step that was skipped or has no such field)
  makes \<open>==\<close> false and \<open>!=\<close> true.\<close>
lemma condition_operators:
  assumes "list_all graphic p" "list_all graphic v" "p \<noteq> []" "v \<noteq> []"
  shows "evaluate_condition J (p @ '' == '' @ v) results =
      (case resolve_path p results of Some a \<Rightarrow> value_equals J a v | None \<Rightarrow> False) \<and>
    evaluate_condition J (p @ '' != '' @ v) results = (\<not> evaluate_condition J (p @ '' == '' @ v) results)"
proof -
  have nc: "list_all (\<lambda>c. \<not> cont_char c) p" "list_all (\<lambda>c. \<not> cont_char c) v"
    using assms(1,2) graphic_not_cont by (auto simp: list_all_iff)
  have hl: "graphic (hd p)" "graphic (last v)" "graphic (last p)" "graphic (hd v)" using assms by (auto simp: list_all_iff)
  have op: "list_all (\<lambda>c. \<not> cont_char c) '' == ''" "list_all (\<lambda>c. \<not> cont_char c) '' != ''"
    by (simp_all add: cont_char_def)
  have t: "trim p = p" "trim v = v" using nc hl by (auto intro: trim_graphic)
  have te: "trim (p @ '' == '' @ v) = p @ '' == '' @ v" by (rule trim_graphic) (use nc hl op assms(3,4) in auto)
  have tn: "trim (p @ '' != '' @ v) = p @ '' != '' @ v" by (rule trim_graphic) (use nc hl op assms(3,4) in auto)
  have bl: "CHR '' '' \<notin> set p" "CHR '' '' \<notin> set v" using assms(1,2) graphic_not_blank by auto
  have se: "split_once '' == '' (p @ '' == '' @ v) = Some (p, v)" by (rule split_once_blank_op [OF bl(1)]) simp
  have sn: "split_once '' == '' (p @ '' != '' @ v) = None"
    using not_contains_op [OF bl] by (simp only: split_once_None) simp
  have sn': "split_once '' != '' (p @ '' != '' @ v) = Some (p, v)" by (rule split_once_blank_op [OF bl(1)]) simp
  show ?thesis
    unfolding evaluate_condition_def Let_def te tn se sn sn' using assms(3) t by (simp split: option.split)
qed

lemma condition_operators_witness:
  "evaluate_condition demo_wf_lib ''b.result.exit_code == 0'' [(''b'', JObject [(''result'', JObject [(''exit_code'', jint 0)])])] \<and>
   \<not> evaluate_condition demo_wf_lib ''c.result.exit_code == 0'' [] \<and> evaluate_condition demo_wf_lib ''c.result.exit_code != 0'' []"
proof -
  have g: "list_all graphic ''b.result.exit_code''" "list_all graphic ''c.result.exit_code''" "list_all graphic ''0''"
    by code_simp+
  have v: "resolve_path ''b.result.exit_code'' [(''b'', JObject [(''result'', JObject [(''exit_code'', jint 0)])])] = Some (jint 0)"
    "value_equals demo_wf_lib (jint 0) ''0''" "resolve_path ''c.result.exit_code'' [] = None" by code_simp+
  show ?thesis
    using condition_operators [OF g(1,3), of demo_wf_lib "[(''b'', JObject [(''result'', JObject [(''exit_code'', jint 0)])])]"]
      condition_operators [OF g(2,3), of demo_wf_lib "[]"] v by simp
qed

text \<open>Nothing checks the DAG that \<open>create_workflow\<close> stores. When the column does not parse, the background
  task of \<open>run_workflow\<close> returns before it touches anything: the run says \<open>running\<close> for ever, with no
  finishing time and no audit entry.\<close>
lemma invalid_dag_runs_forever:
  assumes "run_workflow E now ulid authorization wid d = (Ok (run_id, st), d')"
    and "query_row (\<lambda>f. wf_id f = wid) (workflows d') = Some f" "parse_dag J (wf_dag f) = None"
  shows "execute_workflow J E ats now1 now2 run_id \<lparr> adb = d', cluster = k \<rparr> = (Err InvalidDag, \<lparr> adb = d', cluster = k \<rparr>) \<and>
    (\<exists>r. query_row (\<lambda>r. wr_id r = run_id) (workflow_runs d') = Some r \<and> wr_status r = ''running'' \<and> wr_finished_at r = None) \<and>
    audit_entries d' = audit_entries d"
proof -
  obtain tenant where t: "wf_tenant E now authorization d = Ok tenant"
    using assms(1) by (auto simp: run_workflow_def split: res.splits)
  have up: "db_up d" and id: "run_id = ''wfr_'' @ ulid" and fresh: "\<not> list_ex (\<lambda>r. wr_id r = run_id) (workflow_runs d)"
    using assms(1) t by (auto simp: run_workflow_def Let_def split: if_splits)
  define r where "r = \<lparr> wr_id = run_id, wr_workflow_id = wid, wr_tenant_id = tenant, wr_status = ''running'',
               wr_current_steps = Some ''[]'', wr_completed_steps = Some ''[]'',
               wr_started_at = Some (sqlite_datetime now), wr_finished_at = None, wr_result = None,
               wr_step_results = None \<rparr>"
  have d': "d' = d \<lparr> workflow_runs := workflow_runs d @ [r] \<rparr>"
    using assms(1) t up by (auto simp: run_workflow_def Let_def r_def split: if_splits)
  have "query_row (\<lambda>r. wr_id r = run_id) (workflow_runs d) = None"
    using fresh by (auto simp: query_row_None list_ex_iff)
  then have q: "query_row (\<lambda>r. wr_id r = run_id) (workflow_runs d') = Some r"
    by (simp add: d' query_row_append r_def)
  have "load_run run_id d' = Ok (wid, tenant, wf_dag f)"
    using q assms(2) up by (simp add: load_run_def d' ok_or_def r_def)
  then show ?thesis using q assms(3) by (simp add: execute_workflow_def advance_dag_def d' r_def)
qed

lemma invalid_dag_runs_forever_witness:
  "\<exists>d'. run_workflow demo_env demo_time ''1'' (Some ''Bearer a'') ''wf_1'' demo_agent_db = (Ok (''wfr_1'', ''running''), d') \<and>
     execute_workflow demo_wf_lib demo_env (\<lambda>w i n. demo_attempt) demo_time demo_time ''wfr_1'' \<lparr> adb = d', cluster = cluster demo_app \<rparr> =
       (Err InvalidDag, \<lparr> adb = d', cluster = cluster demo_app \<rparr>)"
proof -
  let ?r = "run_workflow demo_env demo_time ''1'' (Some ''Bearer a'') ''wf_1'' demo_agent_db"
  have ok: "fst ?r = Ok (''wfr_1'', ''running'')" by code_simp
  then have r: "?r = (Ok (''wfr_1'', ''running''), snd ?r)" by (metis prod.collapse)
  have "workflows (snd ?r) = workflows demo_agent_db" by code_simp
  then have q: "query_row (\<lambda>f. wf_id f = ''wf_1'') (workflows (snd ?r)) = Some (hd (workflows demo_agent_db))"
    by (simp add: demo_agent_db_def)
  have p: "parse_dag demo_wf_lib (wf_dag (hd (workflows demo_agent_db))) = None" by (simp add: demo_wf_lib_def)
  show ?thesis using invalid_dag_runs_forever [OF r q p] r by blast
qed

end
