(* ===== verification/Detector.thy ===== *)
theory Detector
  imports Text Json
begin

text \<open>
  The workaround detector (src/gateway/src/watchdog/detector.rs): a scan of the added lines of a diff for
  shortcuts, and a count of repeated shell commands. \<open>debug_str\<close> stands for Rust's \<open>{:?}\<close> of a string.
\<close>

record WorkaroundWarning =
  ww_pattern :: string
  ww_severity :: string
  ww_file :: "string option"
  ww_line :: "32 word option"
  ww_message :: string

section \<open>Patterns\<close>

definition ident_char :: "char \<Rightarrow> bool" where
  "ident_char c \<longleftrightarrow> ascii_alnum c \<or> c = CHR ''_''"

definition ascii_space :: "char \<Rightarrow> bool" where
  "ascii_space c \<longleftrightarrow> c \<in> set [CHR '' '', CHR 0x09, CHR 0x0A, CHR 0x0C, CHR 0x0D]"

text \<open>The loops over byte positions carry the byte before the position, if there is one.\<close>

fun isolated_from :: "char option \<Rightarrow> string \<Rightarrow> string \<Rightarrow> bool" where
  "isolated_from prev needle [] = False"
| "isolated_from prev needle (c # cs) =
    (starts_with (c # cs) needle \<and> (case prev of None \<Rightarrow> True | Some p \<Rightarrow> \<not> ident_char p) \<or>
     isolated_from (Some c) needle cs)"

definition contains_isolated :: "string \<Rightarrow> string \<Rightarrow> bool" where
  "contains_isolated line needle =
    (if needle = [] \<or> length line < length needle then False else isolated_from None needle line)"

definition ignore_follows :: "string \<Rightarrow> bool" where
  "ignore_follows cs =
    (case strip_prefix ''ignore'' (dropWhile ascii_space cs) of
       None \<Rightarrow> False
     | Some rest \<Rightarrow>
        (case dropWhile ascii_space rest of [] \<Rightarrow> False | c # _ \<Rightarrow> c = CHR '']'' \<or> c = CHR ''=''))"

fun has_ignore_attr :: "string \<Rightarrow> bool" where
  "has_ignore_attr (a # b # cs) =
    ((a = CHR ''#'' \<and> b = CHR ''['' \<and> ignore_follows cs) \<or> has_ignore_attr (b # cs))"
| "has_ignore_attr _ = False"

definition is_word_boundary :: "string \<Rightarrow> bool" where
  "is_word_boundary rest = (case rest of [] \<Rightarrow> True | c # _ \<Rightarrow> \<not> ident_char c)"

definition todo_marker :: "string \<Rightarrow> bool" where
  "todo_marker after =
    (case strip_prefix ''TODO'' (trim_start after) of
       Some rest \<Rightarrow> is_word_boundary rest
     | None \<Rightarrow> (case strip_prefix ''FIXME'' (trim_start after) of Some rest \<Rightarrow> is_word_boundary rest | None \<Rightarrow> False))"

fun todo_from :: "char option \<Rightarrow> string \<Rightarrow> bool" where
  "todo_from prev (a # b # cs) =
    ((a = CHR ''/'' \<and> b = CHR ''/'' \<and> (case prev of None \<Rightarrow> True | Some p \<Rightarrow> ascii_space p) \<and> todo_marker cs) \<or>
     todo_from (Some a) (b # cs))"
| "todo_from prev _ = False"

definition has_todo_comment :: "string \<Rightarrow> bool" where
  "has_todo_comment line = todo_from None line"

text \<open>The text after the \<open>fn\<close> that \<open>find_fn_keyword\<close> finds.\<close>

fun fn_keyword_from :: "char option \<Rightarrow> string \<Rightarrow> string option" where
  "fn_keyword_from prev [] = None"
| "fn_keyword_from prev (c # cs) =
    (if starts_with (c # cs) ''fn'' \<and> (case prev of None \<Rightarrow> True | Some p \<Rightarrow> \<not> ident_char p) \<and>
        (case drop 1 cs of [] \<Rightarrow> False | d # _ \<Rightarrow> ascii_space d)
     then Some (drop 1 cs) else fn_keyword_from (Some c) cs)"

definition find_fn_keyword :: "string \<Rightarrow> string option" where
  "find_fn_keyword line = fn_keyword_from None line"

definition has_empty_fn_body :: "string \<Rightarrow> bool" where
  "has_empty_fn_body line =
    (case find_fn_keyword line of
       None \<Rightarrow> False
     | Some rest \<Rightarrow>
        (case dropWhile (\<lambda>c. c \<noteq> CHR ''{'') rest of
           [] \<Rightarrow> False
         | _ # body \<Rightarrow>
            let sig = takeWhile (\<lambda>c. c \<noteq> CHR ''{'') rest in
            CHR ''('' \<in> set sig \<and> CHR '')'' \<in> set sig \<and> starts_with (trim_start body) ''}''))"

definition is_fn_opening :: "string \<Rightarrow> bool" where
  "is_fn_opening line =
    (let trimmed = trim line in
     ends_with trimmed ''{'' \<and> find_fn_keyword trimmed \<noteq> None \<and>
     CHR ''('' \<in> set trimmed \<and> CHR '')'' \<in> set trimmed)"

section \<open>The diff\<close>

definition warn :: "string \<Rightarrow> string \<Rightarrow> string option \<Rightarrow> 32 word \<Rightarrow> string \<Rightarrow> WorkaroundWarning" where
  "warn pattern severity file line_no message =
    \<lparr> ww_pattern = pattern, ww_severity = severity, ww_file = file, ww_line = Some line_no, ww_message = message \<rparr>"

definition EM_DASH :: string where
  "EM_DASH = [CHR 0xE2, CHR 0x80, CHR 0x94]"

definition check_added_line :: "string \<Rightarrow> string option \<Rightarrow> 32 word \<Rightarrow> WorkaroundWarning list" where
  "check_added_line content file line_no =
    concat (map (\<lambda>(hit, pattern, severity, message). if hit then [warn pattern severity file line_no message] else [])
     [(contains_isolated content ''unwrap()'', ''unwrap_call'', ''high'',
         ''new code calls .unwrap() '' @ EM_DASH @ '' will panic on None/Err''),
      (contains_isolated content ''expect('', ''expect_call'', ''high'',
         ''new code calls .expect() '' @ EM_DASH @ '' will panic on None/Err''),
      (contains content ''allow(dead_code'', ''allow_dead_code'', ''high'', ''new code suppresses the dead_code lint''),
      (contains content ''allow(clippy:'', ''allow_clippy'', ''high'', ''new code suppresses a clippy lint''),
      (has_ignore_attr content, ''ignored_test'', ''high'', ''new test is marked #[ignore]''),
      (contains_isolated content ''todo!('', ''todo_macro'', ''critical'',
         ''new code uses todo!() '' @ EM_DASH @ '' unfinished implementation''),
      (contains_isolated content ''unimplemented!('', ''unimplemented_macro'', ''critical'',
         ''new code uses unimplemented!() '' @ EM_DASH @ '' unfinished implementation''),
      (has_todo_comment content, ''todo_comment'', ''medium'', ''new code adds a TODO/FIXME comment''),
      (contains_isolated content ''println!('', ''println'', ''medium'',
         ''new code uses println! '' @ EM_DASH @ '' prefer tracing''),
      (contains_isolated content ''dbg!('', ''dbg'', ''medium'', ''new code uses dbg! '' @ EM_DASH @ '' debug leftover''),
      (has_empty_fn_body content, ''empty_function_body'', ''high'', ''new code adds an empty function body'')])"

definition parse_new_file :: "string \<Rightarrow> string option" where
  "parse_new_file header =
    (let trimmed = trim_end (case strip_prefix ''b/'' header of Some s \<Rightarrow> s | None \<Rightarrow> header) in
     if trimmed = [] \<or> trimmed = ''/dev/null'' then None else Some trimmed)"

definition parse_u32 :: "string \<Rightarrow> 32 word option" where
  "parse_u32 s = map_option word_of_int (parse_signed 0 (2 ^ 32 - 1) s)"

definition parse_hunk_new_start :: "string \<Rightarrow> 32 word option" where
  "parse_hunk_new_start line =
    Option.bind (strip_prefix ''@@'' (trim_start line)) (\<lambda>rest.
    Option.bind (strip_prefix ''-'' (trim_start rest)) (\<lambda>rest.
    (case dropWhile (\<lambda>c. c \<noteq> CHR '' '') rest of
       [] \<Rightarrow> None
     | from_blank \<Rightarrow> Option.bind (strip_prefix ''+'' (trim_start from_blank)) (\<lambda>after_plus.
         parse_u32 (takeWhile ascii_digit after_plus)))))"

definition saturating_inc :: "32 word \<Rightarrow> 32 word" where
  "saturating_inc w = (if w = - 1 then w else w + 1)"

record scan =
  sc_file :: "string option"
  sc_line :: "32 word"
  sc_prev :: "string option"
  sc_warnings :: "WorkaroundWarning list"

definition diff_headers :: "string list" where
  "diff_headers = [''--- '', ''diff '', ''index '', ''similarity '', ''rename '', ''copy '', ''new file '', ''deleted file '',
     ''old mode '', ''new mode '', ''Binary files '', ''GIT binary patch'']"

definition scan_added :: "string \<Rightarrow> scan \<Rightarrow> scan" where
  "scan_added content s =
    (let ws = check_added_line content (sc_file s) (sc_line s);
         body = (case sc_prev s of
                   Some prev \<Rightarrow>
                     if trim content = ''}'' \<and> is_fn_opening (trim prev)
                     then [warn ''empty_function_body'' ''high'' (sc_file s) (sc_line s) ''new code adds an empty function body'']
                     else []
                 | None \<Rightarrow> [])
     in s \<lparr> sc_line := saturating_inc (sc_line s),
            sc_prev := (if trim content = [] then sc_prev s else Some content),
            sc_warnings := sc_warnings s @ ws @ body \<rparr>)"

definition scan_line :: "string \<Rightarrow> scan \<Rightarrow> scan" where
  "scan_line raw s =
    (case strip_prefix ''+++ '' raw of
       Some path \<Rightarrow> s \<lparr> sc_file := parse_new_file path, sc_prev := None \<rparr>
     | None \<Rightarrow>
        if starts_with raw ''@@''
        then s \<lparr> sc_line := (case parse_hunk_new_start raw of Some n \<Rightarrow> n | None \<Rightarrow> sc_line s), sc_prev := None \<rparr>
        else if list_ex (starts_with raw) diff_headers then s \<lparr> sc_prev := None \<rparr>
        else (case strip_prefix ''+'' raw of
                Some content \<Rightarrow> scan_added content s
              | None \<Rightarrow>
                 if starts_with raw ''-'' then s \<lparr> sc_prev := None \<rparr>
                 else if starts_with raw '' '' then s \<lparr> sc_line := saturating_inc (sc_line s), sc_prev := None \<rparr>
                 else s \<lparr> sc_prev := None \<rparr>))"

definition scan_diff :: "string \<Rightarrow> WorkaroundWarning list" where
  "scan_diff git_diff = sc_warnings (fold scan_line (text_lines git_diff)
     \<lparr> sc_file = None, sc_line = 0, sc_prev = None, sc_warnings = [] \<rparr>)"

section \<open>Repeated commands\<close>

definition prompt_char :: "char \<Rightarrow> bool" where
  "prompt_char c \<longleftrightarrow> c = CHR ''$'' \<or> c = CHR ''#'' \<or> c = CHR ''%''"

text \<open>The text after the last prompt.\<close>

fun after_prompt :: "string \<Rightarrow> string option" where
  "after_prompt (a # b # cs) =
    (case after_prompt (b # cs) of
       Some r \<Rightarrow> Some r
     | None \<Rightarrow> if prompt_char a \<and> ascii_space b then Some (b # cs) else None)"
| "after_prompt _ = None"

definition extract_command :: "string \<Rightarrow> string option" where
  "extract_command line =
    (case after_prompt line of
       None \<Rightarrow> None
     | Some r \<Rightarrow> let cmd = trim (dropWhile ascii_space r) in if cmd = [] then None else Some cmd)"

definition spin_message :: "(string \<Rightarrow> string) \<Rightarrow> string \<Rightarrow> nat \<Rightarrow> string" where
  "spin_message debug_str cmd n =
     ''Spin detected: command '' @ debug_str cmd @ '' repeated '' @ show_nat n @ '' times without progress''"

definition spin_warning :: "(string \<Rightarrow> string) \<Rightarrow> string \<Rightarrow> nat \<Rightarrow> WorkaroundWarning" where
  "spin_warning debug_str cmd n = \<lparr> ww_pattern = ''spin'', ww_severity = ''high'', ww_file = None, ww_line = None,
     ww_message = spin_message debug_str cmd n \<rparr>"

definition detect_spin :: "(string \<Rightarrow> string) \<Rightarrow> string \<Rightarrow> WorkaroundWarning list" where
  "detect_spin debug_str recent_output =
    (let cmds = List.map_filter extract_command (text_lines recent_output)
     in sort_key ww_message (map (\<lambda>c. spin_warning debug_str c (count_list cmds c))
          (filter (\<lambda>c. 3 \<le> count_list cmds c) (remdups cmds))))"

definition detect_workarounds :: "(string \<Rightarrow> string) \<Rightarrow> string \<Rightarrow> string \<Rightarrow> WorkaroundWarning list" where
  "detect_workarounds debug_str recent_output git_diff = scan_diff git_diff @ detect_spin debug_str recent_output"

end
