(* ===== verification/Watchdog.thy ===== *)
theory Watchdog
  imports Floats Json Detector Sessions
begin

text \<open>
  The watchdog: dedication scores (src/gateway/src/watchdog/dedication.rs), ultimata (ultimatum.rs) and
  the monitoring cycle (monitor.rs). The PTY registry is the list of machines whose channel accepts; what is
  sent to a channel and what is pushed to a phone is appended to a list.
\<close>

section \<open>Dedication\<close>

record AuditEntryRef =
  ae_cmd :: string
  ae_event :: string
  ae_payload :: json

record ProgressIndicators =
  pi_files_changed :: nat
  pi_tests_run :: nat
  pi_commits :: nat
  pi_last_activity_secs :: nat

record DedicationScore =
  ds_score :: rat
  ds_relevant_commands :: nat
  ds_total_commands :: nat
  ds_progress_rate :: rat
  ds_task_alignment :: rat

definition changes_files :: "AuditEntryRef \<Rightarrow> bool" where
  "changes_files e \<longleftrightarrow>
     contains (ae_cmd e) ''git diff'' \<or> contains (ae_cmd e) ''git add'' \<or> contains (ae_event e) ''file_write'' \<or>
     contains (ae_event e) ''fs_write'' \<or> contains (ae_event e) ''write_file'' \<or>
     (case Option.bind (jget ''event'' (ae_payload e)) as_str of
        Some s \<Rightarrow> contains s ''file_write'' \<or> contains s ''fs_write'' | None \<Rightarrow> False)"

definition runs_tests :: "AuditEntryRef \<Rightarrow> bool" where
  "runs_tests e \<longleftrightarrow>
     contains (ae_cmd e) ''cargo test'' \<or> contains (ae_cmd e) ''npm test'' \<or> contains (ae_cmd e) ''pytest''"

definition from_audit_entries :: "AuditEntryRef list \<Rightarrow> ProgressIndicators" where
  "from_audit_entries entries =
    \<lparr> pi_files_changed = count_where changes_files entries, pi_tests_run = count_where runs_tests entries,
      pi_commits = count_where (\<lambda>e. contains (ae_cmd e) ''git commit'') entries,
      pi_last_activity_secs = length entries * 5 \<rparr>"

definition relevant :: "string list \<Rightarrow> AuditEntryRef \<Rightarrow> bool" where
  "relevant task_keywords e = list_ex (contains (ae_cmd e)) task_keywords"

definition compute_dedication :: "AuditEntryRef list \<Rightarrow> string list \<Rightarrow> ProgressIndicators \<Rightarrow> DedicationScore" where
  "compute_dedication entries task_keywords progress =
    (let total = length entries;
         rel = count_where (relevant task_keywords) entries;
         rate = min (rnd64 (rnd64 (of_nat (pi_files_changed progress + pi_tests_run progress + pi_commits progress)) / 5)) 1;
         alignment = (if total = 0 then 0 else if list_ex (relevant task_keywords) entries then 1 else 1 / 2);
         score = (if total = 0 then 0
                  else rnd64 (rnd64 (rnd64 (rnd64 (of_nat rel) / rnd64 (of_nat total)) * rate) * alignment))
     in \<lparr> ds_score = score, ds_relevant_commands = rel, ds_total_commands = total, ds_progress_rate = rate,
          ds_task_alignment = alignment \<rparr>)"

section \<open>Ultimata\<close>

definition WATCHDOG_MACHINE :: string where "WATCHDOG_MACHINE = ''watchdog''"
definition ESCALATION_CHANNEL :: string where "ESCALATION_CHANNEL = ''escalation''"
definition ESCALATION_RECIPIENT :: string where "ESCALATION_RECIPIENT = ''planner''"
definition ACK_TOKEN :: string where "ACK_TOKEN = ''ACK_TASK_FOCUS''"

datatype UltimatumLevel = Warning | Directive | Escalation

fun level_as_int :: "UltimatumLevel \<Rightarrow> int" where
  "level_as_int Warning = 1"
| "level_as_int Directive = 2"
| "level_as_int Escalation = 3"

record Ultimatum =
  um_level :: UltimatumLevel
  um_target_machine :: string
  um_target_task_id :: "string option"
  um_message :: string
  um_deadline_seconds :: "64 word option"

record watch_lib = json_lib +
  lowercase :: "string \<Rightarrow> string"
  debug_str :: "string \<Rightarrow> string"
  sql_datetime :: "string \<Rightarrow> string option"

record watch_state =
  ws_db :: db
  ws_ptys :: "string list"
  ws_injected :: "(string \<times> json) list"
  ws_pushed :: "(string \<times> string \<times> string) list"

definition control_msg :: "Ultimatum \<Rightarrow> json" where
  "control_msg u = JObject
    [(''deadline_seconds'', case um_deadline_seconds u of Some n \<Rightarrow> jint (uint n) | None \<Rightarrow> JNull),
     (''level'', jint (level_as_int (um_level u))), (''message'', JText (um_message u)),
     (''task_id'', jopt (um_target_task_id u)), (''to'', JText (um_target_machine u)), (''type'', JText ''ultimatum'')]"

definition escalation_body :: "Ultimatum \<Rightarrow> json" where
  "escalation_body u = JObject
    [(''from'', JText WATCHDOG_MACHINE), (''reason'', JText (um_message u)),
     (''recommendation'', JText ''Consider revoking session or re-planning with different approach.''),
     (''task_id'', jopt (um_target_task_id u)), (''to'', JText ESCALATION_RECIPIENT), (''type'', JText ''escalation''),
     (''watched_machine'', JText (um_target_machine u))]"

definition escalate :: "'x json_lib_scheme \<Rightarrow> utc \<Rightarrow> Ultimatum \<Rightarrow> watch_state \<Rightarrow> watch_state" where
  "escalate J now u s =
    (if \<not> db_up (ws_db s) then s
     else
       let d = ws_db s;
           msg = \<lparr> am_id = next_rowid (map am_id (agent_messages d)), am_from_machine = WATCHDOG_MACHINE,
                    am_to_machine = Some ESCALATION_RECIPIENT, am_channel = ESCALATION_CHANNEL,
                    am_body = json_print J (escalation_body u), am_created_at = sqlite_datetime now \<rparr>;
           push = (case query_row (\<lambda>m. ma_id m = um_target_machine u) (machines d) of
                     Some m \<Rightarrow> [(ma_tenant_id m, um_target_machine u,
                        ''ESCALATION: agent '' @ um_target_machine u @ '' is unresponsive to ultimata. Reason: '' @ um_message u)]
                   | None \<Rightarrow> [])
       in s \<lparr> ws_db := d \<lparr> agent_messages := agent_messages d @ [msg] \<rparr>, ws_pushed := ws_pushed s @ push \<rparr>)"

definition ultimatum_row_of :: "utc \<Rightarrow> int \<Rightarrow> Ultimatum \<Rightarrow> ultimatum_row" where
  "ultimatum_row_of now i u =
    \<lparr> ul_id = i, ul_watchdog_machine = WATCHDOG_MACHINE, ul_target_machine = um_target_machine u,
      ul_target_task_id = um_target_task_id u, ul_level = level_as_int (um_level u), ul_message = um_message u,
      ul_acknowledged = 0, ul_created_at = sqlite_datetime now, ul_acknowledged_at = None \<rparr>"

datatype watch_error = WatchPool | WatchRow

definition issue_ultimatum ::
    "'x json_lib_scheme \<Rightarrow> utc \<Rightarrow> Ultimatum \<Rightarrow> watch_state \<Rightarrow> (unit, watch_error) res \<times> watch_state" where
  "issue_ultimatum J now u s =
    (let s1 = (if um_target_machine u \<in> set (ws_ptys s)
               then s \<lparr> ws_injected := ws_injected s @ [(um_target_machine u, control_msg u)] \<rparr> else s);
         d = ws_db s1
     in if um_level u = Warning then (Ok (), s1)
        else if \<not> db_up d then (Err WatchPool, s1)
        else
          let s2 = s1 \<lparr> ws_db := d \<lparr> ultimata := ultimata d @ [ultimatum_row_of now (next_rowid (map ul_id (ultimata d))) u] \<rparr> \<rparr>
          in (Ok (), if um_level u = Escalation then escalate J now u s2 else s2))"

text \<open>SQLite's \<open>LIKE\<close>: a percent sign matches any text, an underscore any one character, and letters match
  in either case. The acknowledgment token contains underscores.\<close>

fun sql_like :: "string \<Rightarrow> string list \<Rightarrow> bool" where
  "sql_like [] cs = (cs = [])"
| "sql_like (p # ps) [] = (p = CHR ''%'' \<and> sql_like ps [])"
| "sql_like (p # ps) (c # cs) =
    (if p = CHR ''%'' then sql_like ps (c # cs) \<or> sql_like (p # ps) cs
     else (p = CHR ''_'' \<or> map lower_char c = [lower_char p]) \<and> sql_like ps cs)"

definition check_ultimatum_acknowledgment :: "'x watch_lib_scheme \<Rightarrow> int \<Rightarrow> db \<Rightarrow> bool" where
  "check_ultimatum_acknowledgment J ultimatum_id d =
    (if \<not> db_up d then False
     else case query_row (\<lambda>u. ul_id u = ultimatum_id) (ultimata d) of
       None \<Rightarrow> False
     | Some u \<Rightarrow>
        count_where (\<lambda>a. au_machine_id a = Some (ul_target_machine u) \<and> au_event a = ''cmd_exec'' \<and>
          (case au_payload a of Some p \<Rightarrow> sql_like (''%'' @ ACK_TOKEN @ ''%'') (utf8_chars p) | None \<Rightarrow> False) \<and>
          (case (sql_datetime J (au_ts a), sql_datetime J (ul_created_at u)) of
             (Some t, Some t') \<Rightarrow> t' < t | _ \<Rightarrow> False)) (audit_entries d) \<noteq> 0)"

section \<open>The monitoring cycle\<close>

definition extract_keywords :: "'x watch_lib_scheme \<Rightarrow> string \<Rightarrow> string list" where
  "extract_keywords J task_spec =
    (let spec = (case json_parse J task_spec of Some v \<Rightarrow> v | None \<Rightarrow> JNull);
         instruction = (case Option.bind (jget ''instruction'' spec) as_str of Some s \<Rightarrow> s | None \<Rightarrow> [])
     in map (lowercase J) (filter (\<lambda>w. 3 < length w) (split_whitespace instruction)))"

definition get_active_machines :: "session_env \<Rightarrow> utc \<Rightarrow> db \<Rightarrow> (string \<times> string \<times> string \<times> string) list" where
  "get_active_machines E now d =
    concat (map (\<lambda>m. map (\<lambda>t. (ma_id m, ma_tenant_id m, ta_id t, ta_spec t))
        (filter (\<lambda>t. ta_machine_id t = Some (ma_id m) \<and> ta_status t \<in> set [''running'', ''queued'']) (tasks d)))
      (filter (\<lambda>m. ma_status m = ''active'' \<and>
          (case sql_add E (sqlite_datetime now) (- 86400) of Some t \<Rightarrow> t < ma_created_at m | None \<Rightarrow> False)) (machines d)))"

text \<open>A row whose payload is NULL cannot be read as a text: the whole query fails.\<close>

definition entry_ref :: "'x json_lib_scheme \<Rightarrow> audit_row \<Rightarrow> AuditEntryRef" where
  "entry_ref J a =
    (let payload = (case Option.bind (au_payload a) (json_parse J) of Some v \<Rightarrow> v | None \<Rightarrow> JNull)
     in \<lparr> ae_cmd = (case Option.bind (jget ''cmd'' payload) as_str of Some s \<Rightarrow> s | None \<Rightarrow> []),
          ae_event = au_event a, ae_payload = payload \<rparr>)"

definition get_recent_audit_entries :: "'x json_lib_scheme \<Rightarrow> string \<Rightarrow> db \<Rightarrow> (AuditEntryRef list, watch_error) res" where
  "get_recent_audit_entries J machine_id d =
    (let rows = take 50 (rev (sort_key au_seq (filter (\<lambda>a. au_machine_id a = Some machine_id) (audit_entries d))))
     in if \<not> db_up d then Err WatchPool
        else if list_ex (\<lambda>a. au_payload a = None) rows then Err WatchRow
        else Ok (map (entry_ref J) rows))"

definition warning_json :: "WorkaroundWarning \<Rightarrow> json" where
  "warning_json w = JObject
    [(''pattern'', JText (ww_pattern w)), (''severity'', JText (ww_severity w)), (''file'', jopt (ww_file w)),
     (''line'', case ww_line w of Some n \<Rightarrow> jint (uint n) | None \<Rightarrow> JNull), (''message'', JText (ww_message w))]"

definition assessment :: "rat \<Rightarrow> string" where
  "assessment score =
    (if rnd64 (7 / 10) < score then ''Agent is on-task and making progress.''
     else if rnd64 (3 / 10) < score then ''Agent is partially focused.''
     else ''Agent appears off-task or stuck.'')"

definition store_watchdog_report ::
    "'x json_lib_scheme \<Rightarrow> utc \<Rightarrow> string \<Rightarrow> string option \<Rightarrow> rat \<Rightarrow> ProgressIndicators \<Rightarrow> WorkaroundWarning list \<Rightarrow> db \<Rightarrow>
     (unit, watch_error) res \<times> db" where
  "store_watchdog_report J now machine_id task_id score progress warnings d =
    (if \<not> db_up d then (Err WatchPool, d)
     else (Ok (), d \<lparr> watchdog_reports := watchdog_reports d @
       [\<lparr> wd_id = next_rowid (map wd_id (watchdog_reports d)), wd_watcher_machine = ''watchdog-system'',
          wd_watched_machine = machine_id, wd_watched_task_id = task_id, wd_dedication_score = score,
          wd_progress_files = Some (int (pi_files_changed progress)), wd_progress_tests = Some (int (pi_tests_run progress)),
          wd_progress_commits = Some (int (pi_commits progress)),
          wd_last_activity_secs = Some (int (pi_last_activity_secs progress)),
          wd_workaround_warnings = Some (json_print J (JArray (map warning_json warnings))), wd_ultimatum_level = 0,
          wd_assessment = Some (assessment score), wd_created_at = sqlite_datetime now \<rparr>] \<rparr>))"

fun level_of :: "nat \<Rightarrow> (UltimatumLevel \<times> string) option" where
  "level_of n =
    (if n = 1 then Some (Warning, ''You appear to be off-task. Please refocus on the assigned task.'')
     else if n = 2 then Some (Directive,
       ''You must refocus on the assigned task. Acknowledge by running: echo ACK_TASK_FOCUS'')
     else if n = 3 then Some (Escalation, ''Escalating to human. Agent unresponsive to ultimata.'')
     else None)"

definition issue_level :: "'x json_lib_scheme \<Rightarrow> utc \<Rightarrow> string \<Rightarrow> string option \<Rightarrow> nat \<Rightarrow> watch_state \<Rightarrow> watch_state" where
  "issue_level J now machine_id task_id level s =
    (case level_of level of
       None \<Rightarrow> s
     | Some (level_enum, msg) \<Rightarrow>
        snd (issue_ultimatum J now
          \<lparr> um_level = level_enum, um_target_machine = machine_id, um_target_task_id = task_id, um_message = msg,
            um_deadline_seconds = (if 2 \<le> level then Some 120 else None) \<rparr> s))"

text \<open>The counters of one machine after one score, and the level to issue if there is one.\<close>

definition ladder :: "bool \<Rightarrow> 32 word \<times> nat \<Rightarrow> (32 word \<times> nat) \<times> nat option" where
  "ladder low st =
    (case st of (cnt, current_level) \<Rightarrow>
      if low then
        let cnt' = cnt + 1 in
        if 3 \<le> cnt' \<and> current_level < 1 then ((cnt', 1), Some 1)
        else if 5 \<le> cnt' \<and> current_level < 2 then ((cnt', 2), Some 2)
        else if 7 \<le> cnt' \<and> current_level < 3 then ((cnt', 3), Some 3)
        else ((cnt', current_level), None)
      else ((0, 0), None))"

record monitor =
  mo_watch :: watch_state
  mo_counters :: "string \<Rightarrow> 32 word \<times> nat"

definition monitor_machine ::
    "'x watch_lib_scheme \<Rightarrow> utc \<Rightarrow> string \<times> string \<times> string \<times> string \<Rightarrow> monitor \<Rightarrow> (unit, watch_error) res \<times> monitor" where
  "monitor_machine J now row s =
    (case row of (machine_id, tenant_id, task_id, task_spec) \<Rightarrow>
       (case get_recent_audit_entries J machine_id (ws_db (mo_watch s)) of
          Err e \<Rightarrow> (Err e, s)
        | Panic \<Rightarrow> (Panic, s)
        | Ok es \<Rightarrow>
           if es = [] then (Ok (), s)
           else
             let progress = from_audit_entries es;
                 score = ds_score (compute_dedication es (extract_keywords J task_spec) progress);
                 warnings = detect_workarounds (debug_str J) (join_with [CHR 0x0A] (map ae_cmd es)) []
             in (case store_watchdog_report J now machine_id (Some task_id) score progress warnings (ws_db (mo_watch s)) of
                   (Err e, d) \<Rightarrow> (Err e, s)
                 | (Panic, d) \<Rightarrow> (Panic, s)
                 | (Ok _, d) \<Rightarrow>
                    let w = (mo_watch s) \<lparr> ws_db := d \<rparr>;
                        (c, issued) = ladder (score < rnd64 (3 / 10)) (mo_counters s machine_id)
                    in (Ok (), \<lparr> mo_watch = (case issued of Some l \<Rightarrow> issue_level J now machine_id (Some task_id) l w | None \<Rightarrow> w),
                                  mo_counters = (mo_counters s)(machine_id := c) \<rparr>))))"

primrec monitor_machines ::
    "'x watch_lib_scheme \<Rightarrow> utc \<Rightarrow> (string \<times> string \<times> string \<times> string) list \<Rightarrow> monitor \<Rightarrow> (unit, watch_error) res \<times> monitor" where
  "monitor_machines J now [] s = (Ok (), s)"
| "monitor_machines J now (row # rows) s =
    (case monitor_machine J now row s of
       (Ok _, s') \<Rightarrow> monitor_machines J now rows s'
     | (Err e, s') \<Rightarrow> (Err e, s')
     | (Panic, s') \<Rightarrow> (Panic, s'))"

definition monitor_cycle :: "'x watch_lib_scheme \<Rightarrow> session_env \<Rightarrow> utc \<Rightarrow> monitor \<Rightarrow> (unit, watch_error) res \<times> monitor" where
  "monitor_cycle J E now s =
    (if \<not> db_up (ws_db (mo_watch s)) then (Err WatchPool, s)
     else monitor_machines J now (get_active_machines E now (ws_db (mo_watch s))) s)"

section \<open>Scores\<close>

lemma count_where_pos: "0 < count_where P xs \<longleftrightarrow> (\<exists>x. x \<in> set xs \<and> P x)"
  by (auto simp: count_where_def filter_empty_conv)

lemma dedication_ratio:
  assumes "length es < 2 ^ 53" "es \<noteq> []"
  shows "0 \<le> rnd64 (rnd64 (of_nat (count_where P es)) / rnd64 (of_nat (length es)))"
    and "rnd64 (rnd64 (of_nat (count_where P es)) / rnd64 (of_nat (length es))) \<le> 1"
    and "0 < count_where P es \<Longrightarrow> 2 powi (- 53) \<le> rnd64 (rnd64 (of_nat (count_where P es)) / rnd64 (of_nat (length es)))"
proof -
  have le: "count_where P es \<le> length es" by (rule count_where_le_length)
  have r: "rnd64 (of_nat (count_where P es)) = of_nat (count_where P es)" "rnd64 (of_nat (length es)) = of_nat (length es)"
    using le assms(1) by (auto intro!: rnd64_of_nat)
  have pos: "(0::rat) < of_nat (length es)" using assms(2) by simp
  have q: "(of_nat (count_where P es) :: rat) / of_nat (length es) \<le> 1" using le pos by (simp add: divide_le_eq)
  show "0 \<le> rnd64 (rnd64 (of_nat (count_where P es)) / rnd64 (of_nat (length es)))"
    unfolding r by (intro rnd64_nonneg) simp
  show "rnd64 (rnd64 (of_nat (count_where P es)) / rnd64 (of_nat (length es))) \<le> 1"
    unfolding r using q by (intro rnd64_le_one) auto
  assume c: "0 < count_where P es"
  have "(of_nat (length es) :: rat) \<le> of_nat (2 ^ 53)" using assms(1) by (simp only: of_nat_le_iff)
  then have "(2 :: rat) powi (- 53) * of_nat (length es) \<le> 1" by (simp add: power_int_minus field_simps)
  also have "(1::rat) \<le> of_nat (count_where P es)" using c by simp
  finally have "2 powi (- 53) \<le> (of_nat (count_where P es) :: rat) / of_nat (length es)"
    using pos by (simp add: le_divide_eq)
  then show "2 powi (- 53) \<le> rnd64 (rnd64 (of_nat (count_where P es)) / rnd64 (of_nat (length es)))"
    unfolding r by (intro rnd64_ge) auto
qed

lemma progress_rate_bounds:
  "0 \<le> min (rnd64 (rnd64 (of_nat n) / 5)) 1" "min (rnd64 (rnd64 (of_nat n) / 5)) 1 \<le> 1"
  "0 < n \<Longrightarrow> 2 powi (- 3) \<le> min (rnd64 (rnd64 (of_nat n) / 5)) 1"
proof -
  show "0 \<le> min (rnd64 (rnd64 (of_nat n) / 5)) 1" using rnd64_nonneg [of "of_nat n"] by (auto intro: rnd64_nonneg)
  show "min (rnd64 (rnd64 (of_nat n) / 5)) 1 \<le> 1" by simp
  assume "0 < n"
  then have "2 powi 0 \<le> rnd64 (of_nat n)" by (intro rnd64_ge) auto
  then have "2 powi (- 3) \<le> rnd64 (of_nat n) / 5" by (simp add: power_int_minus)
  then have "2 powi (- 3) \<le> rnd64 (rnd64 (of_nat n) / 5)" by (intro rnd64_ge) auto
  then show "2 powi (- 3) \<le> min (rnd64 (rnd64 (of_nat n) / 5)) 1" by (simp add: power_int_minus)
qed



section \<open>Escalation\<close>

primrec ladder_run :: "bool list \<Rightarrow> 32 word \<times> nat \<Rightarrow> (32 word \<times> nat) \<times> nat option list" where
  "ladder_run [] st = (st, [])"
| "ladder_run (low # lows) st =
    (case ladder low st of (st', i) \<Rightarrow> case ladder_run lows st' of (st'', is) \<Rightarrow> (st'', i # is))"

text \<open>The reference: the number of low scores since the last good one, after each score; the level that this
  number calls for, and the numbers at which a level is issued.\<close>

primrec low_runs :: "nat \<Rightarrow> bool list \<Rightarrow> nat list" where
  "low_runs r [] = []"
| "low_runs r (low # lows) = (let r' = (if low then r + 1 else 0) in r' # low_runs r' lows)"

definition rung :: "nat \<Rightarrow> nat" where
  "rung r = (if r < 3 then 0 else if r < 5 then 1 else if r < 7 then 2 else 3)"

definition due :: "nat \<Rightarrow> nat option" where
  "due r = (if r = 3 then Some 1 else if r = 5 then Some 2 else if r = 7 then Some 3 else None)"

lemma ladder_step:
  assumes "Suc r < 2 ^ 32"
  shows "ladder low (word_of_nat r, rung r) =
    (let r' = (if low then r + 1 else 0) in ((word_of_nat r', rung r'), due r'))"
proof (cases low)
  case True
  have w: "unat (word_of_nat (Suc r) :: 32 word) = Suc r" using assms by (simp add: unat_of_nat del: of_nat_Suc)
  have w': "unat (word_of_nat r + 1 :: 32 word) = Suc r" using w by (simp add: add.commute)
  have u: "unat (3 :: 32 word) = 3" "unat (5 :: 32 word) = 5" "unat (7 :: 32 word) = 7" by code_simp+
  have le: "(3 :: 32 word) \<le> word_of_nat r + 1 \<longleftrightarrow> 3 \<le> Suc r" "(5 :: 32 word) \<le> word_of_nat r + 1 \<longleftrightarrow> 5 \<le> Suc r"
    "(7 :: 32 word) \<le> word_of_nat r + 1 \<longleftrightarrow> 7 \<le> Suc r" by (simp_all only: word_le_nat_alt w' u)
  have n: "word_of_nat (r + 1) = (word_of_nat r + 1 :: 32 word)" by simp
  show ?thesis unfolding ladder_def Let_def prod.case le n using True by (simp add: rung_def due_def)
qed (simp add: ladder_def rung_def due_def)

lemma ladder_run_spec:
  "r + length lows < 2 ^ 32 \<Longrightarrow>
   ladder_run lows (word_of_nat r, rung r) =
     (let rs = low_runs r lows; e = last (r # rs) in ((word_of_nat e, rung e), map due rs))"
proof (induction lows arbitrary: r)
  case (Cons low lows)
  then have "Suc r < 2 ^ 32" by simp
  note st = ladder_step [OF this, of low]
  have "(if low then r + 1 else 0) + length lows < 2 ^ 32" using Cons.prems by simp
  from Cons.IH [OF this] show ?case by (simp add: st Let_def)
qed simp

text \<open>C18. The ultimata of one machine follow its run of low scores: a warning at the third in a row, a
  directive at the fifth, an escalation at the seventh, each once, and one good score starts over.\<close>
theorem escalation_schedule:
  assumes "length lows < 2 ^ 32"
  shows "snd (ladder_run lows (0, 0)) = map due (low_runs 0 lows) \<and>
    snd (fst (ladder_run lows (0, 0))) = rung (last (0 # low_runs 0 lows))"
  using ladder_run_spec [of 0 lows] assms by (simp add: Let_def rung_def)

theorem escalation_schedule_witness:
  "snd (ladder_run [True, True, True, True, False, True, True, True] (0, 0)) =
     [None, None, Some 1, None, None, None, None, Some 1]"
  using escalation_schedule [of "[True, True, True, True, False, True, True, True]"] by (simp add: due_def)

section \<open>What a cycle sees\<close>

lemma after_prompt_chars: "after_prompt line = Some r \<Longrightarrow> \<exists>c. c \<in> set line \<and> prompt_char c"
  by (induction line rule: after_prompt.induct) (auto split: option.splits if_splits)

lemma set_split_on: "w \<in> set (split_on c s) \<Longrightarrow> set w \<subseteq> set s"
  by (induction s arbitrary: w) (fastforce split: list.splits if_splits)+

lemma set_text_lines: "l \<in> set (text_lines s) \<Longrightarrow> set l \<subseteq> set s"
proof -
  assume l: "l \<in> set (text_lines s)"
  have strip: "set (strip_cr w) \<subseteq> set w" for w by (auto simp: strip_cr_def dest: in_set_butlastD)
  have lst: "last (split_on (CHR 0x0A) s) \<in> set (split_on (CHR 0x0A) s)" by (intro last_in_set) simp
  have "\<exists>w. w \<in> set (split_on (CHR 0x0A) s) \<and> set l \<subseteq> set w"
    proof (cases "l = last (split_on (CHR 0x0A) s)")
    case False
    then obtain w where "w \<in> set (butlast (split_on (CHR 0x0A) s))" "l = strip_cr w"
      using l by (auto simp: text_lines_def Let_def split: if_splits)
    then show ?thesis using strip in_set_butlastD by fast
  qed (use lst in blast)
  then show ?thesis using set_split_on by fast
qed

lemma detect_spin_no_prompt:
  assumes "\<And>c. c \<in> set out \<Longrightarrow> \<not> prompt_char c"
  shows "detect_spin f out = []"
proof -
  have "extract_command l = None" if "l \<in> set (text_lines out)" for l
    using that assms set_text_lines after_prompt_chars by (fastforce simp: extract_command_def split: option.split)
  then have "List.map_filter extract_command (text_lines out) = []"
    by (auto simp: List.map_filter_def filter_empty_conv)
  then show ?thesis by (simp add: detect_spin_def)
qed

lemma set_join_with: "set (join_with sep ws) \<subseteq> set sep \<union> \<Union> (set ` set ws)"
  by (induction sep ws rule: join_with.induct) auto

text \<open>The monitor passes commands without prompts and an empty diff to the detector, which looks for
  prompts and diffs: as long as the commands contain none of the three prompt characters, no shortcut and
  no repetition is ever reported, however often a command is repeated.\<close>
lemma repetition_unseen:
  assumes "list_all (\<lambda>e. \<not> list_ex prompt_char (ae_cmd e)) es"
  shows "detect_workarounds f (join_with [CHR 0x0A] (map ae_cmd es)) [] = []"
proof -
  have "\<not> prompt_char c" if c: "c \<in> set (join_with [CHR 0x0A] (map ae_cmd es))" for c
  proof -
    consider "c = CHR 0x0A" | e where "e \<in> set es" "c \<in> set (ae_cmd e)"
      using subsetD [OF set_join_with c] by auto
    then show ?thesis
    proof cases
      case 1
      then show ?thesis by (simp add: prompt_char_def)
    next
      case 2
      then show ?thesis using assms unfolding list_all_iff list_ex_iff by blast
    qed
  qed
  then have "detect_spin f (join_with [CHR 0x0A] (map ae_cmd es)) = []" by (rule detect_spin_no_prompt)
  moreover have "scan_diff [] = []" by (simp add: scan_diff_def text_lines_def)
  ultimately show ?thesis by (simp add: detect_workarounds_def)
qed

lemma repetition_unseen_witness:
  "detect_workarounds (\<lambda>s. s) (join_with [CHR 0x0A] (replicate 50 ''cargo build'')) [] = []"
proof -
  let ?e = "\<lparr> ae_cmd = ''cargo build'', ae_event = ''cmd_exec'', ae_payload = JNull \<rparr>"
  have "\<not> list_ex prompt_char ''cargo build''" by code_simp
  then have "list_all (\<lambda>e. \<not> list_ex prompt_char (ae_cmd e)) (replicate 50 ?e)"
    by (simp only: list_all_iff set_replicate_conv_if) simp
  moreover have "map ae_cmd (replicate 50 ?e) = replicate 50 ''cargo build''" by (simp only: map_replicate AuditEntryRef.simps)
  ultimately show ?thesis using repetition_unseen [of "replicate 50 ?e" "\<lambda>s. s"] by (simp only:)
qed

lemma issue_level_audit [simp]:
  "audit_entries (ws_db (issue_level J now m t l w)) = audit_entries (ws_db w)"
  "db_up (ws_db (issue_level J now m t l w)) = db_up (ws_db w)"
  by (auto simp: issue_level_def issue_ultimatum_def escalate_def Let_def split: option.split)

definition low_score :: "'x watch_lib_scheme \<Rightarrow> AuditEntryRef list \<Rightarrow> string \<Rightarrow> bool" where
  "low_score J es spec \<longleftrightarrow>
     ds_score (compute_dedication es (extract_keywords J spec) (from_audit_entries es)) < rnd64 (3 / 10)"

lemma ladder_low: "fst (fst (ladder True c)) = fst c + 1"
  by (simp add: ladder_def Let_def split: prod.split)

lemma recent_entries_cong:
  "audit_entries d' = audit_entries d \<Longrightarrow> db_up d' = db_up d \<Longrightarrow>
   get_recent_audit_entries J m d' = get_recent_audit_entries J m d"
  by (simp add: get_recent_audit_entries_def Let_def)

lemma monitor_machine_low:
  assumes "get_recent_audit_entries J m (ws_db (mo_watch s)) = Ok es" "es \<noteq> []" "low_score J es spec"
  shows "\<exists>s'. monitor_machine J now (m, tid, t, spec) s = (Ok (), s') \<and>
    fst (mo_counters s' m) = fst (mo_counters s m) + 1 \<and>
    get_recent_audit_entries J m (ws_db (mo_watch s')) = Ok es"
proof -
  have up: "db_up (ws_db (mo_watch s))" using assms(1) by (auto simp: get_recent_audit_entries_def Let_def split: if_splits)
  obtain c i where l: "ladder True (mo_counters s m) = (c, i)" by fastforce
  have c: "fst c = fst (mo_counters s m) + 1" using ladder_low [of "mo_counters s m"] l by simp
  have low: "ds_score (compute_dedication es (extract_keywords J spec) (from_audit_entries es)) < rnd64 (3 / 10) \<longleftrightarrow> True"
    using assms(3) by (simp add: low_score_def)
  show ?thesis
    unfolding monitor_machine_def prod.case assms(1) res.case Let_def low l
    using assms(1,2) up c
    by (auto simp: store_watchdog_report_def get_recent_audit_entries_def Let_def split: option.split)
qed

text \<open>The query joins machines with their running and queued tasks, and the loop counts rows, not
  machines: a machine that runs one task and has another queued gains two low scores per cycle, so it is
  warned in the second minute and escalated in the fourth.\<close>
lemma two_tasks_count_twice:
  assumes "get_active_machines E now (ws_db (mo_watch s)) = [(m, tid, t1, spec1), (m, tid, t2, spec2)]"
    and "get_recent_audit_entries J m (ws_db (mo_watch s)) = Ok es" "es \<noteq> []"
    and "low_score J es spec1" "low_score J es spec2"
  shows "fst (mo_counters (snd (monitor_cycle J E now s)) m) = fst (mo_counters s m) + 2"
proof -
  have up: "db_up (ws_db (mo_watch s))" using assms(2) by (auto simp: get_recent_audit_entries_def Let_def split: if_splits)
  obtain s1 where s1: "monitor_machine J now (m, tid, t1, spec1) s = (Ok (), s1)"
      "fst (mo_counters s1 m) = fst (mo_counters s m) + 1" "get_recent_audit_entries J m (ws_db (mo_watch s1)) = Ok es"
    using monitor_machine_low [OF assms(2,3,4)] by blast
  obtain s2 where "monitor_machine J now (m, tid, t2, spec2) s1 = (Ok (), s2)" "fst (mo_counters s2 m) = fst (mo_counters s1 m) + 1"
    using monitor_machine_low [OF s1(3) assms(3,5)] by blast
  then show ?thesis using up s1 assms(1) by (simp add: monitor_cycle_def)
qed

definition demo_watch_lib :: watch_lib where
  "demo_watch_lib = \<lparr> json_print = (\<lambda>v. ''{}''), json_parse = (\<lambda>t. None), f64_parse = (\<lambda>t. None), lowercase = (\<lambda>s. s),
     debug_str = (\<lambda>s. s), sql_datetime = (\<lambda>s. Some s) \<rparr>"

definition demo_task :: "string \<Rightarrow> string \<Rightarrow> task_row" where
  "demo_task i status = \<lparr> ta_id = i, ta_tenant_id = ''t1'', ta_machine_id = Some ''m'', ta_parent_task_id = None,
     ta_workflow_run_id = None, ta_status = status, ta_spec = ''{}'', ta_result = None, ta_created_at = [],
     ta_started_at = None, ta_finished_at = None, ta_error = None, ta_retry_count = 0, ta_max_retries = 3 \<rparr>"

definition demo_monitor :: monitor where
  "demo_monitor = \<lparr> mo_watch = \<lparr> ws_db = demo_tenant_db \<lparr>
       machines := [\<lparr> ma_id = ''m'', ma_tenant_id = ''t1'', ma_image = ''i'', ma_worker = ''w'', ma_status = ''active'',
         ma_cpu = None, ma_memory_gb = None, ma_worker_sev_snp = 0, ma_connect_token_hash = None, ma_created_at = ''9'',
         ma_expires_at = [], ma_killed_at = None \<rparr>],
       tasks := [demo_task ''a'' ''running'', demo_task ''b'' ''queued'', demo_task ''c'' ''completed''],
       audit_entries := [\<lparr> au_seq = 1, au_tenant_id = ''t1'', au_ts = [], au_machine_id = Some ''m'', au_event = ''cmd_exec'',
         au_payload = Some ''{}'', au_prev_hash = [], au_hash = [], au_sig_ed25519 = [], au_sig_mldsa65 = [],
         au_sev_snp_report_hash = None \<rparr>] \<rparr>, ws_ptys = [], ws_injected = [], ws_pushed = [] \<rparr>,
     mo_counters = (\<lambda>m. (0, 0)) \<rparr>"

lemma two_tasks_count_twice_witness:
  "fst (mo_counters (snd (monitor_cycle demo_watch_lib demo_env demo_time demo_monitor)) ''m'') = 2"
proof -
  let ?d = "ws_db (mo_watch demo_monitor)"
  let ?e = "\<lparr> ae_cmd = [], ae_event = ''cmd_exec'', ae_payload = JNull \<rparr>"
  have "get_active_machines demo_env demo_time ?d = [(''m'', ''t1'', ''a'', ''{}''), (''m'', ''t1'', ''b'', ''{}'')]"
    by code_simp
  moreover have "get_recent_audit_entries demo_watch_lib ''m'' ?d = Ok [?e]" by code_simp
  moreover have "low_score demo_watch_lib [?e] ''{}''" by code_simp
  ultimately show ?thesis
    using two_tasks_count_twice [of demo_env demo_time demo_monitor "''m''" "''t1''" "''a''" "''{}''" "''b''" "''{}''" demo_watch_lib "[?e]"]
    by (simp add: demo_monitor_def)
qed

end
