(* ===== verification/Pods.thy ===== *)
theory Pods
  imports Workflow
begin

text \<open>
  What the routes that act inside a pod share: the check of the connect token, quoting for the shell,
  the reply of the Kubernetes exec call, and the audit entry whose number is returned. The same code stands in
  src/gateway/src/routes/exec.rs, routes/git.rs and routes/pty.rs.
\<close>

section \<open>Responses\<close>

text \<open>The database, the commands started in pods, and the requests sent to GitHub (address, token, body). An error response has a status and a text; \<open>Wrapped\<close> is a text that ends with the message of a crate.\<close>

datatype route_msg = Msg string | Wrapped string

type_synonym 'a route = "('a, nat \<times> route_msg) res"

record pods_app =
  pa_db :: db
  pa_ran :: "(string \<times> string list) list"
  pa_posts :: "(string \<times> string \<times> json) list"

text \<open>The slice \<open>&s[a..b]\<close> panics outside the text and inside a character.\<close>

definition char_boundary :: "string \<Rightarrow> nat \<Rightarrow> bool" where
  "char_boundary s i \<longleftrightarrow> i = 0 \<or> i = length s \<or> (i < length s \<and> \<not> cont_char (s ! i))"

definition str_slice :: "nat \<Rightarrow> nat \<Rightarrow> string \<Rightarrow> (string, 'e) res" where
  "str_slice a b s =
    (if a \<le> b \<and> b \<le> length s \<and> char_boundary s a \<and> char_boundary s b then Ok (take (b - a) (drop a s)) else Panic)"

text \<open>The agent token of the \<open>Authorization\<close> header, as the routes for tasks, credentials, questions and
  disagreements check it. A text that consists of a crate's message only is \<open>Wrapped\<close> of the empty text.\<close>

definition agent_of :: "'a hash_lib_scheme \<Rightarrow> utc \<Rightarrow> string option \<Rightarrow> db \<Rightarrow> string route" where
  "agent_of H now authorization d =
     map_err (\<lambda>(code, r). (code, case r of
         MissingAuthorization \<Rightarrow> Msg ''Missing Authorization header'' | NotBearer \<Rightarrow> Msg ''Expected Bearer token'' | _ \<Rightarrow> Wrapped []))
       (bind_res (extract_token authorization) (\<lambda>token. authenticate_agent H now token d))"

lemma agent_of_Ok:
  "agent_of H now authorization d = Ok t \<longleftrightarrow>
   (\<exists>token. extract_token authorization = Ok token \<and> verify_agent_token H now token d = Ok t)"
  by (auto simp: agent_of_def authenticate_agent_def bind_simps)

lemma agent_of_not_Panic [simp]: "agent_of H now authorization d \<noteq> Panic"
  unfolding agent_of_def extract_token_def authenticate_agent_def verify_agent_token_def
  by (cases "header_text authorization") (simp_all add: bind_simps)

lemma agent_of_cong:
  assumes "agent_tokens d' = agent_tokens d" "db_up d' = db_up d"
  shows "agent_of H now a d' = agent_of H now a d"
  unfolding agent_of_def authenticate_agent_def verify_agent_token_def assms ..

section \<open>The connect token\<close>

definition stored_connect_hash :: "string \<Rightarrow> db \<Rightarrow> string option" where
  "stored_connect_hash machine_id d =
    (case query_row (\<lambda>m. ma_id m = machine_id \<and> ma_status m = ''active'') (machines d) of
       Some m \<Rightarrow> ma_connect_token_hash m | None \<Rightarrow> None)"

definition machine_tenant :: "string \<Rightarrow> db \<Rightarrow> string" where
  "machine_tenant machine_id d =
    (case query_row (\<lambda>m. ma_id m = machine_id) (machines d) of Some m \<Rightarrow> ma_tenant_id m | None \<Rightarrow> ''unknown'')"

definition verify_connect_token :: "'a hash_lib_scheme \<Rightarrow> string \<Rightarrow> string option \<Rightarrow> db \<Rightarrow> string route" where
  "verify_connect_token H machine_id query_token d =
    (case query_token of
       None \<Rightarrow> Err (401, Msg ''missing or empty connect token'')
     | Some token \<Rightarrow>
        if token = [] then Err (401, Msg ''missing or empty connect token'')
        else if \<not> db_up d then Err (503, Wrapped ''db pool exhausted: '')
        else (case stored_connect_hash machine_id d of
                Some h \<Rightarrow> if h = hash_token H token then Ok (machine_tenant machine_id d)
                          else Err (401, Msg ''invalid connect token'')
              | None \<Rightarrow> Ok (machine_tenant machine_id d)))"

lemma verify_connect_token_Ok:
  "verify_connect_token H machine_id tok d = Ok t \<longleftrightarrow>
   (\<exists>token. tok = Some token \<and> token \<noteq> [] \<and> db_up d \<and> t = machine_tenant machine_id d \<and>
     (stored_connect_hash machine_id d = None \<or> stored_connect_hash machine_id d = Some (hash_token H token)))"
  by (auto simp: verify_connect_token_def split: option.splits if_splits)

lemma verify_connect_token_not_Panic [simp]: "verify_connect_token H machine_id tok d \<noteq> Panic"
  by (auto simp: verify_connect_token_def split: option.split)

section \<open>The shell\<close>

fun quote_body :: "string \<Rightarrow> string" where
  "quote_body [] = []"
| "quote_body (c # cs) = (if c = CHR 0x27 then [CHR 0x27, CHR 0x5C, CHR 0x27, CHR 0x27] else [c]) @ quote_body cs"

definition shell_quote :: "string \<Rightarrow> string" where
  "shell_quote s = CHR 0x27 # quote_body s @ [CHR 0x27]"

text \<open>The reference: how a POSIX shell splits a command into tokens, for the fragment of its language made of
  unquoted harmless characters, quotes, backslashes, blanks and the operator \<open>&&\<close>. Everything else
  (expansions, other operators, newlines, an open quote) is outside the fragment, which is None.\<close>

datatype sh_token = Word string | AndAnd

definition sh_plain :: "char \<Rightarrow> bool" where
  "sh_plain c \<longleftrightarrow> ascii_alnum c \<or> c \<in> set ''-_=./:@%+,''"

definition sh_flush :: "string option \<Rightarrow> sh_token list" where
  "sh_flush cur = (case cur of None \<Rightarrow> [] | Some w \<Rightarrow> [Word w])"

definition sh_word :: "string option \<Rightarrow> string" where
  "sh_word cur = (case cur of None \<Rightarrow> [] | Some w \<Rightarrow> w)"

fun sh_lex :: "bool \<Rightarrow> string option \<Rightarrow> string \<Rightarrow> sh_token list option" where
  "sh_lex quoted cur [] = (if quoted then None else Some (sh_flush cur))"
| "sh_lex True cur (c # cs) =
    (if c = CHR 0x27 then sh_lex False cur cs else sh_lex True (Some (sh_word cur @ [c])) cs)"
| "sh_lex False cur (c # cs) =
    (if c = CHR 0x27 then sh_lex True (Some (sh_word cur)) cs
     else if c = CHR '' '' then map_option ((@) (sh_flush cur)) (sh_lex False None cs)
     else if sh_plain c then sh_lex False (Some (sh_word cur @ [c])) cs
     else if c = CHR 0x5C then
       (case cs of [] \<Rightarrow> None
        | d # ds \<Rightarrow> if d = CHR 0x0A then None else sh_lex False (Some (sh_word cur @ [d])) ds)
     else if c = CHR ''&'' then
       (case cs of [] \<Rightarrow> None
        | d # ds \<Rightarrow> if d = CHR ''&'' then map_option ((@) (sh_flush cur @ [AndAnd])) (sh_lex False None ds) else None)
     else None)"

definition sh_tokens :: "string \<Rightarrow> sh_token list option" where
  "sh_tokens script = sh_lex False None script"

lemma sh_word_Some [simp]: "sh_word (Some w) = w" "sh_word None = []"
  by (simp_all add: sh_word_def)

lemma sh_flush_simps [simp]: "sh_flush (Some w) = [Word w]" "sh_flush None = []"
  by (simp_all add: sh_flush_def)

lemma sh_lex_quote_body:
  "sh_lex True (Some w) (quote_body s @ CHR 0x27 # rest) = sh_lex False (Some (w @ s)) rest"
  by (induction s arbitrary: w) (simp_all add: sh_plain_def ascii_alnum_def ascii_upper_def ascii_lower_def ascii_digit_def)

lemma sh_lex_quote:
  "sh_lex False cur (shell_quote s @ rest) = sh_lex False (Some (sh_word cur @ s)) rest"
  by (simp add: shell_quote_def sh_lex_quote_body)

lemma sh_lex_quote_end:
  "sh_lex False cur (shell_quote s) = Some [Word (sh_word cur @ s)]"
  using sh_lex_quote [of cur s "[]"] by simp

lemma sh_lex_blank:
  "sh_lex False cur (CHR '' '' # rest) = map_option ((@) (sh_flush cur)) (sh_lex False None rest)"
  by simp

lemma sh_lex_plain:
  "list_all sh_plain s \<Longrightarrow> s \<noteq> [] \<Longrightarrow> sh_lex False cur (s @ rest) = sh_lex False (Some (sh_word cur @ s)) rest"
proof (induction s arbitrary: cur)
  case (Cons c s)
  have c: "sh_plain c" "c \<noteq> CHR 0x27" "c \<noteq> CHR '' ''"
    using Cons.prems(1) by (auto simp: sh_plain_def ascii_alnum_def ascii_upper_def ascii_lower_def ascii_digit_def)
  then show ?case using Cons by (cases "s = []") simp_all
qed simp

lemma sh_lex_and:
  "sh_lex False (Some w) ('' && '' @ rest) = map_option ((@) [Word w, AndAnd]) (sh_lex False None rest)"
  by (cases "sh_lex False None rest")
    (simp_all add: sh_plain_def ascii_alnum_def ascii_upper_def ascii_lower_def ascii_digit_def option.map_comp)

lemmas sh_lex_steps = sh_lex_quote sh_lex_quote_end sh_lex_blank sh_lex_and

section \<open>The exec call\<close>

text \<open>What the API server answers: no client, a refusal, the deadline, or the end of the process with its
  status object (if there is one) and the bytes of both pipes. \<open>read_to_string\<close> leaves its buffer empty when the
  bytes are not UTF-8.\<close>

datatype pod_reply = NoClient | ExecRejected | DeadlinePassed | Finished "exec_status option" bytes bytes

definition read_pipe :: "bytes \<Rightarrow> string" where
  "read_pipe bs = (case from_utf8 bs of Some s \<Rightarrow> s | None \<Rightarrow> [])"

definition pod_result :: "string \<Rightarrow> pod_reply \<Rightarrow> (int \<times> string \<times> string) route" where
  "pod_result timed_out reply =
    (case reply of
       NoClient \<Rightarrow> Err (502, Wrapped ''kube client: '')
     | ExecRejected \<Rightarrow> Err (502, Wrapped ''kube exec failed: '')
     | DeadlinePassed \<Rightarrow> Err (504, Msg timed_out)
     | Finished status out err \<Rightarrow>
         Ok (case status of Some s \<Rightarrow> parse_exit_code s | None \<Rightarrow> 0, read_pipe out, read_pipe err))"

definition started :: "pod_reply \<Rightarrow> bool" where
  "started reply \<longleftrightarrow> (case reply of NoClient \<Rightarrow> False | ExecRejected \<Rightarrow> False | _ \<Rightarrow> True)"

definition run_in :: "string \<Rightarrow> string list \<Rightarrow> pod_reply \<Rightarrow> pods_app \<Rightarrow> pods_app" where
  "run_in machine_id cmd reply s = (if started reply then s \<lparr> pa_ran := pa_ran s @ [(machine_id, cmd)] \<rparr> else s)"

section \<open>The audit entry\<close>

definition write_audit_and_get_seq ::
    "'x json_lib_scheme \<Rightarrow> session_env \<Rightarrow> utc \<Rightarrow> string \<Rightarrow> string \<Rightarrow> string \<Rightarrow> (string \<times> json) list \<Rightarrow> db \<Rightarrow> int \<times> db" where
  "write_audit_and_get_seq J E now tenant_id machine_id event payload d =
    (let d' = snd (audit_json J E now tenant_id machine_id event payload d)
     in (if db_up d' then foldr max (map au_seq (filter (\<lambda>a. au_machine_id a = Some machine_id \<and> au_tenant_id a = tenant_id)
           (audit_entries d'))) 0 else 0, d'))"

text \<open>A machine and an agent of a tenant, for the witnesses of the routes.\<close>

definition demo_m1 :: machine_row where
  "demo_m1 = \<lparr> ma_id = ''m1'', ma_tenant_id = ''t1'', ma_image = ''i'', ma_worker = ''w'', ma_status = ''active'', ma_cpu = None,
     ma_memory_gb = None, ma_worker_sev_snp = 0, ma_connect_token_hash = None, ma_created_at = [], ma_expires_at = [],
     ma_killed_at = None \<rparr>"

lemma demo_agent_ok: "agent_of (e_sig demo_env) demo_time (Some ''Bearer a'') demo_agent_db = Ok ''t1''"
  by code_simp

end
