(* ===== verification/Exec.thy ===== *)
theory Exec
  imports Pods
begin

text \<open>
  The structured exec endpoint (src/gateway/src/routes/exec.rs). The environment of a request is the list of its
  members in the order in which the \<open>HashMap\<close> yields them.
\<close>

record ExecRequest =
  xr_cmd :: string
  xr_args :: "string list"
  xr_cwd :: "string option"
  xr_timeout_secs :: "64 word"
  xr_env :: "(string \<times> string) list"

record ExecResponse =
  xp_exit_code :: int
  xp_stdout :: string
  xp_stderr :: string
  xp_duration_ms :: "64 word"
  xp_audit_seq :: int

definition env_text :: "(string \<times> string) list \<Rightarrow> string" where
  "env_text env = concat (map (\<lambda>(k, v). k @ ''='' @ shell_quote v @ '' '') env)"

definition args_text :: "string list \<Rightarrow> string" where
  "args_text args = concat (map (\<lambda>a. '' '' @ shell_quote a) args)"

definition build_command :: "string \<Rightarrow> string list \<Rightarrow> string option \<Rightarrow> (string \<times> string) list \<Rightarrow> string list" where
  "build_command cmd args cwd env =
    (if cwd = None \<and> env = [] then cmd # args
     else [''sh'', ''-c'',
       (case cwd of Some dir \<Rightarrow> ''cd '' @ shell_quote dir @ '' && '' | None \<Rightarrow> []) @ env_text env @
       shell_quote cmd @ args_text args])"

definition exec_command ::
    "'x json_lib_scheme \<Rightarrow> session_env \<Rightarrow> utc \<Rightarrow> 64 word \<Rightarrow> pod_reply \<Rightarrow> string \<Rightarrow> string option \<Rightarrow> ExecRequest \<Rightarrow> pods_app \<Rightarrow>
     ExecResponse route \<times> pods_app" where
  "exec_command J E now duration_ms reply machine_id query_token req s =
    (case verify_connect_token (e_sig E) machine_id query_token (pa_db s) of
       Err e \<Rightarrow> (Err e, s)
     | Panic \<Rightarrow> (Panic, s)
     | Ok tenant_id \<Rightarrow>
        let s1 = run_in machine_id (build_command (xr_cmd req) (xr_args req) (xr_cwd req) (xr_env req)) reply s in
        (case pod_result (''command timed out after '' @ show_nat (unat (xr_timeout_secs req)) @ ''s'') reply of
           Err e \<Rightarrow> (Err e, s1)
         | Panic \<Rightarrow> (Panic, s1)
         | Ok (exit_code, out, err) \<Rightarrow>
            (case write_audit_and_get_seq J E now tenant_id machine_id ''cmd_exec''
                [(''cmd'', JText (xr_cmd req)), (''duration_ms'', jint (uint duration_ms)), (''exit_code'', jint exit_code)] (pa_db s1) of
               (seq, d) \<Rightarrow>
                 (Ok \<lparr> xp_exit_code = exit_code, xp_stdout = out, xp_stderr = err, xp_duration_ms = duration_ms,
                       xp_audit_seq = seq \<rparr>, s1 \<lparr> pa_db := d \<rparr>))))"

section \<open>Quoting\<close>

lemma sh_lex_args: "sh_lex False (Some w) (args_text args) = Some (Word w # map Word args)"
proof (induction args arbitrary: w)
  case (Cons a args)
  have "args_text (a # args) = CHR '' '' # shell_quote a @ args_text args" by (simp add: args_text_def)
  then show ?case by (simp only: sh_lex_blank sh_lex_quote) (simp add: Cons)
qed (simp add: args_text_def)

lemma sh_plain_eq: "sh_plain (CHR ''='')"
  by (simp add: sh_plain_def)

lemma sh_lex_env:
  "list_all (\<lambda>(k, v). k \<noteq> [] \<and> list_all sh_plain k) env \<Longrightarrow>
   sh_lex False None (env_text env @ rest) =
     map_option ((@) (map (\<lambda>(k, v). Word (k @ ''='' @ v)) env)) (sh_lex False None rest)"
proof (induction env)
  case Nil
  then show ?case by (simp add: env_text_def option.map_ident)
next
  case (Cons kv env)
  obtain k v where kv: "kv = (k, v)" by fastforce
  have k: "list_all sh_plain (k @ ''='')" using Cons.prems kv sh_plain_eq by simp
  have "env_text (kv # env) @ rest = (k @ ''='') @ (shell_quote v @ (CHR '' '' # env_text env @ rest))"
    by (simp add: env_text_def kv)
  then have "sh_lex False None (env_text (kv # env) @ rest) =
      map_option ((@) [Word ((k @ ''='') @ v)]) (sh_lex False None (env_text env @ rest))"
    by (simp only: sh_lex_plain [OF k] append_is_Nil_conv list.distinct simp_thms sh_word_Some sh_lex_quote sh_lex_blank sh_flush_simps append_Nil not_False_eq_True)
  then show ?case using Cons kv by (simp add: option.map_comp comp_def)
qed

lemma sh_lex_cd: "sh_lex False None (''cd '' @ rest) = map_option ((@) [Word ''cd'']) (sh_lex False None rest)"
  by (simp add: sh_plain_def ascii_alnum_def ascii_upper_def ascii_lower_def ascii_digit_def)



section \<open>Who may run commands\<close>

lemma audit_json_unknown_tenant:
  "\<not> tenant_exists tenant_id d \<Longrightarrow> snd (audit_json J E now tenant_id m ev payload d) = d"
  by (simp add: audit_json_def entry_def)

section \<open>Demonstration values\<close>

definition demo_pods :: pods_app where
  "demo_pods = \<lparr> pa_db = demo_tenant_db, pa_ran = [], pa_posts = [] \<rparr>"

definition demo_exec :: ExecRequest where
  "demo_exec = \<lparr> xr_cmd = ''id'', xr_args = [], xr_cwd = None, xr_timeout_secs = 1, xr_env = [] \<rparr>"

text \<open>Every invocation is said to be audited. A command whose time limit passes has been started and leaves
  no audit entry.\<close>
lemma timed_out_command_not_audited:
  assumes "verify_connect_token (e_sig E) machine_id tok (pa_db s) = Ok tenant_id"
  shows "\<exists>e s'. exec_command J E now ms DeadlinePassed machine_id tok req s = (Err (504, e), s') \<and>
    pa_ran s' = pa_ran s @ [(machine_id, build_command (xr_cmd req) (xr_args req) (xr_cwd req) (xr_env req))] \<and>
    pa_db s' = pa_db s"
  using assms by (simp add: exec_command_def Let_def pod_result_def run_in_def started_def)

lemma timed_out_command_not_audited_witness:
  "pa_ran (snd (exec_command demo_wf_lib demo_env demo_time 9 DeadlinePassed ''wf-01'' (Some ''x'') demo_exec demo_pods)) = [(''wf-01'', [''id''])]"
proof -
  have "verify_connect_token (e_sig demo_env) ''wf-01'' (Some ''x'') (pa_db demo_pods) = Ok ''unknown''" by code_simp
  from timed_out_command_not_audited [OF this, of demo_wf_lib demo_time 9 demo_exec] show ?thesis
    by (auto simp: demo_pods_def demo_exec_def build_command_def)
qed

text \<open>The token is compared with the hash of an active machine with that id; when there is none (a pod of a
  workflow, a machine whose row is missing or no longer active, any other pod of the namespace) every
  non-empty token is accepted, the command runs, and the audit entry is lost because no tenant is called
  \<open>unknown\<close>.\<close>
lemma unrecorded_pod_open_to_anyone:
  assumes "query_row (\<lambda>m. ma_id m = machine_id) (machines (pa_db s)) = None" "token \<noteq> []" "db_up (pa_db s)"
    and "\<not> tenant_exists ''unknown'' (pa_db s)"
  shows "\<exists>rsp s'. exec_command J E now ms (Finished status out err) machine_id (Some token) req s = (Ok rsp, s') \<and>
    pa_ran s' = pa_ran s @ [(machine_id, build_command (xr_cmd req) (xr_args req) (xr_cwd req) (xr_env req))] \<and>
    pa_db s' = pa_db s"
proof -
  have "stored_connect_hash machine_id (pa_db s) = None"
    using assms(1) by (auto simp: stored_connect_hash_def query_row_None split: option.split dest: query_row_Some)
  then have "verify_connect_token (e_sig E) machine_id (Some token) (pa_db s) = Ok ''unknown''"
    using assms(1,2,3) by (simp add: verify_connect_token_def machine_tenant_def)
  then show ?thesis
    using assms(4) by (simp add: exec_command_def Let_def pod_result_def run_in_def started_def
      write_audit_and_get_seq_def audit_json_unknown_tenant)
qed

lemma unrecorded_pod_open_to_anyone_witness:
  "pa_ran (snd (exec_command demo_wf_lib demo_env demo_time 9 (Finished None [] []) ''wf-01'' (Some ''x'') demo_exec demo_pods)) =
    [(''wf-01'', [''id''])]"
proof -
  have q: "query_row (\<lambda>m. ma_id m = ''wf-01'') (machines (pa_db demo_pods)) = None"
    and u: "db_up (pa_db demo_pods)" "\<not> tenant_exists ''unknown'' (pa_db demo_pods)" by code_simp+
  from unrecorded_pod_open_to_anyone [OF q _ u, of "''x''" demo_wf_lib demo_env demo_time 9 None "[]" "[]" demo_exec]
  show ?thesis by (auto simp: demo_pods_def demo_exec_def build_command_def)
qed

end
