(* ===== verification/Git.thy ===== *)
theory Git
  imports Exec
begin

text \<open>
  The git endpoints (src/gateway/src/routes/git.rs): the scripts they run in a pod, the credential they
  decrypt, the call to GitHub, and the parsers of git's output. What GitHub answers is an argument.
\<close>

section \<open>Requests and responses\<close>

record CloneRequest =
  cl_repo :: string
  cl_branch :: "string option"
  cl_path :: "string option"

record BranchRequest =
  br_name :: string
  br_from :: "string option"
  br_path :: "string option"

record CommitRequest =
  co_message :: string
  co_files :: "string list option"
  co_path :: "string option"

record PushRequest =
  pu_remote :: "string option"
  pu_branch :: "string option"
  pu_path :: "string option"

record PrRequest =
  prq_title :: string
  prq_body :: "string option"
  prq_base :: string
  prq_head :: string

record GitResponse =
  gt_exit_code :: int
  gt_stdout :: string
  gt_stderr :: string
  gt_duration_ms :: "64 word"
  gt_audit_seq :: int

record CommitResponse = GitResponse +
  gt_commit_sha :: "string option"

record PrResponse =
  prp_number :: int
  prp_url :: string
  prp_state :: string

record FileChange =
  fc_path :: string
  fc_status :: string

record StatusResponse =
  sp_branch :: "string option"
  sp_upstream :: "string option"
  sp_ahead :: int
  sp_behind :: int
  sp_staged :: "FileChange list"
  sp_unstaged :: "FileChange list"
  sp_untracked :: "string list"

record LogEntry =
  le_sha :: string
  le_message :: string

definition DEFAULT_EXEC_TIMEOUT_SECS :: nat where "DEFAULT_EXEC_TIMEOUT_SECS = 600"
definition AUDIT_MSG_SNIPPET_LEN :: nat where "AUDIT_MSG_SNIPPET_LEN = 200"

section \<open>Addresses\<close>

definition strip_scheme :: "string \<Rightarrow> string" where
  "strip_scheme repo =
    (case strip_prefix ''https://'' repo of
       Some rest \<Rightarrow> rest
     | None \<Rightarrow> (case strip_prefix ''http://'' repo of Some rest \<Rightarrow> rest | None \<Rightarrow> repo))"

definition derive_clone_dir :: "string \<Rightarrow> string" where
  "derive_clone_dir repo =
    (let l = last (split_on (CHR ''/'') repo)
     in if ends_with l ''.git'' then take (length l - 4) l else l)"

lemma ends_with_Nil: "ends_with [] s \<longleftrightarrow> s = []"
  by (cases s rule: rev_cases) (simp_all add: ends_with_def starts_with_iff)

function trim_end_git :: "string \<Rightarrow> string" where
  "trim_end_git s = (if ends_with s ''.git'' then trim_end_git (take (length s - 4) s) else s)"
  by pat_completeness auto
termination
proof (relation "measure length")
  fix s :: string assume "ends_with s ''.git''"
  then have "s \<noteq> []" using ends_with_Nil by blast
  then show "(take (length s - 4) s, s) \<in> measure length" by (cases s) auto
qed simp

declare trim_end_git.simps [simp del]

definition split_owner_repo :: "string \<Rightarrow> (string \<times> string) option" where
  "split_owner_repo path =
    (case split_once ''/'' (trim_end_git path) of
       None \<Rightarrow> None
     | Some (o1, r1) \<Rightarrow>
        let owner = trim o1; repo = trim r1
        in if owner = [] \<or> repo = [] then None else Some (owner, repo))"

definition parse_owner_repo :: "string \<Rightarrow> (string \<times> string) option" where
  "parse_owner_repo remote_url =
    (let url = trim remote_url in
     if url = [] then None
     else let url = (case strip_prefix ''git+'' url of Some u \<Rightarrow> u | None \<Rightarrow> url) in
       case strip_prefix ''git@'' url of
         Some rest \<Rightarrow> Option.bind (split_once '':'' rest) (\<lambda>(_, after_host). split_owner_repo after_host)
       | None \<Rightarrow>
          Option.bind (case strip_prefix ''https://'' url of Some r \<Rightarrow> Some r | None \<Rightarrow> strip_prefix ''http://'' url)
            (\<lambda>after_scheme. Option.bind (split_once ''/'' after_scheme) (\<lambda>(_, path). split_owner_repo path)))"

section \<open>Output\<close>

definition hex_digit :: "char \<Rightarrow> bool" where
  "hex_digit c \<longleftrightarrow> ascii_digit c \<or> (CHR ''a'' \<le> c \<and> c \<le> CHR ''f'') \<or> (CHR ''A'' \<le> c \<and> c \<le> CHR ''F'')"

definition parse_commit_sha :: "string \<Rightarrow> string option" where
  "parse_commit_sha out =
    (case dropWhile (\<lambda>c. c \<noteq> CHR ''['') out of
       [] \<Rightarrow> None
     | _ # after \<Rightarrow>
        if CHR '']'' \<notin> set after then None
        else List.find (\<lambda>tok. 7 \<le> length tok \<and> length tok \<le> 40 \<and> list_all hex_digit tok)
          (rev (split_whitespace (takeWhile (\<lambda>c. c \<noteq> CHR '']'') after))))"

text \<open>A byte read as a \<open>char\<close> is a code point up to 255.\<close>

definition latin1 :: "char \<Rightarrow> string" where
  "latin1 c = (let n = (of_char c :: nat) in if n < 128 then [c] else [char_of (192 + n div 64), char_of (128 + n mod 64)])"

definition change_entry :: "string \<Rightarrow> StatusResponse \<Rightarrow> (StatusResponse, 'e) res" where
  "change_entry line r =
    (if length line < 4 then Ok r
     else bind_res (str_slice 2 4 line) (\<lambda>xy.
       let x = xy ! 0; y = xy ! 1;
           path_token = last (split_on (CHR '' '') line);
           path = (case split_once [CHR 0x09] path_token of Some (p, _) \<Rightarrow> p | None \<Rightarrow> path_token)
       in if path = [] then Ok r
          else Ok (r \<lparr>
            sp_staged := sp_staged r @ (if x \<noteq> CHR '' '' then [\<lparr> fc_path = path, fc_status = latin1 x \<rparr>] else []),
            sp_unstaged := sp_unstaged r @ (if y \<noteq> CHR '' '' then [\<lparr> fc_path = path, fc_status = latin1 y \<rparr>] else []) \<rparr>)))"

definition count_of :: "string \<Rightarrow> int" where
  "count_of n = (case parse_i64 n of Some i \<Rightarrow> i | None \<Rightarrow> 0)"

definition ahead_behind :: "string \<Rightarrow> StatusResponse \<Rightarrow> StatusResponse" where
  "ahead_behind tok r =
    (case strip_prefix ''+'' tok of
       Some n \<Rightarrow> r \<lparr> sp_ahead := count_of n \<rparr>
     | None \<Rightarrow> (case strip_prefix ''-'' tok of Some n \<Rightarrow> r \<lparr> sp_behind := count_of n \<rparr> | None \<Rightarrow> r))"

definition status_line :: "string \<Rightarrow> StatusResponse \<Rightarrow> (StatusResponse, 'e) res" where
  "status_line line r =
    (if line = [] then Ok r
     else case strip_prefix ''# branch.head '' line of
       Some rest \<Rightarrow> Ok (r \<lparr> sp_branch := (if trim rest = ''(detached)'' then None else Some (trim rest)) \<rparr>)
     | None \<Rightarrow>
       (case strip_prefix ''# branch.upstream '' line of
          Some rest \<Rightarrow> Ok (r \<lparr> sp_upstream := Some (trim rest) \<rparr>)
        | None \<Rightarrow>
          (case strip_prefix ''# branch.ab '' line of
             Some rest \<Rightarrow> Ok (fold ahead_behind (split_whitespace rest) r)
           | None \<Rightarrow>
              if starts_with line ''#'' then Ok r
              else (case strip_prefix ''? '' line of
                 Some rest \<Rightarrow> Ok (r \<lparr> sp_untracked := sp_untracked r @ [rest] \<rparr>)
               | None \<Rightarrow>
                  if starts_with line ''! '' then Ok r
                  else if hd line \<in> set ''12u'' then change_entry line r
                  else Ok r))))"

primrec status_lines :: "string list \<Rightarrow> StatusResponse \<Rightarrow> (StatusResponse, 'e) res" where
  "status_lines [] r = Ok r"
| "status_lines (l # ls) r = bind_res (status_line l r) (status_lines ls)"

definition parse_status_v2 :: "string \<Rightarrow> (StatusResponse, 'e) res" where
  "parse_status_v2 output = status_lines (text_lines output)
     \<lparr> sp_branch = None, sp_upstream = None, sp_ahead = 0, sp_behind = 0, sp_staged = [], sp_unstaged = [], sp_untracked = [] \<rparr>"

definition log_line :: "string \<Rightarrow> LogEntry list" where
  "log_line line =
    (let line = trim_end line in
     if line = [] then []
     else case split_once '' '' line of Some (sha, msg) \<Rightarrow> [\<lparr> le_sha = sha, le_message = msg \<rparr>] | None \<Rightarrow> [])"

definition parse_log_oneline :: "string \<Rightarrow> LogEntry list" where
  "parse_log_oneline output = concat (map log_line (text_lines output))"

section \<open>Scripts\<close>

definition clone_url :: "string option \<Rightarrow> string \<Rightarrow> string" where
  "clone_url token repo_clean =
    (case token of Some t \<Rightarrow> ''https://'' @ t @ ''@'' @ repo_clean | None \<Rightarrow> ''https://'' @ repo_clean)"

definition clone_dir :: "CloneRequest \<Rightarrow> string" where
  "clone_dir req = (case cl_path req of Some p \<Rightarrow> p | None \<Rightarrow> derive_clone_dir (strip_scheme (cl_repo req)))"

definition clone_script :: "string option \<Rightarrow> CloneRequest \<Rightarrow> string" where
  "clone_script token req =
    ''git clone '' @ shell_quote (clone_url token (strip_scheme (cl_repo req))) @
    (case cl_path req of Some p \<Rightarrow> '' '' @ shell_quote p | None \<Rightarrow> []) @
    (case cl_branch req of
       Some b \<Rightarrow> '' && cd '' @ shell_quote (clone_dir req) @ '' && git checkout '' @ shell_quote b
     | None \<Rightarrow> [])"

definition cd_text :: "string option \<Rightarrow> string" where
  "cd_text path = (case path of Some p \<Rightarrow> ''cd '' @ shell_quote p @ '' && '' | None \<Rightarrow> [])"

definition branch_script :: "BranchRequest \<Rightarrow> string" where
  "branch_script req = cd_text (br_path req) @ ''git checkout -b '' @ shell_quote (br_name req) @
    (case br_from req of Some f \<Rightarrow> '' '' @ shell_quote f | None \<Rightarrow> [])"

definition files_specified :: "CommitRequest \<Rightarrow> bool" where
  "files_specified req = (case co_files req of Some fs \<Rightarrow> fs \<noteq> [] | None \<Rightarrow> False)"

definition commit_script :: "CommitRequest \<Rightarrow> string" where
  "commit_script req = cd_text (co_path req) @ ''git add '' @
    (if files_specified req
     then concat (map (\<lambda>f. shell_quote f @ '' '') (case co_files req of Some fs \<Rightarrow> fs | None \<Rightarrow> []))
     else ''-A'') @
    '' && git commit -m '' @ shell_quote (co_message req)"

definition push_script :: "string \<Rightarrow> string \<Rightarrow> string option \<Rightarrow> string" where
  "push_script remote branch path = cd_text path @ ''git push '' @ shell_quote remote @ '' '' @ shell_quote branch"

section \<open>The handlers\<close>

definition decrypt_git_token :: "session_env \<Rightarrow> string \<Rightarrow> db \<Rightarrow> string option route" where
  "decrypt_git_token E tenant_id d =
    (if \<not> db_up d then Err (503, Wrapped ''db pool exhausted: '')
     else
       let named = (\<lambda>n. query_row (\<lambda>c. ac_tenant_id c = tenant_id \<and> ac_name c = n) (agent_credentials d))
       in (case (case named ''github-pat'' of Some c \<Rightarrow> Some c | None \<Rightarrow> named ''git-token'') of
             None \<Rightarrow> Ok None
           | Some c \<Rightarrow>
              (case decrypt (e_aead E) (ac_encrypted_value c) (ac_nonce c) (derive_tenant_key (e_aead E) tenant_id (e_keys E)) of
                 Ok plaintext \<Rightarrow>
                   (case from_utf8 plaintext of
                      Some token \<Rightarrow> Ok (Some token)
                    | None \<Rightarrow> Err (500, Wrapped ''decrypted credential is not valid UTF-8: ''))
               | Err _ \<Rightarrow> Err (500, Wrapped ''credential decrypt failed: '')
               | Panic \<Rightarrow> Panic)))"

definition exec_in_pod :: "string \<Rightarrow> string \<Rightarrow> pod_reply \<Rightarrow> pods_app \<Rightarrow> (int \<times> string \<times> string) route \<times> pods_app" where
  "exec_in_pod machine_id script reply s =
    (pod_result (''git command timed out after '' @ show_nat DEFAULT_EXEC_TIMEOUT_SECS @ ''s'') reply,
     run_in machine_id [''sh'', ''-c'', script] reply s)"

text \<open>What \<open>clone_repo\<close>, \<open>create_branch\<close> and \<open>push\<close> do once the script is built: run it, write the audit entry
  with the members \<open>before\<close>, \<open>duration_ms\<close>, \<open>exit_code\<close> and \<open>after\<close> in the order of their names, answer.\<close>

definition run_git ::
    "'x json_lib_scheme \<Rightarrow> session_env \<Rightarrow> utc \<Rightarrow> 64 word \<Rightarrow> pod_reply \<Rightarrow> string \<Rightarrow> string \<Rightarrow> string \<Rightarrow> string \<Rightarrow>
     (string \<times> json) list \<Rightarrow> (string \<times> json) list \<Rightarrow> pods_app \<Rightarrow> GitResponse route \<times> pods_app" where
  "run_git J E now duration_ms reply tenant_id machine_id script event before after s =
    (case exec_in_pod machine_id script reply s of
       (Err e, s1) \<Rightarrow> (Err e, s1)
     | (Panic, s1) \<Rightarrow> (Panic, s1)
     | (Ok (exit_code, out, err), s1) \<Rightarrow>
        (case write_audit_and_get_seq J E now tenant_id machine_id event
            (before @ [(''duration_ms'', jint (uint duration_ms)), (''exit_code'', jint exit_code)] @ after) (pa_db s1) of
           (seq, d) \<Rightarrow>
             (Ok \<lparr> gt_exit_code = exit_code, gt_stdout = out, gt_stderr = err, gt_duration_ms = duration_ms, gt_audit_seq = seq \<rparr>,
              s1 \<lparr> pa_db := d \<rparr>)))"

definition clone_repo ::
    "'x json_lib_scheme \<Rightarrow> session_env \<Rightarrow> utc \<Rightarrow> 64 word \<Rightarrow> pod_reply \<Rightarrow> string \<Rightarrow> string option \<Rightarrow> CloneRequest \<Rightarrow> pods_app \<Rightarrow>
     GitResponse route \<times> pods_app" where
  "clone_repo J E now duration_ms reply machine_id query_token req s =
    (case verify_connect_token (e_sig E) machine_id query_token (pa_db s) of
       Err e \<Rightarrow> (Err e, s)
     | Panic \<Rightarrow> (Panic, s)
     | Ok tenant_id \<Rightarrow>
        (case decrypt_git_token E tenant_id (pa_db s) of
           Err e \<Rightarrow> (Err e, s)
         | Panic \<Rightarrow> (Panic, s)
         | Ok token \<Rightarrow>
            run_git J E now duration_ms reply tenant_id machine_id (clone_script token req) ''git_clone''
              [(''branch'', jopt (cl_branch req))] [(''path'', jopt (cl_path req)), (''repo'', JText (cl_repo req))] s))"

definition create_branch ::
    "'x json_lib_scheme \<Rightarrow> session_env \<Rightarrow> utc \<Rightarrow> 64 word \<Rightarrow> pod_reply \<Rightarrow> string \<Rightarrow> string option \<Rightarrow> BranchRequest \<Rightarrow> pods_app \<Rightarrow>
     GitResponse route \<times> pods_app" where
  "create_branch J E now duration_ms reply machine_id query_token req s =
    (case verify_connect_token (e_sig E) machine_id query_token (pa_db s) of
       Err e \<Rightarrow> (Err e, s)
     | Panic \<Rightarrow> (Panic, s)
     | Ok tenant_id \<Rightarrow>
        run_git J E now duration_ms reply tenant_id machine_id (branch_script req) ''git_branch''
          [] [(''from'', jopt (br_from req)), (''name'', JText (br_name req))] s)"

definition commit ::
    "'x json_lib_scheme \<Rightarrow> session_env \<Rightarrow> utc \<Rightarrow> 64 word \<Rightarrow> pod_reply \<Rightarrow> string \<Rightarrow> string option \<Rightarrow> CommitRequest \<Rightarrow> pods_app \<Rightarrow>
     CommitResponse route \<times> pods_app" where
  "commit J E now duration_ms reply machine_id query_token req s =
    (case verify_connect_token (e_sig E) machine_id query_token (pa_db s) of
       Err e \<Rightarrow> (Err e, s)
     | Panic \<Rightarrow> (Panic, s)
     | Ok tenant_id \<Rightarrow>
        (case exec_in_pod machine_id (commit_script req) reply s of
           (Err e, s1) \<Rightarrow> (Err e, s1)
         | (Panic, s1) \<Rightarrow> (Panic, s1)
         | (Ok (exit_code, out, err), s1) \<Rightarrow>
            let sha = (if exit_code = 0 then parse_commit_sha out else None);
                snippet = concat (take AUDIT_MSG_SNIPPET_LEN (utf8_chars (co_message req)))
            in (case write_audit_and_get_seq J E now tenant_id machine_id ''git_commit''
                 [(''commit_sha'', jopt sha), (''duration_ms'', jint (uint duration_ms)), (''exit_code'', jint exit_code),
                  (''files_count'', jint (int (case co_files req of Some fs \<Rightarrow> length fs | None \<Rightarrow> 0))),
                  (''message_snippet'', JText snippet), (''staged_all'', JBool (\<not> files_specified req))] (pa_db s1) of
               (seq, d) \<Rightarrow>
                 (Ok \<lparr> gt_exit_code = exit_code, gt_stdout = out, gt_stderr = err, gt_duration_ms = duration_ms,
                       gt_audit_seq = seq, gt_commit_sha = sha \<rparr>, s1 \<lparr> pa_db := d \<rparr>))))"

definition push ::
    "'x json_lib_scheme \<Rightarrow> session_env \<Rightarrow> utc \<Rightarrow> 64 word \<Rightarrow> pod_reply \<Rightarrow> string \<Rightarrow> string option \<Rightarrow> PushRequest \<Rightarrow> pods_app \<Rightarrow>
     GitResponse route \<times> pods_app" where
  "push J E now duration_ms reply machine_id query_token req s =
    (case verify_connect_token (e_sig E) machine_id query_token (pa_db s) of
       Err e \<Rightarrow> (Err e, s)
     | Panic \<Rightarrow> (Panic, s)
     | Ok tenant_id \<Rightarrow>
        let remote = (case pu_remote req of Some r \<Rightarrow> r | None \<Rightarrow> ''origin'');
            branch = (case pu_branch req of Some b \<Rightarrow> b | None \<Rightarrow> ''HEAD'')
        in run_git J E now duration_ms reply tenant_id machine_id (push_script remote branch (pu_path req)) ''git_push''
             [(''branch'', JText branch)] [(''remote'', JText remote)] s)"

text \<open>GitHub's answer: no answer, a body that is not JSON, or a status with a body.\<close>

datatype github_reply = SendFailed | BadBody | Answered nat json

definition pr_body :: "PrRequest \<Rightarrow> json" where
  "pr_body req = JObject ([(''base'', JText (prq_base req))] @
     (case prq_body req of Some b \<Rightarrow> [(''body'', JText b)] | None \<Rightarrow> []) @
     [(''head'', JText (prq_head req)), (''title'', JText (prq_title req))])"

definition pr_response :: "github_reply \<Rightarrow> PrResponse route" where
  "pr_response reply =
    (case reply of
       SendFailed \<Rightarrow> Err (502, Wrapped ''GitHub API request failed: '')
     | BadBody \<Rightarrow> Err (502, Wrapped ''failed to decode GitHub response: '')
     | Answered code body \<Rightarrow>
        if \<not> (200 \<le> code \<and> code < 300) then Err (code, Wrapped ''GitHub API error ('')
        else bind_res (ok_or (502, Msg ''GitHub response missing 'number' field'')
            (Option.bind (jget ''number'' body) (\<lambda>v. case v of JNumber n \<Rightarrow> as_i64 n | _ \<Rightarrow> None))) (\<lambda>pr_number.
          bind_res (ok_or (502, Msg ''GitHub response missing 'html_url' field'')
            (Option.bind (jget ''html_url'' body) as_str)) (\<lambda>pr_url.
          Ok \<lparr> prp_number = pr_number, prp_url = pr_url,
               prp_state = (case Option.bind (jget ''state'' body) as_str of Some t \<Rightarrow> t | None \<Rightarrow> ''open'') \<rparr>)))"

definition create_pr ::
    "'x json_lib_scheme \<Rightarrow> session_env \<Rightarrow> utc \<Rightarrow> pod_reply \<Rightarrow> github_reply \<Rightarrow> string \<Rightarrow> string option \<Rightarrow> PrRequest \<Rightarrow> pods_app \<Rightarrow>
     PrResponse route \<times> pods_app" where
  "create_pr J E now reply github machine_id query_token req s =
    (case verify_connect_token (e_sig E) machine_id query_token (pa_db s) of
       Err e \<Rightarrow> (Err e, s)
     | Panic \<Rightarrow> (Panic, s)
     | Ok tenant_id \<Rightarrow>
        (case bind_res (decrypt_git_token E tenant_id (pa_db s))
            (ok_or (400, Wrapped ''no github-pat credential stored '')) of
           Err e \<Rightarrow> (Err e, s)
         | Panic \<Rightarrow> (Panic, s)
         | Ok pat \<Rightarrow>
            (case exec_in_pod machine_id ''git remote get-url origin'' reply s of
               (Err e, s1) \<Rightarrow> (Err e, s1)
             | (Panic, s1) \<Rightarrow> (Panic, s1)
             | (Ok (rc, remote_out, remote_err), s1) \<Rightarrow>
                if rc \<noteq> 0 then (Err (502, Msg (''git remote get-url origin failed (exit '' @ show_int rc @ ''): '' @ remote_err @ remote_out)), s1)
                else (case parse_owner_repo (trim remote_out) of
                   None \<Rightarrow> (Err (400, Wrapped ''could not parse owner/repo from remote URL: ''), s1)
                 | Some (owner, repo) \<Rightarrow>
                    let s2 = s1 \<lparr> pa_posts := pa_posts s1 @
                          [(''https://api.github.com/repos/'' @ owner @ ''/'' @ repo @ ''/pulls'', pat, pr_body req)] \<rparr>
                    in (case pr_response github of
                          Err e \<Rightarrow> (Err e, s2)
                        | Panic \<Rightarrow> (Panic, s2)
                        | Ok rsp \<Rightarrow>
                           (Ok rsp, s2 \<lparr> pa_db := snd (write_audit_and_get_seq J E now tenant_id machine_id ''git_pr_created''
                              [(''base'', JText (prq_base req)), (''head'', JText (prq_head req)), (''pr_number'', jint (prp_number rsp)),
                               (''pr_url'', JText (prp_url rsp)), (''title'', JText (prq_title req))] (pa_db s2)) \<rparr>))))))"

definition git_status ::
    "'x json_lib_scheme \<Rightarrow> session_env \<Rightarrow> utc \<Rightarrow> 64 word \<Rightarrow> pod_reply \<Rightarrow> string \<Rightarrow> string option \<Rightarrow> pods_app \<Rightarrow>
     StatusResponse route \<times> pods_app" where
  "git_status J E now duration_ms reply machine_id query_token s =
    (case verify_connect_token (e_sig E) machine_id query_token (pa_db s) of
       Err e \<Rightarrow> (Err e, s)
     | Panic \<Rightarrow> (Panic, s)
     | Ok tenant_id \<Rightarrow>
        (case exec_in_pod machine_id ''git status --porcelain=v2 --branch'' reply s of
           (Err e, s1) \<Rightarrow> (Err e, s1)
         | (Panic, s1) \<Rightarrow> (Panic, s1)
         | (Ok (exit_code, out, err), s1) \<Rightarrow>
            if exit_code \<noteq> 0 then (Err (502, Msg (''git status failed (exit '' @ show_int exit_code @ ''): '' @ err @ out)), s1)
            else (case parse_status_v2 out of
               Err e \<Rightarrow> (Err e, s1)
             | Panic \<Rightarrow> (Panic, s1)
             | Ok rsp \<Rightarrow>
                (Ok rsp, s1 \<lparr> pa_db := snd (write_audit_and_get_seq J E now tenant_id machine_id ''git_status''
                   [(''ahead'', jint (sp_ahead rsp)), (''behind'', jint (sp_behind rsp)), (''branch'', jopt (sp_branch rsp)),
                    (''duration_ms'', jint (uint duration_ms)), (''staged_count'', jint (int (length (sp_staged rsp)))),
                    (''unstaged_count'', jint (int (length (sp_unstaged rsp)))),
                    (''untracked_count'', jint (int (length (sp_untracked rsp))))] (pa_db s1)) \<rparr>))))"

definition git_log ::
    "'x json_lib_scheme \<Rightarrow> session_env \<Rightarrow> utc \<Rightarrow> 64 word \<Rightarrow> pod_reply \<Rightarrow> string \<Rightarrow> string option \<Rightarrow> pods_app \<Rightarrow>
     LogEntry list route \<times> pods_app" where
  "git_log J E now duration_ms reply machine_id query_token s =
    (case verify_connect_token (e_sig E) machine_id query_token (pa_db s) of
       Err e \<Rightarrow> (Err e, s)
     | Panic \<Rightarrow> (Panic, s)
     | Ok tenant_id \<Rightarrow>
        (case exec_in_pod machine_id ''git log --oneline -10'' reply s of
           (Err e, s1) \<Rightarrow> (Err e, s1)
         | (Panic, s1) \<Rightarrow> (Panic, s1)
         | (Ok (exit_code, out, err), s1) \<Rightarrow>
            if exit_code \<noteq> 0 then (Err (502, Msg (''git log failed (exit '' @ show_int exit_code @ ''): '' @ err @ out)), s1)
            else let commits = parse_log_oneline out in
              (Ok commits, s1 \<lparr> pa_db := snd (write_audit_and_get_seq J E now tenant_id machine_id ''git_log''
                 [(''commits_count'', jint (int (length commits))), (''duration_ms'', jint (uint duration_ms))] (pa_db s1)) \<rparr>)))"

section \<open>The scripts are what the requests say\<close>

lemma sh_lex_words:
  "list_all (\<lambda>w. w \<noteq> [] \<and> list_all sh_plain w) ws \<Longrightarrow>
   sh_lex False None (concat (map (\<lambda>w. w @ '' '') ws) @ rest) = map_option ((@) (map Word ws)) (sh_lex False None rest)"
proof (induction ws)
  case Nil
  then show ?case by (simp add: option.map_ident)
next
  case (Cons w ws)
  have w: "list_all sh_plain w" "w \<noteq> []" using Cons.prems by auto
  have "sh_lex False None (concat (map (\<lambda>w. w @ '' '') (w # ws)) @ rest) =
      sh_lex False None (w @ (CHR '' '' # concat (map (\<lambda>w. w @ '' '') ws) @ rest))" by simp
  also have "\<dots> = map_option ((@) [Word w]) (sh_lex False None (concat (map (\<lambda>w. w @ '' '') ws) @ rest))"
    by (simp only: sh_lex_plain [OF w] sh_word_Some append_Nil sh_lex_blank sh_flush_simps)
  finally show ?case using Cons by (simp add: option.map_comp comp_def)
qed

lemma sh_lex_literals:
  "sh_lex False None (''git clone '' @ rest) = map_option ((@) [Word ''git'', Word ''clone'']) (sh_lex False None rest)"
  "sh_lex False None (''git checkout '' @ rest) = map_option ((@) [Word ''git'', Word ''checkout'']) (sh_lex False None rest)"
  "sh_lex False None (''git checkout -b '' @ rest) =
     map_option ((@) [Word ''git'', Word ''checkout'', Word ''-b'']) (sh_lex False None rest)"
  "sh_lex False None (''git add '' @ rest) = map_option ((@) [Word ''git'', Word ''add'']) (sh_lex False None rest)"
  "sh_lex False None (''git push '' @ rest) = map_option ((@) [Word ''git'', Word ''push'']) (sh_lex False None rest)"
  "sh_lex False None (''git commit -m '' @ rest) =
     map_option ((@) [Word ''git'', Word ''commit'', Word ''-m'']) (sh_lex False None rest)"
  using sh_lex_words [of "[''git'', ''clone'']" rest] sh_lex_words [of "[''git'', ''checkout'']" rest]
    sh_lex_words [of "[''git'', ''checkout'', ''-b'']" rest] sh_lex_words [of "[''git'', ''add'']" rest]
    sh_lex_words [of "[''git'', ''push'']" rest] sh_lex_words [of "[''git'', ''commit'', ''-m'']" rest]
  by (simp_all add: sh_plain_def ascii_alnum_def ascii_lower_def ascii_upper_def ascii_digit_def)

lemma sh_lex_and_None: "sh_lex False None ('' && '' @ rest) = map_option ((@) [AndAnd]) (sh_lex False None rest)"
  by (cases "sh_lex False None rest")
    (simp_all add: sh_plain_def ascii_alnum_def ascii_upper_def ascii_lower_def ascii_digit_def)

definition cd_tokens :: "string option \<Rightarrow> sh_token list" where
  "cd_tokens path = (case path of Some p \<Rightarrow> [Word ''cd'', Word p, AndAnd] | None \<Rightarrow> [])"

lemma sh_lex_cd_text: "sh_lex False None (cd_text path @ rest) = map_option ((@) (cd_tokens path)) (sh_lex False None rest)"
proof (cases path)
  case (Some p)
  have "sh_lex False None (''cd '' @ shell_quote p @ '' && '' @ rest) =
      map_option ((@) [Word ''cd'', Word p, AndAnd]) (sh_lex False None rest)"
    by (simp only: sh_lex_cd sh_lex_quote sh_lex_and sh_word_Some append_Nil) (cases "sh_lex False None rest"; simp)
  then show ?thesis unfolding cd_text_def cd_tokens_def Some option.case append_assoc .
qed (cases "sh_lex False None rest"; simp add: cd_text_def cd_tokens_def)

lemma sh_lex_files:
  "sh_lex False None (concat (map (\<lambda>f. shell_quote f @ '' '') fs) @ rest) = map_option ((@) (map Word fs)) (sh_lex False None rest)"
proof (induction fs)
  case (Cons f fs)
  have "concat (map (\<lambda>f. shell_quote f @ '' '') (f # fs)) @ rest =
      shell_quote f @ (CHR '' '' # concat (map (\<lambda>f. shell_quote f @ '' '') fs) @ rest)" by simp
  then show ?case
    using Cons by (simp only: sh_lex_quote sh_lex_blank sh_word_Some append_Nil sh_flush_simps) (simp add: option.map_comp comp_def)
qed (simp add: option.map_ident)

lemma sh_lex_blank_append: "sh_lex False cur ('' '' @ rest) = map_option ((@) (sh_flush cur)) (sh_lex False None rest)"
  by simp

lemma sh_lex_opt_quoted:
  "sh_lex False (Some w) (case x of Some p \<Rightarrow> '' '' @ shell_quote p | None \<Rightarrow> []) =
     Some (Word w # (case x of Some p \<Rightarrow> [Word p] | None \<Rightarrow> []))"
  by (cases x) (simp_all only: option.case append.simps sh_lex_blank sh_lex_quote_end sh_word_Some, simp_all)

lemma clone_tokens:
  "sh_tokens (clone_script token req) = Some ([Word ''git'', Word ''clone'', Word (clone_url token (strip_scheme (cl_repo req)))] @
     (case cl_path req of Some p \<Rightarrow> [Word p] | None \<Rightarrow> []) @
     (case cl_branch req of
        Some b \<Rightarrow> [AndAnd, Word ''cd'', Word (clone_dir req), AndAnd, Word ''git'', Word ''checkout'', Word b] | None \<Rightarrow> []))"
proof -
  let ?u = "clone_url token (strip_scheme (cl_repo req))"
  let ?b = "case cl_branch req of
       Some b \<Rightarrow> '' && cd '' @ shell_quote (clone_dir req) @ '' && git checkout '' @ shell_quote b
     | None \<Rightarrow> []"
  let ?bt = "case cl_branch req of
        Some b \<Rightarrow> [AndAnd, Word ''cd'', Word (clone_dir req), AndAnd, Word ''git'', Word ''checkout'', Word b] | None \<Rightarrow> []"
  have b: "sh_lex False (Some w) ?b = Some (Word w # ?bt)" for w
  proof (cases "cl_branch req")
    case (Some b)
    have split: "'' && cd '' = '' && '' @ ''cd ''" "'' && git checkout '' = '' && '' @ ''git checkout ''" by simp_all
    have "sh_lex False (Some w) ('' && '' @ ''cd '' @ shell_quote (clone_dir req) @ '' && '' @ ''git checkout '' @ shell_quote b) =
        Some (Word w # ?bt)"
      by (simp only: sh_lex_and sh_lex_cd sh_lex_quote sh_lex_quote_end sh_lex_literals sh_word_Some append_Nil)
        (simp add: Some)
    then show ?thesis unfolding Some option.case split append_assoc .
  qed simp
  show ?thesis
  proof (cases "cl_path req")
    case None
    then show ?thesis
      by (simp only: sh_tokens_def clone_script_def sh_lex_literals sh_lex_quote sh_word_Some append_Nil option.case b) simp
  next
    case (Some p)
    then show ?thesis
      by (simp only: sh_tokens_def clone_script_def sh_lex_literals sh_lex_quote sh_word_Some append_Nil option.case
          append_assoc sh_lex_blank_append sh_flush_simps b) simp
  qed
qed

lemma branch_tokens:
  "sh_tokens (branch_script req) = Some (cd_tokens (br_path req) @ [Word ''git'', Word ''checkout'', Word ''-b'', Word (br_name req)] @
     (case br_from req of Some f \<Rightarrow> [Word f] | None \<Rightarrow> []))"
  by (simp only: sh_tokens_def branch_script_def sh_lex_cd_text sh_lex_literals sh_lex_quote sh_word_Some append_Nil
      sh_lex_opt_quoted) simp

lemma push_tokens:
  "sh_tokens (push_script remote branch path) = Some (cd_tokens path @ [Word ''git'', Word ''push'', Word remote, Word branch])"
  by (simp only: sh_tokens_def push_script_def sh_lex_cd_text sh_lex_literals sh_lex_quote append_assoc sh_lex_blank_append
      sh_lex_quote_end sh_word_Some append_Nil sh_flush_simps) simp

lemma commit_tokens:
  "sh_tokens (commit_script req) = Some (cd_tokens (co_path req) @ [Word ''git'', Word ''add''] @
     (if files_specified req then map Word (case co_files req of Some fs \<Rightarrow> fs | None \<Rightarrow> []) else [Word ''-A'']) @
     [AndAnd, Word ''git'', Word ''commit'', Word ''-m'', Word (co_message req)])"
proof -
  have a: "sh_lex False None (''-A'' @ rest) = sh_lex False (Some ''-A'') rest" for rest
    using sh_lex_plain [of "''-A''" None rest] by (simp add: sh_plain_def ascii_alnum_def ascii_upper_def)
  have s: "'' && git commit -m '' = '' && '' @ ''git commit -m ''" by simp
  show ?thesis
  proof (cases "files_specified req")
    case True
    then show ?thesis unfolding sh_tokens_def commit_script_def s append_assoc
      by (simp only: if_True sh_lex_cd_text sh_lex_literals sh_lex_files sh_lex_and_None sh_lex_quote_end sh_word_Some append_Nil) simp
  next
    case False
    then show ?thesis unfolding sh_tokens_def commit_script_def s append_assoc
      by (simp only: if_False sh_lex_cd_text sh_lex_literals a sh_lex_and sh_lex_quote_end sh_word_Some append_Nil) simp
  qed
qed

text \<open>C20. The scripts of the git endpoints are read by the shell as the intended commands, each text of the request
  being one argument, whatever characters it contains (an argument that starts with a dash is still an
  option for git).\<close>
theorem git_script_tokens:
  "sh_tokens (clone_script token creq) = Some ([Word ''git'', Word ''clone'', Word (clone_url token (strip_scheme (cl_repo creq)))] @
     (case cl_path creq of Some p \<Rightarrow> [Word p] | None \<Rightarrow> []) @
     (case cl_branch creq of
        Some b \<Rightarrow> [AndAnd, Word ''cd'', Word (clone_dir creq), AndAnd, Word ''git'', Word ''checkout'', Word b] | None \<Rightarrow> [])) \<and>
   sh_tokens (branch_script breq) = Some (cd_tokens (br_path breq) @
     [Word ''git'', Word ''checkout'', Word ''-b'', Word (br_name breq)] @ (case br_from breq of Some f \<Rightarrow> [Word f] | None \<Rightarrow> [])) \<and>
   sh_tokens (commit_script req) = Some (cd_tokens (co_path req) @ [Word ''git'', Word ''add''] @
     (if files_specified req then map Word (case co_files req of Some fs \<Rightarrow> fs | None \<Rightarrow> []) else [Word ''-A'']) @
     [AndAnd, Word ''git'', Word ''commit'', Word ''-m'', Word (co_message req)]) \<and>
   sh_tokens (push_script remote branch path) = Some (cd_tokens path @ [Word ''git'', Word ''push'', Word remote, Word branch])"
  using clone_tokens branch_tokens commit_tokens push_tokens by blast

section \<open>git status\<close>

lemma text_lines_single:
  assumes "CHR 0x0A \<notin> set l" "l \<noteq> []"
  shows "text_lines l = [l]"
  using assms by (simp add: text_lines_def split_on_single)

text \<open>\<open>git status --porcelain=v2\<close> marks the unchanged side of an entry with a dot. The parser takes only a
  blank for unchanged, so a file that is modified in the work tree and not staged is reported as staged, with
  the status \<open>.\<close>, as well as unstaged.\<close>
lemma unstaged_change_reported_staged:
  assumes "list_all graphic path" "path \<noteq> []" "graphic y"
  shows "\<exists>r. parse_status_v2 (''1 .'' @ y # '' N... 100644 100644 100644 0a 0a '' @ path) = Ok r \<and>
    sp_staged r = [\<lparr> fc_path = path, fc_status = ''.'' \<rparr>] \<and> sp_unstaged r = [\<lparr> fc_path = path, fc_status = [y] \<rparr>]"
proof -
  let ?l = "''1 .'' @ y # '' N... 100644 100644 100644 0a 0a '' @ path"
  have g: "c \<noteq> CHR 0x0A \<and> c \<noteq> CHR '' '' \<and> c \<noteq> CHR 0x09 \<and> \<not> cont_char c \<and> (of_char c :: nat) < 128" if "graphic c" for c
    using that by (auto simp: graphic_def cont_char_def less_eq_char_def)
  have p: "CHR 0x0A \<notin> set path" "CHR '' '' \<notin> set path" "CHR 0x09 \<notin> set path"
    using assms(1) g by (auto simp: list_all_iff)
  have lines: "text_lines ?l = [?l]" using p g [OF assms(3)] by (intro text_lines_single) auto
  have sl: "str_slice 2 4 ?l = Ok [CHR ''.'', y]"
    using g [OF assms(3)] by (simp add: str_slice_def char_boundary_def cont_char_def numeral_2_eq_2)
  have y: "y \<noteq> CHR '' ''" "latin1 y = [y]" using g [OF assms(3)] by (simp_all add: latin1_def)
  have sp: "split_on (CHR '' '') (a @ CHR '' '' # b) = split_on (CHR '' '') a @ split_on (CHR '' '') b" for a b
    by (induction a) (auto split: list.split)
  have "?l = (''1 .'' @ y # '' N... 100644 100644 100644 0a 0a'') @ CHR '' '' # path" by simp
  then have tok: "last (split_on (CHR '' '') ?l) = path"
    using split_on_single [OF p(2)] by (simp only: sp) simp
  have so: "split_once [CHR 0x09] path = None"
  proof -
    have "\<not> contains path [CHR 0x09]"
    proof
      assume "contains path [CHR 0x09]"
      then obtain u v where "path = u @ [CHR 0x09] @ v" unfolding contains_iff by blast
      then show False using p(3) by simp
    qed
    then show ?thesis using split_once_None by blast
  qed
  have ce: "change_entry ?l r = Ok (r \<lparr> sp_staged := sp_staged r @ [\<lparr> fc_path = path, fc_status = ''.'' \<rparr>],
      sp_unstaged := sp_unstaged r @ [\<lparr> fc_path = path, fc_status = [y] \<rparr>] \<rparr>)" for r
  proof -
    have "latin1 (CHR ''.'') = ''.''" by (simp add: latin1_def)
    then show ?thesis unfolding change_entry_def sl bind_res.simps tok so Let_def using assms(2) y by simp
  qed
  have sle: "status_line ?l r = change_entry ?l r" for r
    by (simp add: status_line_def strip_prefix_def starts_with_iff)
  show ?thesis by (simp only: parse_status_v2_def lines status_lines.simps sle ce bind_res.simps) simp
qed

lemma unstaged_change_reported_staged_witness:
  "\<exists>r. parse_status_v2 ''1 .M N... 100644 100644 100644 0a 0a src/main.rs'' = Ok r \<and>
     sp_staged r = [\<lparr> fc_path = ''src/main.rs'', fc_status = ''.'' \<rparr>]"
proof -
  have "list_all graphic ''src/main.rs''" "graphic (CHR ''M'')" by code_simp+
  from unstaged_change_reported_staged [OF this(1) _ this(2)] show ?thesis by auto
qed

text \<open>The two letters are cut out of an entry by byte positions: when the third byte of a line that starts with
  1, 2 or u continues a character, the slice panics, and with it the gateway. The line comes from the pod.\<close>
lemma status_line_aborts:
  assumes "verify_connect_token (e_sig E) machine_id tok (pa_db s) = Ok tenant_id"
    and "valid_utf8 (as_bytes line)" "4 \<le> length line" "hd line \<in> set ''12u''" "cont_char (line ! 2)" "CHR 0x0A \<notin> set line"
  shows "fst (git_status J E now ms (Finished None (as_bytes line) []) machine_id tok s) = Panic"
proof -
  have l: "line = hd line # tl line" using assms(3) by (cases line) auto
  have lines: "text_lines line = [line]" using assms(3,6) by (intro text_lines_single) auto
  have c1: "line ! 1 \<noteq> CHR '' ''"
  proof
    assume s: "line ! 1 = CHR '' ''"
    obtain a b c r where abc: "line = a # b # c # r"
      using assms(3) by (cases line; cases "tl line"; cases "tl (tl line)") auto
    have a: "byte_of_char a < 0x80" using assms(4) abc by (auto simp: byte_of_char_def)
    have b: "byte_of_char b = 0x20" using s abc by (simp add: byte_of_char_def)
    have v: "valid_utf8 (byte_of_char c # as_bytes r)"
      using assms(2) a b abc by (simp add: as_bytes_def)
    have cc: "cont_char c" using assms(5) abc by (simp add: numeral_2_eq_2)
    have "(of_char c :: nat) < 256" using nat_of_char_less_256 by simp
    then have "unat (byte_of_char c) = of_char c" by (simp add: byte_of_char_def unat_byte_of_nat)
    then have "0x80 \<le> byte_of_char c" "byte_of_char c \<le> 0xBF"
      using cc by (simp_all add: cont_char_def word_le_nat_alt)
    then show False using v by (auto simp: word_less_nat_alt word_le_nat_alt split: if_splits)
  qed
  have np: "strip_prefix (h # CHR '' '' # p) line = None" for h p
  proof -
    have "\<not> starts_with line (h # CHR '' '' # p)"
      using c1 by (auto simp: starts_with_iff)
    then show ?thesis using strip_prefix_None by blast
  qed
  have hd: "\<not> starts_with line ''#''" using assms(4) l by (auto simp: starts_with_iff)
  have ex: "\<not> starts_with line ''! ''" using c1 by (auto simp: starts_with_iff)
  have ce: "change_entry line r = Panic" for r
    using assms(3,5) by (auto simp: change_entry_def str_slice_def char_boundary_def)
  have sl: "status_line line r = Panic" for r
    using assms(3,4) hd ex by (auto simp: status_line_def np ce)
  have pp: "parse_status_v2 line = Panic" by (simp add: parse_status_v2_def lines sl)
  have rp: "read_pipe (as_bytes line) = line" using from_utf8_as_bytes [OF assms(2)] by (simp add: read_pipe_def)
  show ?thesis using assms(1) by (simp add: git_status_def exec_in_pod_def pod_result_def pp rp)
qed

lemma status_line_aborts_witness:
  "fst (git_status demo_wf_lib demo_env demo_time 9
     (Finished None (as_bytes (CHR ''1'' # CHR 0xC3 # CHR 0xA9 # ''x'')) []) ''wf-01'' (Some ''x'') demo_pods) = Panic"
proof (rule status_line_aborts)
  show "verify_connect_token (e_sig demo_env) ''wf-01'' (Some ''x'') (pa_db demo_pods) = Ok ''unknown''" by code_simp
  show "valid_utf8 (as_bytes (CHR ''1'' # CHR 0xC3 # CHR 0xA9 # ''x''))" by code_simp
  show "cont_char ((CHR ''1'' # CHR 0xC3 # CHR 0xA9 # ''x'') ! 2)" by code_simp
qed simp_all

section \<open>Remotes\<close>

lemma split_once_char: "c \<notin> set a \<Longrightarrow> split_once [c] (a @ c # b) = Some (a, b)"
  using split_once_append [of a "[c]" b]
  by (auto simp: starts_with_iff) (metis append_is_Nil_conv drop_eq_Nil hd_append2 hd_drop_conv_nth in_set_conv_nth leD list.sel(1))

lemma ends_with_short_tail:
  assumes "ends_with (a @ c # b) p" "c \<notin> set p"
  shows "ends_with b p"
proof -
  obtain r where r: "a @ c # b = r @ p" using assms(1) by (auto simp: ends_with_iff)
  then show ?thesis using assms(2)
    by (auto simp: append_eq_append_conv2 append_eq_Cons_conv Cons_eq_append_conv ends_with_iff)
qed

lemma trim_end_git_strip:
  assumes "\<not> ends_with repo ''.git''"
  shows "trim_end_git (owner @ CHR ''/'' # repo @ ''.git'') = owner @ CHR ''/'' # repo"
proof -
  let ?p = "owner @ CHR ''/'' # repo"
  have n: "\<not> ends_with ?p ''.git''" using ends_with_short_tail [of owner "CHR ''/''" repo "''.git''"] assms by auto
  have "ends_with (?p @ ''.git'') ''.git''" unfolding ends_with_iff by blast
  moreover have "take (length (?p @ ''.git'') - 4) (?p @ ''.git'') = ?p" by simp
  ultimately have "trim_end_git (?p @ ''.git'') = trim_end_git ?p"
    using trim_end_git.simps [of "?p @ ''.git''"] by simp
  then show ?thesis using n trim_end_git.simps [of ?p] by simp
qed

lemma graphic_trim: "list_all graphic s \<Longrightarrow> trim s = s"
  by (rule trim_graphic) (auto simp: list_all_iff graphic_not_cont)

lemma split_owner_repo_path:
  assumes "list_all graphic (owner @ repo)" "CHR ''/'' \<notin> set owner" "owner \<noteq> []" "repo \<noteq> []" "\<not> ends_with repo ''.git''"
  shows "split_owner_repo (owner @ CHR ''/'' # repo @ ''.git'') = Some (owner, repo)"
  using assms by (simp add: split_owner_repo_def trim_end_git_strip split_once_char graphic_trim)



end
