(* ===== verification/Pty.thy ===== *)
theory Pty
  imports Pods Streams
begin

text \<open>
  The terminal proxy and the live audit stream (src/gateway/src/routes/pty.rs), with the destructive patterns of
  src/gateway/src/sessions/scopes.rs and the scanner of src/gateway/src/anomaly/mod.rs. One session is a state
  machine: an event is a frame of the agent, a poll of the quorum loop, output of the pod, an injected text, or
  what the rest of the gateway does to the shared state. While the quorum loop polls, only polls happen.
\<close>

section \<open>Scopes\<close>

record Scope =
  sc_name :: string
  sc_shell :: string
  sc_patterns :: "string list"
  sc_require_credentials :: "32 word"
  sc_ttl_secs :: "64 word"

definition default_scopes :: "Scope list" where
  "default_scopes =
    [\<lparr> sc_name = ''default'', sc_shell = ''full PTY'', sc_patterns = [], sc_require_credentials = 1, sc_ttl_secs = 14400 \<rparr>,
     \<lparr> sc_name = ''extended'', sc_shell = ''full PTY'', sc_patterns = [], sc_require_credentials = 1, sc_ttl_secs = 28800 \<rparr>,
     \<lparr> sc_name = ''destructive'', sc_shell = ''full PTY'',
       sc_patterns = [''rm -rf'', ''git push --force'', ''DROP TABLE'', ''sudo rm''],
       sc_require_credentials = 2, sc_ttl_secs = 1800 \<rparr>]"

definition matches_deceptive_pattern :: "Scope list \<Rightarrow> string \<Rightarrow> Scope option" where
  "matches_deceptive_pattern config cmd =
     List.find (\<lambda>s. sc_name s = ''destructive'' \<and> list_ex (contains cmd) (sc_patterns s)) config"

section \<open>Anomalies\<close>

text \<open>The argument \<open>rx\<close> is \<open>Regex::is_match\<close>.\<close>

record AnomalyPattern =
  an_regex :: string
  an_message :: string
  an_push :: bool

definition default_patterns :: "AnomalyPattern list" where
  "default_patterns =
    [\<lparr> an_regex = ''curl|wget|scp'', an_message = ''agent exfiltrating to external host'', an_push = True \<rparr>,
     \<lparr> an_regex = ''rm -rf'', an_message = ''destructive rm detected (verify path)'', an_push = True \<rparr>,
     \<lparr> an_regex = ''sudo'' @ [CHR 0x5C] @ ''s+'' @ [CHR 0x5C] @ ''S+'',
       an_message = ''privilege escalation attempt (verify command)'', an_push = True \<rparr>,
     \<lparr> an_regex = ''ssh'' @ [CHR 0x5C] @ ''s+'' @ [CHR 0x5C] @ ''S+@'', an_message = ''agent SSHing to external host'', an_push = True \<rparr>]"

definition anomaly_scan :: "(string \<Rightarrow> string \<Rightarrow> bool) \<Rightarrow> AnomalyPattern list \<Rightarrow> string \<Rightarrow> AnomalyPattern list" where
  "anomaly_scan rx patterns cmd = filter (\<lambda>p. rx (an_regex p) cmd) patterns"

section \<open>A terminal session\<close>

datatype ws_msg = WsText string | WsBinary bytes | WsClose | WsOther

text \<open>While a quorum is awaited: whether the frame was binary, the id of the request, the bytes, the polls left.\<close>

datatype pty_phase = Serving | AwaitingQuorum bool string bytes nat | Closed | Aborted

record pty_session =
  py_machine :: string
  py_phase :: pty_phase
  py_db :: db
  py_registry :: "string \<Rightarrow> nat option"
  py_written :: "bytes list"
  py_sent :: "ws_msg list"

text \<open>Frames, polls and output carry the time; a flag tells whether the write to the pod or to the socket succeeds.\<close>

datatype pty_event =
    AgentFrame "ws_msg option" string utc bool
  | QuorumPoll utc bool
  | PodOutput "bytes option" utc bool
  | Reprompt "bytes option" bool
  | World db "string \<Rightarrow> nat option"

definition pty_tenant :: string where "pty_tenant = ''unknown''"

text \<open>\<open>s.get(..n).unwrap_or(s)\<close>\<close>

definition prefix_or_all :: "nat \<Rightarrow> string \<Rightarrow> string" where
  "prefix_or_all n s = (if n \<le> length s \<and> char_boundary s n then take n s else s)"

definition prefix_slice :: "nat \<Rightarrow> string \<Rightarrow> string option" where
  "prefix_slice n s = (if char_boundary s (min (length s) n) then Some (take n s) else None)"

definition handle_pty_ws :: "'a hash_lib_scheme \<Rightarrow> string \<Rightarrow> string option \<Rightarrow> db \<Rightarrow> (unit, nat) res" where
  "handle_pty_ws H machine_id query_token d =
    (case verify_connect_token H machine_id query_token d of Ok _ \<Rightarrow> Ok () | Err (code, _) \<Rightarrow> Err code | Panic \<Rightarrow> Panic)"

definition open_session :: "string \<Rightarrow> nat \<Rightarrow> db \<Rightarrow> (string \<Rightarrow> nat option) \<Rightarrow> pty_session" where
  "open_session machine_id channel d registry =
    \<lparr> py_machine = machine_id, py_phase = Serving, py_db = d, py_registry = registry(machine_id \<mapsto> channel),
      py_written = [], py_sent = [] \<rparr>"

definition close_session :: "pty_session \<Rightarrow> pty_session" where
  "close_session s = s \<lparr> py_phase := Closed, py_registry := (py_registry s)(py_machine s := None) \<rparr>"

definition tell :: "string \<Rightarrow> pty_session \<Rightarrow> pty_session" where
  "tell text s = s \<lparr> py_sent := py_sent s @ [WsText text] \<rparr>"

definition pty_audit ::
    "'x json_lib_scheme \<Rightarrow> session_env \<Rightarrow> utc \<Rightarrow> string \<Rightarrow> (string \<times> json) list \<Rightarrow> pty_session \<Rightarrow> pty_session" where
  "pty_audit J E now event payload s =
     s \<lparr> py_db := snd (audit_json J E now pty_tenant (py_machine s) event payload (py_db s)) \<rparr>"

definition log_cmd_exec :: "'x json_lib_scheme \<Rightarrow> session_env \<Rightarrow> utc \<Rightarrow> bytes \<Rightarrow> pty_session \<Rightarrow> pty_session" where
  "log_cmd_exec J E now raw = pty_audit J E now ''cmd_exec'' [(''cmd'', JText (prefix_or_all 200 (from_utf8_lossy raw)))]"

definition forward :: "'x json_lib_scheme \<Rightarrow> session_env \<Rightarrow> utc \<Rightarrow> bool \<Rightarrow> bytes \<Rightarrow> pty_session \<Rightarrow> pty_session" where
  "forward J E now write_ok data s =
    (if write_ok then log_cmd_exec J E now data (s \<lparr> py_written := py_written s @ [data] \<rparr>) else close_session s)"

definition request_quorum ::
    "'x json_lib_scheme \<Rightarrow> session_env \<Rightarrow> utc \<Rightarrow> string \<Rightarrow> bool \<Rightarrow> Scope \<Rightarrow> bytes \<Rightarrow> pty_session \<Rightarrow> pty_session" where
  "request_quorum J E now ulid binary scope data s =
    (let text = from_utf8_lossy data; quorum_id = ''quorum_'' @ ulid;
         s1 = tell ([CHR 0xE2, CHR 0x9A, CHR 0xA0, CHR 0xEF, CHR 0xB8, CHR 0x8F] @ '' Destructive command detected (scope: '' @
                sc_name scope @ ''). Waiting for quorum approval...'' @ [CHR 0x0A]) s
     in case prefix_slice 200 text of
          None \<Rightarrow> s1 \<lparr> py_phase := Aborted \<rparr>
        | Some cmd \<Rightarrow>
           let s2 = pty_audit J E now ''quorum_requested'' [(''cmd'', JText cmd), (''scope'', JText (sc_name scope))] s1
           in if \<not> db_up (py_db s2)
              then (if binary then tell ([CHR 0xE2, CHR 0x9D, CHR 0x8C] @ '' Internal error.'' @ [CHR 0x0A]) s2 else s2)
              else (case prefix_slice 100 text of
                      None \<Rightarrow> s2 \<lparr> py_phase := Aborted \<rparr>
                    | Some reason \<Rightarrow>
                       s2 \<lparr> py_db := snd (insert_pending (pending_row now quorum_id pty_tenant (Some (py_machine s)) None 60
                              (''quorum: '' @ reason) 0) (py_db s2)),
                            py_phase := AwaitingQuorum binary quorum_id data 120 \<rparr>))"

definition agent_input ::
    "'x json_lib_scheme \<Rightarrow> session_env \<Rightarrow> utc \<Rightarrow> string \<Rightarrow> bool \<Rightarrow> bool \<Rightarrow> bytes \<Rightarrow> pty_session \<Rightarrow> pty_session" where
  "agent_input J E now ulid write_ok binary data s =
    (case matches_deceptive_pattern default_scopes (from_utf8_lossy data) of
       Some scope \<Rightarrow> request_quorum J E now ulid binary scope data s
     | None \<Rightarrow> forward J E now write_ok data s)"

definition agent_frame ::
    "'x json_lib_scheme \<Rightarrow> session_env \<Rightarrow> utc \<Rightarrow> string \<Rightarrow> bool \<Rightarrow> ws_msg option \<Rightarrow> pty_session \<Rightarrow> pty_session" where
  "agent_frame J E now ulid write_ok msg s =
    (case msg of
       Some (WsBinary data) \<Rightarrow> agent_input J E now ulid write_ok True data s
     | Some (WsText text) \<Rightarrow> agent_input J E now ulid write_ok False (as_bytes text) s
     | Some WsClose \<Rightarrow> close_session s
     | None \<Rightarrow> close_session s
     | Some WsOther \<Rightarrow> s)"

definition quorum_refused :: "'x json_lib_scheme \<Rightarrow> session_env \<Rightarrow> utc \<Rightarrow> bool \<Rightarrow> bytes \<Rightarrow> pty_session \<Rightarrow> pty_session" where
  "quorum_refused J E now binary data s =
    (if binary
     then pty_audit J E now ''quorum_denied'' [(''cmd'', JText (take 200 (from_utf8_lossy data)))]
       (tell ([CHR 0xE2, CHR 0x9D, CHR 0x8C] @ '' Command denied by quorum (timeout or rejection).'' @ [CHR 0x0A]) s)
     else tell ([CHR 0xE2, CHR 0x9D, CHR 0x8C] @ '' Command denied by quorum.'' @ [CHR 0x0A]) s)"

definition quorum_status :: "string \<Rightarrow> db \<Rightarrow> string option" where
  "quorum_status quorum_id d = map_option ps_status (query_row (\<lambda>r. ps_id r = quorum_id) (pending_sessions d))"

definition quorum_poll ::
    "'x json_lib_scheme \<Rightarrow> session_env \<Rightarrow> utc \<Rightarrow> bool \<Rightarrow> bool \<Rightarrow> string \<Rightarrow> bytes \<Rightarrow> nat \<Rightarrow> pty_session \<Rightarrow> pty_session" where
  "quorum_poll J E now write_ok binary quorum_id data left s =
    (let status = quorum_status quorum_id (py_db s) in
     if status = Some ''approved''
     then forward J E now write_ok data
       (tell ([CHR 0xE2, CHR 0x9C, CHR 0x85] @ '' Quorum approved. Executing...'' @ [CHR 0x0A]) (s \<lparr> py_phase := Serving \<rparr>))
     else if status = Some ''denied'' \<or> left \<le> 1
     then quorum_refused J E now binary data (s \<lparr> py_phase := Serving \<rparr>)
     else s \<lparr> py_phase := AwaitingQuorum binary quorum_id data (left - 1) \<rparr>)"

definition pod_output ::
    "(string \<Rightarrow> string \<Rightarrow> bool) \<Rightarrow> 'x json_lib_scheme \<Rightarrow> session_env \<Rightarrow> utc \<Rightarrow> bool \<Rightarrow> bytes option \<Rightarrow> pty_session \<Rightarrow> pty_session" where
  "pod_output rx J E now send_ok out s =
    (case out of
       None \<Rightarrow> close_session s
     | Some data \<Rightarrow>
        let text = from_utf8_lossy data;
            s1 = fold (\<lambda>p. pty_audit J E now ''anomaly_detected''
                   [(''output_snippet'', JText (prefix_or_all 200 text)), (''pattern'', JText (an_message p))]) (anomaly_scan rx default_patterns text) s
        in if send_ok then s1 \<lparr> py_sent := py_sent s1 @ [WsBinary data] \<rparr> else close_session s1)"

definition reprompt :: "bool \<Rightarrow> bytes option \<Rightarrow> pty_session \<Rightarrow> pty_session" where
  "reprompt write_ok msg s =
    (case msg of
       None \<Rightarrow> s
     | Some data \<Rightarrow> if write_ok then s \<lparr> py_written := py_written s @ [data] \<rparr> else close_session s)"

definition pty_step ::
    "(string \<Rightarrow> string \<Rightarrow> bool) \<Rightarrow> 'x json_lib_scheme \<Rightarrow> session_env \<Rightarrow> pty_event \<Rightarrow> pty_session \<Rightarrow> pty_session option" where
  "pty_step rx J E ev s =
    (case ev of
       World d registry \<Rightarrow> Some (s \<lparr> py_db := d, py_registry := registry \<rparr>)
     | QuorumPoll now write_ok \<Rightarrow>
        (case py_phase s of
           AwaitingQuorum binary quorum_id data left \<Rightarrow> Some (quorum_poll J E now write_ok binary quorum_id data left s)
         | _ \<Rightarrow> None)
     | AgentFrame msg ulid now write_ok \<Rightarrow>
        if py_phase s = Serving then Some (agent_frame J E now ulid write_ok msg s) else None
     | PodOutput out now send_ok \<Rightarrow> if py_phase s = Serving then Some (pod_output rx J E now send_ok out s) else None
     | Reprompt msg write_ok \<Rightarrow> if py_phase s = Serving then Some (reprompt write_ok msg s) else None)"

primrec pty_run ::
    "(string \<Rightarrow> string \<Rightarrow> bool) \<Rightarrow> 'x json_lib_scheme \<Rightarrow> session_env \<Rightarrow> pty_event list \<Rightarrow> pty_session \<Rightarrow> pty_session option" where
  "pty_run rx J E [] s = Some s"
| "pty_run rx J E (ev # evs) s = Option.bind (pty_step rx J E ev s) (pty_run rx J E evs)"

section \<open>The live audit stream\<close>

text \<open>An entry is sent as the JSON object of these members.\<close>

datatype stream_msg = EntryMsg int string string json | HeartbeatMsg

definition entry_msg :: "'x json_lib_scheme \<Rightarrow> audit_row \<Rightarrow> stream_msg" where
  "entry_msg J r = EntryMsg (au_seq r) (au_ts r) (au_event r)
     (case au_payload r of None \<Rightarrow> JNull | Some t \<Rightarrow> (case json_parse J t of Some v \<Rightarrow> v | None \<Rightarrow> JText t))"

definition fetch_entries :: "string \<Rightarrow> int \<Rightarrow> db \<Rightarrow> audit_row list option" where
  "fetch_entries machine_id min_seq d =
    (if db_up d
     then Some (sort_key au_seq (filter (\<lambda>r. au_machine_id r = Some machine_id \<and> au_seq r > min_seq) (audit_entries d)))
     else None)"

text \<open>The stream: the newest number sent, what was sent, and how many messages the socket still takes (None when
  the stream has ended).\<close>

record audit_stream =
  as_last :: int
  as_sent :: "stream_msg list"
  as_room :: "nat option"

fun send_entries :: "'x json_lib_scheme \<Rightarrow> audit_row list \<Rightarrow> audit_stream \<Rightarrow> audit_stream" where
  "send_entries J [] s = s"
| "send_entries J (r # rs) s =
    (case as_room s of
       None \<Rightarrow> s
     | Some 0 \<Rightarrow> s \<lparr> as_last := max (au_seq r) (as_last s), as_room := None \<rparr>
     | Some (Suc k) \<Rightarrow> send_entries J rs
         (s \<lparr> as_last := max (au_seq r) (as_last s), as_sent := as_sent s @ [entry_msg J r], as_room := Some k \<rparr>))"

datatype stream_event = ClientGone | StreamPoll db | StreamBeat

definition stream_poll :: "'x json_lib_scheme \<Rightarrow> string \<Rightarrow> db \<Rightarrow> audit_stream \<Rightarrow> audit_stream" where
  "stream_poll J machine_id d s =
    (case fetch_entries machine_id (as_last s) d of Some rs \<Rightarrow> send_entries J rs s | None \<Rightarrow> s)"

definition stream_event_step :: "'x json_lib_scheme \<Rightarrow> string \<Rightarrow> stream_event \<Rightarrow> audit_stream \<Rightarrow> audit_stream" where
  "stream_event_step J machine_id ev s =
    (case as_room s of
       None \<Rightarrow> s
     | Some k \<Rightarrow>
        (case ev of
           ClientGone \<Rightarrow> s \<lparr> as_room := None \<rparr>
         | StreamPoll d \<Rightarrow> stream_poll J machine_id d s
         | StreamBeat \<Rightarrow> if k = 0 then s \<lparr> as_room := None \<rparr>
             else s \<lparr> as_sent := as_sent s @ [HeartbeatMsg], as_room := Some (k - 1) \<rparr>))"

text \<open>The backlog is fetched before the loop.\<close>

definition audit_stream_run :: "'x json_lib_scheme \<Rightarrow> string \<Rightarrow> nat \<Rightarrow> db \<Rightarrow> stream_event list \<Rightarrow> audit_stream" where
  "audit_stream_run J machine_id room d evs =
     fold (stream_event_step J machine_id) evs
       (stream_poll J machine_id d \<lparr> as_last = 0, as_sent = [], as_room = Some room \<rparr>)"

section \<open>What a step writes\<close>

definition destructive :: "bytes \<Rightarrow> bool" where
  "destructive data \<longleftrightarrow> matches_deceptive_pattern default_scopes (from_utf8_lossy data) \<noteq> None"

lemma pty_audit_fields [simp]:
  "py_written (pty_audit J E now ev pl s) = py_written s" "py_phase (pty_audit J E now ev pl s) = py_phase s"
  "py_machine (pty_audit J E now ev pl s) = py_machine s" "py_sent (pty_audit J E now ev pl s) = py_sent s"
  "py_registry (pty_audit J E now ev pl s) = py_registry s"
  by (simp_all add: pty_audit_def)

lemma tell_fields [simp]:
  "py_written (tell t s) = py_written s" "py_phase (tell t s) = py_phase s" "py_db (tell t s) = py_db s"
  "py_machine (tell t s) = py_machine s"
  by (simp_all add: tell_def)

lemma close_session_fields [simp]:
  "py_written (close_session s) = py_written s" "py_phase (close_session s) = Closed" "py_db (close_session s) = py_db s"
  by (simp_all add: close_session_def)

lemma fold_pty_audit [simp]:
  "py_written (fold (\<lambda>p. pty_audit J E now ev (pl p)) ps s) = py_written s"
  "py_phase (fold (\<lambda>p. pty_audit J E now ev (pl p)) ps s) = py_phase s"
  by (induction ps arbitrary: s) simp_all

lemma request_quorum_written [simp]: "py_written (request_quorum J E now u b sc data s) = py_written s"
  by (simp add: request_quorum_def Let_def split: option.split)

lemma quorum_refused_fields [simp]:
  "py_written (quorum_refused J E now b data s) = py_written s" "py_phase (quorum_refused J E now b data s) = py_phase s"
  by (simp_all add: quorum_refused_def)

lemma forward_written:
  "py_written (forward J E now ok data s) = py_written s @ (if ok then [data] else [])"
  by (simp add: forward_def log_cmd_exec_def)

lemma forward_phase: "py_phase (forward J E now ok data s) = (if ok then py_phase s else Closed)"
  by (simp add: forward_def log_cmd_exec_def)

lemma agent_input_written:
  "py_written (agent_input J E now u ok b data s) = py_written s @ (if ok \<and> \<not> destructive data then [data] else [])"
  by (auto simp: agent_input_def destructive_def forward_written split: option.split)

lemma agent_frame_written:
  "py_written (agent_frame J E now u ok msg s) = py_written s \<or>
   (\<exists>data. py_written (agent_frame J E now u ok msg s) = py_written s @ [data] \<and> \<not> destructive data)"
  by (auto simp: agent_frame_def agent_input_written split: option.split ws_msg.split)

lemma pod_output_written [simp]: "py_written (pod_output rx J E now ok out s) = py_written s"
  by (simp add: pod_output_def Let_def split: option.split)

lemma quorum_poll_written:
  "py_written (quorum_poll J E now ok b qid data n s) =
   py_written s @ (if ok \<and> quorum_status qid (py_db s) = Some ''approved'' then [data] else [])"
  by (simp add: quorum_poll_def Let_def forward_written)

section \<open>The shared state of a session without a tenant\<close>

lemma pty_audit_no_tenant:
  "\<not> tenant_exists pty_tenant (py_db s) \<Longrightarrow> py_db (pty_audit J E now ev pl s) = py_db s"
  by (simp add: pty_audit_def audit_json_def entry_def)

lemma fold_pty_audit_no_tenant:
  "\<not> tenant_exists pty_tenant (py_db s) \<Longrightarrow> py_db (fold (\<lambda>p. pty_audit J E now ev (pl p)) ps s) = py_db s"
  by (induction ps arbitrary: s) (simp_all add: pty_audit_no_tenant)

lemma forward_no_tenant:
  "\<not> tenant_exists pty_tenant (py_db s) \<Longrightarrow> py_db (forward J E now ok data s) = py_db s"
  by (simp add: forward_def log_cmd_exec_def pty_audit_no_tenant)

lemma request_quorum_no_tenant:
  "\<not> tenant_exists pty_tenant (py_db s) \<Longrightarrow> py_db (request_quorum J E now u b sc data s) = py_db s"
  by (simp add: request_quorum_def Let_def pty_audit_no_tenant insert_pending_def pending_row_def split: option.split)

lemma pty_step_no_tenant:
  assumes "pty_step rx J E ev s = Some s'" "\<not> tenant_exists pty_tenant (py_db s)" "\<And>d r. ev \<noteq> World d r"
  shows "py_db s' = py_db s"
  using assms
  by (auto simp: pty_step_def agent_frame_def agent_input_def quorum_poll_def Let_def pod_output_def reprompt_def
      quorum_refused_def pty_audit_no_tenant fold_pty_audit_no_tenant forward_no_tenant request_quorum_no_tenant
      split: pty_event.splits pty_phase.splits if_splits option.splits ws_msg.splits)

text \<open>C22. Bytes reach the pod in three ways: a frame without a destructive pattern, an injected text, or a frame
  that waited for a quorum and whose request is approved at that poll. A destructive frame is never written
  for another reason, whatever the rest of the gateway does in between.\<close>
theorem destructive_needs_quorum:
  assumes "pty_step rx J E ev s = Some s'"
  shows "py_written s' = py_written s \<or>
    (\<exists>data. py_written s' = py_written s @ [data] \<and>
      (destructive data \<longrightarrow> (\<exists>ok. ev = Reprompt (Some data) ok) \<or>
        (\<exists>now ok binary quorum_id left. ev = QuorumPoll now ok \<and> py_phase s = AwaitingQuorum binary quorum_id data left \<and>
           quorum_status quorum_id (py_db s) = Some ''approved'')))"
proof (cases ev)
  case (AgentFrame msg u now ok)
  then have "s' = agent_frame J E now u ok msg s" using assms by (simp add: pty_step_def split: if_splits)
  then show ?thesis using agent_frame_written [of J E now u ok msg s] by blast
next
  case (QuorumPoll now ok)
  then obtain b q data n where "py_phase s = AwaitingQuorum b q data n" "s' = quorum_poll J E now ok b q data n s"
    using assms by (auto simp: pty_step_def split: pty_phase.splits)
  then show ?thesis using QuorumPoll by (auto simp: quorum_poll_written)
next
  case (PodOutput out now ok)
  then show ?thesis using assms by (auto simp: pty_step_def split: if_splits)
next
  case (Reprompt msg ok)
  then show ?thesis using assms by (auto simp: pty_step_def reprompt_def split: if_splits option.splits)
next
  case (World d r)
  then show ?thesis using assms by (auto simp: pty_step_def)
qed

theorem destructive_needs_quorum_witness:
  "\<exists>s'. pty_step (\<lambda>_ _. False) demo_wf_lib demo_env (QuorumPoll demo_time True)
      ((open_session ''m1'' 1 (demo_tenant_db) (\<lambda>_. None)) \<lparr> py_phase := AwaitingQuorum True ''quorum_1'' (as_bytes ''rm -rf /'') 5 \<rparr>) = Some s' \<and>
    py_written s' = []"
proof -
  let ?s = "(open_session ''m1'' 1 demo_tenant_db (\<lambda>_. None)) \<lparr> py_phase := AwaitingQuorum True ''quorum_1'' (as_bytes ''rm -rf /'') 5 \<rparr>"
  let ?t = "quorum_poll demo_wf_lib demo_env demo_time True True ''quorum_1'' (as_bytes ''rm -rf /'') 5 ?s"
  have st: "pty_step (\<lambda>_ _. False) demo_wf_lib demo_env (QuorumPoll demo_time True) ?s = Some ?t"
    by (simp add: pty_step_def)
  have d: "destructive (as_bytes ''rm -rf /'')" by code_simp
  have n: "quorum_status ''quorum_1'' demo_tenant_db = None" by code_simp
  have w: "py_written ?s = []" by (simp add: open_session_def)
  show ?thesis
    using destructive_needs_quorum [OF st] st quorum_poll_written [of demo_wf_lib demo_env demo_time True True "''quorum_1''" "as_bytes ''rm -rf /''" 5 ?s] n w
    by (auto simp: open_session_def)
qed

section \<open>Quorums\<close>

text \<open>Before each poll the rest of the gateway has put the shared state to \<open>d\<close> and \<open>r\<close>.\<close>

definition polls :: "(db \<times> (string \<Rightarrow> nat option) \<times> utc \<times> bool) list \<Rightarrow> pty_event list" where
  "polls ws = concat (map (\<lambda>(d, r, now, ok). [World d r, QuorumPoll now ok]) ws)"

lemma polls_Cons: "polls ((d, r, now, ok) # ws) = World d r # QuorumPoll now ok # polls ws"
  by (simp add: polls_def)

lemma waiting_run:
  assumes "list_all (\<lambda>(d, _). quorum_status quorum_id d = None) ws" "length ws = n" "0 < n"
    and "py_phase s = AwaitingQuorum binary quorum_id data n"
  shows "\<exists>s'. pty_run rx J E (polls ws) s = Some s' \<and> py_phase s' = Serving \<and> py_written s' = py_written s"
  using assms
proof (induction ws arbitrary: n s)
  case (Cons w ws)
  obtain d r now ok where w: "w = (d, r, now, ok)" by (cases w)
  let ?s1 = "s \<lparr> py_db := d, py_registry := r \<rparr>"
  let ?s2 = "quorum_poll J E now ok binary quorum_id data n ?s1"
  have q: "quorum_status quorum_id (py_db ?s1) = None" using Cons.prems(1) w by simp
  have run: "pty_run rx J E (polls (w # ws)) s = pty_run rx J E (polls ws) ?s2"
    using Cons.prems(4) by (simp add: w polls_Cons pty_step_def)
  have written: "py_written ?s2 = py_written s" using q by (simp add: quorum_poll_written)
  show ?case
  proof (cases "ws = []")
    case True
    then have "n = 1" using Cons.prems(2) by simp
    then have "py_phase ?s2 = Serving" using q by (simp add: quorum_poll_def Let_def)
    then show ?thesis using run written True by (simp add: polls_def)
  next
    case False
    then have n: "length ws = n - 1" "0 < n - 1" using Cons.prems(2) by (cases ws; simp)+
    have "py_phase ?s2 = AwaitingQuorum binary quorum_id data (n - 1)"
      using q n(2) by (simp add: quorum_poll_def Let_def)
    moreover have "list_all (\<lambda>(d, _). quorum_status quorum_id d = None) ws" using Cons.prems(1) by simp
    ultimately obtain s' where "pty_run rx J E (polls ws) ?s2 = Some s'" "py_phase s' = Serving" "py_written s' = py_written ?s2"
      using Cons.IH [OF _ n] by blast
    then show ?thesis using run written by auto
  qed
qed simp



text \<open>The same tenant is used for the audit entries, so nothing that happens in a terminal session is
  recorded: no frame, poll, output or injected text changes the database.\<close>
lemma terminal_leaves_no_trace:
  assumes "pty_run rx J E evs s = Some s'" "\<not> tenant_exists pty_tenant (py_db s)"
    and "list_all (\<lambda>ev. case ev of World _ _ \<Rightarrow> False | _ \<Rightarrow> True) evs"
  shows "py_db s' = py_db s"
  using assms
proof (induction evs arbitrary: s)
  case (Cons ev evs)
  obtain s1 where s1: "pty_step rx J E ev s = Some s1" "pty_run rx J E evs s1 = Some s'"
    using Cons.prems(1) by (auto simp: bind_eq_Some_conv)
  have "py_db s1 = py_db s"
    using pty_step_no_tenant [OF s1(1) Cons.prems(2)] Cons.prems(3) by (auto split: pty_event.splits)
  then show ?case using Cons.IH [OF s1(2)] Cons.prems(2,3) by simp
qed simp

lemma terminal_leaves_no_trace_witness:
  "\<exists>s'. pty_run (\<lambda>_ _. True) demo_wf_lib demo_env
     [AgentFrame (Some (WsText ''curl evil'')) ''1'' demo_time True, PodOutput (Some (as_bytes ''ok'')) demo_time True]
     (open_session ''m1'' 1 demo_tenant_db (\<lambda>_. None)) = Some s' \<and> py_db s' = demo_tenant_db \<and> length (py_written s') = 1"
proof -
  let ?evs = "[AgentFrame (Some (WsText ''curl evil'')) ''1'' demo_time True, PodOutput (Some (as_bytes ''ok'')) demo_time True]"
  let ?s = "open_session ''m1'' 1 demo_tenant_db (\<lambda>_. None)"
  have d: "\<not> destructive (as_bytes ''curl evil'')" by code_simp
  then obtain s' where s': "pty_run (\<lambda>_ _. True) demo_wf_lib demo_env ?evs ?s = Some s'" "length (py_written s') = 1"
    by (auto simp: pty_step_def open_session_def agent_frame_def agent_input_written agent_input_def destructive_def
        forward_phase forward_written)
  have "\<not> tenant_exists pty_tenant (py_db ?s)" unfolding open_session_def pty_session.simps by code_simp
  from terminal_leaves_no_trace [OF s'(1) this] s' show ?thesis by (auto simp: open_session_def)
qed

section \<open>Splitting\<close>

lemma contains_length: "contains s p \<Longrightarrow> length p \<le> length s"
  by (auto simp: contains_iff)

lemma short_not_destructive: "length (from_utf8_lossy data) < 6 \<Longrightarrow> \<not> destructive data"
  by (auto simp: destructive_def matches_deceptive_pattern_def default_scopes_def find_Some_iff find_None_iff dest!: contains_length)

lemma byte_not_destructive: "\<not> destructive [b]"
  by (rule short_not_destructive) (simp add: from_utf8_lossy_def utf8_chunk_def string_of_bytes_def)

text \<open>The patterns are looked for in one frame at a time: whatever an agent sends, it reaches the pod at once
  when it is sent byte by byte, destructive commands included.\<close>
lemma splitting_evades_quorum:
  assumes "py_phase s = Serving"
  shows "\<exists>s'. pty_run rx J E (map (\<lambda>b. AgentFrame (Some (WsBinary [b])) ulid now True) data) s = Some s' \<and>
    py_phase s' = Serving \<and> concat (py_written s') = concat (py_written s) @ data"
  using assms
proof (induction data arbitrary: s)
  case (Cons b data)
  let ?s1 = "agent_input J E now ulid True True [b] s"
  have i: "?s1 = forward J E now True [b] s"
    using byte_not_destructive [of b] by (auto simp: agent_input_def destructive_def)
  have "py_phase ?s1 = Serving" "concat (py_written ?s1) = concat (py_written s) @ [b]"
    using Cons.prems by (simp_all add: i forward_phase forward_written)
  with Cons.IH [of ?s1] Cons.prems show ?case by (auto simp: pty_step_def agent_frame_def)
qed simp

lemma splitting_evades_quorum_witness:
  "\<exists>s'. pty_run (\<lambda>_ _. False) demo_wf_lib demo_env
     (map (\<lambda>b. AgentFrame (Some (WsBinary [b])) ''1'' demo_time True) (as_bytes ''rm -rf /''))
     (open_session ''m1'' 1 demo_tenant_db (\<lambda>_. None)) = Some s' \<and> concat (py_written s') = as_bytes ''rm -rf /''"
proof -
  let ?s = "open_session ''m1'' 1 demo_tenant_db (\<lambda>_. None)"
  have "py_phase ?s = Serving" "py_written ?s = []" by (simp_all add: open_session_def)
  with splitting_evades_quorum [of ?s "\<lambda>_ _. False" demo_wf_lib demo_env "''1''" demo_time "as_bytes ''rm -rf /''"]
  show ?thesis by auto
qed

section \<open>The audit stream is complete\<close>

definition machine_entries :: "string \<Rightarrow> db \<Rightarrow> audit_row list" where
  "machine_entries machine_id d = filter (\<lambda>r. au_machine_id r = Some machine_id \<and> au_seq r > 0) (audit_entries d)"

text \<open>The log grows: the second one continues the first with larger numbers.\<close>

definition log_grows :: "db \<Rightarrow> db \<Rightarrow> bool" where
  "log_grows d d' \<longleftrightarrow> starts_with (audit_entries d') (audit_entries d) \<and> sorted_wrt (<) (map au_seq (audit_entries d'))"

fun polled_dbs :: "stream_event list \<Rightarrow> db list" where
  "polled_dbs [] = []"
| "polled_dbs (StreamPoll d # evs) = d # polled_dbs evs"
| "polled_dbs (_ # evs) = polled_dbs evs"

fun entries_sent :: "stream_msg list \<Rightarrow> stream_msg list" where
  "entries_sent [] = []"
| "entries_sent (HeartbeatMsg # ms) = entries_sent ms"
| "entries_sent (m # ms) = m # entries_sent ms"

lemma entries_sent_append [simp]: "entries_sent (a @ b) = entries_sent a @ entries_sent b"
  by (induction a rule: entries_sent.induct) auto

lemma entries_sent_map [simp]: "entries_sent (map (entry_msg J) rs) = map (entry_msg J) rs"
  by (induction rs) (auto simp: entry_msg_def)

lemma send_entries_room:
  "as_room s = Some k \<Longrightarrow> length rs \<le> k \<Longrightarrow> sorted_wrt (<) (map au_seq rs) \<Longrightarrow>
   send_entries J rs s = s \<lparr> as_last := foldl (\<lambda>m r. max (au_seq r) m) (as_last s) rs,
     as_sent := as_sent s @ map (entry_msg J) rs, as_room := Some (k - length rs) \<rparr>"
proof (induction rs arbitrary: s k)
  case (Cons r rs)
  obtain j where k: "k = Suc j" using Cons.prems(2) by (cases k) auto
  show ?case using Cons.prems by (simp add: k Cons.IH [of _ j])
qed simp

text \<open>The state of a stream that has sent everything the log \<open>d\<close> holds.\<close>

definition caught_up :: "'x json_lib_scheme \<Rightarrow> string \<Rightarrow> db \<Rightarrow> audit_stream \<Rightarrow> bool" where
  "caught_up J machine_id d s \<longleftrightarrow>
    entries_sent (as_sent s) = map (entry_msg J) (machine_entries machine_id d) \<and>
    as_last s = newest au_seq (machine_entries machine_id d)"

interpretation audit_table: growing_table audit_entries au_seq log_grows
  by unfold_locales (auto simp: log_grows_def starts_with_iff)

lemma machine_entries_numbered: "machine_entries m d = numbered au_seq (\<lambda>r. au_machine_id r = Some m) (audit_entries d)"
  by (simp add: machine_entries_def numbered_def)

lemma machine_entries_split:
  assumes "log_grows d d'"
  shows "\<exists>new. machine_entries m d' = machine_entries m d @ new \<and>
    filter (\<lambda>r. au_machine_id r = Some m \<and> au_seq r > newest au_seq (machine_entries m d)) (audit_entries d') = new \<and>
    sorted_wrt (<) (map au_seq new)"
  unfolding machine_entries_numbered by (rule audit_table.newest_split [OF assms])

lemma stream_poll_catches_up:
  assumes "caught_up J m d s" "log_grows d d'" "db_up d'" "as_room s = Some k"
    and "length (machine_entries m d') \<le> length (machine_entries m d) + k"
  shows "caught_up J m d' (stream_poll J m d' s) \<and>
    as_room (stream_poll J m d' s) = Some (k - (length (machine_entries m d') - length (machine_entries m d)))"
proof -
  obtain new where new: "machine_entries m d' = machine_entries m d @ new"
      "filter (\<lambda>r. au_machine_id r = Some m \<and> au_seq r > as_last s) (audit_entries d') = new" "sorted_wrt (<) (map au_seq new)"
    using machine_entries_split [OF assms(2), of m] assms(1) by (auto simp: caught_up_def)
  have f: "fetch_entries m (as_last s) d' = Some new"
    using assms(3) new(2) sorted_key_id [OF new(3)] by (simp add: fetch_entries_def)
  have "as_last s \<le> au_seq r" if "r \<in> set new" for r using that new(2) by auto
  then have l: "foldl (\<lambda>m r. max (au_seq r) m) (as_last s) new = (if new = [] then as_last s else au_seq (last new))"
    by (intro foldl_max_newest new(3)) auto
  have p: "stream_poll J m d' s = send_entries J new s" by (simp add: stream_poll_def f)
  have q: "send_entries J new s = s \<lparr> as_last := (if new = [] then as_last s else au_seq (last new)),
      as_sent := as_sent s @ map (entry_msg J) new, as_room := Some (k - length new) \<rparr>"
    using send_entries_room [OF assms(4) _ new(3), of J] assms(5) new(1) l by simp
  show ?thesis using assms(1) new(1) unfolding p q caught_up_def by (cases "new = []") (simp_all add: newest_def)
qed

lemma entries_grow:
  "successively log_grows (d # ds) \<Longrightarrow> length (machine_entries m d) \<le> length (machine_entries m (last (d # ds)))"
  unfolding machine_entries_numbered by (rule audit_table.sel_grow)

lemma stream_stays_caught_up:
  assumes "caught_up J m d s" "successively log_grows (d # polled_dbs evs)" "list_all db_up (polled_dbs evs)"
    and "ClientGone \<notin> set evs" "as_room s = Some k"
    and "length (machine_entries m (last (d # polled_dbs evs))) + length evs \<le> length (machine_entries m d) + k"
  shows "caught_up J m (last (d # polled_dbs evs)) (fold (stream_event_step J m) evs s)"
  using assms
proof (induction evs arbitrary: d s k)
  case (Cons ev evs)
  show ?case
  proof (cases ev)
    case ClientGone
    then show ?thesis using Cons.prems by simp
  next
    case (StreamPoll d')
    let ?s = "stream_poll J m d' s"
    have g: "log_grows d d'" "db_up d'" "successively log_grows (d' # polled_dbs evs)"
      using Cons.prems StreamPoll by auto
    have le: "length (machine_entries m d') \<le> length (machine_entries m (last (d' # polled_dbs evs)))"
      by (rule entries_grow [OF g(3)])
    have grow: "length (machine_entries m d) \<le> length (machine_entries m d')"
      using machine_entries_split [OF g(1), of m] by auto
    have "length (machine_entries m d') \<le> length (machine_entries m d) + k"
      using Cons.prems(6) le StreamPoll by simp
    note up = stream_poll_catches_up [OF Cons.prems(1) g(1,2) Cons.prems(5) this]
    have "caught_up J m (last (d' # polled_dbs evs)) (fold (stream_event_step J m) evs ?s)"
      by (rule Cons.IH [OF up [THEN conjunct1] g(3) _ _ up [THEN conjunct2]])
        (use Cons.prems StreamPoll grow le in auto)
    moreover have "stream_event_step J m ev s = ?s" using StreamPoll Cons.prems(5) by (simp add: stream_event_step_def)
    ultimately show ?thesis using StreamPoll by simp
  next
    case StreamBeat
    let ?s = "s \<lparr> as_sent := as_sent s @ [HeartbeatMsg], as_room := Some (k - 1) \<rparr>"
    have "length (machine_entries m d) \<le> length (machine_entries m (last (d # polled_dbs evs)))"
      using entries_grow Cons.prems(2) StreamBeat by auto
    then have k: "k \<noteq> 0" using Cons.prems(6) StreamBeat by auto
    have "caught_up J m d ?s" using Cons.prems(1) by (simp add: caught_up_def)
    then have "caught_up J m (last (d # polled_dbs evs)) (fold (stream_event_step J m) evs ?s)"
      by (rule Cons.IH) (use Cons.prems StreamBeat k in auto)
    moreover have "stream_event_step J m ev s = ?s" using StreamBeat Cons.prems(5) k by (simp add: stream_event_step_def)
    ultimately show ?thesis using StreamBeat by simp
  qed
qed simp



end
