(* ===== verification/Tasks.thy ===== *)
theory Tasks
  imports Pods
begin

text \<open>
  Tasks (src/gateway/src/routes/tasks.rs): their creation, results, progress reports and reflexions, the stream of a
  task's status, and the pipeline of blueprint phases that a submitted result continues. A handler's statements
  run without interleaving; ids, the clock and serde_json are arguments.
\<close>

section \<open>Requests and responses\<close>

record CreateTaskRequest =
  ctq_instruction :: string
  ctq_image :: string
  ctq_ttl_secs :: "64 word"
  ctq_context :: "json option"
  ctq_parent_task_id :: "string option"
  ctq_workflow_run_id :: "string option"
  ctq_role :: "string option"

record CreateTaskResponse =
  ctp_task_id :: string
  ctp_machine_id :: "string option"
  ctp_status :: string

record GetTaskResponse =
  gtp_id :: string
  gtp_status :: string
  gtp_spec :: json
  gtp_result :: "json option"
  gtp_created_at :: string
  gtp_started_at :: "string option"
  gtp_finished_at :: "string option"
  gtp_error :: "string option"
  gtp_retry_count :: int

record SubmitResultRequest =
  srq_exit_code :: "32 word"
  srq_stdout :: string
  srq_stderr :: string
  srq_summary :: string
  srq_artifacts :: "json list"

record ProgressRequest =
  pgq_files_changed :: "string list"
  pgq_tests_run :: "32 word"
  pgq_tests_passing :: "32 word"
  pgq_commits :: "32 word"
  pgq_blockers :: "string list"
  pgq_status :: string

record ReflexionRequest =
  rfq_what_went_well :: string
  rfq_what_went_wrong :: string
  rfq_what_differently :: string
  rfq_what_learned :: string

record ReflexionListItem =
  rfi_task_id :: string
  rfi_reflexion :: json
  rfi_task_created_at :: string

section \<open>Statements\<close>

text \<open>\<open>INSERT INTO tasks\<close>, with the defaults of the schema for the columns that are not named.\<close>

definition queued_task ::
    "utc \<Rightarrow> string \<Rightarrow> string \<Rightarrow> string option \<Rightarrow> string option \<Rightarrow> string option \<Rightarrow> string \<Rightarrow> task_row" where
  "queued_task now task_id tenant_id machine_id parent run spec =
    \<lparr> ta_id = task_id, ta_tenant_id = tenant_id, ta_machine_id = machine_id, ta_parent_task_id = parent,
      ta_workflow_run_id = run, ta_status = ''queued'', ta_spec = spec, ta_result = None,
      ta_created_at = sqlite_datetime now, ta_started_at = None, ta_finished_at = None, ta_error = None,
      ta_retry_count = 0, ta_max_retries = 3 \<rparr>"

definition insert_task :: "task_row \<Rightarrow> db \<Rightarrow> db option" where
  "insert_task t d =
    (if list_ex (\<lambda>r. ta_id r = ta_id t) (tasks d) \<or> \<not> tenant_exists (ta_tenant_id t) d \<or>
        (case ta_machine_id t of Some m \<Rightarrow> \<not> list_ex (\<lambda>r. ma_id r = m) (machines d) | None \<Rightarrow> False)
     then None else Some (d \<lparr> tasks := tasks d @ [t] \<rparr>))"

definition post_message :: "utc \<Rightarrow> string \<Rightarrow> string option \<Rightarrow> string \<Rightarrow> string \<Rightarrow> db \<Rightarrow> db" where
  "post_message now from_machine to_machine channel body d =
    d \<lparr> agent_messages := agent_messages d @
      [\<lparr> am_id = next_rowid (map am_id (agent_messages d)), am_from_machine = from_machine, am_to_machine = to_machine,
         am_channel = channel, am_body = body, am_created_at = sqlite_datetime now \<rparr>] \<rparr>"

text \<open>\<open>INSERT OR REPLACE INTO task_outputs\<close>\<close>

definition put_output :: "string \<Rightarrow> string \<Rightarrow> string \<Rightarrow> db \<Rightarrow> db" where
  "put_output task_id key value d =
    d \<lparr> task_outputs := filter (\<lambda>o'. \<not> (to_task_id o' = task_id \<and> to_key o' = key)) (task_outputs d) @
      [\<lparr> to_task_id = task_id, to_key = key, to_value = Some value, to_artifact_path = None \<rparr>] \<rparr>"

definition own_task :: "string \<Rightarrow> string \<Rightarrow> db \<Rightarrow> task_row option" where
  "own_task task_id tenant_id d = query_row (\<lambda>t. ta_id t = task_id \<and> ta_tenant_id t = tenant_id) (tasks d)"

definition json_or_null :: "'x json_lib_scheme \<Rightarrow> string \<Rightarrow> json" where
  "json_or_null J s = (case json_parse J s of Some v \<Rightarrow> v | None \<Rightarrow> JNull)"

definition task_missing :: "string \<Rightarrow> nat \<times> route_msg" where
  "task_missing task_id = (404, Msg (''Task not found: '' @ task_id))"

section \<open>Creation and reading\<close>

definition task_spec :: "CreateTaskRequest \<Rightarrow> string option \<Rightarrow> json" where
  "task_spec req role_system_prompt = JObject
    ([(''context'', case ctq_context req of Some c \<Rightarrow> c | None \<Rightarrow> JNull), (''image'', JText (ctq_image req)),
      (''instruction'', JText (ctq_instruction req))] @
     (case ctq_role req of
        Some role_name \<Rightarrow> [(''role'', JText role_name), (''role_system_prompt'', jopt role_system_prompt)]
      | None \<Rightarrow> []) @
     [(''ttl_secs'', jint (uint (ctq_ttl_secs req)))])"

definition role_prompt :: "string \<Rightarrow> string option \<Rightarrow> db \<Rightarrow> string option" where
  "role_prompt tenant_id role d =
    (case role of
       None \<Rightarrow> None
     | Some role_name \<Rightarrow>
        if role_name = [] then None
        else map_option ar_system_prompt (query_row (\<lambda>r. ar_tenant_id r = tenant_id \<and> ar_name r = role_name) (agent_roles d)))"

definition create_task ::
    "'x json_lib_scheme \<Rightarrow> session_env \<Rightarrow> utc \<Rightarrow> string \<Rightarrow> string option \<Rightarrow> CreateTaskRequest \<Rightarrow> db \<Rightarrow>
     CreateTaskResponse route \<times> db" where
  "create_task J E now ulid authorization req d =
    (case agent_of (e_sig E) now authorization d of
       Err e \<Rightarrow> (Err e, d)
     | Panic \<Rightarrow> (Panic, d)
     | Ok tenant_id \<Rightarrow>
        let task_id = ''task_'' @ ulid;
            spec = json_print J (task_spec req (role_prompt tenant_id (ctq_role req) d))
        in (case insert_task (queued_task now task_id tenant_id None (ctq_parent_task_id req) (ctq_workflow_run_id req) spec) d of
              None \<Rightarrow> (Err (500, Wrapped []), d)
            | Some d' \<Rightarrow> (Ok \<lparr> ctp_task_id = task_id, ctp_machine_id = None, ctp_status = ''queued'' \<rparr>, d')))"

definition get_task ::
    "'x json_lib_scheme \<Rightarrow> session_env \<Rightarrow> utc \<Rightarrow> string option \<Rightarrow> string \<Rightarrow> db \<Rightarrow> GetTaskResponse route" where
  "get_task J E now authorization task_id d =
     bind_res (agent_of (e_sig E) now authorization d) (\<lambda>tenant_id.
     bind_res (ok_or (task_missing task_id) (own_task task_id tenant_id d)) (\<lambda>t.
     Ok \<lparr> gtp_id = ta_id t, gtp_status = ta_status t, gtp_spec = json_or_null J (ta_spec t),
          gtp_result = map_option (json_or_null J) (ta_result t), gtp_created_at = ta_created_at t,
          gtp_started_at = ta_started_at t, gtp_finished_at = ta_finished_at t, gtp_error = ta_error t,
          gtp_retry_count = ta_retry_count t \<rparr>))"

section \<open>Results and the pipeline\<close>

definition PIPELINE :: "string list" where
  "PIPELINE = [''problem_catalog'', ''rough_draft'', ''adrs'', ''fine_draft'', ''spec'', ''tasks'', ''progress'']"

definition INSTRUCTIONS :: "string list" where
  "INSTRUCTIONS =
    [''Create docs/blueprint/01-problem-catalog.md. Read the repo, identify all problems, stakeholders, constraints.'',
     ''Create docs/blueprint/02-rough-draft.md. For EACH problem, propose a solution + alternative + risk.'',
     ''Create docs/blueprint/03-adrs/ '' @ [CHR 0xE2, CHR 0x80, CHR 0x94] @
       '' one ADR file per major decision. Context, Decision, Consequences, Alternatives.'',
     ''Create docs/blueprint/04-fine-draft.md. Architecture: components, data model, security, test strategy.'',
     ''Create docs/blueprint/05-spec.md. Requirements with acceptance criteria. Every problem addressed.'',
     ''Create docs/blueprint/06-tasks.md. Task breakdown with checkboxes, roles, estimates, dependencies.'',
     ''Create docs/blueprint/07-progress.md. Living progress doc with status, blockers, next steps.'']"

fun position :: "('a \<Rightarrow> bool) \<Rightarrow> 'a list \<Rightarrow> nat option" where
  "position P [] = None"
| "position P (x # xs) = (if P x then Some 0 else map_option Suc (position P xs))"

text \<open>The phase after the one of a task's specification.\<close>

definition next_phase :: "'x json_lib_scheme \<Rightarrow> string \<Rightarrow> (string \<times> string) option" where
  "next_phase J spec_str =
     Option.bind (json_parse J spec_str) (\<lambda>spec.
     Option.bind (Option.bind (jget ''blueprint_phase'' spec) as_str) (\<lambda>phase.
     Option.bind (position (\<lambda>p. p = phase) PIPELINE) (\<lambda>idx.
       if idx + 1 < length PIPELINE then Some (PIPELINE ! (idx + 1), INSTRUCTIONS ! (idx + 1)) else None)))"

definition next_spec :: "string \<Rightarrow> string \<Rightarrow> string \<Rightarrow> json" where
  "next_spec phase instruction machine_id = JObject
    [(''blueprint_phase'', JText phase), (''image'', JText ''localhost:30500/stronghold/rust-stable:latest''),
     (''instruction'', JText instruction), (''machine_id'', JText machine_id), (''ttl_secs'', jint 3600)]"

definition has_commit :: "string \<Rightarrow> string \<Rightarrow> db \<Rightarrow> bool" where
  "has_commit machine_id task_id d =
    (case query_row (\<lambda>t. ta_id t = task_id) (tasks d) of
       None \<Rightarrow> False
     | Some t \<Rightarrow> list_ex (\<lambda>a. au_machine_id a = Some machine_id \<and> au_event a = ''git_commit'' \<and> ta_created_at t < au_ts a)
         (audit_entries d))"

definition result_status :: "32 word \<Rightarrow> string \<times> string" where
  "result_status exit_code = (if exit_code = 0 then (''completed'', ''task_completed'') else (''failed'', ''task_failed''))"

definition result_json :: "SubmitResultRequest \<Rightarrow> json" where
  "result_json req = JObject
    [(''artifacts'', JArray (srq_artifacts req)), (''exit_code'', jint (sint (srq_exit_code req))),
     (''stderr'', JText (srq_stderr req)), (''stdout'', JText (srq_stdout req)), (''summary'', JText (srq_summary req))]"

definition finish_task :: "utc \<Rightarrow> string \<Rightarrow> string \<Rightarrow> string \<Rightarrow> string \<Rightarrow> db \<Rightarrow> db" where
  "finish_task now status result task_id tenant_id d =
    d \<lparr> tasks := update_where (\<lambda>t. ta_id t = task_id \<and> ta_tenant_id t = tenant_id)
      (\<lambda>t. t \<lparr> ta_status := status, ta_result := Some result, ta_finished_at := Some (sqlite_datetime now) \<rparr>) (tasks d) \<rparr>"

definition plain_answer :: json where
  "plain_answer = JObject [(''next_work'', JNull), (''status'', JText ''ok'')]"

definition no_commit_answer :: json where
  "no_commit_answer = JObject
    [(''message'', JText (''no commit found for this task '' @ [CHR 0xE2, CHR 0x80, CHR 0x94] @ '' commit before submitting result'')),
     (''next_work'', JNull), (''status'', JText ''error'')]"

definition next_work_answer :: "string \<Rightarrow> string \<Rightarrow> string \<Rightarrow> json" where
  "next_work_answer task_id instruction phase = JObject
    [(''next_work'', JObject [(''instruction'', JText instruction), (''phase'', JText phase), (''task_id'', JText task_id)]),
     (''status'', JText ''ok'')]"

text \<open>The part of \<open>submit_result\<close> after the announcement: the commit check and the next task.\<close>

definition continue_pipeline ::
    "'x json_lib_scheme \<Rightarrow> utc \<Rightarrow> string \<Rightarrow> string \<Rightarrow> string \<Rightarrow> string option \<Rightarrow> string \<Rightarrow> db \<Rightarrow> json route \<times> db" where
  "continue_pipeline J now ulid task_id tenant_id machine_id status d =
    (if status \<noteq> ''completed'' then (Ok plain_answer, d)
     else if case machine_id of Some mid \<Rightarrow> \<not> has_commit mid task_id d | None \<Rightarrow> False then (Ok no_commit_answer, d)
     else case (Option.bind (query_row (\<lambda>t. ta_id t = task_id) (tasks d)) (\<lambda>t. next_phase J (ta_spec t)), machine_id) of
       (Some (phase, instruction), Some mid) \<Rightarrow>
         (Ok (next_work_answer (''task_'' @ ulid) instruction phase),
          case insert_task (queued_task now (''task_'' @ ulid) tenant_id (Some mid) None None
              (json_print J (next_spec phase instruction mid))) d of
            Some d' \<Rightarrow> d' | None \<Rightarrow> d)
     | _ \<Rightarrow> (Ok plain_answer, d))"

definition submit_result ::
    "'x json_lib_scheme \<Rightarrow> session_env \<Rightarrow> utc \<Rightarrow> string \<Rightarrow> string option \<Rightarrow> string \<Rightarrow> SubmitResultRequest \<Rightarrow> db \<Rightarrow> json route \<times> db" where
  "submit_result J E now ulid authorization task_id req d =
    (case agent_of (e_sig E) now authorization d of
       Err e \<Rightarrow> (Err e, d)
     | Panic \<Rightarrow> (Panic, d)
     | Ok tenant_id \<Rightarrow>
        (case own_task task_id tenant_id d of
           None \<Rightarrow> (Err (task_missing task_id), d)
         | Some t \<Rightarrow>
            let (status, event) = result_status (srq_exit_code req);
                machine = (case ta_machine_id t of Some m \<Rightarrow> m | None \<Rightarrow> []);
                d1 = finish_task now status (json_print J (result_json req)) task_id tenant_id d
            in (case audit_json J E now tenant_id machine event
                  [(''exit_code'', jint (sint (srq_exit_code req))), (''status'', JText status),
                   (''summary'', JText (srq_summary req)), (''task_id'', JText task_id)] d1 of
                  (Err _, d2) \<Rightarrow> (Err (500, Wrapped []), d2)
                | (Panic, d2) \<Rightarrow> (Panic, d2)
                | (Ok _, d2) \<Rightarrow>
                   let d3 = post_message now machine None (''project-'' @ tenant_id)
                         (json_print J (JObject
                           [(''exit_code'', jint (sint (srq_exit_code req))), (''role'', JText ''agent''),
                            (''summary'', JText (srq_summary req)), (''task_id'', JText task_id),
                            (''type'', JText ''task_completed'')])) d2
                   in continue_pipeline J now ulid task_id tenant_id (ta_machine_id t) status d3)))"

section \<open>Progress and reflexions\<close>

definition progress_json :: "ProgressRequest \<Rightarrow> int \<Rightarrow> string \<Rightarrow> json" where
  "progress_json req ts_ms tenant_id = JObject
    [(''blockers'', JArray (map JText (pgq_blockers req))), (''commits'', jint (uint (pgq_commits req))),
     (''files_changed'', JArray (map JText (pgq_files_changed req))), (''status'', JText (pgq_status req)),
     (''tenant_id'', JText tenant_id), (''tests_passing'', jint (uint (pgq_tests_passing req))),
     (''tests_run'', jint (uint (pgq_tests_run req))), (''ts_ms'', jint ts_ms)]"

definition announce_json :: "ProgressRequest \<Rightarrow> string \<Rightarrow> string \<Rightarrow> string \<Rightarrow> json" where
  "announce_json req key task_id tenant_id = JObject
    [(''key'', JText key),
     (''summary'', JObject
       [(''blockers'', JArray (map JText (pgq_blockers req))), (''commits'', jint (uint (pgq_commits req))),
        (''files_changed_count'', jint (int (length (pgq_files_changed req)))), (''status'', JText (pgq_status req)),
        (''tests_passing'', jint (uint (pgq_tests_passing req))), (''tests_run'', jint (uint (pgq_tests_run req)))]),
     (''task_id'', JText task_id), (''tenant_id'', JText tenant_id), (''type'', JText ''progress'')]"

definition progress_channel :: "string option \<Rightarrow> string \<Rightarrow> string" where
  "progress_channel run task_id =
    (case run of
       Some r \<Rightarrow> if r \<noteq> [] then ''workflow-run-'' @ r else ''workflow-task-'' @ task_id
     | None \<Rightarrow> ''workflow-task-'' @ task_id)"

definition submit_progress ::
    "'x json_lib_scheme \<Rightarrow> session_env \<Rightarrow> utc \<Rightarrow> int \<Rightarrow> string option \<Rightarrow> string \<Rightarrow> ProgressRequest \<Rightarrow> db \<Rightarrow> string route \<times> db" where
  "submit_progress J E now ts_ms authorization task_id req d =
    (case agent_of (e_sig E) now authorization d of
       Err e \<Rightarrow> (Err e, d)
     | Panic \<Rightarrow> (Panic, d)
     | Ok tenant_id \<Rightarrow>
        (case own_task task_id tenant_id d of
           None \<Rightarrow> (Err (task_missing task_id), d)
         | Some t \<Rightarrow>
            let key = ''progress_'' @ show_int ts_ms;
                d1 = put_output task_id key (json_print J (progress_json req ts_ms tenant_id)) d
            in (Ok key, post_message now (case ta_machine_id t of Some m \<Rightarrow> m | None \<Rightarrow> []) None
                  (progress_channel (ta_workflow_run_id t) task_id)
                  (json_print J (announce_json req key task_id tenant_id)) d1)))"

definition reflexion_json :: "ReflexionRequest \<Rightarrow> utc \<Rightarrow> string \<Rightarrow> json" where
  "reflexion_json req now tenant_id = JObject
    [(''tenant_id'', JText tenant_id), (''ts'', JText (to_rfc3339 now)), (''what_differently'', JText (rfq_what_differently req)),
     (''what_learned'', JText (rfq_what_learned req)), (''what_went_well'', JText (rfq_what_went_well req)),
     (''what_went_wrong'', JText (rfq_what_went_wrong req))]"

definition submit_reflexion ::
    "'x json_lib_scheme \<Rightarrow> session_env \<Rightarrow> utc \<Rightarrow> string option \<Rightarrow> string \<Rightarrow> ReflexionRequest \<Rightarrow> db \<Rightarrow> unit route \<times> db" where
  "submit_reflexion J E now authorization task_id req d =
    (case agent_of (e_sig E) now authorization d of
       Err e \<Rightarrow> (Err e, d)
     | Panic \<Rightarrow> (Panic, d)
     | Ok tenant_id \<Rightarrow>
        if own_task task_id tenant_id d = None then (Err (task_missing task_id), d)
        else (Ok (), put_output task_id ''reflexion'' (json_print J (reflexion_json req now tenant_id)) d))"

definition get_reflexion ::
    "'x json_lib_scheme \<Rightarrow> session_env \<Rightarrow> utc \<Rightarrow> string option \<Rightarrow> string \<Rightarrow> db \<Rightarrow> (string \<times> json) route" where
  "get_reflexion J E now authorization task_id d =
     bind_res (agent_of (e_sig E) now authorization d) (\<lambda>tenant_id.
       case (own_task task_id tenant_id d, query_row (\<lambda>o'. to_task_id o' = task_id \<and> to_key o' = ''reflexion'') (task_outputs d)) of
         (Some _, Some o') \<Rightarrow>
           (case to_value o' of Some v \<Rightarrow> Ok (task_id, json_or_null J v) | None \<Rightarrow> Err (500, Wrapped []))
       | _ \<Rightarrow> Err (404, Msg (''No reflexion found for task: '' @ task_id)))"

text \<open>The rows of the join reach the sorter in an order \<open>plan\<close> that SQLite chooses.\<close>

definition reflexion_rows :: "string \<Rightarrow> db \<Rightarrow> (task_row \<times> task_output_row) list" where
  "reflexion_rows tenant_id d =
     [(t, o'). t \<leftarrow> tasks d, ta_tenant_id t = tenant_id, o' \<leftarrow> task_outputs d, to_task_id o' = ta_id t \<and> to_key o' = ''reflexion'']"

definition reflexion_item :: "'x json_lib_scheme \<Rightarrow> task_row \<times> task_output_row \<Rightarrow> ReflexionListItem route" where
  "reflexion_item J p =
    (case p of (t, o') \<Rightarrow>
       (case to_value o' of
          None \<Rightarrow> Err (500, Wrapped [])
        | Some v \<Rightarrow> Ok \<lparr> rfi_task_id = to_task_id o', rfi_reflexion = json_or_null J v, rfi_task_created_at = ta_created_at t \<rparr>))"

fun collect_items :: "'a route list \<Rightarrow> 'a list route" where
  "collect_items [] = Ok []"
| "collect_items (r # rs) = bind_res r (\<lambda>x. bind_res (collect_items rs) (\<lambda>xs. Ok (x # xs)))"

definition list_limit :: "32 word option \<Rightarrow> nat" where
  "list_limit limit = (case limit of Some n \<Rightarrow> if n \<ge> 1 then min (unat n) 100 else 10 | None \<Rightarrow> 10)"

definition newest_first :: "(task_row \<times> task_output_row) list \<Rightarrow> (task_row \<times> task_output_row) list" where
  "newest_first rows = rev (sort_key (\<lambda>p. ta_created_at (fst p)) (rev rows))"

definition list_reflexions ::
    "'x json_lib_scheme \<Rightarrow> session_env \<Rightarrow> utc \<Rightarrow> ((task_row \<times> task_output_row) list \<Rightarrow> (task_row \<times> task_output_row) list) \<Rightarrow>
     string option \<Rightarrow> string option \<Rightarrow> 32 word option \<Rightarrow> db \<Rightarrow> ReflexionListItem list route" where
  "list_reflexions J E now plan authorization tenant limit d =
     bind_res (agent_of (e_sig E) now authorization d) (\<lambda>authed_tenant.
       if case tenant of Some t \<Rightarrow> t \<noteq> authed_tenant | None \<Rightarrow> False
       then Err (403, Msg ''tenant query parameter does not match authenticated tenant'')
       else collect_items (map (reflexion_item J) (take (list_limit limit) (newest_first (plan (reflexion_rows authed_tenant d))))))"

section \<open>The status stream\<close>

datatype PollOutcome = Found string "json option" | TaskGone | PollError

definition poll_task_status :: "'x json_lib_scheme \<Rightarrow> string \<Rightarrow> db \<Rightarrow> PollOutcome" where
  "poll_task_status J task_id d =
    (if \<not> db_up d then PollError
     else case query_row (\<lambda>t. ta_id t = task_id) (tasks d) of
       None \<Rightarrow> TaskGone
     | Some t \<Rightarrow> Found (ta_status t) (map_option (json_or_null J) (ta_result t)))"

definition is_terminal :: "string \<Rightarrow> bool" where
  "is_terminal status \<longleftrightarrow> status \<in> set [''completed'', ''failed'', ''cancelled'']"

datatype task_event = TaskEvent string string "json option" | TaskNotFound | TaskHeartbeat

definition event_name :: "string \<Rightarrow> string" where
  "event_name status =
    (if status = ''queued'' then ''task_created''
     else if status = ''running'' then ''task_started''
     else if status = ''completed'' then ''task_completed''
     else if status = ''failed'' then ''task_failed''
     else if status = ''cancelled'' then ''task_cancelled''
     else ''task_status'')"

definition status_event :: "string \<Rightarrow> json option \<Rightarrow> task_event" where
  "status_event status result = TaskEvent (event_name status) status result"

fun task_loop :: "'x json_lib_scheme \<Rightarrow> string \<Rightarrow> string \<Rightarrow> tick list \<Rightarrow> task_event list" where
  "task_loop J task_id last_status [] = []"
| "task_loop J task_id last_status (HeartbeatTick # ts) = TaskHeartbeat # task_loop J task_id last_status ts"
| "task_loop J task_id last_status (PollTick d # ts) =
    (case poll_task_status J task_id d of
       Found status result \<Rightarrow>
         if status \<noteq> last_status
         then status_event status result # (if is_terminal status then [] else task_loop J task_id status ts)
         else task_loop J task_id last_status ts
     | TaskGone \<Rightarrow> []
     | PollError \<Rightarrow> task_loop J task_id last_status ts)"

definition stream_task :: "'x json_lib_scheme \<Rightarrow> string \<Rightarrow> db \<Rightarrow> tick list \<Rightarrow> task_event list" where
  "stream_task J task_id d ts =
    (case poll_task_status J task_id d of
       Found status result \<Rightarrow> status_event status result # (if is_terminal status then [] else task_loop J task_id status ts)
     | TaskGone \<Rightarrow> [TaskNotFound]
     | PollError \<Rightarrow> [])"

section \<open>Status streams\<close>

text \<open>The reference: the statuses that the polls see, up to the first poll that does not find the task.\<close>

fun observed :: "string \<Rightarrow> tick list \<Rightarrow> string list" where
  "observed task_id [] = []"
| "observed task_id (HeartbeatTick # ts) = observed task_id ts"
| "observed task_id (PollTick d # ts) =
    (if \<not> db_up d then observed task_id ts
     else case query_row (\<lambda>t. ta_id t = task_id) (tasks d) of
       None \<Rightarrow> []
     | Some t \<Rightarrow> ta_status t # observed task_id ts)"

fun event_statuses :: "task_event list \<Rightarrow> string list" where
  "event_statuses [] = []"
| "event_statuses (TaskEvent _ status _ # es) = status # event_statuses es"
| "event_statuses (_ # es) = event_statuses es"

fun upto_first :: "('a \<Rightarrow> bool) \<Rightarrow> 'a list \<Rightarrow> 'a list" where
  "upto_first P [] = []"
| "upto_first P (x # xs) = x # (if P x then [] else upto_first P xs)"

lemma upto_terminal: "P x \<Longrightarrow> upto_first P (remdups_adj (x # xs)) = [x]"
proof -
  assume "P x"
  obtain ys where "remdups_adj (x # xs) = x # ys" using remdups_adj_Cons_alt [of x xs] by metis
  with \<open>P x\<close> show ?thesis by (simp del: remdups_adj.simps)
qed

lemma task_loop_observed:
  "\<not> is_terminal last_status \<Longrightarrow>
   last_status # event_statuses (task_loop J task_id last_status ts) =
     upto_first is_terminal (remdups_adj (last_status # observed task_id ts))"
proof (induction ts arbitrary: last_status)
  case (Cons t ts)
  show ?case
  proof (cases t)
    case (PollTick d)
    show ?thesis
    proof (cases "db_up d")
      case True
      show ?thesis
      proof (cases "query_row (\<lambda>t. ta_id t = task_id) (tasks d)")
        case (Some r)
        show ?thesis
          using Cons.IH [of "ta_status r"] Cons.IH [OF Cons.prems] Cons.prems
          by (auto simp: PollTick True Some poll_task_status_def status_event_def upto_terminal)
      qed (use Cons.prems True PollTick in \<open>simp add: poll_task_status_def\<close>)
    qed (use Cons PollTick in \<open>simp add: poll_task_status_def\<close>)
  qed (use Cons in simp)
qed simp

text \<open>C25. The status stream of a task that exists shows exactly the changes of its status that the polls see, in
  order and without repetitions, and ends with the first terminal status.\<close>
theorem task_stream_shows_changes:
  assumes "poll_task_status J task_id d = Found status result"
  shows "event_statuses (stream_task J task_id d ts) = upto_first is_terminal (remdups_adj (status # observed task_id ts))"
proof (cases "is_terminal status")
  case True
  then show ?thesis using assms by (simp add: stream_task_def status_event_def upto_terminal del: remdups_adj.simps)
next
  case False
  then show ?thesis using assms task_loop_observed [OF False, of J task_id ts]
    by (simp add: stream_task_def status_event_def del: remdups_adj.simps)
qed

section \<open>Tenants do not touch each other's tasks\<close>

datatype task_request =
    CreateTask string "string option" CreateTaskRequest
  | SubmitResult string "string option" string SubmitResultRequest
  | SubmitProgress int "string option" string ProgressRequest
  | SubmitReflexion "string option" string ReflexionRequest

definition serve_task :: "'x json_lib_scheme \<Rightarrow> session_env \<Rightarrow> utc \<times> task_request \<Rightarrow> db \<Rightarrow> db" where
  "serve_task J E r d =
    (case snd r of
       CreateTask u auth req \<Rightarrow> snd (create_task J E (fst r) u auth req d)
     | SubmitResult u auth tid req \<Rightarrow> snd (submit_result J E (fst r) u auth tid req d)
     | SubmitProgress ms auth tid req \<Rightarrow> snd (submit_progress J E (fst r) ms auth tid req d)
     | SubmitReflexion auth tid req \<Rightarrow> snd (submit_reflexion J E (fst r) auth tid req d))"

definition request_auth :: "task_request \<Rightarrow> string option" where
  "request_auth r = (case r of CreateTask _ a _ \<Rightarrow> a | SubmitResult _ a _ _ \<Rightarrow> a | SubmitProgress _ a _ _ \<Rightarrow> a | SubmitReflexion a _ _ \<Rightarrow> a)"

definition tasks_of :: "string \<Rightarrow> db \<Rightarrow> task_row list" where
  "tasks_of tenant d = filter (\<lambda>t. ta_tenant_id t = tenant) (tasks d)"

definition outputs_of :: "string \<Rightarrow> db \<Rightarrow> task_output_row list" where
  "outputs_of tenant d = filter (\<lambda>o'. to_task_id o' \<in> set (map ta_id (tasks_of tenant d))) (task_outputs d)"

definition untouched :: "string \<Rightarrow> db \<Rightarrow> db \<Rightarrow> bool" where
  "untouched tenant d d' \<longleftrightarrow> tasks_of tenant d' = tasks_of tenant d \<and> outputs_of tenant d' = outputs_of tenant d \<and>
     (distinct (map ta_id (tasks d)) \<longrightarrow> distinct (map ta_id (tasks d'))) \<and> agent_tokens d' = agent_tokens d \<and> db_up d' = db_up d"

lemma untouched_refl [simp]: "untouched t d d"
  by (simp add: untouched_def)

lemma untouched_trans: "untouched t a b \<Longrightarrow> untouched t b c \<Longrightarrow> untouched t a c"
  by (simp add: untouched_def)

lemma untouched_cong:
  "tasks d' = tasks d \<Longrightarrow> task_outputs d' = task_outputs d \<Longrightarrow> agent_tokens d' = agent_tokens d \<Longrightarrow> db_up d' = db_up d \<Longrightarrow>
   untouched t d d'"
  by (simp add: untouched_def tasks_of_def outputs_of_def)

lemma untouched_insert:
  assumes "insert_task r d = Some d'" "ta_tenant_id r \<noteq> t"
  shows "untouched t d d'"
proof -
  have "d' = d \<lparr> tasks := tasks d @ [r] \<rparr>" "\<not> list_ex (\<lambda>q. ta_id q = ta_id r) (tasks d)"
    using assms(1) by (auto simp: insert_task_def split: if_splits)
  then show ?thesis using assms(2) by (auto simp: untouched_def tasks_of_def outputs_of_def list_ex_iff)
qed

lemma untouched_message: "untouched t d (post_message now f to ch b d)"
  by (rule untouched_cong) (simp_all add: post_message_def)

lemma untouched_audit: "untouched t d (snd (audit_json J E now tid m ev pl d))"
  by (rule untouched_cong) (simp_all add: audit_json_def entry_def)

lemma filter_update_where:
  "(\<And>r. P r \<Longrightarrow> \<not> Q r \<and> \<not> Q (f r)) \<Longrightarrow> filter Q (update_where P f rows) = filter Q rows"
  by (induction rows) (auto simp: update_where_def)

lemma untouched_finish:
  assumes "u \<noteq> t"
  shows "untouched t d (finish_task now st res task_id u d)"
proof -
  let ?d = "finish_task now st res task_id u d"
  have "tasks ?d = update_where (\<lambda>t. ta_id t = task_id \<and> ta_tenant_id t = u)
      (\<lambda>t. t \<lparr> ta_status := st, ta_result := Some res, ta_finished_at := Some (sqlite_datetime now) \<rparr>) (tasks d)"
    by (simp add: finish_task_def)
  then have "tasks_of t ?d = tasks_of t d"
    unfolding tasks_of_def by (simp only:) (rule filter_update_where, use assms in auto)
  moreover have "map ta_id (tasks ?d) = map ta_id (tasks d)"
    by (simp add: finish_task_def update_where_def)
  ultimately show ?thesis by (simp add: untouched_def outputs_of_def finish_task_def)
qed

lemma untouched_output:
  assumes "own_task task_id u d \<noteq> None" "u \<noteq> t" "distinct (map ta_id (tasks d))"
  shows "untouched t d (put_output task_id key v d)"
proof -
  obtain r where r: "r \<in> set (tasks d)" "ta_id r = task_id" "ta_tenant_id r = u"
    using assms(1) by (auto simp: own_task_def dest: query_row_Some)
  have "task_id \<notin> set (map ta_id (tasks_of t d))"
  proof
    assume "task_id \<in> set (map ta_id (tasks_of t d))"
    then obtain q where q: "q \<in> set (tasks d)" "ta_id q = task_id" "ta_tenant_id q = t" by (auto simp: tasks_of_def)
    then have "q = r" using assms(3) r by (auto simp: distinct_map inj_on_def)
    then show False using q(3) r(3) assms(2) by simp
  qed
  then have "filter (\<lambda>o'. to_task_id o' \<in> set (map ta_id (tasks_of t d))) (filter (\<lambda>o'. \<not> (to_task_id o' = task_id \<and> to_key o' = key)) (task_outputs d)) =
      filter (\<lambda>o'. to_task_id o' \<in> set (map ta_id (tasks_of t d))) (task_outputs d)"
    by (auto simp: filter_filter intro!: filter_cong)
  with \<open>task_id \<notin> _\<close> show ?thesis by (simp add: untouched_def put_output_def outputs_of_def tasks_of_def)
qed

lemma continue_pipeline_untouched:
  "u \<noteq> t \<Longrightarrow> untouched t d (snd (continue_pipeline J now ulid task_id u m st d))"
  by (auto simp: continue_pipeline_def queued_task_def intro: untouched_insert split: option.split)

lemma serve_task_untouched:
  assumes "agent_of (e_sig E) (fst r) (request_auth (snd r)) d \<noteq> Ok t" "distinct (map ta_id (tasks d))"
  shows "untouched t d (serve_task J E r d)"
proof (cases "agent_of (e_sig E) (fst r) (request_auth (snd r)) d")
  case (Ok u)
  then have u: "u \<noteq> t" using assms(1) by auto
  show ?thesis
  proof (cases "snd r")
    case (CreateTask ul auth req)
    then show ?thesis using Ok u
      by (auto simp: serve_task_def request_auth_def create_task_def Let_def queued_task_def intro: untouched_insert split: option.split)
  next
    case (SubmitResult ul auth tid req)
    have f: "untouched t d (finish_task now st res tid u d)" for now st res using u by (rule untouched_finish)
    have s2: "untouched t d d2" if "audit_json J E now u mach ev pl (finish_task now st res tid u d) = (x, d2)"
      for now mach ev pl st res x d2
      using untouched_trans [OF f [of now st res] untouched_audit [of t _ J E now u mach ev pl]] that by simp
    have s3: "untouched t d (snd (continue_pipeline J now ul tid u m st (post_message now fr to ch b d2)))" if "untouched t d d2"
      for now m st fr to ch b d2
      using untouched_trans [OF that untouched_trans [OF untouched_message continue_pipeline_untouched [OF u]]] .
    show ?thesis using SubmitResult Ok
      by (auto simp: serve_task_def request_auth_def submit_result_def Let_def intro: s3 dest: s2 split: option.split prod.split res.split)
  next
    case (SubmitProgress ms auth tid req)
    then show ?thesis using Ok u assms(2)
      by (auto simp: serve_task_def request_auth_def submit_progress_def Let_def
          intro: untouched_trans [OF untouched_output untouched_message] split: option.split)
  next
    case (SubmitReflexion auth tid req)
    then show ?thesis using Ok u assms(2)
      by (auto simp: serve_task_def request_auth_def submit_reflexion_def intro: untouched_output)
  qed
qed (cases "snd r"; simp add: serve_task_def request_auth_def create_task_def submit_result_def submit_progress_def submit_reflexion_def)+

text \<open>C26. Whatever sequence of tasks, results, progress reports and reflexions the agents of other tenants submit, the
  tasks of a tenant and everything stored for them stay as they are.\<close>
theorem tasks_noninterference:
  assumes "distinct (map ta_id (tasks d))"
    and "list_all (\<lambda>(now, req). agent_of (e_sig E) now (request_auth req) d \<noteq> Ok tenant) rs"
  shows "tasks_of tenant (fold (serve_task J E) rs d) = tasks_of tenant d \<and>
    outputs_of tenant (fold (serve_task J E) rs d) = outputs_of tenant d"
proof -
  have "untouched tenant d (fold (serve_task J E) rs d)"
    using assms
  proof (induction rs arbitrary: d)
    case (Cons r rs)
    let ?d = "serve_task J E r d"
    have u: "untouched tenant d ?d" using Cons.prems by (intro serve_task_untouched) (auto split: prod.splits)
    have "distinct (map ta_id (tasks ?d))" using u Cons.prems(1) by (simp add: untouched_def)
    moreover have "agent_of H now a ?d = agent_of H now a d" for H :: "sig_lib" and now a
      using u by (intro agent_of_cong) (simp_all add: untouched_def)
    then have "list_all (\<lambda>(now, req). agent_of (e_sig E) now (request_auth req) ?d \<noteq> Ok tenant) rs"
      using Cons.prems(2) by simp
    ultimately have "untouched tenant ?d (fold (serve_task J E) rs ?d)" by (rule Cons.IH)
    then show ?case using u untouched_trans by auto
  qed simp
  then show ?thesis by (simp add: untouched_def)
qed

section \<open>The pipeline\<close>

lemma position_nth: "distinct xs \<Longrightarrow> i < length xs \<Longrightarrow> position (\<lambda>p. p = xs ! i) xs = Some i"
proof (induction xs arbitrary: i)
  case (Cons x xs)
  then show ?case by (cases i) (auto simp: nth_mem)
qed simp

lemma distinct_PIPELINE: "distinct PIPELINE" "length PIPELINE = 7"
  by code_simp+

lemma next_phase_nth:
  assumes "json_parse J t = Some spec" "jget ''blueprint_phase'' spec = Some (JText (PIPELINE ! i))" "i < 7"
  shows "next_phase J t = (if i + 1 < 7 then Some (PIPELINE ! (i + 1), INSTRUCTIONS ! (i + 1)) else None)"
  using assms position_nth [OF distinct_PIPELINE(1), of i]
  by (simp add: next_phase_def as_str_def distinct_PIPELINE)

lemma finish_task_row:
  "query_row (\<lambda>t. ta_id t = tid') (tasks (finish_task now st res tid u d)) =
     map_option (\<lambda>t. if ta_id t = tid \<and> ta_tenant_id t = u
       then t \<lparr> ta_status := st, ta_result := Some res, ta_finished_at := Some (sqlite_datetime now) \<rparr> else t)
     (query_row (\<lambda>t. ta_id t = tid') (tasks d))"
  by (simp add: finish_task_def query_row_update_where)

lemma has_commit_later:
  assumes "has_commit mid tid d" "tasks d' = tasks (finish_task now st res tid u d)" "audit_entries d' = audit_entries d @ es"
  shows "has_commit mid tid d'"
  using assms(1,3) unfolding has_commit_def assms(2) finish_task_row by (auto split: option.splits)


text \<open>The commit check compares an RFC 3339 time with a SQLite time as texts, so it compares dates only: a commit
  made earlier on the day on which the task was created counts as a commit for the task.\<close>
lemma commit_check_compares_dates:
  assumes "query_row (\<lambda>t. ta_id t = tid) (tasks d) = Some t" "ta_created_at t = sqlite_datetime created" "valid_utc created"
    and "map au_ts (filter (\<lambda>a. au_machine_id a = Some mid \<and> au_event a = ''git_commit'') (audit_entries d)) = map to_rfc3339 commits"
    and "list_all valid_utc commits"
  shows "has_commit mid tid d \<longleftrightarrow> list_ex (\<lambda>c. date_before created c \<or> same_date created c) commits"
proof -
  have "has_commit mid tid d \<longleftrightarrow>
      list_ex (\<lambda>x. ta_created_at t < x) (map au_ts (filter (\<lambda>a. au_machine_id a = Some mid \<and> au_event a = ''git_commit'') (audit_entries d)))"
    using assms(1) by (auto simp: has_commit_def list_ex_iff)
  also have "\<dots> \<longleftrightarrow> list_ex (\<lambda>c. sqlite_datetime created < to_rfc3339 c) commits"
    unfolding assms(4) by (simp add: assms(2) list_ex_iff)
  also have "\<dots> \<longleftrightarrow> list_ex (\<lambda>c. date_before created c \<or> same_date created c) commits"
    using assms(3,5) by (auto simp: list_ex_iff list_all_iff sqlite_before_rfc3339)
  finally show ?thesis .
qed

section \<open>Demonstration values\<close>

definition demo_phase_json :: json_lib where
  "demo_phase_json = \<lparr>
     json_print = (\<lambda>v. case Option.bind (jget ''blueprint_phase'' v) as_str of Some p \<Rightarrow> p | None \<Rightarrow> ''{}''),
     json_parse = (\<lambda>t. Some (next_spec t (INSTRUCTIONS ! 1) ''m1'')), f64_parse = (\<lambda>t. None) \<rparr>"

definition demo_phase_task :: task_row where
  "demo_phase_task = queued_task demo_time ''task_0'' ''t1'' (Some ''m1'') None None ''problem_catalog''"

definition demo_commit :: audit_row where
  "demo_commit = \<lparr> au_seq = 1, au_tenant_id = ''t1'', au_ts = to_rfc3339 (demo_time \<lparr> hour := 9 \<rparr>), au_machine_id = Some ''m1'',
     au_event = ''git_commit'', au_payload = None, au_prev_hash = [], au_hash = [], au_sig_ed25519 = [], au_sig_mldsa65 = [],
     au_sev_snp_report_hash = None \<rparr>"

definition demo_tasks_db :: db where
  "demo_tasks_db = demo_agent_db \<lparr> machines := [demo_m1], tasks := [demo_phase_task], audit_entries := [demo_commit] \<rparr>"

definition demo_submission :: SubmitResultRequest where
  "demo_submission = \<lparr> srq_exit_code = 0, srq_stdout = [], srq_stderr = [], srq_summary = ''s'', srq_artifacts = [] \<rparr>"

lemma demo_tasks_agent: "agent_of (e_sig demo_env) demo_time (Some ''Bearer a'') demo_tasks_db = Ok ''t1''"
  unfolding demo_agent_ok [symmetric] by (rule agent_of_cong) (simp_all add: demo_tasks_db_def)

lemma demo_tasks_up: "db_up demo_tasks_db"
  by (simp add: demo_tasks_db_def demo_agent_db_def demo_tenant_db_def empty_db_def)

lemma demo_tasks: "query_row (\<lambda>r. ta_id r = ''task_0'') (tasks demo_tasks_db) = Some demo_phase_task"
  by (simp add: demo_tasks_db_def demo_phase_task_def queued_task_def)

lemma demo_commit_counts: "has_commit ''m1'' ''task_0'' demo_tasks_db"
proof -
  have "sqlite_datetime demo_time < to_rfc3339 (demo_time \<lparr> hour := 9 \<rparr>)"
    by (subst sqlite_before_rfc3339) (simp_all add: valid_utc_def demo_time_def same_date_def)
  then show ?thesis unfolding has_commit_def demo_tasks
    by (simp add: demo_tasks_db_def demo_commit_def demo_phase_task_def queued_task_def)
qed

theorem task_stream_shows_changes_witness:
  "event_statuses (stream_task demo_phase_json ''task_0'' demo_tasks_db
     [PollTick demo_tasks_db, HeartbeatTick, PollTick (finish_task demo_time ''completed'' ''{}'' ''task_0'' ''t1'' demo_tasks_db)]) =
   [''queued'', ''completed'']"
proof -
  have p: "poll_task_status demo_phase_json ''task_0'' demo_tasks_db = Found ''queued'' None"
    by (simp add: poll_task_status_def demo_tasks demo_tasks_up) (simp add: demo_phase_task_def queued_task_def)
  let ?ts = "[PollTick demo_tasks_db, HeartbeatTick, PollTick (finish_task demo_time ''completed'' ''{}'' ''task_0'' ''t1'' demo_tasks_db)]"
  have "upto_first is_terminal (remdups_adj (''queued'' # observed ''task_0'' ?ts)) = [''queued'', ''completed'']"
    by (simp add: demo_tasks demo_tasks_up finish_task_row) (simp add: finish_task_def demo_tasks_up demo_phase_task_def queued_task_def is_terminal_def)
  then show ?thesis using task_stream_shows_changes [OF p, of ?ts] by simp
qed

theorem tasks_noninterference_witness:
  "tasks_of ''t2'' (fold (serve_task demo_phase_json demo_env)
      [(demo_time, SubmitReflexion (Some ''Bearer a'') ''task_0'' \<lparr> rfq_what_went_well = [], rfq_what_went_wrong = [],
          rfq_what_differently = [], rfq_what_learned = [] \<rparr>)] demo_tasks_db) = tasks_of ''t2'' demo_tasks_db"
proof -
  let ?r = "\<lparr> rfq_what_went_well = [], rfq_what_went_wrong = [], rfq_what_differently = [], rfq_what_learned = [] \<rparr>"
  have l: "list_all (\<lambda>(now, req). agent_of (e_sig demo_env) now (request_auth req) demo_tasks_db \<noteq> Ok ''t2'')
      [(demo_time, SubmitReflexion (Some ''Bearer a'') ''task_0'' ?r)]"
    by (simp add: request_auth_def demo_tasks_agent)
  have "distinct (map ta_id (tasks demo_tasks_db))" by (simp add: demo_tasks_db_def)
  from tasks_noninterference [OF this l] show ?thesis by blast
qed


lemma commit_check_compares_dates_witness:
  "has_commit ''m1'' ''task_0'' demo_tasks_db \<longleftrightarrow>
     list_ex (\<lambda>c. date_before demo_time c \<or> same_date demo_time c) [demo_time \<lparr> hour := 9 \<rparr>]"
proof -
  have q: "query_row (\<lambda>r. ta_id r = ''task_0'') (tasks demo_tasks_db) = Some demo_phase_task"
    by (simp add: demo_tasks_db_def demo_phase_task_def queued_task_def)
  have c: "ta_created_at demo_phase_task = sqlite_datetime demo_time" by (simp add: demo_phase_task_def queued_task_def)
  have v: "valid_utc demo_time" "list_all valid_utc [demo_time \<lparr> hour := 9 \<rparr>]" by (simp_all add: valid_utc_def demo_time_def)
  have "map au_ts (filter (\<lambda>a. au_machine_id a = Some ''m1'' \<and> au_event a = ''git_commit'') (audit_entries demo_tasks_db)) =
      map to_rfc3339 [demo_time \<lparr> hour := 9 \<rparr>]" by (simp add: demo_tasks_db_def demo_commit_def)
  from commit_check_compares_dates [OF q c v(1) this v(2)] show ?thesis .
qed

end
