(* ===== verification/Instruct.thy ===== *)
theory Instruct
  imports Pty Tasks
begin

text \<open>
  Mid-session instructions (src/gateway/src/routes/instruct.rs): text or a control message for the terminal of a
  machine, or a queued task. The registry maps a machine to the channel of its terminal session.
\<close>

record InstructRequest =
  iq_instruction :: string
  iq_context :: "json option"
  iq_mode :: string
  iq_priority :: string

record InstructResponse =
  ip_status :: string
  ip_mode :: string
  ip_message :: string

text \<open>A channel accepts messages while its session lives.\<close>

record instruct_app =
  it_db :: db
  it_registry :: "string \<Rightarrow> nat option"
  it_alive :: "nat \<Rightarrow> bool"
  it_delivered :: "(nat \<times> bytes) list"

definition inject_text :: "InstructRequest \<Rightarrow> string" where
  "inject_text req = [CHR 0x0A] @ ''# Stronghold Instruction ('' @ iq_priority req @ ''): '' @ iq_instruction req @ [CHR 0x0A]"

definition request_json :: "(string \<times> json) list \<Rightarrow> InstructRequest \<Rightarrow> json" where
  "request_json extra req = JObject
    ([(''context'', case iq_context req of Some c \<Rightarrow> c | None \<Rightarrow> JNull), (''instruction'', JText (iq_instruction req)),
      (''priority'', JText (iq_priority req))] @ extra)"

definition control_text :: "'x json_lib_scheme \<Rightarrow> InstructRequest \<Rightarrow> string" where
  "control_text J req =
    (let mark = CHR 0x1B # '']51;stronghold:control'' @ [CHR 0x07]
     in mark @ json_print J (request_json [(''type'', JText ''instruct'')] req) @ mark)"

definition deliver ::
    "string \<Rightarrow> string \<Rightarrow> string \<Rightarrow> string \<Rightarrow> instruct_app \<Rightarrow> InstructResponse route \<times> instruct_app" where
  "deliver machine_id mode message_text text s =
    (case it_registry s machine_id of
       None \<Rightarrow> (Err (404, Msg ''No active PTY session for this machine_id''), s)
     | Some ch \<Rightarrow>
        if it_alive s ch
        then (Ok \<lparr> ip_status = ''delivered'', ip_mode = mode, ip_message = message_text \<rparr>,
              s \<lparr> it_delivered := it_delivered s @ [(ch, as_bytes text)] \<rparr>)
        else (Err (410, Msg ''PTY session no longer active''), s))"

definition inject ::
    "'x json_lib_scheme \<Rightarrow> session_env \<Rightarrow> utc \<Rightarrow> string \<Rightarrow> string option \<Rightarrow> string \<Rightarrow> InstructRequest \<Rightarrow> instruct_app \<Rightarrow>
     InstructResponse route \<times> instruct_app" where
  "inject J E now ulid authorization machine_id req s =
    (case header_text authorization of
       None \<Rightarrow> (Err (401, Msg ''Missing Authorization header''), s)
     | Some auth \<Rightarrow>
     (case strip_prefix ''Bearer '' auth of
       None \<Rightarrow> (Err (401, Msg ''Missing Authorization header''), s)
     | Some agent_token \<Rightarrow>
     (case verify_agent_token (e_sig E) now agent_token (it_db s) of
       Err _ \<Rightarrow> (Err (401, Wrapped []), s)
     | Panic \<Rightarrow> (Panic, s)
     | Ok tenant_id \<Rightarrow>
     (case prefix_slice 200 (iq_instruction req) of
       None \<Rightarrow> (Panic, s)
     | Some snippet \<Rightarrow>
        let s1 = s \<lparr> it_db := snd (audit_json J E now tenant_id machine_id ''instruct_received''
              [(''instruction_snippet'', JText snippet), (''mode'', JText (iq_mode req)), (''priority'', JText (iq_priority req))] (it_db s)) \<rparr>
        in if iq_mode req = ''pty'' then deliver machine_id ''pty'' ''Instruction injected into PTY'' (inject_text req) s1
           else if iq_mode req = ''task'' then
             (case insert_task (queued_task now (''task_'' @ ulid) tenant_id (Some machine_id) None None
                  (json_print J (request_json [] req))) (it_db s1) of
                None \<Rightarrow> (Err (500, Wrapped []), s1)
              | Some d \<Rightarrow> (Ok \<lparr> ip_status = ''queued'', ip_mode = ''task'',
                     ip_message = ''Sub-task '' @ ''task_'' @ ulid @ '' created'' \<rparr>, s1 \<lparr> it_db := d \<rparr>))
           else if iq_mode req = ''control'' then
             deliver machine_id ''control'' ''Control message sent via PTY channel'' (control_text J req) s1
           else (Err (400, Msg (''Unknown mode: '' @ iq_mode req @ ''. Use 'pty', 'control', or 'task'' @ [CHR 0x27])), s1)))))"

section \<open>Whose terminal\<close>

text \<open>An instruction is delivered to the terminal of any machine: the handler checks that the agent token is
  valid, but not that the machine belongs to its tenant. The text is followed by a newline and may contain
  newlines, so it is a command for the shell of the other tenant, and the audit entry is written to the log of
  the sender.\<close>
lemma instruction_ignores_ownership:
  assumes "header_text auth = Some (''Bearer '' @ token)" "verify_agent_token (e_sig E) now token (it_db s) = Ok tenant"
    and "it_registry s machine_id = Some ch" "it_alive s ch" "iq_mode req = ''pty''" "prefix_slice 200 (iq_instruction req) \<noteq> None"
  shows "\<exists>rsp s'. inject J E now ulid auth machine_id req s = (Ok rsp, s') \<and>
    it_delivered s' = it_delivered s @ [(ch, as_bytes (inject_text req))] \<and>
    filter (\<lambda>a. au_tenant_id a \<noteq> tenant) (audit_entries (it_db s')) = filter (\<lambda>a. au_tenant_id a \<noteq> tenant) (audit_entries (it_db s))"
proof -
  obtain sn where sn: "prefix_slice 200 (iq_instruction req) = Some sn" using assms(6) by blast
  have p: "strip_prefix ''Bearer '' (''Bearer '' @ token) = Some token" by (simp only: strip_prefix_Some)
  show ?thesis
    by (simp only: inject_def assms(1) option.case p assms(2) res.case sn)
      (use assms(3-5) in \<open>simp add: Let_def deliver_def audit_json_def entry_def\<close>)
qed

definition demo_terminals :: instruct_app where
  "demo_terminals = \<lparr> it_db = demo_agent_db, it_registry = (\<lambda>_. None)(''m2'' \<mapsto> 7), it_alive = (\<lambda>_. True), it_delivered = [] \<rparr>"

definition demo_instruction :: InstructRequest where
  "demo_instruction = \<lparr> iq_instruction = ''x'' @ [CHR 0x0A] @ ''id'', iq_context = None, iq_mode = ''pty'', iq_priority = ''low'' \<rparr>"

lemma instruction_ignores_ownership_witness:
  "\<exists>rsp s'. inject demo_wf_lib demo_env demo_time ''1'' (Some ''Bearer a'') ''m2'' demo_instruction demo_terminals = (Ok rsp, s') \<and>
    it_delivered s' = [(7, as_bytes (inject_text demo_instruction))]"
proof -
  have v: "verify_agent_token (e_sig demo_env) demo_time ''a'' (it_db demo_terminals) = Ok ''t1''" by code_simp
  have h: "header_text (Some ''Bearer a'') = Some (''Bearer '' @ ''a'')" by code_simp
  have p: "prefix_slice 200 (iq_instruction demo_instruction) \<noteq> None" by code_simp
  have r: "it_registry demo_terminals ''m2'' = Some 7" "it_alive demo_terminals 7" "iq_mode demo_instruction = ''pty''" "it_delivered demo_terminals = []"
    by (simp_all add: demo_terminals_def demo_instruction_def)
  from instruction_ignores_ownership [OF h v r(1-3) p, of demo_wf_lib "''1''"] r(4) show ?thesis by auto
qed

text \<open>An instruction whose byte 200 is inside a character aborts the gateway; an agent token is enough.\<close>

lemma long_instruction_aborts:
  assumes "header_text auth = Some (''Bearer '' @ token)" "verify_agent_token (e_sig E) now token (it_db s) = Ok tenant"
    and "200 < length (iq_instruction req)" "cont_char (iq_instruction req ! 200)"
  shows "fst (inject J E now ulid auth machine_id req s) = Panic"
proof -
  have p: "strip_prefix ''Bearer '' (''Bearer '' @ token) = Some token" by (simp only: strip_prefix_Some)
  have "prefix_slice 200 (iq_instruction req) = None"
    using assms(3,4) by (simp add: prefix_slice_def char_boundary_def)
  then show ?thesis by (simp only: inject_def assms(1) option.case p assms(2) res.case fst_conv)
qed

end
