(* ===== verification/Credentials.thy ===== *)
theory Credentials
  imports Pods
begin

text \<open>
  The credential vault's endpoints (src/gateway/src/routes/credentials.rs). Values are encrypted under a key derived
  from the tenant and the audit keys (theory Vault); nonces, ids and the clock are arguments.
\<close>

section \<open>Requests and responses\<close>

record CreateCredentialRequest =
  ccq_tenant_id :: string
  ccq_name :: string
  ccq_kind :: string
  ccq_value :: string
  ccq_env_var :: "string option"
  ccq_mount_path :: "string option"

record CreateCredentialResponse =
  ccp_id :: string
  ccp_name :: string
  ccp_kind :: string
  ccp_created_at :: string

record ListCredentialItem =
  lci_id :: string
  lci_name :: string
  lci_kind :: string
  lci_env_var :: "string option"
  lci_mount_path :: "string option"
  lci_created_at :: string
  lci_rotated_at :: "string option"

record AgentCredentialResponse =
  acp_name :: string
  acp_kind :: string
  acp_value :: string
  acp_env_var :: "string option"
  acp_mount_path :: "string option"

record GetCredentialResponse = AgentCredentialResponse +
  gcp_id :: string

record RotateCredentialResponse =
  rcp_id :: string
  rcp_name :: string
  rcp_rotated_at :: string

section \<open>The administrator's endpoints\<close>

definition vault_key :: "session_env \<Rightarrow> string \<Rightarrow> bytes" where
  "vault_key E tenant_id = derive_tenant_key (e_aead E) tenant_id (e_keys E)"

definition credential_missing :: "string \<Rightarrow> nat \<times> route_msg" where
  "credential_missing what = (404, Msg (''Credential not found: '' @ what))"

definition pool_or :: "'a route \<Rightarrow> db \<Rightarrow> 'a route" where
  "pool_or r d = (if db_up d then r else Err (503, Wrapped []))"

definition name_taken :: "agent_credential_row \<Rightarrow> route_msg" where
  "name_taken c = Msg (''Credential with name '' @ [CHR 0x27] @ ac_name c @ [CHR 0x27] @ '' already exists for tenant '' @
     [CHR 0x27] @ ac_tenant_id c @ [CHR 0x27])"

definition insert_credential :: "agent_credential_row \<Rightarrow> db \<Rightarrow> unit route \<times> db" where
  "insert_credential c d =
    (if list_ex (\<lambda>r. ac_id r = ac_id c) (agent_credentials d) then (Err (500, Wrapped []), d)
     else if list_ex (\<lambda>r. ac_tenant_id r = ac_tenant_id c \<and> ac_name r = ac_name c) (agent_credentials d)
     then (Err (409, name_taken c), d)
     else if \<not> tenant_exists (ac_tenant_id c) d then (Err (500, Wrapped []), d)
     else (Ok (), d \<lparr> agent_credentials := agent_credentials d @ [c] \<rparr>))"

definition create_credential ::
    "session_env \<Rightarrow> utc \<Rightarrow> string \<Rightarrow> bytes \<Rightarrow> CreateCredentialRequest \<Rightarrow> db \<Rightarrow> CreateCredentialResponse route \<times> db" where
  "create_credential E now ulid nonce req d =
    (case encrypt (e_aead E) nonce (as_bytes (ccq_value req)) (vault_key E (ccq_tenant_id req)) of
       Err _ \<Rightarrow> (Err (500, Wrapped []), d)
     | Panic \<Rightarrow> (Panic, d)
     | Ok (ciphertext, n) \<Rightarrow>
        if \<not> db_up d then (Err (503, Wrapped []), d)
        else (case insert_credential
              \<lparr> ac_id = ulid, ac_tenant_id = ccq_tenant_id req, ac_name = ccq_name req, ac_kind = ccq_kind req,
                ac_encrypted_value = ciphertext, ac_nonce = n, ac_env_var = ccq_env_var req, ac_mount_path = ccq_mount_path req,
                ac_created_at = to_rfc3339 now, ac_rotated_at = None \<rparr> d of
             (r, d') \<Rightarrow> (bind_res r (\<lambda>_. Ok \<lparr> ccp_id = ulid, ccp_name = ccq_name req, ccp_kind = ccq_kind req,
                  ccp_created_at = to_rfc3339 now \<rparr>), d')))"

definition credential_item :: "agent_credential_row \<Rightarrow> ListCredentialItem" where
  "credential_item c = \<lparr> lci_id = ac_id c, lci_name = ac_name c, lci_kind = ac_kind c, lci_env_var = ac_env_var c,
     lci_mount_path = ac_mount_path c, lci_created_at = ac_created_at c, lci_rotated_at = ac_rotated_at c \<rparr>"

definition list_credentials :: "string \<Rightarrow> db \<Rightarrow> ListCredentialItem list route" where
  "list_credentials tenant d =
     pool_or (Ok (map credential_item (sort_key ac_created_at (filter (\<lambda>c. ac_tenant_id c = tenant) (agent_credentials d))))) d"

definition decrypted :: "session_env \<Rightarrow> string \<Rightarrow> agent_credential_row \<Rightarrow> string route" where
  "decrypted E tenant_id c =
     bind_res (map_err (\<lambda>_. (500, Wrapped [])) (decrypt (e_aead E) (ac_encrypted_value c) (ac_nonce c) (vault_key E tenant_id))) (\<lambda>p.
     ok_or (500, Wrapped []) (from_utf8 p))"

definition get_credential ::
    "'x json_lib_scheme \<Rightarrow> session_env \<Rightarrow> utc \<Rightarrow> string \<Rightarrow> db \<Rightarrow> GetCredentialResponse route \<times> db" where
  "get_credential J E now cred_id d =
    (if \<not> db_up d then (Err (503, Wrapped []), d)
     else case query_row (\<lambda>c. ac_id c = cred_id) (agent_credentials d) of
       None \<Rightarrow> (Err (credential_missing cred_id), d)
     | Some c \<Rightarrow>
        (case decrypted E (ac_tenant_id c) c of
           Err e \<Rightarrow> (Err e, d)
         | Panic \<Rightarrow> (Panic, d)
         | Ok v \<Rightarrow>
            (Ok \<lparr> acp_name = ac_name c, acp_kind = ac_kind c, acp_value = v, acp_env_var = ac_env_var c,
                  acp_mount_path = ac_mount_path c, gcp_id = cred_id \<rparr>,
             snd (audit_json J E now (ac_tenant_id c) [] ''credential_accessed'' [(''name'', JText (ac_name c))] d))))"

definition delete_credential :: "string \<Rightarrow> db \<Rightarrow> unit route \<times> db" where
  "delete_credential cred_id d =
    (if \<not> db_up d then (Err (503, Wrapped []), d)
     else if \<not> list_ex (\<lambda>c. ac_id c = cred_id) (agent_credentials d) then (Err (credential_missing cred_id), d)
     else (Ok (), d \<lparr> agent_credentials := filter (\<lambda>c. ac_id c \<noteq> cred_id) (agent_credentials d) \<rparr>))"

definition rotate_credential ::
    "session_env \<Rightarrow> utc \<Rightarrow> bytes \<Rightarrow> string \<Rightarrow> string \<Rightarrow> db \<Rightarrow> RotateCredentialResponse route \<times> db" where
  "rotate_credential E now nonce cred_id value d =
    (if \<not> db_up d then (Err (503, Wrapped []), d)
     else case query_row (\<lambda>c. ac_id c = cred_id) (agent_credentials d) of
       None \<Rightarrow> (Err (credential_missing cred_id), d)
     | Some c \<Rightarrow>
        (case encrypt (e_aead E) nonce (as_bytes value) (vault_key E (ac_tenant_id c)) of
           Err _ \<Rightarrow> (Err (500, Wrapped []), d)
         | Panic \<Rightarrow> (Panic, d)
         | Ok (ciphertext, n) \<Rightarrow>
            (Ok \<lparr> rcp_id = cred_id, rcp_name = ac_name c, rcp_rotated_at = to_rfc3339 now \<rparr>,
             d \<lparr> agent_credentials := update_where (\<lambda>r. ac_id r = cred_id)
                 (\<lambda>r. r \<lparr> ac_encrypted_value := ciphertext, ac_nonce := n, ac_rotated_at := Some (to_rfc3339 now) \<rparr>)
                 (agent_credentials d) \<rparr>)))"

section \<open>The agent's endpoint\<close>

definition agent_get_credential ::
    "'x json_lib_scheme \<Rightarrow> session_env \<Rightarrow> utc \<Rightarrow> string option \<Rightarrow> string \<Rightarrow> string \<Rightarrow> db \<Rightarrow> AgentCredentialResponse route \<times> db" where
  "agent_get_credential J E now authorization machine_id name d =
    (case agent_of (e_sig E) now authorization d of
       Err e \<Rightarrow> (Err e, d)
     | Panic \<Rightarrow> (Panic, d)
     | Ok token_tenant_id \<Rightarrow>
        (case query_row (\<lambda>m. ma_id m = machine_id) (machines d) of
           None \<Rightarrow> (Err (404, Msg (''Machine not found: '' @ machine_id)), d)
         | Some m \<Rightarrow>
            if ma_tenant_id m \<noteq> token_tenant_id then (Err (403, Msg ''Agent token tenant does not match machine tenant''), d)
            else (case query_row (\<lambda>c. ac_tenant_id c = token_tenant_id \<and> ac_name c = name) (agent_credentials d) of
               None \<Rightarrow> (Err (credential_missing name), d)
             | Some c \<Rightarrow>
                (case decrypted E token_tenant_id c of
                   Err e \<Rightarrow> (Err e, d)
                 | Panic \<Rightarrow> (Panic, d)
                 | Ok v \<Rightarrow>
                    (Ok \<lparr> acp_name = name, acp_kind = ac_kind c, acp_value = v, acp_env_var = ac_env_var c, acp_mount_path = ac_mount_path c \<rparr>,
                     snd (audit_json J E now token_tenant_id machine_id ''credential_accessed''
                       [(''machine_id'', JText machine_id), (''name'', JText name)] d))))))"

section \<open>Values come back\<close>

lemma decrypted_encrypted:
  assumes "aead_ok (e_aead E)" "length nonce = 12" "valid_utf8 (as_bytes v)"
    and "encrypt (e_aead E) nonce (as_bytes v) (vault_key E t) = Ok (c, n)"
    and "ac_encrypted_value r = c" "ac_nonce r = n"
  shows "decrypted E t r = Ok v"
proof -
  have "length (vault_key E t) = 32" using assms(1) by (simp add: vault_key_def)
  from decrypt_encrypt [OF assms(1,2) this, of "as_bytes v"] assms(4)
  have "decrypt (e_aead E) c n (vault_key E t) = Ok (as_bytes v)" by auto
  then show ?thesis using assms(3,5,6) from_utf8_as_bytes by (simp add: decrypted_def)
qed

lemma decrypted_other_key:
  assumes "aead_ok (e_aead E)" "length nonce = 12" "encrypt (e_aead E) nonce p (vault_key E t) = Ok (ac_encrypted_value r, ac_nonce r)"
    and "e_aead E' = e_aead E" "vault_key E' t \<noteq> vault_key E t"
  shows "decrypted E' t r = Err (500, Wrapped [])"
  using decrypt_wrong_key [OF assms(1,3) _ assms(2)] assms(4,5) by (simp add: decrypted_def)

lemma agent_of_credentials [simp]:
  "agent_of H now a (d \<lparr> agent_credentials := cs \<rparr>) = agent_of H now a d"
  by (rule agent_of_cong) simp_all

lemma query_row_list_ex: "query_row P rows = None \<longleftrightarrow> \<not> list_ex P rows"
  by (simp add: query_row_None list_ex_iff)

lemma insert_credential_Ok:
  assumes "fst (insert_credential c d) = Ok u"
  shows "query_row (\<lambda>r. ac_tenant_id r = ac_tenant_id c \<and> ac_name r = ac_name c) (agent_credentials d) = None \<and>
    query_row (\<lambda>r. ac_id r = ac_id c) (agent_credentials d) = None \<and>
    snd (insert_credential c d) = d \<lparr> agent_credentials := agent_credentials d @ [c] \<rparr>"
  using assms unfolding insert_credential_def query_row_list_ex
  by (cases "list_ex (\<lambda>r. ac_id r = ac_id c) (agent_credentials d)";
      cases "list_ex (\<lambda>r. ac_tenant_id r = ac_tenant_id c \<and> ac_name r = ac_name c) (agent_credentials d)";
      cases "tenant_exists (ac_tenant_id c) d") simp_all

lemma create_credential_Ok:
  assumes "fst (create_credential E now ulid nonce req d) = Ok rsp"
  shows "\<exists>c n. encrypt (e_aead E) nonce (as_bytes (ccq_value req)) (vault_key E (ccq_tenant_id req)) = Ok (c, n) \<and>
    query_row (\<lambda>r. ac_tenant_id r = ccq_tenant_id req \<and> ac_name r = ccq_name req) (agent_credentials d) = None \<and>
    query_row (\<lambda>r. ac_id r = ulid) (agent_credentials d) = None \<and> db_up d \<and>
    snd (create_credential E now ulid nonce req d) = d \<lparr> agent_credentials := agent_credentials d @
      [\<lparr> ac_id = ulid, ac_tenant_id = ccq_tenant_id req, ac_name = ccq_name req, ac_kind = ccq_kind req,
         ac_encrypted_value = c, ac_nonce = n, ac_env_var = ccq_env_var req, ac_mount_path = ccq_mount_path req,
         ac_created_at = to_rfc3339 now, ac_rotated_at = None \<rparr>] \<rparr>"
proof (cases "encrypt (e_aead E) nonce (as_bytes (ccq_value req)) (vault_key E (ccq_tenant_id req))")
  case (Ok p)
  obtain c n where p: "p = (c, n)" by (cases p)
  let ?row = "\<lparr> ac_id = ulid, ac_tenant_id = ccq_tenant_id req, ac_name = ccq_name req, ac_kind = ccq_kind req,
         ac_encrypted_value = c, ac_nonce = n, ac_env_var = ccq_env_var req, ac_mount_path = ccq_mount_path req,
         ac_created_at = to_rfc3339 now, ac_rotated_at = None \<rparr>"
  have up: "db_up d" using assms Ok p by (cases "db_up d") (simp_all add: create_credential_def)
  have eq: "create_credential E now ulid nonce req d =
      (bind_res (fst (insert_credential ?row d)) (\<lambda>_. Ok \<lparr> ccp_id = ulid, ccp_name = ccq_name req, ccp_kind = ccq_kind req,
          ccp_created_at = to_rfc3339 now \<rparr>), snd (insert_credential ?row d))"
    using up Ok p by (simp add: create_credential_def split: prod.split)
  have "\<exists>u. fst (insert_credential ?row d) = Ok u" using assms unfolding eq fst_conv bind_res_Ok_iff by blast
  then show ?thesis using insert_credential_Ok [of ?row d] up Ok p unfolding eq by auto
qed (use assms in \<open>simp_all add: create_credential_def\<close>)


section \<open>Who reads what\<close>

text \<open>C29. An agent receives a credential exactly when its token is valid, the machine belongs to the token's tenant, the
  tenant has a credential of that name and it decrypts under the tenant's key; the value is that one, and the
  access is entered in the tenant's log.\<close>
theorem agent_reads_own_credentials:
  "agent_get_credential J E now auth machine_id name d = (Ok rsp, d') \<longleftrightarrow>
   (\<exists>t m c v. agent_of (e_sig E) now auth d = Ok t \<and> query_row (\<lambda>m. ma_id m = machine_id) (machines d) = Some m \<and>
     ma_tenant_id m = t \<and> query_row (\<lambda>c. ac_tenant_id c = t \<and> ac_name c = name) (agent_credentials d) = Some c \<and>
     decrypted E t c = Ok v \<and>
     rsp = \<lparr> acp_name = name, acp_kind = ac_kind c, acp_value = v, acp_env_var = ac_env_var c, acp_mount_path = ac_mount_path c \<rparr> \<and>
     d' = snd (audit_json J E now t machine_id ''credential_accessed'' [(''machine_id'', JText machine_id), (''name'', JText name)] d))"
proof (cases "agent_of (e_sig E) now auth d")
  case (Ok t)
  show ?thesis
  proof (cases "query_row (\<lambda>m. ma_id m = machine_id) (machines d)")
    case (Some m)
    show ?thesis
    proof (cases "ma_tenant_id m = t")
      case True
      show ?thesis
      proof (cases "query_row (\<lambda>c. ac_tenant_id c = t \<and> ac_name c = name) (agent_credentials d)")
        case (Some c)
        with Ok \<open>query_row _ (machines d) = Some m\<close> True show ?thesis
          by (cases "decrypted E t c") (auto simp: agent_get_credential_def)
      qed (use Ok Some True in \<open>simp add: agent_get_credential_def\<close>)
    qed (use Ok Some in \<open>simp add: agent_get_credential_def\<close>)
  qed (use Ok in \<open>simp add: agent_get_credential_def\<close>)
qed (simp_all add: agent_get_credential_def)

text \<open>The administrator's endpoints take no credentials of the caller: who knows the name of a tenant lists its
  secrets and then reads each of them in clear.\<close>
lemma secrets_open_to_anyone:
  assumes "db_up d" "c \<in> set (agent_credentials d)" "ac_tenant_id c = tenant" "decrypted E tenant c = Ok v"
    and "distinct (map ac_id (agent_credentials d))"
  shows "\<exists>items item rsp. list_credentials tenant d = Ok items \<and> item \<in> set items \<and> lci_name item = ac_name c \<and>
    fst (get_credential J E now (lci_id item) d) = Ok rsp \<and> acp_value rsp = v"
proof -
  have "query_row (\<lambda>r. ac_id r = ac_id c) (agent_credentials d) = Some c"
  proof (cases "query_row (\<lambda>r. ac_id r = ac_id c) (agent_credentials d)")
    case (Some r)
    then have "r \<in> set (agent_credentials d)" "ac_id r = ac_id c" by (auto dest: query_row_Some)
    then show ?thesis using Some assms(2,5) by (auto simp: distinct_map inj_on_def)
  qed (use assms(2) in \<open>auto simp: query_row_None\<close>)
  then have "\<exists>rsp. fst (get_credential J E now (lci_id (credential_item c)) d) = Ok rsp \<and> acp_value rsp = v"
    using assms(1,3,4) by (simp add: get_credential_def credential_item_def)
  moreover have "credential_item c \<in> set (map credential_item (sort_key ac_created_at (filter (\<lambda>c. ac_tenant_id c = tenant) (agent_credentials d))))"
    using assms(2,3) by simp
  moreover have "lci_name (credential_item c) = ac_name c" by (simp add: credential_item_def)
  ultimately show ?thesis using assms(1) unfolding list_credentials_def pool_or_def by auto
qed

text \<open>The key of the vault is derived from the audit keys, and rotating these does not re-encrypt: a credential
  stored before a rotation cannot be read by anyone afterwards, nor is it injected into machines.\<close>
lemma rotation_loses_credentials:
  assumes "aead_ok (e_aead E)" "length nonce = 12" "fst (create_credential E now ulid nonce req d) = Ok rsp"
    and "fst (rotate_audit_keys (e_sig E) now' rh s1 s2 tid mid (e_keys E) (snd (create_credential E now ulid nonce req d))) = Ok k"
    and "vault_key (E \<lparr> e_keys := k \<rparr>) (ccq_tenant_id req) \<noteq> vault_key E (ccq_tenant_id req)"
  shows "let d' = snd (rotate_audit_keys (e_sig E) now' rh s1 s2 tid mid (e_keys E) (snd (create_credential E now ulid nonce req d)))
    in get_credential J (E \<lparr> e_keys := k \<rparr>) now'' ulid d' = (Err (500, Wrapped []), d') \<and>
       load_credential_env_vars (e_aead E) k (ccq_tenant_id req) d' = load_credential_env_vars (e_aead E) k (ccq_tenant_id req) d"
proof -
  obtain c n where enc: "encrypt (e_aead E) nonce (as_bytes (ccq_value req)) (vault_key E (ccq_tenant_id req)) = Ok (c, n)"
    and fresh: "query_row (\<lambda>r. ac_id r = ulid) (agent_credentials d) = None" "db_up d"
    and d1: "snd (create_credential E now ulid nonce req d) = d \<lparr> agent_credentials := agent_credentials d @
      [\<lparr> ac_id = ulid, ac_tenant_id = ccq_tenant_id req, ac_name = ccq_name req, ac_kind = ccq_kind req,
         ac_encrypted_value = c, ac_nonce = n, ac_env_var = ccq_env_var req, ac_mount_path = ccq_mount_path req,
         ac_created_at = to_rfc3339 now, ac_rotated_at = None \<rparr>] \<rparr>"
    using create_credential_Ok [OF assms(3)] by blast
  define row where "row = \<lparr> ac_id = ulid, ac_tenant_id = ccq_tenant_id req, ac_name = ccq_name req, ac_kind = ccq_kind req,
         ac_encrypted_value = c, ac_nonce = n, ac_env_var = ccq_env_var req, ac_mount_path = ccq_mount_path req,
         ac_created_at = to_rfc3339 now, ac_rotated_at = None \<rparr>"
  let ?E = "E \<lparr> e_keys := k \<rparr>"
  define d' where "d' = snd (rotate_audit_keys (e_sig E) now' rh s1 s2 tid mid (e_keys E) (snd (create_credential E now ulid nonce req d)))"
  have keep: "agent_credentials (snd (rotate_audit_keys G n0 r0 a b t0 m0 k0 x)) = agent_credentials x \<and>
      db_up (snd (rotate_audit_keys G n0 r0 a b t0 m0 k0 x)) = db_up x" for G :: "sig_lib" and n0 r0 a b t0 m0 k0 x
    by (simp add: rotate_audit_keys_def Let_def entry_def)
  have creds: "agent_credentials d' = agent_credentials d @ [row]" "db_up d'"
    using keep fresh(2) unfolding d'_def d1 row_def by simp_all
  have row: "ac_encrypted_value row = c" "ac_nonce row = n" "ac_id row = ulid" "ac_tenant_id row = ccq_tenant_id req"
    by (simp_all add: row_def)
  have lost: "decrypted ?E (ccq_tenant_id req) row = Err (500, Wrapped [])"
    using enc by (intro decrypted_other_key [OF assms(1,2) _ _ assms(5)]) (simp_all add: row)
  have q: "query_row (\<lambda>r. ac_id r = ulid) (agent_credentials d') = Some row"
    using fresh(1) by (simp add: creds query_row_append row)
  have "get_credential J ?E now'' ulid d' = (Err (500, Wrapped []), d')"
    using creds(2) q lost by (simp add: get_credential_def row)
  moreover have "load_credential_env_vars (e_aead E) k (ccq_tenant_id req) d' = load_credential_env_vars (e_aead E) k (ccq_tenant_id req) d"
  proof -
    have "decrypt (e_aead E) c n (derive_tenant_key (e_aead E) (ccq_tenant_id req) k) = Err DecryptFailed"
      using decrypt_wrong_key [OF assms(1) enc _ assms(2), of "vault_key ?E (ccq_tenant_id req)"] assms(5) by (auto simp: vault_key_def)
    then show ?thesis using creds fresh(2) row by (simp add: load_credential_env_vars_def Let_def split: option.split)
  qed
  ultimately show ?thesis unfolding d'_def Let_def by blast
qed

section \<open>Witnesses\<close>

definition demo_secret :: CreateCredentialRequest where
  "demo_secret = \<lparr> ccq_tenant_id = ''t1'', ccq_name = ''n'', ccq_kind = ''api'', ccq_value = ''v'', ccq_env_var = None,
     ccq_mount_path = None \<rparr>"

definition demo_vault_db :: db where
  "demo_vault_db = demo_agent_db \<lparr> machines := [demo_m1] \<rparr>"

definition demo_created :: db where
  "demo_created = snd (create_credential demo_env demo_time ''c1'' (replicate 12 0) demo_secret demo_vault_db)"

lemma demo_vault_agent: "agent_of (e_sig demo_env) demo_time (Some ''Bearer a'') demo_vault_db = Ok ''t1''"
  unfolding demo_agent_ok [symmetric] by (rule agent_of_cong) (simp_all add: demo_vault_db_def)

lemma demo_vault_db_parts: "db_up demo_vault_db" "agent_credentials demo_vault_db = []" "tenant_exists ''t1'' demo_vault_db"
    "query_row (\<lambda>m. ma_id m = ''m1'') (machines demo_vault_db) = Some demo_m1" "ma_tenant_id demo_m1 = ''t1''"
  by (simp_all add: demo_vault_db_def demo_agent_db_def demo_tenant_db_def empty_db_def tenant_exists_def demo_m1_def)

lemma demo_env_aead [simp]: "e_aead demo_env = demo_aead"
  by (simp add: demo_env_def)

lemma length_vault_key [simp]: "length (vault_key demo_env t) = 32"
  by (simp add: vault_key_def demo_env_def demo_aead_def derive_tenant_key_def KEY_LEN_def)

lemma demo_secret_parts: "ccq_tenant_id demo_secret = ''t1''" "ccq_name demo_secret = ''n''" "ccq_value demo_secret = ''v''"
  by (simp_all add: demo_secret_def)

lemma demo_created_ok: "is_ok (fst (create_credential demo_env demo_time ''c1'' (replicate 12 0) demo_secret demo_vault_db))"
  by (simp add: create_credential_def encrypt_def demo_aead_def insert_credential_def demo_vault_db_parts demo_secret_parts)


lemma secrets_open_to_anyone_witness:
  "\<exists>items item rsp. list_credentials ''t1'' demo_created = Ok items \<and> item \<in> set items \<and> lci_name item = ''n'' \<and>
    fst (get_credential demo_wf_lib demo_env demo_time (lci_id item) demo_created) = Ok rsp \<and> acp_value rsp = ''v''"
proof -
  obtain rsp where r: "fst (create_credential demo_env demo_time ''c1'' (replicate 12 0) demo_secret demo_vault_db) = Ok rsp"
    using demo_created_ok by (cases "fst (create_credential demo_env demo_time ''c1'' (replicate 12 0) demo_secret demo_vault_db)") auto
  from create_credential_Ok [OF this] obtain c n where enc: "encrypt (e_aead demo_env) (replicate 12 0) (as_bytes ''v'') (vault_key demo_env ''t1'') = Ok (c, n)"
    and d: "demo_created = demo_vault_db \<lparr> agent_credentials := agent_credentials demo_vault_db @
      [\<lparr> ac_id = ''c1'', ac_tenant_id = ''t1'', ac_name = ''n'', ac_kind = ccq_kind demo_secret,
         ac_encrypted_value = c, ac_nonce = n, ac_env_var = ccq_env_var demo_secret, ac_mount_path = ccq_mount_path demo_secret,
         ac_created_at = to_rfc3339 demo_time, ac_rotated_at = None \<rparr>] \<rparr>"
    unfolding demo_created_def demo_secret_parts by blast
  define r where "r = hd (agent_credentials demo_created)"
  have cs: "agent_credentials demo_created = [r]" "ac_encrypted_value r = c" "ac_nonce r = n" "ac_tenant_id r = ''t1''" "ac_name r = ''n''"
    unfolding r_def d by (simp_all add: demo_vault_db_parts)
  have dec: "decrypted demo_env ''t1'' r = Ok ''v''"
    by (rule decrypted_encrypted [OF _ _ _ enc cs(2,3)]) (simp add: demo_aead_ok, simp, code_simp)
  have "db_up demo_created" unfolding d by (simp add: demo_vault_db_parts)
  moreover have "r \<in> set (agent_credentials demo_created)" "distinct (map ac_id (agent_credentials demo_created))" by (simp_all add: cs)
  ultimately show ?thesis
    using secrets_open_to_anyone [OF _ _ cs(4) dec, of demo_created demo_wf_lib demo_time] cs(5) by simp
qed

lemma rotation_loses_credentials_witness:
  "\<exists>k d'. rotate_audit_keys (e_sig demo_env) demo_time None (replicate 32 5) (replicate 32 6) ''t1'' ''m1'' (e_keys demo_env) demo_created =
      (Ok k, d') \<and>
    fst (get_credential demo_wf_lib (demo_env \<lparr> e_keys := k \<rparr>) demo_time ''c1'' d') = Err (500, Wrapped [])"
proof -
  let ?R = "rotate_audit_keys (e_sig demo_env) demo_time None (replicate 32 5) (replicate 32 6) ''t1'' ''m1'' (e_keys demo_env) demo_created"
  let ?k = "generate_audit_keys (e_sig demo_env) (replicate 32 5) (replicate 32 6)"
  obtain rsp where r: "fst (create_credential demo_env demo_time ''c1'' (replicate 12 0) demo_secret demo_vault_db) = Ok rsp"
    using demo_created_ok by (cases "fst (create_credential demo_env demo_time ''c1'' (replicate 12 0) demo_secret demo_vault_db)") auto
  have "tenant_exists ''t1'' demo_created" "db_up demo_created"
    unfolding demo_created_def using create_credential_Ok [OF r] demo_vault_db_parts by (auto simp: tenant_exists_def)
  then have k: "fst ?R = Ok ?k" by (simp add: rotate_audit_keys_def entry_def Let_def)
  have "vault_key (demo_env \<lparr> e_keys := ?k \<rparr>) (ccq_tenant_id demo_secret) \<noteq> vault_key demo_env (ccq_tenant_id demo_secret)"
    by (simp add: vault_key_def derive_tenant_key_def demo_env_def demo_aead_def generate_audit_keys_def KEY_LEN_def)
  from rotation_loses_credentials [OF _ _ r k [unfolded demo_created_def] this, of demo_wf_lib demo_time]
  show ?thesis using k by (cases ?R) (simp add: demo_aead_ok demo_created_def Let_def)
qed

end
