(* ===== verification/Bus.thy ===== *)
theory Bus
  imports Tasks Streams
begin

text \<open>
  The message bus of the agents (src/gateway/src/routes/messages.rs): posting, polling and the live stream. Every
  route checks the connect token of the machine in its path, as the routes of theory Pods do.
\<close>

section \<open>Requests and responses\<close>

record PostMessageRequest =
  pmq_to :: "string option"
  pmq_channel :: string
  pmq_body :: json

record PostMessageResponse =
  pmp_id :: int
  pmp_created_at :: string

record Message =
  me_id :: int
  me_from_machine :: string
  me_to_machine :: "string option"
  me_channel :: string
  me_body :: json
  me_created_at :: string

section \<open>Posting and polling\<close>

definition send_message ::
    "'x json_lib_scheme \<Rightarrow> session_env \<Rightarrow> utc \<Rightarrow> string \<Rightarrow> string option \<Rightarrow> PostMessageRequest \<Rightarrow> db \<Rightarrow>
     PostMessageResponse route \<times> db" where
  "send_message J E now machine_id query_token req d =
    (case verify_connect_token (e_sig E) machine_id query_token d of
       Err e \<Rightarrow> (Err e, d)
     | Panic \<Rightarrow> (Panic, d)
     | Ok _ \<Rightarrow>
        (Ok \<lparr> pmp_id = next_rowid (map am_id (agent_messages d)), pmp_created_at = sqlite_datetime now \<rparr>,
         post_message now machine_id (pmq_to req) (pmq_channel req) (json_print J (pmq_body req)) d))"

definition message_of :: "'x json_lib_scheme \<Rightarrow> agent_message_row \<Rightarrow> Message" where
  "message_of J r = \<lparr> me_id = am_id r, me_from_machine = am_from_machine r, me_to_machine = am_to_machine r,
     me_channel = am_channel r, me_body = json_or_null J (am_body r), me_created_at = am_created_at r \<rparr>"

definition addressed :: "string \<Rightarrow> string \<Rightarrow> agent_message_row \<Rightarrow> bool" where
  "addressed machine_id channel r \<longleftrightarrow>
     (am_to_machine r = Some machine_id \<or> am_to_machine r = None) \<and> am_channel r = channel"

definition poll_messages ::
    "'x json_lib_scheme \<Rightarrow> session_env \<Rightarrow> string \<Rightarrow> string option \<Rightarrow> string \<Rightarrow> string \<Rightarrow> db \<Rightarrow> Message list route" where
  "poll_messages J E machine_id query_token channel since d =
     bind_res (verify_connect_token (e_sig E) machine_id query_token d) (\<lambda>_.
     Ok (map (message_of J) (sort_key am_id
       (filter (\<lambda>r. addressed machine_id channel r \<and> am_created_at r > since) (agent_messages d)))))"

section \<open>The stream\<close>

datatype bus_event = MessageEvent Message | BusHeartbeat

definition fetch_new_messages :: "'x json_lib_scheme \<Rightarrow> string \<Rightarrow> string \<Rightarrow> int \<Rightarrow> db \<Rightarrow> Message list option" where
  "fetch_new_messages J machine_id channel last_id d =
    (if db_up d
     then Some (map (message_of J) (sort_key am_id
       (filter (\<lambda>r. addressed machine_id channel r \<and> am_id r > last_id) (agent_messages d))))
     else None)"

fun message_loop :: "'x json_lib_scheme \<Rightarrow> string \<Rightarrow> string \<Rightarrow> int \<Rightarrow> tick list \<Rightarrow> bus_event list" where
  "message_loop J machine_id channel last_id [] = []"
| "message_loop J machine_id channel last_id (HeartbeatTick # ts) =
     BusHeartbeat # message_loop J machine_id channel last_id ts"
| "message_loop J machine_id channel last_id (PollTick d # ts) =
    (case fetch_new_messages J machine_id channel last_id d of
       Some rows \<Rightarrow> map MessageEvent rows @
         message_loop J machine_id channel (foldl (\<lambda>l m. max (me_id m) l) last_id rows) ts
     | None \<Rightarrow> message_loop J machine_id channel last_id ts)"

definition stream_messages ::
    "'x json_lib_scheme \<Rightarrow> session_env \<Rightarrow> string \<Rightarrow> string option \<Rightarrow> string \<Rightarrow> db \<Rightarrow> tick list \<Rightarrow> bus_event list route" where
  "stream_messages J E machine_id query_token channel d ts =
     bind_res (verify_connect_token (e_sig E) machine_id query_token d) (\<lambda>_. Ok (message_loop J machine_id channel 0 ts))"

section \<open>The stream is complete\<close>

definition bus_grows :: "db \<Rightarrow> db \<Rightarrow> bool" where
  "bus_grows d d' \<longleftrightarrow> starts_with (agent_messages d') (agent_messages d) \<and> sorted_wrt (<) (map am_id (agent_messages d'))"

interpretation message_table: growing_table agent_messages am_id bus_grows
  by unfold_locales (auto simp: bus_grows_def starts_with_iff)

text \<open>Every handler that posts extends the table, because \<open>AUTOINCREMENT\<close> numbers grow.\<close>

lemma next_rowid_greater: "i \<in> set ids \<Longrightarrow> i < next_rowid ids"
  by (induction ids) (auto simp: next_rowid_def max_def)

lemma post_message_grows:
  assumes "sorted_wrt (<) (map am_id (agent_messages d))"
  shows "bus_grows d (post_message now f t c b d)"
  using assms next_rowid_greater [of _ "map am_id (agent_messages d)"]
  by (auto simp: bus_grows_def post_message_def starts_with_iff sorted_wrt_append sorted_wrt_map)

definition visible :: "string \<Rightarrow> string \<Rightarrow> db \<Rightarrow> agent_message_row list" where
  "visible machine_id channel d = numbered am_id (addressed machine_id channel) (agent_messages d)"

fun ticked_dbs :: "tick list \<Rightarrow> db list" where
  "ticked_dbs [] = []"
| "ticked_dbs (HeartbeatTick # ts) = ticked_dbs ts"
| "ticked_dbs (PollTick d # ts) = (if db_up d then [d] else []) @ ticked_dbs ts"

fun messages_sent :: "bus_event list \<Rightarrow> Message list" where
  "messages_sent [] = []"
| "messages_sent (BusHeartbeat # es) = messages_sent es"
| "messages_sent (MessageEvent m # es) = m # messages_sent es"

lemma messages_sent_append [simp]: "messages_sent (a @ b) = messages_sent a @ messages_sent b"
  by (induction a rule: messages_sent.induct) auto

lemma messages_sent_map [simp]: "messages_sent (map MessageEvent ms) = ms"
  by (induction ms) auto

lemma messages_sent_comp [simp]: "messages_sent (map (MessageEvent \<circ> f) rs) = map f rs"
  by (induction rs) auto

lemma me_id_message_of [simp]: "me_id (message_of J r) = am_id r"
  by (simp add: message_of_def)

lemma fetch_new_visible:
  assumes "bus_grows d d'" "db_up d'"
  shows "\<exists>new. visible m c d' = visible m c d @ new \<and>
    fetch_new_messages J m c (newest am_id (visible m c d)) d' = Some (map (message_of J) new) \<and>
    foldl (\<lambda>l r. max (me_id r) l) (newest am_id (visible m c d)) (map (message_of J) new) = newest am_id (visible m c d')"
proof -
  obtain new where new: "visible m c d' = visible m c d @ new"
      "filter (\<lambda>r. addressed m c r \<and> am_id r > newest am_id (visible m c d)) (agent_messages d') = new"
      "sorted_wrt (<) (map am_id new)"
    using message_table.newest_split [OF assms(1), of "addressed m c"] by (auto simp: visible_def)
  have "newest am_id (visible m c d) \<le> am_id r" if "r \<in> set new" for r using that new(2) by auto
  then have "foldl (\<lambda>l r. max (am_id r) l) (newest am_id (visible m c d)) new =
      (if new = [] then newest am_id (visible m c d) else am_id (last new))"
    by (intro foldl_max_newest new(3)) auto
  moreover have "foldl (\<lambda>l r. max (me_id r) l) x (map (message_of J) new) = foldl (\<lambda>l r. max (am_id r) l) x new" for x
    by (induction new arbitrary: x) simp_all
  ultimately show ?thesis
    using assms(2) new sorted_key_id [OF new(3)] by (auto simp: fetch_new_messages_def newest_def)
qed

lemma message_loop_sends:
  assumes "successively bus_grows (d # ticked_dbs ts)"
  shows "messages_sent (message_loop J m c (newest am_id (visible m c d)) ts) =
    map (message_of J) (drop (length (visible m c d)) (visible m c (last (d # ticked_dbs ts)))) \<and>
    take (length (visible m c d)) (visible m c (last (d # ticked_dbs ts))) = visible m c d"
  using assms
proof (induction ts arbitrary: d)
  case (Cons t ts)
  show ?case
  proof (cases t)
    case (PollTick d')
    show ?thesis
    proof (cases "db_up d'")
      case True
      then have g: "bus_grows d d'" "successively bus_grows (d' # ticked_dbs ts)" using Cons.prems PollTick by auto
      obtain new where new: "visible m c d' = visible m c d @ new"
          "fetch_new_messages J m c (newest am_id (visible m c d)) d' = Some (map (message_of J) new)"
          "foldl (\<lambda>l r. max (me_id r) l) (newest am_id (visible m c d)) (map (message_of J) new) = newest am_id (visible m c d')"
        using fetch_new_visible [OF g(1) True] by blast
      let ?V = "visible m c (last (d' # ticked_dbs ts))"
      from Cons.IH [OF g(2)] have V: "?V = visible m c d @ new @ drop (length (visible m c d')) ?V"
        by (metis append.assoc append_take_drop_id new(1))
      then have "drop (length (visible m c d)) ?V = new @ drop (length (visible m c d')) ?V"
        "take (length (visible m c d)) ?V = visible m c d"
        by (metis append_eq_conv_conj)+
      then show ?thesis using PollTick True new Cons.IH [OF g(2)] by simp
    next
      case False
      then show ?thesis using Cons.IH [of d] Cons.prems PollTick by (simp add: fetch_new_messages_def)
    qed
  next
    case HeartbeatTick
    then show ?thesis using Cons.IH [of d] Cons.prems by simp
  qed
qed simp

text \<open>C30. As long as the table of messages only grows, a stream yields every message of its channel that is addressed
  to its machine or to all, exactly once and in the order of posting, however polls, heartbeats, failures of
  the database and posts interleave.\<close>
theorem message_stream_complete:
  assumes "successively bus_grows (empty_db # d # ticked_dbs ts)"
    and "stream_messages J E machine_id query_token channel d (PollTick d # ts) = Ok events"
  shows "messages_sent events = map (message_of J) (visible machine_id channel (last (d # ticked_dbs ts)))"
proof -
  have up: "db_up d" and ev: "events = message_loop J machine_id channel 0 (PollTick d # ts)"
    using assms(2) by (auto simp: stream_messages_def bind_simps verify_connect_token_Ok)
  have e: "visible machine_id channel empty_db = []" by (simp add: visible_def numbered_def empty_db_def)
  then have n: "newest am_id (visible machine_id channel empty_db) = 0" by (simp add: newest_def)
  show ?thesis
    using message_loop_sends [of empty_db "PollTick d # ts" J machine_id channel] assms(1) up unfolding ev n e
    by (simp add: newest_def split: if_splits)
qed

section \<open>What a poll misses\<close>

text \<open>A poller continues after the time of the newest message it has, and times have whole seconds: a message that
  is posted in the same second as the newest one received is never delivered to it.\<close>
lemma poll_misses_same_second:
  assumes "fst (send_message J E now machine_id token req d) = Ok r1"
    and "fst (send_message J E now' machine_id token req' (snd (send_message J E now machine_id token req d))) = Ok r2"
    and "sqlite_datetime now' = sqlite_datetime now"
    and "poll_messages J E reader token' channel (pmp_created_at r1)
       (snd (send_message J E now' machine_id token req' (snd (send_message J E now machine_id token req d)))) = Ok ms"
  shows "pmp_id r2 \<notin> me_id ` set ms"
proof -
  let ?d1 = "snd (send_message J E now machine_id token req d)"
  let ?d2 = "snd (send_message J E now' machine_id token req' ?d1)"
  have r1: "pmp_created_at r1 = sqlite_datetime now"
    using assms(1) by (auto simp: send_message_def split: res.splits)
  have "\<exists>t. verify_connect_token (e_sig E) machine_id token ?d1 = Ok t"
    using assms(2) by (cases "verify_connect_token (e_sig E) machine_id token ?d1") (auto simp: send_message_def)
  then have id2: "pmp_id r2 = next_rowid (map am_id (agent_messages ?d1))"
    and d2: "?d2 = post_message now' machine_id (pmq_to req') (pmq_channel req') (json_print J (pmq_body req')) ?d1"
    using assms(2) by (auto simp: send_message_def)
  have "am_created_at r \<le> sqlite_datetime now" if "r \<in> set (agent_messages ?d2)" "am_id r = pmp_id r2" for r
  proof -
    have "r \<notin> set (agent_messages ?d1)"
    proof
      assume "r \<in> set (agent_messages ?d1)"
      then have "am_id r < next_rowid (map am_id (agent_messages ?d1))" by (intro next_rowid_greater) simp
      then show False using that(2) unfolding id2 by simp
    qed
    then show ?thesis using that(1) assms(3) unfolding d2 by (simp add: post_message_def)
  qed
  then have "r \<notin> set (filter (\<lambda>r. addressed reader channel r \<and> am_created_at r > sqlite_datetime now) (agent_messages ?d2))"
    if "am_id r = pmp_id r2" for r
    using that by (force simp: not_le [symmetric])
  then show ?thesis
    using assms(4) unfolding r1 by (force simp: poll_messages_def bind_simps)
qed

section \<open>Witnesses\<close>

definition demo_post :: PostMessageRequest where
  "demo_post = \<lparr> pmq_to = None, pmq_channel = ''c'', pmq_body = JObject [] \<rparr>"

lemma demo_bus_empty: "agent_messages demo_tenant_db = []" "agent_messages empty_db = []"
  by (simp_all add: demo_tenant_db_def empty_db_def)

lemma demo_bus_token: "verify_connect_token (e_sig demo_env) ''m9'' (Some ''x'') demo_tenant_db = Ok ''unknown''"
  by code_simp

lemma demo_bus_token_post:
  "verify_connect_token H m tok (post_message now f t c b d) = verify_connect_token H m tok d"
proof -
  have "stored_connect_hash m (post_message now f t c b d) = stored_connect_hash m d"
    "machine_tenant m (post_message now f t c b d) = machine_tenant m d" "db_up (post_message now f t c b d) = db_up d"
    by (simp_all add: stored_connect_hash_def machine_tenant_def post_message_def)
  then show ?thesis unfolding verify_connect_token_def by presburger
qed

lemma demo_send: "send_message demo_wf_lib demo_env demo_time ''m9'' (Some ''x'') demo_post demo_tenant_db =
    (Ok \<lparr> pmp_id = 1, pmp_created_at = sqlite_datetime demo_time \<rparr>,
     post_message demo_time ''m9'' None ''c'' (json_print demo_wf_lib (JObject [])) demo_tenant_db)"
  by (simp add: send_message_def demo_bus_token demo_bus_empty next_rowid_def demo_post_def)

theorem message_stream_complete_witness:
  "messages_sent [BusHeartbeat, MessageEvent (message_of demo_wf_lib
      \<lparr> am_id = 1, am_from_machine = ''m9'', am_to_machine = None, am_channel = ''c'', am_body = ''b'', am_created_at = sqlite_datetime demo_time \<rparr>)]
    = map (message_of demo_wf_lib) (visible ''m9'' ''c'' (post_message demo_time ''m9'' None ''c'' ''b'' demo_tenant_db))"
proof -
  let ?d = "post_message demo_time ''m9'' None ''c'' ''b'' demo_tenant_db"
  have up: "db_up demo_tenant_db" by code_simp
  have up2: "db_up ?d" using up by (simp add: post_message_def)
  have g: "successively bus_grows (empty_db # demo_tenant_db # ticked_dbs [HeartbeatTick, PollTick ?d])"
    using up2 by (simp add: bus_grows_def demo_bus_empty post_message_def)
  have "stream_messages demo_wf_lib demo_env ''m9'' (Some ''x'') ''c'' demo_tenant_db (PollTick demo_tenant_db # [HeartbeatTick, PollTick ?d]) =
      Ok [BusHeartbeat, MessageEvent (message_of demo_wf_lib
      \<lparr> am_id = 1, am_from_machine = ''m9'', am_to_machine = None, am_channel = ''c'', am_body = ''b'', am_created_at = sqlite_datetime demo_time \<rparr>)]"
    using up up2 demo_bus_token
    by (simp add: stream_messages_def fetch_new_messages_def demo_bus_empty post_message_def next_rowid_def addressed_def)
  from message_stream_complete [OF g this] up2 show ?thesis by simp
qed

lemma poll_misses_same_second_witness:
  "2 \<notin> me_id ` set (case poll_messages demo_wf_lib demo_env ''m8'' (Some ''x'') ''c'' (sqlite_datetime demo_time)
       (snd (send_message demo_wf_lib demo_env demo_time ''m9'' (Some ''x'') demo_post
         (snd (send_message demo_wf_lib demo_env demo_time ''m9'' (Some ''x'') demo_post demo_tenant_db)))) of Ok ms \<Rightarrow> ms | _ \<Rightarrow> [])"
proof -
  let ?d1 = "post_message demo_time ''m9'' None ''c'' (json_print demo_wf_lib (JObject [])) demo_tenant_db"
  have r1: "fst (send_message demo_wf_lib demo_env demo_time ''m9'' (Some ''x'') demo_post demo_tenant_db) =
      Ok \<lparr> pmp_id = 1, pmp_created_at = sqlite_datetime demo_time \<rparr>" by (simp add: demo_send)
  have n: "next_rowid (map am_id (agent_messages ?d1)) = 2" by (simp add: post_message_def demo_bus_empty next_rowid_def)
  have r2: "fst (send_message demo_wf_lib demo_env demo_time ''m9'' (Some ''x'') demo_post
       (snd (send_message demo_wf_lib demo_env demo_time ''m9'' (Some ''x'') demo_post demo_tenant_db))) =
      Ok \<lparr> pmp_id = 2, pmp_created_at = sqlite_datetime demo_time \<rparr>"
    unfolding demo_send snd_conv by (simp add: send_message_def demo_bus_token_post demo_bus_token n)
  have "verify_connect_token (e_sig demo_env) ''m8'' (Some ''x'') demo_tenant_db = Ok ''unknown''" by code_simp
  then obtain ms where ms: "poll_messages demo_wf_lib demo_env ''m8'' (Some ''x'') ''c''
       (pmp_created_at \<lparr> pmp_id = 1, pmp_created_at = sqlite_datetime demo_time \<rparr>)
       (snd (send_message demo_wf_lib demo_env demo_time ''m9'' (Some ''x'') demo_post
         (snd (send_message demo_wf_lib demo_env demo_time ''m9'' (Some ''x'') demo_post demo_tenant_db)))) = Ok ms"
    unfolding demo_send snd_conv by (simp add: send_message_def demo_bus_token_post demo_bus_token poll_messages_def)
  from poll_misses_same_second [OF r1 r2 refl ms] ms show ?thesis by simp
qed

end
