(* ===== verification/Dispatch.thy ===== *)
theory Dispatch
  imports Tasks
begin

text \<open>
  The continuous work endpoint (src/gateway/src/routes/next_work.rs): an agent's machine asks for work and receives a
  queued task, else the next phase of the blueprint, else the next coding task of a fixed list. The endpoint asks for no
  token. \<open>find_work\<close> holds the reads and \<open>place_work\<close> the writes of the part after the queue, so
  that two requests can interleave between them. Tasks of the same second are taken in the order of insertion, and
  \<open>lc\<close> is \<open>str::to_lowercase\<close>.
\<close>

section \<open>The plan\<close>

definition REPO_PATH :: string where "REPO_PATH = ''/home/dev/work/picast''"

definition blueprint_pipeline :: "(string \<times> string) list" where
  "blueprint_pipeline =
    [(''problem_catalog'', ''Create docs/blueprint/01-problem-catalog.md. Read the repo, identify all problems, stakeholders, constraints.''),
     (''rough_draft'', ''Create docs/blueprint/02-rough-draft.md. For EACH problem, propose a solution + alternative + risk.''),
     (''adrs'', ''Create docs/blueprint/03-adrs/ '' @ [CHR 0xE2, CHR 0x80, CHR 0x94] @ '' one ADR file per major decision.''),
     (''fine_draft'', ''Create docs/blueprint/04-fine-draft.md. Architecture: components, data model, security, test strategy.''),
     (''spec'', ''Create docs/blueprint/05-spec.md. Requirements with acceptance criteria.''),
     (''tasks'', ''Create docs/blueprint/06-tasks.md. Task breakdown with checkboxes, roles, estimates, dependencies.''),
     (''progress'', ''Create docs/blueprint/07-progress.md. Living progress doc.'')]"

text \<open>A coding task: its id, instruction, branch and commit message.\<close>

definition CODING_TASKS :: "(string \<times> string \<times> string \<times> string) list" where
  "CODING_TASKS =
    [(''T-101'',
      ''Bootstrap the Rust workspace skeleton. Create workspace Cargo.toml with 13 crates as empty crates with stub lib.rs/main.rs. Add clippy::unwrap_used lint config.'',
      ''feat/t-101-workspace-skeleton'', ''feat: bootstrap workspace skeleton (T-101)''),
     (''T-102'',
      ''Implement bogdan-config crate: TOML parser, env-var overlay, unknown-field rejection, security-field-restart invariant.'',
      ''feat/t-102-config-crate'', ''feat: implement bogdan-config crate (T-102)''),
     (''T-103'',
      ''Implement bogdan-tor crate: daemon supervisor. Start C Tor daemon via systemd, monitor via control port, restart on crash.'',
      ''feat/t-103-tor-supervisor'', ''feat: implement tor daemon supervisor (T-103)''),
     (''T-104'',
      ''Implement IsolateSOCKSAuth username derivation in bogdan-tor: SHA-256 of host, first 16 hex chars. Deterministic and collision-resistant.'',
      ''feat/t-104-socks-auth'', ''feat: implement IsolateSOCKSAuth username derivation (T-104)''),
     (''T-105'',
      ''Create config/torrc and config/iptables.rules. Hardened torrc (AvoidDiskWrites, SafeLogging, CookieAuthentication, IsolateSOCKSAuth). iptables rules dropping all non-Tor outbound.'',
      ''feat/t-105-torrc-iptables'', ''feat: add hardened torrc + iptables rules (T-105)''),
     (''T-106'',
      ''Create scripts/verify-network-isolation.sh. Runs tcpdump during a 60-second mock cast and asserts zero non-Tor packets.'',
      ''feat/t-106-verify-isolation'', ''feat: add network isolation verification script (T-106)''),
     (''T-107'',
      ''Implement bogdan-resolver crate: in-tree YouTube resolver. ~150-line Rust resolver using reqwest over socks5h://, returns ResolvedMedia within 10s.'',
      ''feat/t-107-youtube-resolver'', ''feat: implement YouTube resolver (T-107)''),
     (''T-201'',
      ''Implement bogdan-display crate: DRM master + atomic modesetting. Open /dev/dri/card0, acquire DRM master, program CRTC via drmModeAtomicCommit for plane 0.'',
      ''feat/t-201-display-drm'', ''feat: implement DRM display crate (T-201)''),
     (''T-202'',
      ''Implement bogdan-playback crate: GStreamer pipeline construction. Build appsrc '' @ [CHR 0xE2, CHR 0x86, CHR 0x92] @ '' queue2 '' @ [CHR 0xE2, CHR 0x86, CHR 0x92] @ '' parsebin '' @ [CHR 0xE2, CHR 0x86, CHR 0x92] @ '' v4l2h264dec '' @ [CHR 0xE2, CHR 0x86, CHR 0x92] @ '' v4l2convert '' @ [CHR 0xE2, CHR 0x86, CHR 0x92] @ '' kmssink for video.'',
      ''feat/t-202-playback-pipeline'', ''feat: implement GStreamer playback pipeline (T-202)''),
     (''T-301'',
      ''Implement bogdan-session crate: state machine. Implement Session, CastCommand, SessionState, ErrorCode. Single-threaded behind Arc<Mutex<Session>>.'',
      ''feat/t-301-session-state'', ''feat: implement session state machine (T-301)''),
     (''T-302'',
      ''Implement HTTP REST facade: POST /api/cast, /stop, /pause, /resume, /seek, GET /api/status. Translate each into CastCommand. CORS *.'',
      ''feat/t-302-http-facade'', ''feat: implement HTTP REST facade (T-302)''),
     (''T-303'',
      ''Implement WebSocket facade on :8586/events. Push state_changed, buffer_update, circuit_rotated, thermal_throttled, error events. 1024-entry ring buffer.'',
      ''feat/t-303-ws-facade'', ''feat: implement WebSocket facade (T-303)''),
     (''T-304'',
      ''Implement DLNA facade: gmediarender subprocess management. Spawn gmediarender, advertise via SSDP, accept SetAVTransportURI.'',
      ''feat/t-304-dlna-facade'', ''feat: implement DLNA facade (T-304)''),
     (''T-306'',
      ''Implement bogdan-server main binary: startup orchestration. Parse config, spawn tor supervisor, three facades, single Session. Expose /api/status.'',
      ''feat/t-306-server-main'', ''feat: implement server main binary (T-306)''),
     (''T-307'',
      ''Create conformance suites: HTTP, WebSocket, DLNA. tests/conformance/{http,ws,dlna}/ with pytest + curl + wscat.'',
      ''feat/t-307-conformance'', ''feat: add conformance test suites (T-307)'')]"

record NextWorkResponse =
  nwp_status :: string
  nwp_task_id :: string
  nwp_instruction :: string
  nwp_machine_id :: string
  nwp_repo_path :: string
  nwp_branch :: string
  nwp_commit_message :: string
  nwp_phase :: string

section \<open>Reading what was handed out\<close>

text \<open>A column \<open>json_extract(spec, '$.key')\<close> that is read as a \<open>String\<close>: numbers and truth values are
  integers for SQLite and are dropped with an error. SQLite fails on a text that is no JSON, which ends the rows.\<close>

definition text_column :: "'x json_lib_scheme \<Rightarrow> json \<Rightarrow> string option" where
  "text_column J v = (case v of
     JText s \<Rightarrow> Some s | JArray _ \<Rightarrow> Some (json_print J v) | JObject _ \<Rightarrow> Some (json_print J v) | _ \<Rightarrow> None)"

definition extracted :: "'x json_lib_scheme \<Rightarrow> string \<Rightarrow> task_row list \<Rightarrow> string list" where
  "extracted J key rows =
     List.map_filter (\<lambda>t. Option.bind (json_parse J (ta_spec t)) (\<lambda>spec. Option.bind (jget key spec) (text_column J)))
       (takeWhile (\<lambda>t. json_parse J (ta_spec t) \<noteq> None) rows)"

definition completed_phases :: "'x json_lib_scheme \<Rightarrow> string \<Rightarrow> db \<Rightarrow> string list" where
  "completed_phases J tenant_id d = extracted J ''blueprint_phase''
     (filter (\<lambda>t. ta_tenant_id t = tenant_id \<and> (ta_status t = ''completed'' \<or> ta_status t = ''running'')) (tasks d))"

definition dispatched_task_ids :: "'x json_lib_scheme \<Rightarrow> string \<Rightarrow> db \<Rightarrow> string list" where
  "dispatched_task_ids J tenant_id d =
     filter (\<lambda>s. s \<noteq> []) (extracted J ''coding_task_id'' (filter (\<lambda>t. ta_tenant_id t = tenant_id) (tasks d)))"

datatype work = Phase string string | Coding string string string string | NoWork

text \<open>The phases are done when each of the seven is handed out; then \<open>find\<close> looks for the first coding task.\<close>

definition find_work :: "'x json_lib_scheme \<Rightarrow> string \<Rightarrow> db \<Rightarrow> work" where
  "find_work J tenant_id d =
    (case List.find (\<lambda>(phase, _). phase \<notin> set (completed_phases J tenant_id d)) blueprint_pipeline of
       Some (phase, instruction) \<Rightarrow> Phase phase instruction
     | None \<Rightarrow>
        (case List.find (\<lambda>(tid, _). tid \<notin> set (dispatched_task_ids J tenant_id d)) CODING_TASKS of
           Some (tid, instruction, branch, commit_msg) \<Rightarrow> Coding tid instruction branch commit_msg
         | None \<Rightarrow> NoWork))"

section \<open>Handing out\<close>

definition started_message ::
    "'x json_lib_scheme \<Rightarrow> utc \<Rightarrow> string \<Rightarrow> string \<Rightarrow> string \<Rightarrow> string \<Rightarrow> db \<Rightarrow> db" where
  "started_message J now machine_id tenant_id task_id phase d =
     (if db_up d then post_message now machine_id None (''project-'' @ tenant_id)
        (json_print J (JObject [(''machine_id'', JText machine_id), (''phase'', JText phase), (''role'', JText ''agent''),
           (''task_id'', JText task_id), (''type'', JText ''task_started'')])) d
      else d)"

definition coding_spec :: "string \<Rightarrow> string \<Rightarrow> string \<Rightarrow> json" where
  "coding_spec coding_task_id instruction machine_id = JObject
    [(''blueprint_phase'', JText ''coding''), (''coding_task_id'', JText coding_task_id),
     (''image'', JText ''localhost:30500/stronghold/rust-stable:latest''), (''instruction'', JText instruction),
     (''machine_id'', JText machine_id), (''ttl_secs'', jint 7200)]"

definition start_task ::
    "'x json_lib_scheme \<Rightarrow> utc \<Rightarrow> string \<Rightarrow> string \<Rightarrow> string \<Rightarrow> json \<Rightarrow> string \<Rightarrow> db \<Rightarrow> unit route \<times> db" where
  "start_task J now task_id tenant_id machine_id spec phase d =
    (case insert_task (queued_task now task_id tenant_id (Some machine_id) None None (json_print J spec) \<lparr> ta_status := ''running'' \<rparr>) d of
       None \<Rightarrow> (Err (500, Wrapped []), d)
     | Some d' \<Rightarrow> (Ok (), started_message J now machine_id tenant_id task_id phase d'))"

definition place_work ::
    "'x json_lib_scheme \<Rightarrow> utc \<Rightarrow> string \<Rightarrow> string \<Rightarrow> string \<Rightarrow> work \<Rightarrow> db \<Rightarrow> NextWorkResponse route \<times> db" where
  "place_work J now ulid tenant_id machine_id w d =
    (let task_id = ''task_'' @ ulid in
     case w of
       Phase phase instruction \<Rightarrow>
        (case start_task J now task_id tenant_id machine_id (next_spec phase instruction machine_id) phase d of
           (r, d') \<Rightarrow> (bind_res r (\<lambda>_. Ok
             \<lparr> nwp_status = ''work'', nwp_task_id = task_id, nwp_instruction = instruction, nwp_machine_id = machine_id,
               nwp_repo_path = REPO_PATH, nwp_branch = ''docs/blueprint-'' @ phase,
               nwp_commit_message = ''docs: add '' @ phase @ '' (blueprint pipeline)'', nwp_phase = phase \<rparr>), d'))
     | Coding tid instruction branch commit_msg \<Rightarrow>
        (case start_task J now task_id tenant_id machine_id (coding_spec tid instruction machine_id) ''coding'' d of
           (r, d') \<Rightarrow> (bind_res r (\<lambda>_. Ok
             \<lparr> nwp_status = ''work'', nwp_task_id = task_id, nwp_instruction = instruction, nwp_machine_id = machine_id,
               nwp_repo_path = REPO_PATH, nwp_branch = branch, nwp_commit_message = commit_msg,
               nwp_phase = ''coding-'' @ tid \<rparr>), d'))
     | NoWork \<Rightarrow>
        (Ok \<lparr> nwp_status = ''idle'', nwp_task_id = [],
           nwp_instruction = ''All tasks dispatched. Review existing code for bugs. If you find issues, fix them, commit, and push.'',
           nwp_machine_id = machine_id, nwp_repo_path = REPO_PATH, nwp_branch = [], nwp_commit_message = [], nwp_phase = [] \<rparr>, d))"

section \<open>Queued tasks\<close>

definition oldest_queued :: "string \<Rightarrow> db \<Rightarrow> (string \<times> string) option" where
  "oldest_queued tenant_id d =
    (case sort_key ta_created_at (filter (\<lambda>t. ta_tenant_id t = tenant_id \<and> ta_status t = ''queued'') (tasks d)) of
       [] \<Rightarrow> None | t # _ \<Rightarrow> Some (ta_id t, ta_spec t))"

text \<open>The \<open>UPDATE\<close> that takes a task, with whether a row was changed.\<close>

definition lock_task :: "string \<Rightarrow> string \<Rightarrow> db \<Rightarrow> bool \<times> db" where
  "lock_task machine_id task_id d =
    (list_ex (\<lambda>t. ta_id t = task_id \<and> ta_status t = ''queued'') (tasks d),
     d \<lparr> tasks := update_where (\<lambda>t. ta_id t = task_id \<and> ta_status t = ''queued'')
       (\<lambda>t. t \<lparr> ta_status := ''running'', ta_machine_id := Some machine_id \<rparr>) (tasks d) \<rparr>)"

definition spec_text :: "'x json_lib_scheme \<Rightarrow> string \<Rightarrow> string \<Rightarrow> string" where
  "spec_text J key spec =
    (case Option.bind (json_parse J spec) (\<lambda>v. Option.bind (jget key v) as_str) of Some s \<Rightarrow> s | None \<Rightarrow> [])"

definition queued_answer ::
    "'x json_lib_scheme \<Rightarrow> (string \<Rightarrow> string) \<Rightarrow> string \<Rightarrow> string \<Rightarrow> string \<Rightarrow> NextWorkResponse" where
  "queued_answer J lc machine_id task_id spec =
    (let phase = spec_text J ''blueprint_phase'' spec; coding = spec_text J ''coding_task_id'' spec in
     \<lparr> nwp_status = ''work'', nwp_task_id = task_id, nwp_instruction = spec_text J ''instruction'' spec,
       nwp_machine_id = machine_id, nwp_repo_path = REPO_PATH,
       nwp_branch = (if coding = [] then ''docs/blueprint-'' @ phase else ''feat/'' @ lc coding),
       nwp_commit_message = (if coding = [] then ''docs: '' @ phase @ '' (blueprint pipeline)''
         else ''feat: implement '' @ coding @ '' ('' @ phase @ '')''), nwp_phase = phase \<rparr>)"

definition next_work ::
    "'x json_lib_scheme \<Rightarrow> (string \<Rightarrow> string) \<Rightarrow> utc \<Rightarrow> string \<Rightarrow> string \<Rightarrow> db \<Rightarrow> NextWorkResponse route \<times> db" where
  "next_work J lc now ulid machine_id d =
    (if \<not> db_up d then (Err (503, Wrapped []), d)
     else case query_row (\<lambda>m. ma_id m = machine_id \<and> ma_status m = ''active'') (machines d) of
       None \<Rightarrow> (Err (404, Msg (''Machine not found: '' @ machine_id)), d)
     | Some m \<Rightarrow>
        let tenant_id = ma_tenant_id m;
            (locked, d1) = (case oldest_queued tenant_id d of
               Some (tid, spec) \<Rightarrow> (case lock_task machine_id tid d of (ok, d1) \<Rightarrow> (if ok then Some (tid, spec) else None, d1))
             | None \<Rightarrow> (None, d))
        in case locked of
             Some (tid, spec) \<Rightarrow>
               (Ok (queued_answer J lc machine_id tid spec),
                started_message J now machine_id tenant_id tid (spec_text J ''blueprint_phase'' spec) d1)
           | None \<Rightarrow> place_work J now ulid tenant_id machine_id (find_work J tenant_id d1) d1)"

section \<open>A queued task is taken once\<close>

primrec lock_all :: "string list \<Rightarrow> string \<Rightarrow> db \<Rightarrow> bool list" where
  "lock_all [] task_id d = []"
| "lock_all (m # ms) task_id d = (case lock_task m task_id d of (ok, d') \<Rightarrow> ok # lock_all ms task_id d')"

lemma lock_task_gone: "\<not> list_ex (\<lambda>t. ta_id t = task_id \<and> ta_status t = ''queued'') (tasks (snd (lock_task m task_id d)))"
proof -
  let ?q = "\<lambda>t. ta_id t = task_id \<and> ta_status t = ''queued''"
  have H: "\<not> ?q (if ?q r then r \<lparr> ta_status := ''running'', ta_machine_id := Some m \<rparr> else r)" for r :: task_row
    by (cases "?q r") simp_all
  have "list_all (\<lambda>r. \<not> ?q r) (update_where ?q (\<lambda>t. t \<lparr> ta_status := ''running'', ta_machine_id := Some m \<rparr>) rows)" for rows :: "task_row list"
    unfolding update_where_def list_all_iff set_map ball_simps(9) by (rule ballI) (rule H)
  then show ?thesis unfolding lock_task_def snd_conv by (simp add: list_ex_iff list_all_iff)
qed

lemma lock_all_gone:
  "\<not> list_ex (\<lambda>t. ta_id t = task_id \<and> ta_status t = ''queued'') (tasks d) \<Longrightarrow> lock_all ms task_id d = replicate (length ms) False"
proof (induction ms arbitrary: d)
  case (Cons m ms)
  then show ?case using lock_task_gone [of task_id m d] by (simp add: lock_task_def)
qed simp

text \<open>Several requests may select the same queued task before any of them takes it; the guarded \<open>UPDATE\<close> gives
  it to the first of them only.\<close>
lemma queued_task_taken_once:
  assumes "list_ex (\<lambda>t. ta_id t = task_id \<and> ta_status t = ''queued'') (tasks d)"
  shows "lock_all (m # ms) task_id d = True # replicate (length ms) False"
  using assms lock_all_gone [OF lock_task_gone, of ms task_id m d] by (simp add: lock_task_def)

section \<open>The plan is followed\<close>

definition plan :: "work list" where
  "plan = map (\<lambda>(p, i). Phase p i) blueprint_pipeline @ map (\<lambda>(t, i, b, c). Coding t i b c) CODING_TASKS"

definition label :: "work \<Rightarrow> string" where
  "label w = (case w of Phase p _ \<Rightarrow> p | Coding t _ _ _ \<Rightarrow> ''coding-'' @ t | NoWork \<Rightarrow> [])"

definition work_spec :: "work \<Rightarrow> string \<Rightarrow> json" where
  "work_spec w m = (case w of Phase p i \<Rightarrow> next_spec p i m | Coding t i _ _ \<Rightarrow> coding_spec t i m | NoWork \<Rightarrow> JNull)"

lemma blueprint_names: "map fst blueprint_pipeline = PIPELINE" "distinct (map fst blueprint_pipeline)" "length blueprint_pipeline = 7"
  by code_simp+

lemma coding_names: "distinct (map fst CODING_TASKS)" "length CODING_TASKS = 15" "[] \<notin> set (map fst CODING_TASKS)"
    "''coding'' \<notin> set (map fst blueprint_pipeline)"
  by code_simp+

lemma length_plan: "length plan = 22"
  by (simp add: plan_def blueprint_names coding_names)

lemma extracted_parsed:
  "map (\<lambda>t. json_parse J (ta_spec t)) rows = map Some vs \<Longrightarrow>
   extracted J key rows = List.map_filter (\<lambda>v. Option.bind (jget key v) (text_column J)) vs"
proof (induction rows arbitrary: vs)
  case (Cons t rows)
  then obtain v vs' where "vs = v # vs'" "json_parse J (ta_spec t) = Some v"
      "map (\<lambda>t. json_parse J (ta_spec t)) rows = map Some vs'" by (cases vs) auto
  moreover from this(3) have "extracted J key rows = List.map_filter (\<lambda>v. Option.bind (jget key v) (text_column J)) vs'"
    by (rule Cons.IH)
  ultimately show ?case unfolding extracted_def by (simp add: List.map_filter_simps split: option.split)
qed (simp add: extracted_def)

lemma find_next:
  assumes "distinct (map fst xs)" "\<And>x. x \<in> set xs \<Longrightarrow> fst x \<in> A \<longleftrightarrow> fst x \<in> set (map fst (take k xs))"
  shows "List.find (\<lambda>x. fst x \<notin> A) xs = (if k < length xs then Some (xs ! k) else None)"
  using assms
proof (induction xs arbitrary: k)
  case (Cons x xs)
  show ?case
  proof (cases k)
    case 0
    then show ?thesis using Cons.prems(2) [of x] by simp
  next
    case (Suc j)
    then have "fst x \<in> A" using Cons.prems(2) [of x] by simp
    moreover have "List.find (\<lambda>x. fst x \<notin> A) xs = (if j < length xs then Some (xs ! j) else None)"
    proof (rule Cons.IH)
      fix y assume y: "y \<in> set xs"
      then have "fst y \<noteq> fst x" using Cons.prems(1) by (metis distinct.simps(2) image_eqI list.set_map list.simps(9))
      then show "fst y \<in> A \<longleftrightarrow> fst y \<in> set (map fst (take j xs))" using Cons.prems(2) [of y] y Suc by auto
    qed (use Cons.prems(1) in simp)
    ultimately show ?thesis using Suc by simp
  qed
qed simp

text \<open>The state after \<open>k\<close> items of the plan: the tenant's tasks are these items, and they run.\<close>

definition handed :: "'x json_lib_scheme \<Rightarrow> string \<Rightarrow> nat \<Rightarrow> db \<Rightarrow> bool" where
  "handed J u k d \<longleftrightarrow> (let rows = filter (\<lambda>t. ta_tenant_id t = u) (tasks d) in
     list_all (\<lambda>t. ta_status t = ''running'') rows \<and>
     (\<exists>ms. length ms = length (take k plan) \<and>
       map (\<lambda>t. json_parse J (ta_spec t)) rows = map (\<lambda>(w, m). Some (work_spec w m)) (zip (take k plan) ms)))"

lemma handed_running:
  assumes "handed J u k d"
  shows "oldest_queued u d = None"
    and "filter (\<lambda>t. ta_tenant_id t = u \<and> (ta_status t = ''completed'' \<or> ta_status t = ''running'')) (tasks d) = filter (\<lambda>t. ta_tenant_id t = u) (tasks d)"
proof -
  have r: "ta_status t = ''running''" if "t \<in> set (tasks d)" "ta_tenant_id t = u" for t
    using assms that by (auto simp: handed_def list_all_iff Let_def)
  then have "filter (\<lambda>t. ta_tenant_id t = u \<and> ta_status t = ''queued'') (tasks d) = []" by (auto simp: filter_empty_conv)
  then show "oldest_queued u d = None" by (simp add: oldest_queued_def)
  show "filter (\<lambda>t. ta_tenant_id t = u \<and> (ta_status t = ''completed'' \<or> ta_status t = ''running'')) (tasks d) = filter (\<lambda>t. ta_tenant_id t = u) (tasks d)"
    using r by (intro filter_cong) auto
qed

lemma phases_of_plan:
  "length ms = length ws \<Longrightarrow> set ws \<subseteq> set plan \<Longrightarrow>
   set (List.map_filter (\<lambda>v. Option.bind (jget ''blueprint_phase'' v) (text_column J)) (map (\<lambda>(w, m). work_spec w m) (zip ws ms))) =
     {p. \<exists>i. Phase p i \<in> set ws} \<union> {''coding'' | t i b c. Coding t i b c \<in> set ws} \<and>
   set (List.map_filter (\<lambda>v. Option.bind (jget ''coding_task_id'' v) (text_column J)) (map (\<lambda>(w, m). work_spec w m) (zip ws ms))) =
     {t. \<exists>i b c. Coding t i b c \<in> set ws}"
proof (induction ws arbitrary: ms)
  case (Cons w ws)
  obtain m ms' where m: "ms = m # ms'" using Cons.prems(1) by (cases ms) auto
  have IH: "length ms' = length ws" "set ws \<subseteq> set plan" using Cons.prems m by auto
  have "w \<noteq> NoWork" using Cons.prems(2) by (auto simp: plan_def)
  then show ?case using Cons.IH [OF IH]
    by (cases w) (auto simp: m work_spec_def next_spec_def coding_spec_def text_column_def List.map_filter_simps)
qed (simp add: List.map_filter_simps)

lemma find_work_plan:
  assumes "handed J u k d"
  shows "find_work J u d = (if k < length plan then plan ! k else NoWork)"
proof -
  let ?rows = "filter (\<lambda>t. ta_tenant_id t = u) (tasks d)" let ?ws = "take k plan"
  obtain ms where ms: "length ms = length ?ws"
      "map (\<lambda>t. json_parse J (ta_spec t)) ?rows = map Some (map (\<lambda>(w, m). work_spec w m) (zip ?ws ms))"
    using assms by (auto simp: handed_def Let_def case_prod_beta comp_def)
  note cols = phases_of_plan [OF ms(1) set_take_subset, of J] and e = extracted_parsed [OF ms(2)]
  have P: "p \<in> set (completed_phases J u d) \<longleftrightarrow> (\<exists>i. Phase p i \<in> set ?ws)" if "p \<in> set (map fst blueprint_pipeline)" for p
  proof -
    have "p \<noteq> ''coding''" using that coding_names(4) by blast
    then show ?thesis using cols unfolding completed_phases_def handed_running(2) [OF assms] e by simp
  qed
  have C: "t \<in> set (dispatched_task_ids J u d) \<longleftrightarrow> (\<exists>i b c. Coding t i b c \<in> set ?ws)" if "t \<in> set (map fst CODING_TASKS)" for t
  proof -
    have "t \<noteq> []" using that coding_names(3) by blast
    then show ?thesis using cols unfolding dispatched_task_ids_def e by simp
  qed
  have ws: "?ws = map (\<lambda>(p, i). Phase p i) (take k blueprint_pipeline) @ map (\<lambda>(t, i, b, c). Coding t i b c) (take (k - 7) CODING_TASKS)"
    by (simp add: plan_def take_map blueprint_names)
  have wsP: "(\<exists>i. Phase p i \<in> set ?ws) \<longleftrightarrow> p \<in> fst ` set (take k blueprint_pipeline)" for p
    unfolding ws set_append set_map Un_iff by (simp add: image_iff case_prod_beta) force
  have wsC: "(\<exists>i b c. Coding t i b c \<in> set ?ws) \<longleftrightarrow> t \<in> fst ` set (take (k - 7) CODING_TASKS)" for t
    unfolding ws set_append set_map Un_iff by (simp add: image_iff case_prod_beta) force
  have f1: "List.find (\<lambda>x. fst x \<notin> set (completed_phases J u d)) blueprint_pipeline =
      (if k < length blueprint_pipeline then Some (blueprint_pipeline ! k) else None)"
  proof (rule find_next [OF blueprint_names(2)])
    fix x assume "x \<in> set blueprint_pipeline"
    then have "fst x \<in> set (map fst blueprint_pipeline)" unfolding set_map by (rule imageI)
    from P [OF this] show "fst x \<in> set (completed_phases J u d) \<longleftrightarrow> fst x \<in> set (map fst (take k blueprint_pipeline))"
      unfolding wsP set_map .
  qed
  have f2: "List.find (\<lambda>x. fst x \<notin> set (dispatched_task_ids J u d)) CODING_TASKS =
      (if k - 7 < length CODING_TASKS then Some (CODING_TASKS ! (k - 7)) else None)"
  proof (rule find_next [OF coding_names(1)])
    fix x assume "x \<in> set CODING_TASKS"
    then have "fst x \<in> set (map fst CODING_TASKS)" unfolding set_map by (rule imageI)
    from C [OF this] show "fst x \<in> set (dispatched_task_ids J u d) \<longleftrightarrow> fst x \<in> set (map fst (take (k - 7) CODING_TASKS))"
      unfolding wsC set_map .
  qed
  have "find_work J u d = (case if k < 7 then Some (blueprint_pipeline ! k) else None of
       Some (phase, instruction) \<Rightarrow> Phase phase instruction
     | None \<Rightarrow> (case if k - 7 < 15 then Some (CODING_TASKS ! (k - 7)) else None of
           Some (tid, instruction, branch, commit_msg) \<Rightarrow> Coding tid instruction branch commit_msg
         | None \<Rightarrow> NoWork))"
    using f1 f2 unfolding find_work_def case_prod_beta blueprint_names(3) coding_names(2) by simp
  then show ?thesis
    by (auto simp: plan_def nth_append blueprint_names coding_names case_prod_beta)
qed

lemma place_work_plan:
  assumes "handed J u k d" "k < length plan" "db_up d" "tenant_exists u d" "list_ex (\<lambda>r. ma_id r = m) (machines d)"
    and "\<not> list_ex (\<lambda>t. ta_id t = ''task_'' @ ulid) (tasks d)"
    and "json_parse J (json_print J (work_spec (plan ! k) m)) = Some (work_spec (plan ! k) m)"
  shows "\<exists>a d' new. place_work J now ulid u m (plan ! k) d = (Ok a, d') \<and> nwp_phase a = label (plan ! k) \<and>
    handed J u (Suc k) d' \<and> tasks d' = tasks d @ [new] \<and> ta_id new = ''task_'' @ ulid \<and>
    machines d' = machines d \<and> tenants d' = tenants d \<and> db_up d' = db_up d"
proof -
  let ?w = "plan ! k"
  let ?new = "queued_task now (''task_'' @ ulid) u (Some m) None None (json_print J (work_spec ?w m)) \<lparr> ta_status := ''running'' \<rparr>"
  have new: "ta_id ?new = ''task_'' @ ulid" "ta_tenant_id ?new = u" "ta_machine_id ?new = Some m" "ta_status ?new = ''running''"
      "ta_spec ?new = json_print J (work_spec ?w m)" by (simp_all add: queued_task_def)
  have ins: "insert_task ?new d = Some (d \<lparr> tasks := tasks d @ [?new] \<rparr>)"
    using assms(4-6) new by (simp add: insert_task_def)
  have step: "start_task J now (''task_'' @ ulid) u m (work_spec ?w m) ph d =
      (Ok (), started_message J now m u (''task_'' @ ulid) ph (d \<lparr> tasks := tasks d @ [?new] \<rparr>))" for ph
    using ins by (simp add: start_task_def)
  have keep: "tasks (started_message J now m u x ph e) = tasks e" "machines (started_message J now m u x ph e) = machines e"
      "tenants (started_message J now m u x ph e) = tenants e" "db_up (started_message J now m u x ph e) = db_up e" for x ph e
    by (simp_all add: started_message_def post_message_def)
  have "?w \<noteq> NoWork" using nth_mem [OF assms(2)] by (auto simp: plan_def)
  then have "\<exists>a ph. place_work J now ulid u m ?w d =
      (Ok a, started_message J now m u (''task_'' @ ulid) ph (d \<lparr> tasks := tasks d @ [?new] \<rparr>)) \<and> nwp_phase a = label ?w"
  proof (cases ?w)
    case (Phase p i)
    with step [of p] show ?thesis by (simp add: place_work_def work_spec_def label_def Let_def) blast
  next
    case (Coding t i b c)
    with step [of "''coding''"] show ?thesis by (simp add: place_work_def work_spec_def label_def Let_def) blast
  qed simp
  then obtain a ph where a: "place_work J now ulid u m ?w d =
      (Ok a, started_message J now m u (''task_'' @ ulid) ph (d \<lparr> tasks := tasks d @ [?new] \<rparr>))" "nwp_phase a = label ?w"
    by blast
  obtain ms where ms: "length ms = length (take k plan)"
      "map (\<lambda>t. json_parse J (ta_spec t)) (filter (\<lambda>t. ta_tenant_id t = u) (tasks d)) = map (\<lambda>(w, m). Some (work_spec w m)) (zip (take k plan) ms)"
    using assms(1) by (auto simp: handed_def Let_def)
  have "handed J u (Suc k) (d \<lparr> tasks := tasks d @ [?new] \<rparr>)"
    unfolding handed_def Let_def
  proof (intro conjI exI [of _ "ms @ [m]"])
    show "list_all (\<lambda>t. ta_status t = ''running'') (filter (\<lambda>t. ta_tenant_id t = u) (tasks (d \<lparr> tasks := tasks d @ [?new] \<rparr>)))"
      using assms(1) new by (simp add: handed_def Let_def)
    show "length (ms @ [m]) = length (take (Suc k) plan)" using ms(1) assms(2) by simp
    show "map (\<lambda>t. json_parse J (ta_spec t)) (filter (\<lambda>t. ta_tenant_id t = u) (tasks (d \<lparr> tasks := tasks d @ [?new] \<rparr>))) =
      map (\<lambda>(w, m). Some (work_spec w m)) (zip (take (Suc k) plan) (ms @ [m]))"
      using ms assms(2,7) new by (simp add: take_Suc_conv_app_nth)
  qed
  then have "handed J u (Suc k) (started_message J now m u (''task_'' @ ulid) ph (d \<lparr> tasks := tasks d @ [?new] \<rparr>))"
    by (simp add: handed_def keep)
  then show ?thesis using a new keep by auto
qed

primrec serve_work ::
    "'x json_lib_scheme \<Rightarrow> (string \<Rightarrow> string) \<Rightarrow> (utc \<times> string \<times> string) list \<Rightarrow> db \<Rightarrow> NextWorkResponse route list" where
  "serve_work J lc [] d = []"
| "serve_work J lc (c # cs) d = (case c of (now, ulid, m) \<Rightarrow>
     (case next_work J lc now ulid m d of (r, d') \<Rightarrow> r # serve_work J lc cs d'))"

definition answered_phase :: "NextWorkResponse route \<Rightarrow> string option" where
  "answered_phase r = (case r of Ok a \<Rightarrow> Some (nwp_phase a) | _ \<Rightarrow> None)"

lemma answered_phase_Ok [simp]: "answered_phase (Ok a) = Some (nwp_phase a)"
  by (simp add: answered_phase_def)

lemma next_work_handed:
  assumes "handed J u k d" "db_up d" "query_row (\<lambda>r. ma_id r = m \<and> ma_status r = ''active'') (machines d) = Some row" "ma_tenant_id row = u"
  shows "next_work J lc now ulid m d = place_work J now ulid u m (if k < length plan then plan ! k else NoWork) d"
  using assms handed_running(1) [OF assms(1)] find_work_plan [OF assms(1)] by (simp add: next_work_def)

lemma serve_work_plan:
  assumes "handed J u k d" "k \<le> length plan" "db_up d" "tenant_exists u d"
    and "list_all (\<lambda>(now, ulid, m). map_option ma_tenant_id
           (query_row (\<lambda>r. ma_id r = m \<and> ma_status r = ''active'') (machines d)) = Some u) calls"
    and "distinct (map (\<lambda>(now, ulid, m). ulid) calls)"
    and "list_all (\<lambda>(now, ulid, m). \<not> list_ex (\<lambda>t. ta_id t = ''task_'' @ ulid) (tasks d)) calls"
    and "list_all (\<lambda>(w, (now, ulid, m)). json_parse J (json_print J (work_spec w m)) = Some (work_spec w m)) (zip (drop k plan) calls)"
  shows "map answered_phase (serve_work J lc calls d) =
    map Some (take (length calls) (map label (drop k plan)) @ replicate (length calls - (length plan - k)) [])"
  using assms
proof (induction calls arbitrary: k d)
  case (Cons c calls)
  obtain now ulid m where c: "c = (now, ulid, m)" by (cases c)
  obtain row where row: "query_row (\<lambda>r. ma_id r = m \<and> ma_status r = ''active'') (machines d) = Some row" "ma_tenant_id row = u"
    using Cons.prems(5) c by auto
  note nw = next_work_handed [OF Cons.prems(1,3) row, of lc now ulid]
  show ?case
  proof (cases "k < length plan")
    case True
    have m: "list_ex (\<lambda>r. ma_id r = m) (machines d)" using query_row_Some [OF row(1)] by (auto simp: list_ex_iff)
    have dk: "drop k plan = plan ! k # drop (Suc k) plan" using True by (simp add: Cons_nth_drop_Suc)
    have fresh: "\<not> list_ex (\<lambda>t. ta_id t = ''task_'' @ ulid) (tasks d)"
      "json_parse J (json_print J (work_spec (plan ! k) m)) = Some (work_spec (plan ! k) m)"
      using Cons.prems(7,8) c dk by simp_all
    obtain a d' new where step: "place_work J now ulid u m (plan ! k) d = (Ok a, d')" "nwp_phase a = label (plan ! k)"
        "handed J u (Suc k) d'" "tasks d' = tasks d @ [new]" "ta_id new = ''task_'' @ ulid" "machines d' = machines d"
        "tenants d' = tenants d" "db_up d' = db_up d"
      using place_work_plan [OF Cons.prems(1) True Cons.prems(3,4) m fresh, of now] by blast
    have "tenant_exists u d'" "db_up d'" using Cons.prems(3,4) step by (simp_all add: tenant_exists_def)
    moreover have "list_all (\<lambda>(now, ulid, m). \<not> list_ex (\<lambda>t. ta_id t = ''task_'' @ ulid) (tasks d')) calls"
      using Cons.prems(6,7) c unfolding step(4) by (force simp: list_all_iff step(5))
    ultimately have "map answered_phase (serve_work J lc calls d') =
        map Some (take (length calls) (map label (drop (Suc k) plan)) @ replicate (length calls - (length plan - Suc k)) [])"
      using True Cons.prems(5,6,8) c dk step(6) by (intro Cons.IH [OF step(3)]) simp_all
    then show ?thesis using nw step(1,2) True c dk by simp
  next
    case False
    then have "k = length plan" using Cons.prems(2) by simp
    then show ?thesis using nw Cons.IH [OF Cons.prems(1-4)] Cons.prems(5-7) c by (simp add: place_work_def Let_def)
  qed
qed simp

text \<open>C31. Requests of a tenant's machines that come one after the other receive the seven phases and the fifteen coding
  tasks in their order, each exactly once, and then the answer that nothing is left.\<close>
theorem dispatch_follows_plan:
  assumes "filter (\<lambda>t. ta_tenant_id t = u) (tasks d) = []" "db_up d" "tenant_exists u d"
    and "list_all (\<lambda>(now, ulid, m). map_option ma_tenant_id
           (query_row (\<lambda>r. ma_id r = m \<and> ma_status r = ''active'') (machines d)) = Some u) calls"
    and "distinct (map (\<lambda>(now, ulid, m). ulid) calls)"
    and "list_all (\<lambda>(now, ulid, m). \<not> list_ex (\<lambda>t. ta_id t = ''task_'' @ ulid) (tasks d)) calls"
    and "list_all (\<lambda>(w, (now, ulid, m)). json_parse J (json_print J (work_spec w m)) = Some (work_spec w m)) (zip plan calls)"
  shows "map answered_phase (serve_work J lc calls d) =
    map Some (take (length calls) (map fst blueprint_pipeline @ map (\<lambda>(t, _). ''coding-'' @ t) CODING_TASKS) @
      replicate (length calls - 22) [])"
proof -
  have h: "handed J u 0 d" by (simp add: handed_def assms(1))
  have l: "map label plan = map fst blueprint_pipeline @ map (\<lambda>(t, _). ''coding-'' @ t) CODING_TASKS"
    by (auto simp: plan_def label_def case_prod_beta comp_def)
  show ?thesis
    using serve_work_plan [OF h _ assms(2-6), of lc] assms(7) unfolding l [symmetric] length_plan by simp
qed

text \<open>Requests that overlap are not kept apart, although the module says that no task is assigned twice: when two
  machines have read the tasks before either has stored its own, both are started on the same work.\<close>
lemma overlapping_requests_same_work:
  assumes "handed J u k d" "k < length plan" "db_up d" "tenant_exists u d"
    and "list_ex (\<lambda>r. ma_id r = m1) (machines d)" "list_ex (\<lambda>r. ma_id r = m2) (machines d)" "ulid1 \<noteq> ulid2"
    and "\<not> list_ex (\<lambda>t. ta_id t = ''task_'' @ ulid1) (tasks d)" "\<not> list_ex (\<lambda>t. ta_id t = ''task_'' @ ulid2) (tasks d)"
    and "json_parse J (json_print J (work_spec (plan ! k) m1)) = Some (work_spec (plan ! k) m1)"
  shows "\<exists>a1 a2 d1 d2. place_work J now1 ulid1 u m1 (find_work J u d) d = (Ok a1, d1) \<and>
    place_work J now2 ulid2 u m2 (find_work J u d) d1 = (Ok a2, d2) \<and>
    nwp_phase a1 = label (plan ! k) \<and> nwp_phase a2 = nwp_phase a1 \<and> nwp_task_id a2 \<noteq> nwp_task_id a1"
proof -
  have w: "find_work J u d = plan ! k" using find_work_plan [OF assms(1)] assms(2) by simp
  obtain a1 d1 new where s1: "place_work J now1 ulid1 u m1 (plan ! k) d = (Ok a1, d1)" "nwp_phase a1 = label (plan ! k)"
      "tasks d1 = tasks d @ [new]" "ta_id new = ''task_'' @ ulid1" "machines d1 = machines d" "tenants d1 = tenants d"
    using place_work_plan [OF assms(1-5,8,10), of now1] by blast
  have t1: "nwp_task_id a1 = ''task_'' @ ulid1"
    using s1(1) nth_mem [OF assms(2)]
    by (cases "plan ! k") (auto simp: place_work_def Let_def plan_def bind_simps split: prod.splits)
  have ins: "insert_task (queued_task now2 (''task_'' @ ulid2) u (Some m2) None None sp \<lparr> ta_status := ''running'' \<rparr>) d1 \<noteq> None" for sp
    using assms(4,6,7,9) s1 by (simp add: insert_task_def queued_task_def tenant_exists_def)
  have "\<exists>a2 d2. place_work J now2 ulid2 u m2 (plan ! k) d1 = (Ok a2, d2) \<and> nwp_phase a2 = label (plan ! k) \<and> nwp_task_id a2 = ''task_'' @ ulid2"
  proof (cases "plan ! k")
    case (Phase p i)
    obtain e where "insert_task (queued_task now2 (''task_'' @ ulid2) u (Some m2) None None (json_print J (next_spec p i m2))
        \<lparr> ta_status := ''running'' \<rparr>) d1 = Some e" using ins by blast
    then show ?thesis using Phase by (simp add: place_work_def start_task_def label_def Let_def)
  next
    case (Coding t i b c)
    obtain e where "insert_task (queued_task now2 (''task_'' @ ulid2) u (Some m2) None None (json_print J (coding_spec t i m2))
        \<lparr> ta_status := ''running'' \<rparr>) d1 = Some e" using ins by blast
    then show ?thesis using Coding by (simp add: place_work_def start_task_def label_def Let_def)
  next
    case NoWork
    then show ?thesis using nth_mem [OF assms(2)] by (auto simp: plan_def)
  qed
  then show ?thesis using s1 t1 assms(7) unfolding w by auto
qed

section \<open>Witnesses\<close>

lemma queued_task_taken_once_witness:
  "lock_all [''m1'', ''m2''] ''task_0'' demo_tasks_db = [True, False]"
proof -
  have "list_ex (\<lambda>t. ta_id t = ''task_0'' \<and> ta_status t = ''queued'') (tasks demo_tasks_db)"
    by (simp add: demo_tasks_db_def demo_phase_task_def queued_task_def)
  from queued_task_taken_once [OF this, of "''m1''" "[''m2'']"] show ?thesis by simp
qed

text \<open>A JSON library on the two specifications of the example.\<close>

definition demo_plan_json :: json_lib where
  "demo_plan_json = \<lparr> json_print = (\<lambda>v. case Option.bind (jget ''blueprint_phase'' v) as_str of Some p \<Rightarrow> p | None \<Rightarrow> []),
     json_parse = (\<lambda>t. Some (next_spec t (case map_of blueprint_pipeline t of Some i \<Rightarrow> i | None \<Rightarrow> []) ''m1'')),
     f64_parse = (\<lambda>t. None) \<rparr>"

definition demo_plan_db :: db where
  "demo_plan_db = demo_agent_db \<lparr> machines := [demo_m1] \<rparr>"

lemma demo_plan_parts: "db_up demo_plan_db" "tenant_exists ''t1'' demo_plan_db" "tasks demo_plan_db = []" "machines demo_plan_db = [demo_m1]"
  by (simp_all add: demo_plan_db_def demo_agent_db_def demo_tenant_db_def empty_db_def tenant_exists_def)

lemma demo_plan_print:
  "p = fst (blueprint_pipeline ! 0) \<or> p = fst (blueprint_pipeline ! 1) \<Longrightarrow> map_of blueprint_pipeline p = Some i \<Longrightarrow>
   json_parse demo_plan_json (json_print demo_plan_json (work_spec (Phase p i) ''m1'')) = Some (work_spec (Phase p i) ''m1'')"
  by (simp add: demo_plan_json_def work_spec_def next_spec_def as_str_def)

lemma demo_plan_items: "plan = Phase (fst (blueprint_pipeline ! 0)) (snd (blueprint_pipeline ! 0)) #
    Phase (fst (blueprint_pipeline ! 1)) (snd (blueprint_pipeline ! 1)) # drop 2 plan"
  by code_simp

lemma demo_plan_lookup: "map_of blueprint_pipeline (fst (blueprint_pipeline ! 0)) = Some (snd (blueprint_pipeline ! 0))"
    "map_of blueprint_pipeline (fst (blueprint_pipeline ! 1)) = Some (snd (blueprint_pipeline ! 1))"
  by code_simp+

theorem dispatch_follows_plan_witness:
  "map answered_phase (serve_work demo_plan_json id [(demo_time, ''1'', ''m1''), (demo_time, ''2'', ''m1'')] demo_plan_db) =
    [Some ''problem_catalog'', Some ''rough_draft'']"
proof -
  let ?calls = "[(demo_time, ''1'', ''m1''), (demo_time, ''2'', ''m1'')]"
  have j: "list_all (\<lambda>(w, (now, ulid, m)). json_parse demo_plan_json (json_print demo_plan_json (work_spec w m)) = Some (work_spec w m))
      (zip plan ?calls)"
    by (subst demo_plan_items) (simp only: zip_Cons_Cons prod.case demo_plan_print demo_plan_lookup simp_thms zip.simps(1) list.pred_inject)
  have m: "list_all (\<lambda>(now, ulid, m). map_option ma_tenant_id
      (query_row (\<lambda>r. ma_id r = m \<and> ma_status r = ''active'') (machines demo_plan_db)) = Some ''t1'') ?calls"
    by (simp add: demo_plan_parts demo_m1_def)
  have names: "take 2 (map fst blueprint_pipeline @ map (\<lambda>(t, _). ''coding-'' @ t) CODING_TASKS) = [''problem_catalog'', ''rough_draft'']"
    by code_simp
  have l: "length ?calls = 2" by simp
  have "map answered_phase (serve_work demo_plan_json id ?calls demo_plan_db) =
      map Some (take (length ?calls) (map fst blueprint_pipeline @ map (\<lambda>(t, _). ''coding-'' @ t) CODING_TASKS) @ replicate (length ?calls - 22) [])"
    by (rule dispatch_follows_plan [OF _ demo_plan_parts(1,2) m _ _ j]) (simp_all add: demo_plan_parts)
  then show ?thesis unfolding l names by simp
qed

lemma overlapping_requests_same_work_witness:
  "\<exists>a1 a2 d1 d2. place_work demo_plan_json demo_time ''1'' ''t1'' ''m1'' (find_work demo_plan_json ''t1'' demo_plan_db) demo_plan_db = (Ok a1, d1) \<and>
    place_work demo_plan_json demo_time ''2'' ''t1'' ''m1'' (find_work demo_plan_json ''t1'' demo_plan_db) d1 = (Ok a2, d2) \<and>
    nwp_phase a2 = nwp_phase a1 \<and> nwp_task_id a2 \<noteq> nwp_task_id a1"
proof -
  have h: "handed demo_plan_json ''t1'' 0 demo_plan_db" by (simp add: handed_def demo_plan_parts)
  have w: "plan ! 0 = Phase (fst (blueprint_pipeline ! 0)) (snd (blueprint_pipeline ! 0))" by (subst demo_plan_items) simp
  have j: "json_parse demo_plan_json (json_print demo_plan_json (work_spec (plan ! 0) ''m1'')) = Some (work_spec (plan ! 0) ''m1'')"
    unfolding w by (rule demo_plan_print) (simp_all only: demo_plan_lookup simp_thms)
  from overlapping_requests_same_work [OF h _ demo_plan_parts(1,2) _ _ _ _ _ j, of "''m1''" "''1''" "''2''" demo_time demo_time]
  show ?thesis by (simp add: demo_plan_parts demo_m1_def length_plan) blast
qed

end
