(* ===== verification/Roles.thy ===== *)
theory Roles
  imports Tasks
begin

text \<open>
  Roles and constitutional principles (src/gateway/src/routes/roles.rs): the administrator's endpoints, the default
  roles, and \<open>check_tool_allowed\<close>, which looks up the role of a machine's current task.
\<close>

section \<open>Requests and responses\<close>

record CreateRoleRequest =
  rlq_tenant_id :: string
  rlq_name :: string
  rlq_system_prompt :: string
  rlq_allowed_tools :: "string list"
  rlq_denied_tools :: "string list"

record CreateRoleResponse =
  rlp_id :: string
  rlp_tenant_id :: string
  rlp_name :: string
  rlp_created_at :: string

record ListRoleItem =
  lri_id :: string
  lri_name :: string
  lri_system_prompt :: string
  lri_allowed_tools :: "string list"
  lri_denied_tools :: "string list"
  lri_created_at :: string

record GetRoleResponse = ListRoleItem +
  grp_tenant_id :: string

record SeedRolesResponse =
  srp_tenant_id :: string
  srp_created :: "string list"
  srp_skipped :: "string list"

record ConstitutionPrinciple =
  co_number :: "32 word"
  co_title :: string
  co_description :: string

section \<open>Default roles and principles\<close>

record DefaultRole =
  dr_name :: string
  dr_system_prompt :: string
  dr_allowed_tools :: "string list"
  dr_denied_tools :: "string list"

definition DEFAULT_ROLES :: "DefaultRole list" where
  "DEFAULT_ROLES =
    [\<lparr> dr_name = ''planner'',
       dr_system_prompt = ''You are a Planner Agent in Stronghold. Your job: analyze tasks, explore codebases, create '' @
         ''implementation plans. You do not write code, create branches, push commits, approve PRs, '' @
         ''or merge. You produce a structured plan with file-level changes, dependencies, test '' @
         ''strategy, and risks.'',
       dr_allowed_tools = [''git_clone'', ''exec'', ''workflow_create'', ''result''],
       dr_denied_tools = [''git_branch'', ''git_commit'', ''git_push'', ''git_pr''] \<rparr>,
     \<lparr> dr_name = ''coder'',
       dr_system_prompt = ''You are a Coder Agent in Stronghold. Your job: implement changes, write tests, create PRs.'' @
         '' You read the plan, clone the repo, create a branch, implement, run tests locally, commit,'' @
         '' push, and open a PR. You respond to reviewer feedback by fixing issues and re-pushing. If'' @
         '' stuck after 3 attempts, escalate.'',
       dr_allowed_tools = [''git_clone'', ''git_branch'', ''exec'', ''git_commit'', ''git_push'', ''git_pr'', ''result''],
       dr_denied_tools = [] \<rparr>,
     \<lparr> dr_name = ''reviewer'',
       dr_system_prompt = ''You are a Reviewer Agent in Stronghold. Your job: review code changes, verify correctness,'' @
         '' approve or request changes. You read diffs with surrounding context and check '' @
         ''correctness, security, tests, error handling, performance, and style. You do not write '' @
         ''code, create branches, or merge PRs.'',
       dr_allowed_tools = [''git_clone'', ''exec'', ''result''],
       dr_denied_tools = [''git_branch'', ''git_commit'', ''git_push'', ''git_pr''] \<rparr>,
     \<lparr> dr_name = ''tester'',
       dr_system_prompt = ''You are a Tester Agent in Stronghold. Your job: run test suites, report structured '' @
         ''results. You check out the PR branch, run tests / lint / format checks, parse results, and'' @
         '' post test_results on the bus. You do not write code, fix tests, or create branches.'',
       dr_allowed_tools = [''git_clone'', ''exec'', ''result''],
       dr_denied_tools = [''git_branch'', ''git_commit'', ''git_push'', ''git_pr''] \<rparr>,
     \<lparr> dr_name = ''integrator'',
       dr_system_prompt = ''You are an Integrator Agent in Stronghold. Your job: merge approved PRs, run CI, keep main'' @
         '' green. You verify review approval + passing tests, check for conflicts, merge with '' @
         ''--squash --delete-branch, run CI on main, and post integration_complete or '' @
         ''integration_failed. You never force-merge conflicts.'',
       dr_allowed_tools = [''git_clone'', ''exec'', ''result''],
       dr_denied_tools = [''git_branch'', ''git_commit''] \<rparr>,
     \<lparr> dr_name = ''watchdog'',
       dr_system_prompt = ''You are a Watchdog Agent running inside Stronghold. You do not write code. You monitor '' @
         ''other agents for dedication, progress, workarounds, and scope reduction. Every 60 seconds '' @
         ''you compute a dedication score, scan for workaround patterns, and issue escalating '' @
         ''ultimata (Level 1 warning, Level 2 directive, Level 3 escalation) when agents drift off-'' @
         ''task.'',
       dr_allowed_tools = [''exec'', ''result''],
       dr_denied_tools = [''git_clone'', ''git_branch'', ''git_commit'', ''git_push'', ''git_pr'', ''workflow_create''] \<rparr>,
     \<lparr> dr_name = ''oracle'',
       dr_system_prompt = ''You are an Oracle Agent running inside Stronghold. You answer questions from other agents '' @
         ''about the codebase. You are the team'' @
         [CHR 0x27] @
         ''s collective memory and search engine. You have read-only git access and can run read-only'' @
         '' commands (grep, find, cat, rg, fd). You never write files, create branches, or push '' @
         ''commits.'',
       dr_allowed_tools = [''git_clone'', ''exec'', ''result''],
       dr_denied_tools = [''git_branch'', ''git_commit'', ''git_push'', ''git_pr''] \<rparr>,
     \<lparr> dr_name = ''architect'',
       dr_system_prompt = ''You are an Architect Agent running inside Stronghold. You make system design decisions '' @
         ''before implementation begins. You bridge the gap between the Planner'' @
         [CHR 0x27] @
         ''s high-level plan and the Coder'' @
         [CHR 0x27] @
         ''s detailed implementation. You evaluate design options, define interfaces, identify risks,'' @
         '' and document the design. You do not write implementation code.'',
       dr_allowed_tools = [''git_clone'', ''exec'', ''result''],
       dr_denied_tools = [''git_branch'', ''git_commit'', ''git_push'', ''git_pr''] \<rparr>,
     \<lparr> dr_name = ''facilitator'',
       dr_system_prompt = ''You are a Facilitator Agent running inside Stronghold. You mediate disagreements between '' @
         ''agents (typically Coder vs Reviewer) and make binding decisions when they can'' @
         [CHR 0x27] @
         ''t agree. You analyze both sides, reference codebase conventions and best practices, and '' @
         ''document the decision with reasoning and precedent. Your decisions are final unless '' @
         ''overturned by a human.'',
       dr_allowed_tools = [''git_clone'', ''exec'', ''result''],
       dr_denied_tools = [''git_branch'', ''git_commit'', ''git_push'', ''git_pr''] \<rparr>]"

definition CONSTITUTION :: "(string \<times> string) list" where
  "CONSTITUTION =
    [(''Correctness over speed'', ''A slow correct solution is better than a fast broken one.''),
     (''Honesty about uncertainty'', ''If you'' @
         [CHR 0x27] @
         ''re not sure, say so. Don'' @
         [CHR 0x27] @
         ''t fabricate APIs or functions.''),
     (''No workarounds'', ''Don'' @
         [CHR 0x27] @
         ''t suppress warnings, skip tests, or add `#[allow(...)]` to make code compile. Fix the root'' @
         '' cause.''),
     (''Minimal changes'', ''Change only what'' @
         [CHR 0x27] @
         ''s needed. Don'' @
         [CHR 0x27] @
         ''t refactor unrelated code in the same PR.''),
     (''Test what you change'', ''Every code change must have corresponding tests.''),
     (''Fail loud'', ''If something is wrong, raise an error. Don'' @ [CHR 0x27] @ ''t silently return defaults.''),
     (''Document public APIs'', ''Every public function must have a doc comment.''),
     (''Respect the codebase'', ''Match existing conventions, style, and patterns.''),
     (''No secrets in code'', ''Use environment variables. Never hardcode tokens, passwords, or keys.''),
     (''Escalate when stuck'', ''After 3 failed attempts, ask for help. Don'' @ [CHR 0x27] @ ''t spin indefinitely.'')]"

definition constitution :: "ConstitutionPrinciple list" where
  "constitution = map (\<lambda>(i, title, desc). \<lparr> co_number = word_of_nat (i + 1), co_title = title, co_description = desc \<rparr>)
     (enumerate 0 CONSTITUTION)"

section \<open>The administrator's endpoints\<close>

definition tools_json :: "'x json_lib_scheme \<Rightarrow> string list \<Rightarrow> string" where
  "tools_json J tools = json_print J (JArray (map JText tools))"

text \<open>\<open>from_str::<Vec<String>>(s).unwrap_or_default()\<close>\<close>

definition tools_of :: "'x json_lib_scheme \<Rightarrow> string \<Rightarrow> string list" where
  "tools_of J s = (case json_parse J s of
     Some (JArray vs) \<Rightarrow> (if list_all (\<lambda>v. as_str v \<noteq> None) vs then List.map_filter as_str vs else [])
   | _ \<Rightarrow> [])"

definition role_missing :: "string \<Rightarrow> nat \<times> route_msg" where
  "role_missing role_id = (404, Msg (''Role not found: '' @ role_id))"

datatype insert_outcome = Inserted db | UniqueViolation | OtherViolation

definition insert_role :: "agent_role_row \<Rightarrow> db \<Rightarrow> insert_outcome" where
  "insert_role r d =
    (if list_ex (\<lambda>x. ar_id x = ar_id r) (agent_roles d) then OtherViolation
     else if list_ex (\<lambda>x. ar_tenant_id x = ar_tenant_id r \<and> ar_name x = ar_name r) (agent_roles d) then UniqueViolation
     else Inserted (d \<lparr> agent_roles := agent_roles d @ [r] \<rparr>))"

definition create_role ::
    "'x json_lib_scheme \<Rightarrow> session_env \<Rightarrow> utc \<Rightarrow> string \<Rightarrow> CreateRoleRequest \<Rightarrow> db \<Rightarrow> CreateRoleResponse route \<times> db" where
  "create_role J E now ulid req d =
    (let role_id = ''role_'' @ ulid in
     if \<not> db_up d then (Err (503, Wrapped []), d)
     else case insert_role \<lparr> ar_id = role_id, ar_tenant_id = rlq_tenant_id req, ar_name = rlq_name req,
         ar_system_prompt = rlq_system_prompt req, ar_allowed_tools = tools_json J (rlq_allowed_tools req),
         ar_denied_tools = tools_json J (rlq_denied_tools req), ar_created_at = to_rfc3339 now \<rparr> d of
       UniqueViolation \<Rightarrow>
         (Err (409, Msg (''Role with name '' @ [CHR 0x27] @ rlq_name req @ [CHR 0x27] @ '' already exists for tenant '' @ [CHR 0x27] @
            rlq_tenant_id req @ [CHR 0x27])), d)
     | OtherViolation \<Rightarrow> (Err (500, Wrapped []), d)
     | Inserted d' \<Rightarrow>
         (Ok \<lparr> rlp_id = role_id, rlp_tenant_id = rlq_tenant_id req, rlp_name = rlq_name req, rlp_created_at = to_rfc3339 now \<rparr>,
          snd (audit_json J E now (rlq_tenant_id req) [] ''role_created''
            [(''name'', JText (rlq_name req)), (''role_id'', JText role_id)] d')))"

definition role_item :: "'x json_lib_scheme \<Rightarrow> agent_role_row \<Rightarrow> ListRoleItem" where
  "role_item J r = \<lparr> lri_id = ar_id r, lri_name = ar_name r, lri_system_prompt = ar_system_prompt r,
     lri_allowed_tools = tools_of J (ar_allowed_tools r), lri_denied_tools = tools_of J (ar_denied_tools r),
     lri_created_at = ar_created_at r \<rparr>"

definition list_roles :: "'x json_lib_scheme \<Rightarrow> string \<Rightarrow> db \<Rightarrow> ListRoleItem list route" where
  "list_roles J tenant d =
    (if \<not> db_up d then Err (503, Wrapped [])
     else Ok (map (role_item J) (sort_key ar_name (filter (\<lambda>r. ar_tenant_id r = tenant) (agent_roles d)))))"

definition get_role :: "'x json_lib_scheme \<Rightarrow> string \<Rightarrow> db \<Rightarrow> GetRoleResponse route" where
  "get_role J role_id d =
    (if \<not> db_up d then Err (503, Wrapped [])
     else case query_row (\<lambda>r. ar_id r = role_id) (agent_roles d) of
       None \<Rightarrow> Err (role_missing role_id)
     | Some r \<Rightarrow> Ok (ListRoleItem.extend (role_item J r) \<lparr> grp_tenant_id = ar_tenant_id r \<rparr>))"

definition delete_role :: "'x json_lib_scheme \<Rightarrow> session_env \<Rightarrow> utc \<Rightarrow> string \<Rightarrow> db \<Rightarrow> unit route \<times> db" where
  "delete_role J E now role_id d =
    (if \<not> db_up d then (Err (503, Wrapped []), d)
     else case query_row (\<lambda>r. ar_id r = role_id) (agent_roles d) of
       None \<Rightarrow> (Err (role_missing role_id), d)
     | Some r \<Rightarrow>
        (Ok (), snd (audit_json J E now (ar_tenant_id r) [] ''role_deleted''
           [(''name'', JText (ar_name r)), (''role_id'', JText role_id)]
           (d \<lparr> agent_roles := filter (\<lambda>r. ar_id r \<noteq> role_id) (agent_roles d) \<rparr>))))"

text \<open>The loop over the default roles, with a fresh id and the time for each; None is the early return of an error, after
  which the roles inserted so far stay.\<close>

fun seed_loop ::
    "'x json_lib_scheme \<Rightarrow> string \<Rightarrow> DefaultRole list \<Rightarrow> (utc \<times> string) list \<Rightarrow> db \<Rightarrow> (string list \<times> string list) option \<times> db" where
  "seed_loop J tenant_id (r # rs) ((now, ulid) # draws) d =
    (case insert_role \<lparr> ar_id = ''role_'' @ ulid, ar_tenant_id = tenant_id, ar_name = dr_name r,
         ar_system_prompt = dr_system_prompt r, ar_allowed_tools = tools_json J (dr_allowed_tools r),
         ar_denied_tools = tools_json J (dr_denied_tools r), ar_created_at = to_rfc3339 now \<rparr> d of
       Inserted d' \<Rightarrow> (case seed_loop J tenant_id rs draws d' of
         (out, d'') \<Rightarrow> (map_option (\<lambda>(created, skipped). (dr_name r # created, skipped)) out, d''))
     | UniqueViolation \<Rightarrow> (case seed_loop J tenant_id rs draws d of
         (out, d'') \<Rightarrow> (map_option (\<lambda>(created, skipped). (created, dr_name r # skipped)) out, d''))
     | OtherViolation \<Rightarrow> (None, d))"
| "seed_loop J tenant_id _ _ d = (Some ([], []), d)"

definition seed_roles ::
    "'x json_lib_scheme \<Rightarrow> session_env \<Rightarrow> utc \<Rightarrow> (utc \<times> string) list \<Rightarrow> string \<Rightarrow> db \<Rightarrow> SeedRolesResponse route \<times> db" where
  "seed_roles J E now draws tenant_id d =
    (if \<not> db_up d then (Err (503, Wrapped []), d)
     else case seed_loop J tenant_id DEFAULT_ROLES draws d of
       (None, d') \<Rightarrow> (Err (500, Wrapped []), d')
     | (Some (created, skipped), d') \<Rightarrow>
        (Ok \<lparr> srp_tenant_id = tenant_id, srp_created = created, srp_skipped = skipped \<rparr>,
         snd (audit_json J E now tenant_id [] ''roles_seeded''
           [(''created'', JArray (map JText created)), (''skipped'', JArray (map JText skipped))] d')))"

section \<open>Which tools a machine may use\<close>

text \<open>The newest running or scheduled task; of several created in the same second, the one inserted first.\<close>

definition current_task :: "string \<Rightarrow> db \<Rightarrow> task_row option" where
  "current_task machine_id d =
    (case rev (sort_key ta_created_at (rev (filter (\<lambda>t. ta_machine_id t = Some machine_id \<and>
        (ta_status t = ''running'' \<or> ta_status t = ''scheduled'')) (tasks d)))) of
       [] \<Rightarrow> None | t # _ \<Rightarrow> Some t)"

definition tool_policy :: "string list \<Rightarrow> string list \<Rightarrow> string \<Rightarrow> bool" where
  "tool_policy denied allowed tool \<longleftrightarrow> (if tool \<in> set denied then False else if allowed = [] then True else tool \<in> set allowed)"

definition check_tool_allowed :: "'x json_lib_scheme \<Rightarrow> string \<Rightarrow> string \<Rightarrow> db \<Rightarrow> bool" where
  "check_tool_allowed J machine_id tool d =
    (if \<not> db_up d then True
     else case current_task machine_id d of
       None \<Rightarrow> True
     | Some t \<Rightarrow>
        (case Option.bind (json_parse J (ta_spec t)) (\<lambda>spec. Option.bind (jget ''role'' spec) as_str) of
           None \<Rightarrow> True
         | Some role_name \<Rightarrow>
            (case query_row (\<lambda>r. ar_tenant_id r = ta_tenant_id t \<and> ar_name r = role_name) (agent_roles d) of
               None \<Rightarrow> True
             | Some r \<Rightarrow> tool_policy (tools_of J (ar_denied_tools r)) (tools_of J (ar_allowed_tools r)) tool)))"

section \<open>Seeding\<close>

lemma distinct_default_roles: "distinct (map dr_name DEFAULT_ROLES)" "length DEFAULT_ROLES = 9"
  by (simp_all add: DEFAULT_ROLES_def)

definition has_role :: "string \<Rightarrow> db \<Rightarrow> string \<Rightarrow> bool" where
  "has_role tenant_id d name \<longleftrightarrow> list_ex (\<lambda>x. ar_tenant_id x = tenant_id \<and> ar_name x = name) (agent_roles d)"

lemma insert_role_fresh:
  "\<not> list_ex (\<lambda>x. ar_id x = ar_id r) (agent_roles d) \<Longrightarrow>
   insert_role r d = (if has_role (ar_tenant_id r) d (ar_name r) then UniqueViolation else Inserted (d \<lparr> agent_roles := agent_roles d @ [r] \<rparr>))"
  by (simp add: insert_role_def has_role_def)

lemma seed_loop_fresh:
  assumes "length draws = length rs" "distinct (map snd draws)" "distinct (map dr_name rs)"
    and "list_all (\<lambda>(_, ulid). \<not> list_ex (\<lambda>x. ar_id x = ''role_'' @ ulid) (agent_roles d)) draws"
  shows "\<exists>new. seed_loop J u rs draws d =
      (Some (filter (\<lambda>n. \<not> has_role u d n) (map dr_name rs), filter (has_role u d) (map dr_name rs)),
       d \<lparr> agent_roles := agent_roles d @ new \<rparr>) \<and>
     map (\<lambda>r. (ar_tenant_id r, ar_name r)) new = map (\<lambda>n. (u, n)) (filter (\<lambda>n. \<not> has_role u d n) (map dr_name rs)) \<and>
     ar_id ` set new \<subseteq> (\<lambda>c. ''role_'' @ snd c) ` set draws"
  using assms
proof (induction rs arbitrary: draws d)
  case (Cons r rs)
  obtain now ulid draws' where dr: "draws = (now, ulid) # draws'" using Cons.prems(1) by (cases draws) auto
  let ?row = "\<lparr> ar_id = ''role_'' @ ulid, ar_tenant_id = u, ar_name = dr_name r, ar_system_prompt = dr_system_prompt r,
      ar_allowed_tools = tools_json J (dr_allowed_tools r), ar_denied_tools = tools_json J (dr_denied_tools r),
      ar_created_at = to_rfc3339 now \<rparr>"
  have fresh: "\<not> list_ex (\<lambda>x. ar_id x = ar_id ?row) (agent_roles d)" using Cons.prems(4) dr by simp
  show ?case
  proof (cases "has_role u d (dr_name r)")
    case True
    then have ins: "insert_role ?row d = UniqueViolation" using insert_role_fresh [OF fresh] by simp
    obtain new where "seed_loop J u rs draws' d =
        (Some (filter (\<lambda>n. \<not> has_role u d n) (map dr_name rs), filter (has_role u d) (map dr_name rs)), d \<lparr> agent_roles := agent_roles d @ new \<rparr>)"
        "map (\<lambda>r. (ar_tenant_id r, ar_name r)) new = map (\<lambda>n. (u, n)) (filter (\<lambda>n. \<not> has_role u d n) (map dr_name rs))"
        "ar_id ` set new \<subseteq> (\<lambda>c. ''role_'' @ snd c) ` set draws'"
      using Cons.IH [of draws' d] Cons.prems dr by auto
    then show ?thesis using True ins dr by (intro exI [of _ new]) auto
  next
    case False
    let ?d = "d \<lparr> agent_roles := agent_roles d @ [?row] \<rparr>"
    have ins: "insert_role ?row d = Inserted ?d" using insert_role_fresh [OF fresh] False by simp
    have fresh': "list_all (\<lambda>(_, ulid). \<not> list_ex (\<lambda>x. ar_id x = ''role_'' @ ulid) (agent_roles ?d)) draws'"
      using Cons.prems(2,4) dr by (force simp: list_all_iff)
    have same: "has_role u ?d n \<longleftrightarrow> has_role u d n" if "n \<in> set (map dr_name rs)" for n
      using that Cons.prems(3) by (auto simp: has_role_def)
    obtain new where new: "seed_loop J u rs draws' ?d =
        (Some (filter (\<lambda>n. \<not> has_role u ?d n) (map dr_name rs), filter (has_role u ?d) (map dr_name rs)), ?d \<lparr> agent_roles := agent_roles ?d @ new \<rparr>)"
        "map (\<lambda>r. (ar_tenant_id r, ar_name r)) new = map (\<lambda>n. (u, n)) (filter (\<lambda>n. \<not> has_role u ?d n) (map dr_name rs))"
        "ar_id ` set new \<subseteq> (\<lambda>c. ''role_'' @ snd c) ` set draws'"
      using Cons.IH [OF _ _ _ fresh'] Cons.prems dr by auto
    have "filter (\<lambda>n. \<not> has_role u ?d n) (map dr_name rs) = filter (\<lambda>n. \<not> has_role u d n) (map dr_name rs)"
      "filter (has_role u ?d) (map dr_name rs) = filter (has_role u d) (map dr_name rs)"
      using same by (intro filter_cong; simp)+
    then show ?thesis using new False ins dr by (intro exI [of _ "?row # new"]) auto
  qed
next
  case Nil
  then show ?case by (intro exI [of _ "[]"]) simp
qed


text \<open>C32. Seeding creates the default roles that the tenant lacks and skips the others, and a second seeding changes
  nothing: it creates no role, skips all nine and leaves the table as it was.\<close>
theorem seeding_is_idempotent:
  assumes "db_up d" "length draws = 9" "length draws' = 9" "distinct (map snd (draws @ draws'))"
    and "list_all (\<lambda>(_, ulid). \<not> list_ex (\<lambda>x. ar_id x = ''role_'' @ ulid) (agent_roles d)) (draws @ draws')"
  shows "fst (seed_roles J E now draws u d) = Ok \<lparr> srp_tenant_id = u,
      srp_created = filter (\<lambda>n. \<not> has_role u d n) (map dr_name DEFAULT_ROLES),
      srp_skipped = filter (has_role u d) (map dr_name DEFAULT_ROLES) \<rparr> \<and>
    fst (seed_roles J E now' draws' u (snd (seed_roles J E now draws u d))) = Ok \<lparr> srp_tenant_id = u, srp_created = [],
      srp_skipped = map dr_name DEFAULT_ROLES \<rparr> \<and>
    agent_roles (snd (seed_roles J E now' draws' u (snd (seed_roles J E now draws u d)))) = agent_roles (snd (seed_roles J E now draws u d))"
proof -
  have keep: "agent_roles (snd (audit_json J E n t m e p x)) = agent_roles x" "db_up (snd (audit_json J E n t m e p x)) = db_up x"
    for n t m e p x by (simp_all add: audit_json_def entry_def)
  let ?names = "map dr_name DEFAULT_ROLES"
  have dd: "distinct (map snd draws)" "distinct (map snd draws')" using assms(4) by simp_all
  have ff: "list_all (\<lambda>(_, ulid). \<not> list_ex (\<lambda>x. ar_id x = ''role_'' @ ulid) (agent_roles d)) draws" using assms(5) by simp
  obtain new where s: "seed_loop J u DEFAULT_ROLES draws d =
      (Some (filter (\<lambda>n. \<not> has_role u d n) ?names, filter (has_role u d) ?names), d \<lparr> agent_roles := agent_roles d @ new \<rparr>)"
      "map (\<lambda>r. (ar_tenant_id r, ar_name r)) new = map (\<lambda>n. (u, n)) (filter (\<lambda>n. \<not> has_role u d n) ?names)"
      "ar_id ` set new \<subseteq> (\<lambda>c. ''role_'' @ snd c) ` set draws"
    using seed_loop_fresh [OF _ dd(1) distinct_default_roles(1) ff, of J u] assms(2) distinct_default_roles(2) by auto
  define d1 where "d1 = snd (seed_roles J E now draws u d)"
  have d1: "agent_roles d1 = agent_roles d @ new" "db_up d1" using s(1) assms(1) by (simp_all add: d1_def seed_roles_def keep)
  have all: "has_role u d1 n" if "n \<in> set ?names" for n
  proof (cases "has_role u d n")
    case False
    then have "(u, n) \<in> set (map (\<lambda>r. (ar_tenant_id r, ar_name r)) new)" using that unfolding s(2) by auto
    then show ?thesis by (auto simp: has_role_def d1(1) list_ex_iff)
  qed (auto simp: has_role_def d1(1))
  have "filter (\<lambda>n. \<not> has_role u d1 n) ?names = []" "filter (has_role u d1) ?names = ?names"
    using all by (auto simp: filter_empty_conv intro: filter_True)
  moreover have "list_all (\<lambda>(_, ulid). \<not> list_ex (\<lambda>x. ar_id x = ''role_'' @ ulid) (agent_roles d1)) draws'"
    unfolding list_all_iff
  proof
    fix c assume c: "c \<in> set draws'"
    have old: "\<not> list_ex (\<lambda>x. ar_id x = ''role_'' @ snd c) (agent_roles d)"
      using assms(5) c by (cases c) (auto simp: list_all_iff)
    have "snd c \<notin> snd ` set draws" using assms(4) c by auto
    have "\<not> list_ex (\<lambda>x. ar_id x = ''role_'' @ snd c) new"
    proof
      assume "list_ex (\<lambda>x. ar_id x = ''role_'' @ snd c) new"
      then have "''role_'' @ snd c \<in> ar_id ` set new" unfolding list_ex_iff by (metis imageI)
      then obtain c' where "c' \<in> set draws" "''role_'' @ snd c = ''role_'' @ snd c'" using s(3) by blast
      then show False using \<open>snd c \<notin> snd ` set draws\<close> by (metis append_same_eq same_append_eq imageI)
    qed
    then show "case c of (_, ulid) \<Rightarrow> \<not> list_ex (\<lambda>x. ar_id x = ''role_'' @ ulid) (agent_roles d1)"
      using old by (simp add: d1(1) case_prod_beta)
  qed
  ultimately obtain new' where s': "seed_loop J u DEFAULT_ROLES draws' d1 = (Some ([], ?names), d1 \<lparr> agent_roles := agent_roles d1 @ new' \<rparr>)"
      "new' = []"
    using seed_loop_fresh [OF _ dd(2) distinct_default_roles(1), of d1 J u] assms(3) distinct_default_roles(2)
    by auto
  show ?thesis unfolding d1_def [symmetric] using s(1) s' assms(1) d1(2) by (simp add: seed_roles_def keep)
qed

section \<open>Enforcement\<close>

lemma tools_roundtrip:
  "json_parse J (tools_json J tools) = Some (JArray (map JText tools)) \<Longrightarrow> tools_of J (tools_json J tools) = tools"
proof -
  have "list_all (\<lambda>v. as_str v \<noteq> None) (map JText tools) \<and> List.map_filter as_str (map JText tools) = tools"
    by (induction tools) (simp_all add: as_str_def List.map_filter_simps)
  then show "json_parse J (tools_json J tools) = Some (JArray (map JText tools)) \<Longrightarrow> ?thesis" by (simp add: tools_of_def)
qed

text \<open>C33. The role named by a machine's current task decides about tools exactly as it was created: a denied tool is
  refused, else every tool is allowed when the list of allowed tools is empty, else those in it. When the role
  is deleted, every tool is allowed.\<close>
theorem role_decides_until_deleted:
  assumes "fst (create_role J E now ulid req d) = Ok rsp" "current_task machine_id d = Some t"
    and "ta_tenant_id t = rlq_tenant_id req" "json_parse J (ta_spec t) = Some spec" "jget ''role'' spec = Some (JText (rlq_name req))"
    and "json_parse J (tools_json J (rlq_allowed_tools req)) = Some (JArray (map JText (rlq_allowed_tools req)))"
    and "json_parse J (tools_json J (rlq_denied_tools req)) = Some (JArray (map JText (rlq_denied_tools req)))"
  shows "(check_tool_allowed J machine_id tool (snd (create_role J E now ulid req d)) \<longleftrightarrow>
      tool \<notin> set (rlq_denied_tools req) \<and> (rlq_allowed_tools req = [] \<or> tool \<in> set (rlq_allowed_tools req))) \<and>
    check_tool_allowed J machine_id tool (snd (delete_role J E now' (rlp_id rsp) (snd (create_role J E now ulid req d))))"
proof -
  have keep: "agent_roles (snd (audit_json J E n u m e p x)) = agent_roles x" "db_up (snd (audit_json J E n u m e p x)) = db_up x"
      "tasks (snd (audit_json J E n u m e p x)) = tasks x" for n u m e p x
    by (simp_all add: audit_json_def entry_def)
  let ?row = "\<lparr> ar_id = ''role_'' @ ulid, ar_tenant_id = rlq_tenant_id req, ar_name = rlq_name req,
         ar_system_prompt = rlq_system_prompt req, ar_allowed_tools = tools_json J (rlq_allowed_tools req),
         ar_denied_tools = tools_json J (rlq_denied_tools req), ar_created_at = to_rfc3339 now \<rparr>"
  have up: "db_up d" using assms(1) by (cases "db_up d") (simp_all add: create_role_def Let_def)
  obtain d' where ins: "insert_role ?row d = Inserted d'" and rsp: "rlp_id rsp = ''role_'' @ ulid"
    using assms(1) up by (cases "insert_role ?row d") (auto simp: create_role_def Let_def)
  have fresh: "query_row (\<lambda>x. ar_id x = ''role_'' @ ulid) (agent_roles d) = None"
      "query_row (\<lambda>x. ar_tenant_id x = rlq_tenant_id req \<and> ar_name x = rlq_name req) (agent_roles d) = None"
      "d' = d \<lparr> agent_roles := agent_roles d @ [?row] \<rparr>"
    using ins by (auto simp: insert_role_def query_row_None list_ex_iff split: if_splits)
  define d1 where "d1 = snd (create_role J E now ulid req d)"
  have d1: "agent_roles d1 = agent_roles d @ [?row]" "db_up d1" "tasks d1 = tasks d"
    using up ins fresh(3) by (simp_all add: d1_def create_role_def Let_def keep)
  have cur: "current_task machine_id d1 = Some t" using assms(2) by (simp add: current_task_def d1(3))
  have "query_row (\<lambda>r. ar_tenant_id r = ta_tenant_id t \<and> ar_name r = rlq_name req) (agent_roles d1) = Some ?row"
    using fresh(2) by (simp add: d1(1) query_row_append assms(3))
  then have 1: "check_tool_allowed J machine_id tool d1 \<longleftrightarrow> tool_policy (rlq_denied_tools req) (rlq_allowed_tools req) tool"
    using d1(2) cur assms(4,5) tools_roundtrip [OF assms(6)] tools_roundtrip [OF assms(7)]
    by (simp add: check_tool_allowed_def as_str_def)
  define d2 where "d2 = snd (delete_role J E now' (rlp_id rsp) d1)"
  have "query_row (\<lambda>r. ar_id r = ''role_'' @ ulid) (agent_roles d1) = Some ?row" using fresh(1) by (simp add: d1(1) query_row_append)
  then have d2: "agent_roles d2 = filter (\<lambda>r. ar_id r \<noteq> ''role_'' @ ulid) (agent_roles d1)" "db_up d2" "tasks d2 = tasks d"
    using d1 rsp by (simp_all add: d2_def delete_role_def keep)
  have "current_task machine_id d2 = Some t" using assms(2) by (simp add: current_task_def d2(3))
  moreover have "query_row (\<lambda>r. ar_tenant_id r = ta_tenant_id t \<and> ar_name r = rlq_name req) (agent_roles d2) = None"
    using fresh(2) by (auto simp: d2(1) d1(1) query_row_None assms(3))
  ultimately have "check_tool_allowed J machine_id tool d2"
    using assms(4,5) by (simp add: check_tool_allowed_def as_str_def)
  then show ?thesis using 1 unfolding d1_def [symmetric] d2_def [symmetric] by (simp add: tool_policy_def)
qed

section \<open>Witnesses\<close>

theorem seeding_is_idempotent_witness:
  "\<exists>rsp. fst (seed_roles demo_wf_lib demo_env demo_time
      (map (\<lambda>u. (demo_time, u)) [''a'', ''b'', ''c'', ''d'', ''e'', ''f'', ''g'', ''h'', ''i'']) ''t1''
      (snd (seed_roles demo_wf_lib demo_env demo_time
        (map (\<lambda>u. (demo_time, u)) [''1'', ''2'', ''3'', ''4'', ''5'', ''6'', ''7'', ''8'', ''9'']) ''t1'' demo_agent_db))) = Ok rsp \<and>
    srp_created rsp = []"
proof -
  let ?d1 = "map (\<lambda>u. (demo_time, u)) [''1'', ''2'', ''3'', ''4'', ''5'', ''6'', ''7'', ''8'', ''9'']"
  let ?d2 = "map (\<lambda>u. (demo_time, u)) [''a'', ''b'', ''c'', ''d'', ''e'', ''f'', ''g'', ''h'', ''i'']"
  have up: "db_up demo_agent_db" "agent_roles demo_agent_db = []"
    by (simp_all add: demo_agent_db_def demo_tenant_db_def empty_db_def)
  have l: "length ?d1 = 9" "length ?d2 = 9" by simp_all
  have dist: "distinct (map snd (?d1 @ ?d2))" by simp
  have fr: "list_all (\<lambda>(_, ulid). \<not> list_ex (\<lambda>x. ar_id x = ''role_'' @ ulid) (agent_roles demo_agent_db)) (?d1 @ ?d2)"
    by (simp add: up)
  from seeding_is_idempotent [OF up(1) l dist fr, of demo_wf_lib demo_env demo_time "''t1''" demo_time] show ?thesis by auto
qed

definition demo_role_json :: json_lib where
  "demo_role_json = \<lparr> json_print = (\<lambda>v. ''[]''),
     json_parse = (\<lambda>s. if s = ''[]'' then Some (JArray []) else Some (JObject [(''role'', JText ''coder'')])), f64_parse = (\<lambda>t. None) \<rparr>"

definition demo_role :: CreateRoleRequest where
  "demo_role = \<lparr> rlq_tenant_id = ''t1'', rlq_name = ''coder'', rlq_system_prompt = ''p'', rlq_allowed_tools = [], rlq_denied_tools = [] \<rparr>"

definition demo_role_db :: db where
  "demo_role_db = demo_agent_db \<lparr> machines := [demo_m1],
     tasks := [queued_task demo_time ''task_0'' ''t1'' (Some ''m1'') None None ''{}'' \<lparr> ta_status := ''running'' \<rparr>] \<rparr>"

theorem role_decides_until_deleted_witness:
  "check_tool_allowed demo_role_json ''m1'' ''exec'' (snd (create_role demo_role_json demo_env demo_time ''1'' demo_role demo_role_db))"
proof -
  have up: "db_up demo_role_db" "agent_roles demo_role_db = []"
    by (simp_all add: demo_role_db_def demo_agent_db_def demo_tenant_db_def empty_db_def)
  obtain rsp where r: "fst (create_role demo_role_json demo_env demo_time ''1'' demo_role demo_role_db) = Ok rsp"
    using up by (simp add: create_role_def insert_role_def Let_def)
  let ?t = "queued_task demo_time ''task_0'' ''t1'' (Some ''m1'') None None ''{}'' \<lparr> ta_status := ''running'' \<rparr>"
  have c: "current_task ''m1'' demo_role_db = Some ?t"
    by (simp add: current_task_def demo_role_db_def queued_task_def)
  have q: "ta_tenant_id ?t = rlq_tenant_id demo_role" "json_parse demo_role_json (ta_spec ?t) = Some (JObject [(''role'', JText ''coder'')])"
      "jget ''role'' (JObject [(''role'', JText ''coder'')]) = Some (JText (rlq_name demo_role))"
      "json_parse demo_role_json (tools_json demo_role_json (rlq_allowed_tools demo_role)) = Some (JArray (map JText (rlq_allowed_tools demo_role)))"
      "json_parse demo_role_json (tools_json demo_role_json (rlq_denied_tools demo_role)) = Some (JArray (map JText (rlq_denied_tools demo_role)))"
    by (simp_all add: queued_task_def demo_role_def demo_role_json_def tools_json_def)
  from role_decides_until_deleted [OF r c q, of "''exec''"] show ?thesis by (simp add: demo_role_def)
qed

end
