(* ===== verification/Mediation.thy ===== *)
theory Mediation
  imports Bus Watchdog
begin

text \<open>
  Questions to the oracle (src/gateway/src/routes/oracle.rs) and disagreements before the facilitator
  (src/gateway/src/routes/facilitator.rs). Questions and answers travel over the message bus of theory Bus.
\<close>

section \<open>The oracle\<close>

record AskRequest =
  asq_question :: string
  asq_context :: "json option"

record AskResponse =
  asp_question_id :: string
  asp_status :: string

record AnswerResponse =
  anp_question_id :: string
  anp_status :: string
  anp_answer :: "json option"

definition oracle_channel :: "string \<Rightarrow> string" where
  "oracle_channel machine_id = ''oracle-'' @ machine_id"

definition question_body :: "string \<Rightarrow> string \<Rightarrow> string \<Rightarrow> AskRequest \<Rightarrow> json" where
  "question_body question_id tenant_id machine_id req = JObject
    [(''context'', case asq_context req of Some c \<Rightarrow> c | None \<Rightarrow> JNull), (''machine_id'', JText machine_id),
     (''question'', JText (asq_question req)), (''question_id'', JText question_id), (''tenant_id'', JText tenant_id),
     (''type'', JText ''question'')]"

definition ask_oracle ::
    "'x json_lib_scheme \<Rightarrow> session_env \<Rightarrow> utc \<Rightarrow> string \<Rightarrow> string option \<Rightarrow> string \<Rightarrow> AskRequest \<Rightarrow> db \<Rightarrow> AskResponse route \<times> db" where
  "ask_oracle J E now ulid authorization machine_id req d =
    (case agent_of (e_sig E) now authorization d of
       Err e \<Rightarrow> (Err e, d)
     | Panic \<Rightarrow> (Panic, d)
     | Ok tenant_id \<Rightarrow>
        (Ok \<lparr> asp_question_id = ''oq_'' @ ulid, asp_status = ''queued'' \<rparr>,
         post_message now machine_id None (oracle_channel machine_id)
           (json_print J (question_body (''oq_'' @ ulid) tenant_id machine_id req)) d))"

definition answer_pattern :: "string \<Rightarrow> string" where
  "answer_pattern question_id = ''%'' @ [CHR 0x22] @ ''question_id'' @ [CHR 0x22] @ '':'' @ [CHR 0x22] @ question_id @ [CHR 0x22] @ ''%''"

text \<open>One body of the walk, newest first: Some answer ends it (the answer itself may be missing).\<close>

definition answer_in :: "'x json_lib_scheme \<Rightarrow> string \<Rightarrow> string \<Rightarrow> json option option" where
  "answer_in J question_id body_str =
    (case json_parse J body_str of
       None \<Rightarrow> None
     | Some body \<Rightarrow>
        if Option.bind (jget ''question_id'' body) as_str = Some question_id \<and> Option.bind (jget ''type'' body) as_str = Some ''answer''
        then Some (jget ''answer'' body) else None)"

fun first_answer :: "'x json_lib_scheme \<Rightarrow> string \<Rightarrow> string list \<Rightarrow> json option option" where
  "first_answer J question_id [] = None"
| "first_answer J question_id (b # bs) =
    (case answer_in J question_id b of Some a \<Rightarrow> Some a | None \<Rightarrow> first_answer J question_id bs)"

definition get_answer ::
    "'x json_lib_scheme \<Rightarrow> session_env \<Rightarrow> utc \<Rightarrow> string option \<Rightarrow> string \<Rightarrow> string \<Rightarrow> db \<Rightarrow> AnswerResponse route" where
  "get_answer J E now authorization machine_id question_id d =
     bind_res (agent_of (e_sig E) now authorization d) (\<lambda>_.
     Ok (case first_answer J question_id (map am_body (rev (sort_key am_id (filter
           (\<lambda>r. am_channel r = oracle_channel machine_id \<and> sql_like (answer_pattern question_id) (utf8_chars (am_body r)))
           (agent_messages d))))) of
         Some a \<Rightarrow> \<lparr> anp_question_id = question_id, anp_status = ''answered'', anp_answer = a \<rparr>
       | None \<Rightarrow> \<lparr> anp_question_id = question_id, anp_status = ''pending'', anp_answer = None \<rparr>))"

section \<open>The facilitator\<close>

record SubmitDisagreementRequest =
  sdq_task_id :: "string option"
  sdq_issue :: string
  sdq_coder_argument :: "string option"
  sdq_reviewer_argument :: "string option"
  sdq_context :: "json option"

record SubmitDisagreementResponse =
  sdp_disagreement_id :: string
  sdp_status :: string

record GetDecisionResponse =
  gdp_id :: string
  gdp_status :: string
  gdp_task_id :: "string option"
  gdp_decision :: "string option"
  gdp_reasoning :: "string option"
  gdp_precedent :: "string option"
  gdp_created_at :: string
  gdp_resolved_at :: "string option"

definition run_of_task :: "string \<Rightarrow> string option \<Rightarrow> db \<Rightarrow> string option route" where
  "run_of_task tenant_id task_id d =
    (case task_id of
       None \<Rightarrow> Ok None
     | Some tid \<Rightarrow>
        if tid = [] then Ok None
        else (case own_task tid tenant_id d of None \<Rightarrow> Err (task_missing tid) | Some t \<Rightarrow> Ok (ta_workflow_run_id t)))"

definition facilitator_channel :: "string option \<Rightarrow> string option \<Rightarrow> string \<Rightarrow> string" where
  "facilitator_channel run task_id machine_id =
    (case (run, task_id) of
       (Some wfr, _) \<Rightarrow> ''facilitator-'' @ wfr
     | (None, Some tid) \<Rightarrow> if tid \<noteq> [] then ''facilitator-task-'' @ tid else ''facilitator-machine-'' @ machine_id
     | (None, None) \<Rightarrow> ''facilitator-machine-'' @ machine_id)"

definition disagreement_announcement ::
    "string \<Rightarrow> string \<Rightarrow> string \<Rightarrow> string \<Rightarrow> SubmitDisagreementRequest \<Rightarrow> json" where
  "disagreement_announcement did tenant_id machine_id channel req = JObject
    [(''channel_hint'', JText channel), (''disagreement_id'', JText did), (''issue'', JText (sdq_issue req)),
     (''machine_id'', JText machine_id), (''task_id'', jopt (sdq_task_id req)), (''tenant_id'', JText tenant_id),
     (''type'', JText ''disagreement'')]"

definition submit_disagreement ::
    "'x json_lib_scheme \<Rightarrow> session_env \<Rightarrow> utc \<Rightarrow> string \<Rightarrow> string option \<Rightarrow> string \<Rightarrow> SubmitDisagreementRequest \<Rightarrow> db \<Rightarrow>
     SubmitDisagreementResponse route \<times> db" where
  "submit_disagreement J E now ulid authorization machine_id req d =
    (case agent_of (e_sig E) now authorization d of
       Err e \<Rightarrow> (Err e, d)
     | Panic \<Rightarrow> (Panic, d)
     | Ok tenant_id \<Rightarrow>
        (case run_of_task tenant_id (sdq_task_id req) d of
           Err e \<Rightarrow> (Err e, d)
         | Panic \<Rightarrow> (Panic, d)
         | Ok run \<Rightarrow>
            let did = ''dg_'' @ ulid; channel = facilitator_channel run (sdq_task_id req) machine_id in
            if list_ex (\<lambda>r. di_id r = did) (disagreements d) then (Err (500, Wrapped []), d)
            else (Ok \<lparr> sdp_disagreement_id = did, sdp_status = ''pending'' \<rparr>,
              post_message now machine_id None channel
                (json_print J (disagreement_announcement did tenant_id machine_id channel req))
                (d \<lparr> disagreements := disagreements d @
                  [\<lparr> di_id = did, di_tenant_id = tenant_id, di_task_id = sdq_task_id req, di_machine_id = machine_id,
                     di_issue = sdq_issue req, di_coder_argument = sdq_coder_argument req,
                     di_reviewer_argument = sdq_reviewer_argument req, di_context = map_option (json_print J) (sdq_context req),
                     di_decision = None, di_reasoning = None, di_precedent = None, di_status = ''pending'',
                     di_created_at = sqlite_datetime now, di_resolved_at = None \<rparr>] \<rparr>))))"

definition get_decision ::
    "session_env \<Rightarrow> utc \<Rightarrow> string option \<Rightarrow> string \<Rightarrow> db \<Rightarrow> GetDecisionResponse route" where
  "get_decision E now authorization disagreement_id d =
     bind_res (agent_of (e_sig E) now authorization d) (\<lambda>tenant_id.
     case query_row (\<lambda>r. di_id r = disagreement_id \<and> di_tenant_id r = tenant_id) (disagreements d) of
       None \<Rightarrow> Err (404, Msg (''Disagreement not found: '' @ disagreement_id))
     | Some r \<Rightarrow> Ok \<lparr> gdp_id = di_id r, gdp_status = di_status r, gdp_task_id = di_task_id r, gdp_decision = di_decision r,
         gdp_reasoning = di_reasoning r, gdp_precedent = di_precedent r, gdp_created_at = di_created_at r,
         gdp_resolved_at = di_resolved_at r \<rparr>)"

section \<open>Who answers\<close>

lemma newest_first_append:
  fixes r :: "agent_message_row"
  assumes "\<And>x. x \<in> set rows \<Longrightarrow> am_id x < am_id r"
  shows "rev (sort_key am_id (rows @ [r])) = r # rev (sort_key am_id rows)"
proof -
  have stable: "filter (\<lambda>x. am_id k = am_id x) (sort_key am_id rows) = filter (\<lambda>x. am_id k = am_id x) rows" for k :: agent_message_row
    using sort_key_stable [of am_id "am_id k" rows] by (simp add: eq_commute)
  have "sort_key am_id (rows @ [r]) = sort_key am_id rows @ [r]"
    by (rule properties_for_sort_key) (use assms stable in \<open>auto simp: sorted_append less_imp_le\<close>)
  then show ?thesis by simp
qed

text \<open>An answer is whatever was posted last on the machine's channel under the question's id: any machine of any tenant
  whose connect token passes can answer, and the asking agent receives that text as the oracle's answer.\<close>
lemma anyone_answers_for_oracle:
  assumes "agent_of (e_sig E) now authorization d = Ok u"
    and "fst (send_message J E now' stranger token \<lparr> pmq_to = to, pmq_channel = oracle_channel machine_id, pmq_body = body \<rparr> d) = Ok rsp"
    and "body = JObject [(''answer'', a), (''question_id'', JText q), (''type'', JText ''answer'')]"
    and "json_parse J (json_print J body) = Some body" "sql_like (answer_pattern q) (utf8_chars (json_print J body))"
  shows "get_answer J E now authorization machine_id q
      (snd (send_message J E now' stranger token \<lparr> pmq_to = to, pmq_channel = oracle_channel machine_id, pmq_body = body \<rparr> d)) =
    Ok \<lparr> anp_question_id = q, anp_status = ''answered'', anp_answer = Some a \<rparr>"
proof -
  let ?row = "\<lparr> am_id = next_rowid (map am_id (agent_messages d)), am_from_machine = stranger, am_to_machine = to,
      am_channel = oracle_channel machine_id, am_body = json_print J body, am_created_at = sqlite_datetime now' \<rparr>"
  let ?d = "snd (send_message J E now' stranger token \<lparr> pmq_to = to, pmq_channel = oracle_channel machine_id, pmq_body = body \<rparr> d)"
  let ?P = "\<lambda>r. am_channel r = oracle_channel machine_id \<and> sql_like (answer_pattern q) (utf8_chars (am_body r))"
  have d: "?d = post_message now' stranger to (oracle_channel machine_id) (json_print J body) d"
    using assms(2) by (cases "verify_connect_token (e_sig E) stranger token d") (auto simp: send_message_def)
  then have m: "agent_messages ?d = agent_messages d @ [?row]" by (simp add: post_message_def)
  have ag: "agent_of (e_sig E) now authorization ?d = Ok u"
    using assms(1) by (subst agent_of_cong [of _ d]) (simp_all add: d post_message_def)
  have "am_id r < am_id ?row" if "r \<in> set (filter ?P (agent_messages d))" for r
    using that by (auto intro: next_rowid_greater)
  note rev_sorted = newest_first_append [of "filter ?P (agent_messages d)" ?row, OF this]
  have "filter ?P (agent_messages ?d) = filter ?P (agent_messages d) @ [?row]" using assms(5) by (simp add: m)
  then have "rev (sort_key am_id (filter ?P (agent_messages ?d))) = ?row # rev (sort_key am_id (filter ?P (agent_messages d)))"
    using rev_sorted by simp
  moreover have "answer_in J q (am_body ?row) = Some (Some a)" using assms(3,4) by (simp add: answer_in_def as_str_def)
  ultimately show ?thesis using ag by (simp add: get_answer_def)
qed

section \<open>Decisions\<close>

text \<open>The requests that touch the table of disagreements.\<close>

datatype mediation_request =
    Submit utc string "string option" string SubmitDisagreementRequest
  | Decide utc "string option" string

definition serve_mediation :: "'x json_lib_scheme \<Rightarrow> session_env \<Rightarrow> mediation_request \<Rightarrow> db \<Rightarrow> db" where
  "serve_mediation J E r d =
    (case r of
       Submit now ulid authorization machine_id req \<Rightarrow> snd (submit_disagreement J E now ulid authorization machine_id req d)
     | Decide now authorization did \<Rightarrow> d)"

definition undecided :: "db \<Rightarrow> bool" where
  "undecided d \<longleftrightarrow> list_all (\<lambda>r. di_status r = ''pending'' \<and> di_decision r = None \<and> di_resolved_at r = None) (disagreements d)"

lemma submit_undecided:
  assumes "undecided d"
  shows "undecided (snd (submit_disagreement J E now ulid authorization machine_id req d))"
proof (cases "agent_of (e_sig E) now authorization d")
  case (Ok u)
  then show ?thesis
    using assms by (cases "run_of_task u (sdq_task_id req) d") (simp_all add: submit_disagreement_def undecided_def Let_def post_message_def)
qed (use assms in \<open>simp_all add: submit_disagreement_def\<close>)

lemma serve_undecided: "undecided d \<Longrightarrow> undecided (fold (serve_mediation J E) rs d)"
proof (induction rs arbitrary: d)
  case (Cons r rs)
  have "undecided (serve_mediation J E r d)" using Cons.prems submit_undecided by (cases r) (simp_all add: serve_mediation_def)
  then show ?case using Cons.IH by simp
qed simp


text \<open>A disagreement that was submitted is found by the agents of its tenant, with the fields it was submitted with.\<close>

lemma submitted_disagreement_found:
  assumes "fst (submit_disagreement J E now ulid authorization machine_id req d) = Ok rsp"
    and "agent_of (e_sig E) now authorization d = Ok u" "agent_of (e_sig E) now' authorization' d = Ok u"
  shows "\<exists>dec. get_decision E now' authorization' (sdp_disagreement_id rsp)
      (snd (submit_disagreement J E now ulid authorization machine_id req d)) = Ok dec \<and> gdp_task_id dec = sdq_task_id req"
proof -
  obtain run where run: "run_of_task u (sdq_task_id req) d = Ok run"
    using assms(1,2) by (cases "run_of_task u (sdq_task_id req) d") (simp_all add: submit_disagreement_def)
  have fresh: "\<not> list_ex (\<lambda>r. di_id r = ''dg_'' @ ulid) (disagreements d)"
    using assms(1,2) run by (cases "list_ex (\<lambda>r. di_id r = ''dg_'' @ ulid) (disagreements d)") (simp_all add: submit_disagreement_def Let_def)
  then have q: "query_row (\<lambda>r. di_id r = ''dg_'' @ ulid \<and> di_tenant_id r = u) (disagreements d) = None"
    by (auto simp: query_row_None list_ex_iff)
  let ?d = "snd (submit_disagreement J E now ulid authorization machine_id req d)"
  have "agent_of (e_sig E) now' authorization' ?d = Ok u"
    using assms(2,3) run fresh by (subst agent_of_cong [of _ d]) (simp_all add: submit_disagreement_def Let_def post_message_def)
  then show ?thesis
    using assms(1,2) run fresh q by (auto simp: submit_disagreement_def Let_def post_message_def get_decision_def query_row_append)
qed

section \<open>Witnesses\<close>

definition demo_oracle_json :: json_lib where
  "demo_oracle_json = \<lparr> json_print = (\<lambda>v. [CHR 0x22] @ ''question_id'' @ [CHR 0x22] @ '':'' @ [CHR 0x22] @ ''q'' @ [CHR 0x22]),
     json_parse = (\<lambda>s. Some (JObject [(''answer'', JNull), (''question_id'', JText ''q''), (''type'', JText ''answer'')])),
     f64_parse = (\<lambda>t. None) \<rparr>"

lemma anyone_answers_for_oracle_witness:
  "get_answer demo_oracle_json demo_env demo_time (Some ''Bearer a'') ''m1'' ''q''
      (snd (send_message demo_oracle_json demo_env demo_time ''m9'' (Some ''x'') \<lparr> pmq_to = None, pmq_channel = oracle_channel ''m1'',
         pmq_body = JObject [(''answer'', JNull), (''question_id'', JText ''q''), (''type'', JText ''answer'')] \<rparr> demo_agent_db)) =
    Ok \<lparr> anp_question_id = ''q'', anp_status = ''answered'', anp_answer = Some JNull \<rparr>"
proof -
  let ?b = "JObject [(''answer'', JNull), (''question_id'', JText ''q''), (''type'', JText ''answer'')]"
  have "verify_connect_token (e_sig demo_env) ''m9'' (Some ''x'') demo_agent_db = Ok ''unknown''" by code_simp
  then obtain rsp where r: "fst (send_message demo_oracle_json demo_env demo_time ''m9'' (Some ''x'')
      \<lparr> pmq_to = None, pmq_channel = oracle_channel ''m1'', pmq_body = ?b \<rparr> demo_agent_db) = Ok rsp"
    by (simp add: send_message_def)
  have l: "sql_like (answer_pattern ''q'') (utf8_chars (json_print demo_oracle_json ?b))" by code_simp
  have p: "json_parse demo_oracle_json (json_print demo_oracle_json ?b) = Some ?b" by (simp add: demo_oracle_json_def)
  show ?thesis by (rule anyone_answers_for_oracle [OF demo_agent_ok r refl p l])
qed

definition demo_disagreement :: SubmitDisagreementRequest where
  "demo_disagreement = \<lparr> sdq_task_id = None, sdq_issue = ''i'', sdq_coder_argument = None, sdq_reviewer_argument = None, sdq_context = None \<rparr>"


end
