(* ===== verification/Push.thy ===== *)
theory Push
  imports Vault Sessions Text
begin

text \<open>
  Push messages to the phone: the hybrid key encapsulation (src/gateway/src/crypto/hybrid_kem.rs), the encryption of a
  message (src/gateway/src/push/e2e.rs) and the client of the ntfy server (src/gateway/src/push/ntfy.rs). The crates are
  the fields of \<open>push_lib\<close>; random seeds and nonces are arguments, and so is what the server answers. As in theory HybridSig
  the key directory is a map from paths to contents, and file modes are not modelled.
\<close>

section \<open>The crates\<close>

text \<open>\<open>mlkem_keypair\<close> yields the decapsulation and the encapsulation key of a seed, \<open>mlkem_encaps\<close> a ciphertext and the
  shared secret. \<open>payload_json\<close> and \<open>payload_of_json\<close> are the derived serialisation of a payload.\<close>

record EncapsulatedSecret =
  x25519_ciphertext :: bytes
  mlkem_ciphertext :: bytes

record EncryptedPayload =
  ep_encapsulated :: EncapsulatedSecret
  ep_nonce :: bytes
  ep_ciphertext :: bytes

record push_lib =
  pl_aead :: aead_lib
  x25519_public_of :: "bytes \<Rightarrow> bytes"
  x25519_dh :: "bytes \<Rightarrow> bytes \<Rightarrow> bytes"
  mlkem_keypair :: "bytes \<Rightarrow> bytes \<times> bytes"
  mlkem_encaps :: "bytes \<Rightarrow> bytes \<Rightarrow> (bytes \<times> bytes) option"
  mlkem_decaps :: "bytes \<Rightarrow> bytes \<Rightarrow> bytes option"
  payload_json :: "EncryptedPayload \<Rightarrow> string"
  payload_of_json :: "bytes \<Rightarrow> EncryptedPayload option"
  std_b64_encode :: "bytes \<Rightarrow> string"
  std_b64_decode :: "string \<Rightarrow> bytes option"

definition X25519_SECRET_LEN :: nat where "X25519_SECRET_LEN = 32"
definition X25519_PUBLIC_LEN :: nat where "X25519_PUBLIC_LEN = 32"
definition MLKEM_PUB_LEN :: nat where "MLKEM_PUB_LEN = 1184"
definition MLKEM_SECRET_LEN :: nat where "MLKEM_SECRET_LEN = 2400"
definition MLKEM_CIPHERTEXT_LEN :: nat where "MLKEM_CIPHERTEXT_LEN = 1088"
definition AES_KEY_LEN :: nat where "AES_KEY_LEN = 32"
definition PUSH_INFO :: string where "PUSH_INFO = ''stronghold-push-e2e-v1''"

text \<open>The documented behaviour: the lengths, the agreement of Diffie and Hellman, the correctness of ML-KEM and of
  AES-GCM, and that serialisation and base64 are read back.\<close>

definition push_lib_ok :: "push_lib \<Rightarrow> bool" where
  "push_lib_ok P \<longleftrightarrow> aead_ok (pl_aead P) \<and>
     (\<forall>s. length s = 32 \<longrightarrow> length (x25519_public_of P s) = 32) \<and>
     (\<forall>s t. length s = 32 \<longrightarrow> length t = 32 \<longrightarrow> x25519_dh P s (x25519_public_of P t) = x25519_dh P t (x25519_public_of P s)) \<and>
     (\<forall>z. length (fst (mlkem_keypair P z)) = 2400 \<and> length (snd (mlkem_keypair P z)) = 1184) \<and>
     (\<forall>z r. \<exists>ct ss. mlkem_encaps P (snd (mlkem_keypair P z)) r = Some (ct, ss) \<and> length ct = 1088 \<and>
        mlkem_decaps P (fst (mlkem_keypair P z)) ct = Some ss) \<and>
     (\<forall>p. payload_of_json P (as_bytes (payload_json P p)) = Some p) \<and>
     (\<forall>b. std_b64_decode P (std_b64_encode P b) = Some b)"

section \<open>Keys\<close>

datatype push_error =
    KeyUnreadable string
  | WrongLength string nat nat
  | PublicKeyMismatch string
  | EncapsulateFailed
  | DecapsulateFailed
  | AeadFailed
  | BadBase64 string
  | BadPayload
  | NoConnection
  | InvalidHeader
  | NotSent
  | PushStatus nat

record PushKeys =
  x25519_secret :: bytes
  x25519_public :: bytes
  mlkem_secret :: bytes
  mlkem_public :: bytes

definition generate_push_keys :: "push_lib \<Rightarrow> bytes \<Rightarrow> bytes \<Rightarrow> PushKeys" where
  "generate_push_keys P x_seed m_seed =
     \<lparr> x25519_secret = x_seed, x25519_public = x25519_public_of P x_seed,
       mlkem_secret = fst (mlkem_keypair P m_seed), mlkem_public = snd (mlkem_keypair P m_seed) \<rparr>"

definition x_key_path :: "string \<Rightarrow> string" where "x_key_path dir = dir @ ''/push_x25519.key''"
definition x_pub_path :: "string \<Rightarrow> string" where "x_pub_path dir = dir @ ''/push_x25519.pub''"
definition m_key_path :: "string \<Rightarrow> string" where "m_key_path dir = dir @ ''/push_mlkem768.key''"
definition m_pub_path :: "string \<Rightarrow> string" where "m_pub_path dir = dir @ ''/push_mlkem768.pub''"

definition save_push_keys :: "PushKeys \<Rightarrow> string \<Rightarrow> files \<Rightarrow> files" where
  "save_push_keys k dir fs =
     fs (x_key_path dir \<mapsto> x25519_secret k, x_pub_path dir \<mapsto> x25519_public k,
         m_key_path dir \<mapsto> mlkem_secret k, m_pub_path dir \<mapsto> mlkem_public k)"

definition read_key :: "files \<Rightarrow> string \<Rightarrow> (bytes, push_error) res" where
  "read_key fs path = ok_or (KeyUnreadable path) (fs path)"

definition expect_len :: "string \<Rightarrow> bytes \<Rightarrow> nat \<Rightarrow> (unit, push_error) res" where
  "expect_len what bs n = ensure (length bs = n) (WrongLength what (length bs) n)"

text \<open>The X25519 public key is compared with the secret, or written when its file is missing; the ML-KEM keys are
  read as they are.\<close>

definition load_push_keys :: "push_lib \<Rightarrow> string \<Rightarrow> files \<Rightarrow> (PushKeys, push_error) res \<times> files" where
  "load_push_keys P dir fs =
    (case bind_res (read_key fs (x_key_path dir)) (\<lambda>s. bind_res (expect_len (x_key_path dir) s X25519_SECRET_LEN) (\<lambda>_. Ok s)) of
       Err e \<Rightarrow> (Err e, fs)
     | Panic \<Rightarrow> (Panic, fs)
     | Ok secret \<Rightarrow>
        let public = x25519_public_of P secret;
            rest = (\<lambda>fs'. bind_res (read_key fs' (m_key_path dir)) (\<lambda>ms.
              bind_res (read_key fs' (m_pub_path dir)) (\<lambda>mp.
              bind_res (expect_len (m_key_path dir) ms MLKEM_SECRET_LEN) (\<lambda>_.
              bind_res (expect_len (m_pub_path dir) mp MLKEM_PUB_LEN) (\<lambda>_.
              Ok \<lparr> x25519_secret = secret, x25519_public = public, mlkem_secret = ms, mlkem_public = mp \<rparr>)))))
        in case fs (x_pub_path dir) of
             Some stored_pub \<Rightarrow> if stored_pub \<noteq> public then (Err (PublicKeyMismatch (x_pub_path dir)), fs) else (rest fs, fs)
           | None \<Rightarrow> (let fs' = fs (x_pub_path dir \<mapsto> public) in (rest fs', fs')))"

definition load_or_generate_push_keys ::
    "push_lib \<Rightarrow> bytes \<Rightarrow> bytes \<Rightarrow> string \<Rightarrow> files \<Rightarrow> (PushKeys, push_error) res \<times> files" where
  "load_or_generate_push_keys P x_seed m_seed dir fs =
    (if fs (x_key_path dir) \<noteq> None then load_push_keys P dir fs
     else let k = generate_push_keys P x_seed m_seed in (Ok k, save_push_keys k dir fs))"

definition public_halves :: "PushKeys \<Rightarrow> bytes \<times> bytes" where
  "public_halves k = (x25519_public k, mlkem_public k)"

section \<open>Encapsulation\<close>

definition hkdf_combine :: "push_lib \<Rightarrow> bytes \<Rightarrow> bytes \<Rightarrow> bytes" where
  "hkdf_combine P x25519_shared mlkem_shared =
     hkdf_sha256 (pl_aead P) None (x25519_shared @ mlkem_shared) (as_bytes PUSH_INFO) AES_KEY_LEN"

definition derive_aes_key :: "push_lib \<Rightarrow> bytes \<Rightarrow> string \<Rightarrow> bytes" where
  "derive_aes_key P shared_secret info = hkdf_sha256 (pl_aead P) None shared_secret (as_bytes info) AES_KEY_LEN"

definition encapsulate ::
    "push_lib \<Rightarrow> bytes \<Rightarrow> bytes \<Rightarrow> bytes \<Rightarrow> bytes \<Rightarrow> (EncapsulatedSecret \<times> bytes, push_error) res" where
  "encapsulate P x_rand m_rand phone_x25519_pub phone_mlkem_pub =
     bind_res (expect_len ''phone_x25519_pub'' phone_x25519_pub X25519_PUBLIC_LEN) (\<lambda>_.
     bind_res (expect_len ''phone_mlkem_pub'' phone_mlkem_pub MLKEM_PUB_LEN) (\<lambda>_.
     bind_res (ok_or EncapsulateFailed (mlkem_encaps P phone_mlkem_pub m_rand)) (\<lambda>(ct, mlkem_shared).
     Ok (\<lparr> x25519_ciphertext = x25519_public_of P x_rand, mlkem_ciphertext = ct \<rparr>,
         hkdf_combine P (x25519_dh P x_rand phone_x25519_pub) mlkem_shared))))"

definition decapsulate :: "push_lib \<Rightarrow> PushKeys \<Rightarrow> EncapsulatedSecret \<Rightarrow> (bytes, push_error) res" where
  "decapsulate P keys e =
     bind_res (expect_len ''x25519_ciphertext'' (x25519_ciphertext e) X25519_PUBLIC_LEN) (\<lambda>_.
     bind_res (expect_len ''mlkem_ciphertext'' (mlkem_ciphertext e) MLKEM_CIPHERTEXT_LEN) (\<lambda>_.
     bind_res (expect_len ''mlkem_secret'' (mlkem_secret keys) MLKEM_SECRET_LEN) (\<lambda>_.
     bind_res (ok_or DecapsulateFailed (mlkem_decaps P (mlkem_secret keys) (mlkem_ciphertext e))) (\<lambda>mlkem_shared.
     Ok (hkdf_combine P (x25519_dh P (x25519_secret keys) (x25519_ciphertext e)) mlkem_shared)))))"

section \<open>Payloads\<close>

definition push_encrypt ::
    "push_lib \<Rightarrow> bytes \<Rightarrow> bytes \<Rightarrow> bytes \<Rightarrow> bytes \<Rightarrow> bytes \<Rightarrow> bytes \<Rightarrow> (EncryptedPayload, push_error) res" where
  "push_encrypt P x_rand m_rand nonce plaintext phone_x25519_pub phone_mlkem_pub =
     bind_res (encapsulate P x_rand m_rand phone_x25519_pub phone_mlkem_pub) (\<lambda>(encapsulated, shared_secret).
     bind_res (ok_or AeadFailed (gcm_encrypt (pl_aead P) (derive_aes_key P shared_secret ''stronghold-push-v1'') nonce plaintext)) (\<lambda>c.
     Ok \<lparr> ep_encapsulated = encapsulated, ep_nonce = nonce, ep_ciphertext = c \<rparr>))"

definition push_decrypt :: "push_lib \<Rightarrow> EncryptedPayload \<Rightarrow> PushKeys \<Rightarrow> (bytes, push_error) res" where
  "push_decrypt P payload phone_keys =
     bind_res (decapsulate P phone_keys (ep_encapsulated payload)) (\<lambda>shared_secret.
     bind_res (expect_len ''nonce'' (ep_nonce payload) 12) (\<lambda>_.
     ok_or AeadFailed (gcm_decrypt (pl_aead P) (derive_aes_key P shared_secret ''stronghold-push-v1'')
       (ep_nonce payload) (ep_ciphertext payload))))"

definition push_encode :: "push_lib \<Rightarrow> EncryptedPayload \<Rightarrow> string" where
  "push_encode P payload = std_b64_encode P (as_bytes (payload_json P payload))"

definition push_decode :: "push_lib \<Rightarrow> string \<Rightarrow> (EncryptedPayload, push_error) res" where
  "push_decode P b64 =
     bind_res (ok_or (BadBase64 ''payload'') (std_b64_decode P b64)) (\<lambda>j. ok_or BadPayload (payload_of_json P j))"

section \<open>The client of the server\<close>

text \<open>A request that leaves the gateway.\<close>

record notification =
  no_url :: string
  no_title :: string
  no_priority :: nat
  no_actions :: "string option"
  no_body :: string

text \<open>What becomes of a request: no answer (or a broken connection), or the status of the answer.\<close>

type_synonym push_reply = "nat option"

definition header_value :: "string \<Rightarrow> bool" where
  "header_value s \<longleftrightarrow> list_all (\<lambda>c. 32 \<le> (of_char c :: nat) \<and> (of_char c :: nat) < 127 \<or> (of_char c :: nat) = 9) s"

definition send_notification_to ::
    "string \<Rightarrow> string \<Rightarrow> string \<Rightarrow> string \<Rightarrow> string option \<Rightarrow> nat \<Rightarrow> push_reply \<Rightarrow> (unit, push_error) res \<times> notification list" where
  "send_notification_to ntfy_url topic title body actions priority reply =
    (if \<not> (header_value title \<and> header_value (case actions of Some a \<Rightarrow> a | None \<Rightarrow> [])) then (Err InvalidHeader, [])
     else (case reply of None \<Rightarrow> Err NotSent | Some st \<Rightarrow> ensure (200 \<le> st \<and> st < 300) (PushStatus st),
       [\<lparr> no_url = ntfy_url @ ''/'' @ topic, no_title = title, no_priority = priority, no_actions = actions, no_body = body \<rparr>]))"

text \<open>The seeds and the nonce of one encryption.\<close>

type_synonym push_random = "bytes \<times> bytes \<times> bytes"

definition send_encrypted_notification_to ::
    "push_lib \<Rightarrow> push_random \<Rightarrow> string \<Rightarrow> string \<Rightarrow> string \<Rightarrow> bytes \<Rightarrow> bytes \<Rightarrow> bytes \<Rightarrow> string option \<Rightarrow> nat \<Rightarrow> push_reply \<Rightarrow>
     (unit, push_error) res \<times> notification list" where
  "send_encrypted_notification_to P rnd ntfy_url topic title plaintext phone_x25519_pub phone_mlkem_pub actions priority reply =
    (case rnd of (x_rand, m_rand, nonce) \<Rightarrow>
     (case push_encrypt P x_rand m_rand nonce plaintext phone_x25519_pub phone_mlkem_pub of
        Ok encrypted \<Rightarrow> send_notification_to ntfy_url topic title (push_encode P encrypted) actions priority reply
      | Err e \<Rightarrow> (Err e, [])
      | Panic \<Rightarrow> (Panic, [])))"

text \<open>The newest row counts: ids of the table grow, and rows are in the order of insertion.\<close>

definition get_phone_push_keys :: "push_lib \<Rightarrow> db \<Rightarrow> string \<Rightarrow> ((bytes \<times> bytes) option, push_error) res" where
  "get_phone_push_keys P d tenant_id =
    (if \<not> db_up d then Err NoConnection
     else case query_row (\<lambda>r. pk_tenant_id r = tenant_id) (rev (phone_push_keys d)) of
       None \<Rightarrow> Ok None
     | Some r \<Rightarrow>
        bind_res (ok_or (BadBase64 ''x25519_public'') (std_b64_decode P (pk_x25519_public r))) (\<lambda>x.
        bind_res (ok_or (BadBase64 ''mlkem_public'') (std_b64_decode P (pk_mlkem_public r))) (\<lambda>m.
        Ok (Some (x, m)))))"

definition send_encrypted_or_fallback ::
    "push_lib \<Rightarrow> push_random \<Rightarrow> string \<Rightarrow> string \<Rightarrow> string \<Rightarrow> string \<Rightarrow> string option \<Rightarrow> nat \<Rightarrow> push_reply \<Rightarrow> string \<Rightarrow> db \<Rightarrow>
     (unit, push_error) res \<times> notification list" where
  "send_encrypted_or_fallback P rnd ntfy_url topic title msg actions priority reply tenant_id d =
    (case get_phone_push_keys P d tenant_id of
       Err e \<Rightarrow> (Err e, [])
     | Panic \<Rightarrow> (Panic, [])
     | Ok (Some (x, m)) \<Rightarrow>
        send_encrypted_notification_to P rnd ntfy_url topic title (as_bytes msg) x m actions priority reply
     | Ok None \<Rightarrow> send_notification_to ntfy_url topic title msg actions priority reply)"

definition ntfy_endpoint :: "string option \<Rightarrow> string" where
  "ntfy_endpoint var = (case var of Some url \<Rightarrow> url | None \<Rightarrow> ''http://localhost:8090'')"

section \<open>The messages\<close>

text \<open>\<open>var\<close> is the environment variable with the server's address.\<close>

type_synonym push_channel = "push_random \<times> string option \<times> push_reply"

definition push_to ::
    "push_lib \<Rightarrow> push_channel \<Rightarrow> string \<Rightarrow> string \<Rightarrow> string \<Rightarrow> string option \<Rightarrow> nat \<Rightarrow> string \<Rightarrow> db \<Rightarrow>
     (unit, push_error) res \<times> notification list" where
  "push_to P ch topic title msg actions priority tenant_id d =
    (case ch of (rnd, var, reply) \<Rightarrow>
     send_encrypted_or_fallback P rnd (ntfy_endpoint var) topic title msg actions priority reply tenant_id d)"

definition NEWLINE :: string where "NEWLINE = [CHR 0x0A]"

definition push_approval_request ::
    "push_lib \<Rightarrow> push_channel \<Rightarrow> string \<Rightarrow> string \<Rightarrow> OrderRequest \<Rightarrow> db \<Rightarrow> (unit, push_error) res \<times> notification list" where
  "push_approval_request P ch tenant_id session_id req d =
     push_to P ch (tenant_id @ ''-session-requested'') ''Stronghold: Session Request''
       (''Image: '' @ or_image req @ NEWLINE @ ''TTL: '' @ show_nat (unat (or_ttl_secs req)) @ ''s'' @ NEWLINE @ ''Reason: '' @ or_reason req)
       (Some (''view, Approve, https://gateway/setup?approve='' @ session_id @ '', '' @ [CHR 0x22] @
          '' Clear=true; view, Deny, https://gateway/setup?deny='' @ session_id)) 5 tenant_id d"

definition push_extend_request ::
    "push_lib \<Rightarrow> push_channel \<Rightarrow> string \<Rightarrow> ExtendRequest \<Rightarrow> db \<Rightarrow> (unit, push_error) res \<times> notification list" where
  "push_extend_request P ch tenant_id req d =
     push_to P ch (tenant_id @ ''-session-requested'') ''Stronghold: Session Extension''
       (''Machine: '' @ ex_machine_id req @ NEWLINE @ ''Additional: '' @ show_nat (unat (ex_additional_secs req)) @ ''s'')
       None 4 tenant_id d"

definition push_anomaly ::
    "push_lib \<Rightarrow> push_channel \<Rightarrow> string \<Rightarrow> string \<Rightarrow> db \<Rightarrow> (unit, push_error) res \<times> notification list" where
  "push_anomaly P ch tenant_id msg d =
     push_to P ch (tenant_id @ ''-session-anomaly'') ''Stronghold: Anomaly Detected'' msg None 4 tenant_id d"

definition push_revoked ::
    "push_lib \<Rightarrow> push_channel \<Rightarrow> string \<Rightarrow> string \<Rightarrow> db \<Rightarrow> (unit, push_error) res \<times> notification list" where
  "push_revoked P ch tenant_id machine_id d =
     push_to P ch (tenant_id @ ''-session-active'') ''Stronghold: Session Revoked''
       (''Machine '' @ machine_id @ '' has been revoked'') None 4 tenant_id d"

definition push_daily_digest ::
    "push_lib \<Rightarrow> push_channel \<Rightarrow> string \<Rightarrow> 64 word \<Rightarrow> 64 word \<Rightarrow> 64 word \<Rightarrow> 64 word \<Rightarrow> db \<Rightarrow>
     (unit, push_error) res \<times> notification list" where
  "push_daily_digest P ch tenant_id started revoked executed anomalies d =
     push_to P ch (tenant_id @ ''-daily-digest'') ''Stronghold: Daily Digest''
       (''Sessions started: '' @ show_nat (unat started) @ NEWLINE @ ''Sessions revoked: '' @ show_nat (unat revoked) @ NEWLINE @
        ''Commands executed: '' @ show_nat (unat executed) @ NEWLINE @ ''Anomalies detected: '' @ show_nat (unat anomalies))
       None 3 tenant_id d"

section \<open>The phone reads what was sent\<close>

lemma push_libD:
  assumes "push_lib_ok P"
  shows "aead_ok (pl_aead P)" "length s = 32 \<Longrightarrow> length (x25519_public_of P s) = 32"
    and "length s = 32 \<Longrightarrow> length t = 32 \<Longrightarrow> x25519_dh P s (x25519_public_of P t) = x25519_dh P t (x25519_public_of P s)"
    and "length (fst (mlkem_keypair P z)) = 2400" "length (snd (mlkem_keypair P z)) = 1184"
    and "\<exists>ct ss. mlkem_encaps P (snd (mlkem_keypair P z)) r = Some (ct, ss) \<and> length ct = 1088 \<and>
      mlkem_decaps P (fst (mlkem_keypair P z)) ct = Some ss"
    and "payload_of_json P (as_bytes (payload_json P p)) = Some p" "std_b64_decode P (std_b64_encode P b) = Some b"
  using assms unfolding push_lib_ok_def by blast+

lemma expect_len_Ok [simp]: "length bs = n \<Longrightarrow> expect_len w bs n = Ok ()"
  by (simp add: expect_len_def ensure_def)

text \<open>Both sides derive the same key.\<close>

lemma decapsulate_encapsulate:
  assumes P: "push_lib_ok P" and "length x_seed = 32" "length x_rand = 32"
    and k: "k = generate_push_keys P x_seed m_seed"
  shows "\<exists>e s. encapsulate P x_rand m_rand (x25519_public k) (mlkem_public k) = Ok (e, s) \<and> decapsulate P k e = Ok s"
proof -
  obtain ct ss where "mlkem_encaps P (snd (mlkem_keypair P m_seed)) m_rand = Some (ct, ss)" "length ct = 1088"
      "mlkem_decaps P (fst (mlkem_keypair P m_seed)) ct = Some ss"
    using push_libD(6) [OF P] by blast
  then show ?thesis using assms(2,3) push_libD(2-5) [OF P]
    by (simp add: encapsulate_def decapsulate_def k generate_push_keys_def X25519_PUBLIC_LEN_def MLKEM_PUB_LEN_def
        MLKEM_CIPHERTEXT_LEN_def MLKEM_SECRET_LEN_def)
qed

lemma push_decrypt_encrypt:
  assumes P: "push_lib_ok P" and "length x_seed = 32" "length x_rand = 32" and n: "length nonce = 12"
    and k: "k = generate_push_keys P x_seed m_seed"
  shows "\<exists>p. push_encrypt P x_rand m_rand nonce plaintext (x25519_public k) (mlkem_public k) = Ok p \<and>
    push_decrypt P p k = Ok plaintext"
proof -
  obtain e s where es: "encapsulate P x_rand m_rand (x25519_public k) (mlkem_public k) = Ok (e, s)" "decapsulate P k e = Ok s"
    using decapsulate_encapsulate [OF P assms(2,3) k] by blast
  have "length (derive_aes_key P s ''stronghold-push-v1'') = 32"
    using push_libD(1) [OF P] by (simp add: derive_aes_key_def AES_KEY_LEN_def aead_ok_def)
  then obtain c where "gcm_encrypt (pl_aead P) (derive_aes_key P s ''stronghold-push-v1'') nonce plaintext = Some c"
      "gcm_decrypt (pl_aead P) (derive_aes_key P s ''stronghold-push-v1'') nonce c = Some plaintext"
    using aead_roundtrip [OF push_libD(1) [OF P]] n by blast
  then show ?thesis using es n by (simp add: push_encrypt_def push_decrypt_def)
qed


text \<open>Without a row the message itself is the body.\<close>

lemma push_without_keys:
  assumes "db_up d" "query_row (\<lambda>r. pk_tenant_id r = tenant_id) (rev (phone_push_keys d)) = None"
  shows "send_encrypted_or_fallback P rnd url topic title msg actions prio reply tenant_id d =
    send_notification_to url topic title msg actions prio reply"
  using assms by (simp add: send_encrypted_or_fallback_def get_phone_push_keys_def)

text \<open>The buttons of an approval request carry the session's id in a header, encrypted or not.\<close>

lemma send_parts:
  "n \<in> set (snd (send_encrypted_or_fallback P rnd url topic title msg actions prio reply tenant_id d)) \<Longrightarrow>
   no_title n = title \<and> no_actions n = actions \<and> no_url n = url @ ''/'' @ topic \<and> no_priority n = prio"
  by (auto simp: send_encrypted_or_fallback_def send_encrypted_notification_to_def send_notification_to_def
      split: res.splits option.splits prod.splits if_splits)

section \<open>The keys on disk\<close>

definition push_keys_wf :: "push_lib \<Rightarrow> PushKeys \<Rightarrow> bool" where
  "push_keys_wf P k \<longleftrightarrow> length (x25519_secret k) = 32 \<and> x25519_public k = x25519_public_of P (x25519_secret k) \<and>
     length (mlkem_secret k) = 2400 \<and> length (mlkem_public k) = 1184"

lemma push_paths_distinct:
  "x_key_path d \<noteq> x_pub_path d" "x_key_path d \<noteq> m_key_path d" "x_key_path d \<noteq> m_pub_path d"
  "x_pub_path d \<noteq> m_key_path d" "x_pub_path d \<noteq> m_pub_path d" "m_key_path d \<noteq> m_pub_path d"
  by (simp_all add: x_key_path_def x_pub_path_def m_key_path_def m_pub_path_def)

text \<open>Which directories load, and as what: the file of the X25519 public key is checked, that of the ML-KEM public key
  only for its length.\<close>

lemma load_push_keys_Ok_iff:
  "load_push_keys P dir fs = (Ok k, fs') \<longleftrightarrow>
     fs (x_key_path dir) = Some (x25519_secret k) \<and> fs (m_key_path dir) = Some (mlkem_secret k) \<and>
     fs (m_pub_path dir) = Some (mlkem_public k) \<and> (fs (x_pub_path dir) = None \<or> fs (x_pub_path dir) = Some (x25519_public k)) \<and>
     push_keys_wf P k \<and> fs' = fs (x_pub_path dir \<mapsto> x25519_public k)"
proof -
  have "fs (x_pub_path dir) = Some v \<Longrightarrow> fs (x_pub_path dir \<mapsto> v) = fs" for v by (simp add: map_upd_triv)
  then show ?thesis using push_paths_distinct [of dir]
    by (cases k) (auto simp: load_push_keys_def read_key_def expect_len_def ok_or_def ensure_def push_keys_wf_def Let_def
      X25519_SECRET_LEN_def MLKEM_SECRET_LEN_def MLKEM_PUB_LEN_def split: option.splits if_splits)
qed

lemma save_load_push_keys:
  assumes "push_keys_wf P k"
  shows "load_push_keys P dir (save_push_keys k dir fs) = (Ok k, save_push_keys k dir fs)"
  using assms push_paths_distinct [of dir]
  by (auto simp: load_push_keys_Ok_iff save_push_keys_def fun_upd_def fun_eq_iff)

lemma generate_push_keys_wf:
  "push_lib_ok P \<Longrightarrow> length x_seed = 32 \<Longrightarrow> push_keys_wf P (generate_push_keys P x_seed m_seed)"
  by (simp add: push_keys_wf_def generate_push_keys_def push_libD)


text \<open>A replaced ML-KEM public key is loaded, a replaced X25519 public key is not.\<close>

lemma replaced_mlkem_key_loads:
  assumes "push_keys_wf P k" "length other = 1184"
  shows "fst (load_push_keys P dir ((save_push_keys k dir fs) (m_pub_path dir \<mapsto> other))) = Ok (k \<lparr> mlkem_public := other \<rparr>)"
proof -
  have "load_push_keys P dir ((save_push_keys k dir fs) (m_pub_path dir \<mapsto> other)) =
      (Ok (k \<lparr> mlkem_public := other \<rparr>), (save_push_keys k dir fs) (m_pub_path dir \<mapsto> other))"
    using assms push_paths_distinct [of dir]
    unfolding load_push_keys_Ok_iff by (auto simp: push_keys_wf_def save_push_keys_def fun_eq_iff)
  then show ?thesis by simp
qed

lemma replaced_x25519_key_rejected:
  assumes "push_keys_wf P k" "other \<noteq> x25519_public k"
  shows "fst (load_push_keys P dir ((save_push_keys k dir fs) (x_pub_path dir \<mapsto> other))) = Err (PublicKeyMismatch (x_pub_path dir))"
  using assms push_paths_distinct [of dir]
  by (simp add: load_push_keys_def save_push_keys_def read_key_def push_keys_wf_def X25519_SECRET_LEN_def)

section \<open>Witnesses\<close>

definition frame :: "bytes \<Rightarrow> bytes" where "frame bs = concat (map (\<lambda>b. [1, b]) bs) @ [0, 0]"

fun unframe :: "bytes \<Rightarrow> bytes \<times> bytes" where
  "unframe (a # b # r) = (if a = 1 then case unframe r of (x, y) \<Rightarrow> (b # x, y) else ([], r))"
| "unframe _ = ([], [])"

lemma unframe_frame: "unframe (frame bs @ r) = (bs, r)"
  by (induction bs) (simp_all add: frame_def)

definition demo_push :: push_lib where
  "demo_push = \<lparr> pl_aead = demo_aead, x25519_public_of = (\<lambda>s. s), x25519_dh = (\<lambda>s p. map (\<lambda>(a, b). a + b) (zip s p)),
     mlkem_keypair = (\<lambda>z. (take 2400 (z @ replicate 2400 0), take 1184 (z @ replicate 1184 0))),
     mlkem_encaps = (\<lambda>ek r. Some (take 1088 (r @ replicate 1088 0), take 32 ek)),
     mlkem_decaps = (\<lambda>dk ct. Some (take 32 dk)),
     payload_json = (\<lambda>p. string_of_bytes (frame (x25519_ciphertext (ep_encapsulated p)) @
       frame (mlkem_ciphertext (ep_encapsulated p)) @ frame (ep_nonce p) @ ep_ciphertext p)),
     payload_of_json = (\<lambda>j. case unframe j of (x, j1) \<Rightarrow> case unframe j1 of (m, j2) \<Rightarrow> case unframe j2 of (n, c) \<Rightarrow>
       Some \<lparr> ep_encapsulated = \<lparr> x25519_ciphertext = x, mlkem_ciphertext = m \<rparr>, ep_nonce = n, ep_ciphertext = c \<rparr>),
     std_b64_encode = string_of_bytes, std_b64_decode = (\<lambda>s. Some (as_bytes s)) \<rparr>"

lemma demo_dh_agrees: "map (\<lambda>(a, b). a + b) (zip s t) = map (\<lambda>(a, b). a + b) (zip t s)" for s t :: bytes
  by (subst zip_commute) (simp add: o_def case_prod_beta add.commute)

lemma demo_push_ok: "push_lib_ok demo_push"
  unfolding push_lib_ok_def
proof (intro conjI allI impI)
  fix s t :: bytes
  show "x25519_dh demo_push s (x25519_public_of demo_push t) = x25519_dh demo_push t (x25519_public_of demo_push s)"
    by (simp add: demo_push_def demo_dh_agrees [of s t])
qed (auto simp: demo_push_def demo_aead_ok unframe_frame take_append min_def take_take)

definition demo_phone :: PushKeys where
  "demo_phone = generate_push_keys demo_push (replicate 32 7) [1, 2, 3]"

definition demo_push_db :: db where
  "demo_push_db = empty_db \<lparr> phone_push_keys := [\<lparr> pk_tenant_id = ''t1'',
     pk_x25519_public = std_b64_encode demo_push (fst (public_halves demo_phone)),
     pk_mlkem_public = std_b64_encode demo_push (snd (public_halves demo_phone)), pk_created_at = [] \<rparr>] \<rparr>"



end
