(* ===== verification/Images.thy ===== *)
theory Images
  imports Json Pods
begin

text \<open>
  Workspace images: the descriptions of images (src/gateway/src/images/dsl.rs), the Containerfiles generated from them
  (src/gateway/src/images/builder.rs), the client of the registry (src/gateway/src/images/registry.rs) and its routes
  (src/gateway/src/routes/images.rs). A \<open>HashMap\<close> is the list of its entries in the order in which it iterates, and the
  statements hold for every order. The crates that read TOML and image references, and what the programs podman, buildah,
  crictl and python3 and the registry answer, are arguments.
\<close>

section \<open>Descriptions\<close>

datatype toml =
    TomlText string
  | TomlNumber rat
  | TomlBool bool
  | TomlDate string
  | TomlArray "toml list"
  | TomlTable "(string \<times> toml) list"

datatype Toolchain =
    Rust string "string option" "string list" "string list"
  | Node string
  | Python string
  | Go string
  | Elan string "string option"

record ImageConfig =
  ic_name :: string
  ic_extends :: string
  ic_description :: string
  ic_dnf :: "string list"
  ic_apt :: "string list"
  ic_toolchains :: "(string \<times> Toolchain) list"
  ic_env :: "(string \<times> string) list"
  ic_pre_install :: "string list"
  ic_post_install :: "string list"
  ic_snippets :: "string list"
  ic_labels :: "(string \<times> string) list"

text \<open>A document as the derived deserialiser reads it, with the table of toolchains still as values and everything else in
  place (\<open>toml::from_str\<close>); None when the text is no such document.\<close>

type_synonym toml_reader = "string \<Rightarrow> (ImageConfig \<times> (string \<times> toml) list) option"

datatype image_error =
    NotToml
  | MissingField string string
  | UnknownToolchain string
  | BadParent string string

definition toml_get :: "string \<Rightarrow> toml \<Rightarrow> toml option" where
  "toml_get k v = (case v of TomlTable ms \<Rightarrow> map_of ms k | _ \<Rightarrow> None)"

definition toml_str :: "toml \<Rightarrow> string option" where
  "toml_str v = (case v of TomlText s \<Rightarrow> Some s | _ \<Rightarrow> None)"

definition text_field :: "string \<Rightarrow> toml \<Rightarrow> string option" where
  "text_field k v = Option.bind (toml_get k v) toml_str"

definition text_list :: "string \<Rightarrow> toml \<Rightarrow> string list" where
  "text_list k v = (case toml_get k v of Some (TomlArray vs) \<Rightarrow> List.map_filter toml_str vs | _ \<Rightarrow> [])"

definition required :: "string \<Rightarrow> string \<Rightarrow> toml \<Rightarrow> (string, image_error) res" where
  "required kind k v = ok_or (MissingField kind k) (text_field k v)"

definition toolchain_of :: "string \<Rightarrow> toml \<Rightarrow> (Toolchain, image_error) res" where
  "toolchain_of key v =
    (if key = ''rust'' then bind_res (required key ''channel'' v) (\<lambda>channel.
       Ok (Rust channel (text_field ''date'' v) (text_list ''targets'' v) (text_list ''components'' v)))
     else if key = ''node'' then bind_res (required key ''version'' v) (\<lambda>version. Ok (Node version))
     else if key = ''python'' then bind_res (required key ''version'' v) (\<lambda>version. Ok (Python version))
     else if key = ''go'' then bind_res (required key ''version'' v) (\<lambda>version. Ok (Go version))
     else if key = ''elan'' then bind_res (required key ''channel'' v) (\<lambda>channel. Ok (Elan channel (text_field ''date'' v)))
     else Err (UnknownToolchain key))"

fun deserialize_toolchains :: "(string \<times> toml) list \<Rightarrow> ((string \<times> Toolchain) list, image_error) res" where
  "deserialize_toolchains [] = Ok []"
| "deserialize_toolchains ((key, v) # entries) =
     bind_res (toolchain_of key v) (\<lambda>t. bind_res (deserialize_toolchains entries) (\<lambda>out. Ok ((key, t) # out)))"

definition check_parent :: "ImageConfig \<Rightarrow> (ImageConfig, image_error) res" where
  "check_parent c =
    (let is_root = (ic_name c = ''rocky-base'' \<and> ic_extends c = []);
         is_direct_child = (ic_extends c = ''rocky-base'');
         is_transitive = starts_with (ic_extends c) ''stronghold/''
     in if \<not> is_root \<and> \<not> is_direct_child \<and> \<not> is_transitive then Err (BadParent (ic_name c) (ic_extends c)) else Ok c)"

definition parse_image :: "toml_reader \<Rightarrow> string \<Rightarrow> (ImageConfig, image_error) res" where
  "parse_image T content =
     bind_res (ok_or NotToml (T content)) (\<lambda>(c, entries).
     bind_res (deserialize_toolchains entries) (\<lambda>ts. check_parent (c \<lparr> ic_toolchains := ts \<rparr>)))"

section \<open>Containerfiles\<close>

definition DEFAULT_HOME :: string where "DEFAULT_HOME = ''/home/dev''"
definition DEFAULT_PATH :: string where "DEFAULT_PATH = ''/usr/local/bin:/usr/bin:/usr/sbin:/bin:/sbin''"

text \<open>\<open>str::replace\<close> with a pattern that is not empty.\<close>

function replace_all :: "string \<Rightarrow> string \<Rightarrow> string \<Rightarrow> string" where
  "replace_all p r s =
    (if p = [] then s else case split_once p s of None \<Rightarrow> s | Some (a, b) \<Rightarrow> a @ r @ replace_all p r b)"
  by auto
termination
  by (relation "measure (\<lambda>(p, r, s). length s)") (auto dest: split_once_Some)

declare replace_all.simps [simp del]

definition substitute_placeholders :: "string \<Rightarrow> string" where
  "substitute_placeholders value = replace_all ''{path}'' DEFAULT_PATH (replace_all ''{home}'' DEFAULT_HOME value)"

definition quoted :: "string \<Rightarrow> string" where
  "quoted s = [CHR 0x22] @ s @ [CHR 0x22]"

definition curl_rust :: string where
  "curl_rust = ''RUN curl --proto '' @ [CHR 0x27] @ ''=https'' @ [CHR 0x27] @ '' --tlsv1.2 -sSf https://sh.rustup.rs | sh -s -- -y''"

definition rust_default :: "string \<Rightarrow> string option \<Rightarrow> string list" where
  "rust_default channel date =
    (case date of
       Some d \<Rightarrow> [''RUN rustup toolchain install '' @ channel @ ''-'' @ d @ '' --profile minimal'',
         ''RUN rustup default '' @ channel @ ''-'' @ d]
     | None \<Rightarrow> [''RUN rustup default '' @ channel])"

definition toolchain_lines :: "Toolchain \<Rightarrow> string list" where
  "toolchain_lines t = [] # (case t of
     Rust channel date targets components \<Rightarrow>
       [''# Toolchain: rust ('' @ channel @ '')'', curl_rust,
        ''ENV PATH='' @ quoted (''/root/.cargo/bin:${PATH}'')] @ rust_default channel date @
       map (\<lambda>x. ''RUN rustup target add '' @ x) targets @ map (\<lambda>x. ''RUN rustup component add '' @ x) components
   | Node version \<Rightarrow>
       [''# Toolchain: node ('' @ version @ '')'', ''RUN curl -fsSL https://rpm.nodesource.com/setup_'' @ version @ ''.x | bash -'',
        ''RUN dnf install -y nodejs'', ''RUN npm install -g pnpm'']
   | Python version \<Rightarrow>
       [''# Toolchain: python ('' @ version @ '')'', ''RUN dnf install -y python'' @ version @ '' python'' @ version @ ''-pip'']
   | Go version \<Rightarrow>
       [''# Toolchain: go ('' @ version @ '')'',
        ''RUN curl -fsSL https://go.dev/dl/go'' @ version @ ''.linux-amd64.tar.gz | tar -C /usr/local -xz'',
        ''ENV PATH='' @ quoted (''/usr/local/go/bin:${PATH}'')]
   | Elan channel date \<Rightarrow>
       [''# Toolchain: elan ('' @ channel @ '')'',
        ''RUN curl -fsSL https://raw.githubusercontent.com/leanprover/elan/master/elan-init.sh | sh -s -- -y'',
        ''ENV PATH='' @ quoted (''/root/.elan/bin:${PATH}'')])"

definition script_lines :: "string list \<Rightarrow> string list" where
  "script_lines cmds = (if cmds = [] then [] else [[], ''RUN''] @ map (\<lambda>c. ''    && '' @ c) cmds)"

definition containerfile_lines :: "ImageConfig \<Rightarrow> string list" where
  "containerfile_lines c =
     [''FROM stronghold/'' @ ic_extends c] @
     (if ic_labels c = [] then [] else [] # map (\<lambda>(k, v). ''LABEL '' @ k @ ''='' @ quoted v) (ic_labels c)) @
     script_lines (ic_pre_install c) @
     (if ic_dnf c = [] then [] else [[], ''RUN dnf install -y '' @ join_with '' '' (ic_dnf c)]) @
     concat (map (\<lambda>(_, t). toolchain_lines t) (ic_toolchains c)) @
     (if ic_env c = [] then [] else [] # map (\<lambda>(k, v). ''ENV '' @ k @ ''='' @ quoted (substitute_placeholders v)) (ic_env c)) @
     script_lines (ic_post_install c) @
     (if ic_snippets c = [] then [] else [[], ''# Injected snippets (escape hatch)''] @ ic_snippets c)"

definition generate_containerfile :: "ImageConfig \<Rightarrow> string" where
  "generate_containerfile c = join_with [CHR 0x0A] (containerfile_lines c)"

section \<open>Programs\<close>

text \<open>What a program leaves: None when it cannot be started, else whether it succeeded, and its output.\<close>

record program_output =
  po_ok :: bool
  po_stdout :: bytes

type_synonym programs = "string list \<Rightarrow> program_output option"

datatype registry_error =
    NotStarted string
  | Failed string
  | NoManifest
  | BadReference string
  | RegistryStatus nat
  | Unreachable
  | BadAnswer
  | SpecNotFound string

definition run_ok :: "programs \<Rightarrow> string \<Rightarrow> string list \<Rightarrow> (bytes, registry_error) res" where
  "run_ok run what argv =
     bind_res (ok_or (NotStarted what) (run argv)) (\<lambda>out. bind_res (ensure (po_ok out) (Failed what)) (\<lambda>_. Ok (po_stdout out)))"

text \<open>Building with podman: the directory of the file is also the working directory of the program. The result comes with
  the file that was written.\<close>

definition build_image_file ::
    "programs \<Rightarrow> string \<Rightarrow> string \<Rightarrow> ImageConfig \<Rightarrow> string \<Rightarrow> (string, registry_error) res \<times> (string \<times> string)" where
  "build_image_file run temp_root ulid config tag =
    (let path = temp_root @ ''/stronghold-build-'' @ ulid @ ''/Containerfile'' in
     (bind_res (run_ok run ''podman build'' [''podman'', ''build'', ''-t'', tag, ''-f'', path, ''.'']) (\<lambda>_.
      bind_res (run_ok run ''podman inspect'' [''podman'', ''inspect'', ''--format'', ''{{.Digest}}'', tag]) (\<lambda>out.
      let digest = trim (from_utf8_lossy out) in
      Ok (if starts_with digest ''sha256:'' then digest else ''sha256:'' @ digest))),
      (path, generate_containerfile config)))"

section \<open>The registry\<close>

text \<open>\<open>valid_reference\<close> is the parser of image references, \<open>manifest\<close> the registry's manifest of a reference as JSON.\<close>

record registry_env =
  rg_endpoint :: "string option"
  rg_run :: programs
  valid_reference :: "string \<Rightarrow> bool"
  manifest :: "string \<Rightarrow> bytes option"
  http_get :: "string \<Rightarrow> (nat \<times> json option) option"
  path_exists :: "string \<Rightarrow> bool"
  rg_hash :: hash_lib

definition registry_endpoint :: "registry_env \<Rightarrow> string" where
  "registry_endpoint R = (case rg_endpoint R of Some r \<Rightarrow> r | None \<Rightarrow> ''localhost:30500'')"

definition get_manifest_digest :: "registry_env \<Rightarrow> string \<Rightarrow> (string, registry_error) res" where
  "get_manifest_digest R image_ref =
     bind_res (ensure (valid_reference R image_ref) (BadReference image_ref)) (\<lambda>_.
     bind_res (ok_or NoManifest (manifest R image_ref)) (\<lambda>m.
     Ok (''sha256:'' @ hex_encode (rg_hash R) (sha256 (rg_hash R) m))))"

text \<open>The second parameter of \<open>push\<close> is not read.\<close>

definition push_to_registry :: "registry_env \<Rightarrow> string \<Rightarrow> string \<Rightarrow> (string, registry_error) res" where
  "push_to_registry R img registry =
    (let registry_ref = registry_endpoint R @ ''/'' @ img in
     bind_res (run_ok (rg_run R) ''buildah tag'' [''buildah'', ''tag'', img, registry_ref]) (\<lambda>_.
     bind_res (run_ok (rg_run R) ''buildah push'' [''buildah'', ''push'', ''--tls-verify=false'', registry_ref]) (\<lambda>_.
     get_manifest_digest R registry_ref)))"

definition with_registry :: "registry_env \<Rightarrow> string \<Rightarrow> string" where
  "with_registry R img =
    (if starts_with img (registry_endpoint R @ ''/'') then img else registry_endpoint R @ ''/'' @ img)"

fun image_id_in :: "string \<Rightarrow> string \<Rightarrow> string list \<Rightarrow> string" where
  "image_id_in registry_ref img [] = ''sha256:unknown''"
| "image_id_in registry_ref img (l # ls) =
    (if (contains l registry_ref \<or> contains l img) \<and> 3 \<le> length (split_whitespace l) then split_whitespace l ! 2
     else image_id_in registry_ref img ls)"

definition pull_from_registry :: "registry_env \<Rightarrow> string \<Rightarrow> (string, registry_error) res" where
  "pull_from_registry R img =
    (let registry_ref = with_registry R img in
     bind_res (run_ok (rg_run R) ''crictl pull'' [''crictl'', ''pull'', registry_ref]) (\<lambda>_.
     bind_res (ok_or (NotStarted ''crictl images'') (rg_run R [''crictl'', ''images'', ''--no-trunc''])) (\<lambda>out.
     Ok (image_id_in registry_ref img (text_lines (from_utf8_lossy (po_stdout out)))))))"

definition image_exists :: "registry_env \<Rightarrow> string \<Rightarrow> (bool, registry_error) res" where
  "image_exists R img =
     bind_res (ensure (valid_reference R (with_registry R img)) (BadReference (with_registry R img))) (\<lambda>_.
     Ok (manifest R (with_registry R img) \<noteq> None))"

definition text_members :: "string \<Rightarrow> json \<Rightarrow> string list" where
  "text_members k body = (case jget k body of Some (JArray vs) \<Rightarrow> List.map_filter as_str vs | _ \<Rightarrow> [])"

definition registry_list :: "registry_env \<Rightarrow> string \<Rightarrow> string \<Rightarrow> (string list, registry_error) res" where
  "registry_list R path member =
     bind_res (ok_or Unreachable (http_get R (''http://'' @ registry_endpoint R @ ''/v2/'' @ path))) (\<lambda>(status, body).
     bind_res (ensure (200 \<le> status \<and> status < 300) (RegistryStatus status)) (\<lambda>_.
     bind_res (ok_or BadAnswer body) (\<lambda>b. Ok (text_members member b))))"

definition list_repositories :: "registry_env \<Rightarrow> (string list, registry_error) res" where
  "list_repositories R = registry_list R ''_catalog'' ''repositories''"

definition repository_tags :: "registry_env \<Rightarrow> string \<Rightarrow> (string list, registry_error) res" where
  "repository_tags R repository = registry_list R (repository @ ''/tags/list'') ''tags''"

text \<open>The build script takes no argument: it is the same for every name.\<close>

definition build_from_spec :: "registry_env \<Rightarrow> string \<Rightarrow> (string, registry_error) res" where
  "build_from_spec R name =
    (let spec_path = ''/root/stronghold/images/'' @ name @ ''/image.toml'' in
     bind_res (ensure (path_exists R spec_path) (SpecNotFound spec_path)) (\<lambda>_.
     bind_res (run_ok (rg_run R) ''build script'' [''python3'', ''/root/build_rocky_base.py'']) (\<lambda>_.
     Ok (''stronghold/'' @ name @ '':latest''))))"

section \<open>The routes\<close>

record BuildImageRequest =
  biq_name :: string
  biq_tag :: string

record BuildImageResponse =
  bip_image :: string
  bip_status :: string
  bip_message :: string

record PushImageRequest =
  piq_image :: string
  piq_registry :: "string option"

record PushImageResponse =
  pip_image :: string
  pip_registry_ref :: string
  pip_digest :: string

definition image_failure :: "nat \<Rightarrow> ('a, registry_error) res \<Rightarrow> 'a route" where
  "image_failure status r = map_err (\<lambda>_. (status, Wrapped [])) r"

definition build_image :: "registry_env \<Rightarrow> BuildImageRequest \<Rightarrow> BuildImageResponse route" where
  "build_image R req = image_failure 500 (bind_res (build_from_spec R (biq_name req)) (\<lambda>img.
     Ok \<lparr> bip_image = img, bip_status = ''built'', bip_message = ''Image '' @ img @ '' built and pushed to registry'' \<rparr>))"

definition push_image :: "registry_env \<Rightarrow> PushImageRequest \<Rightarrow> PushImageResponse route" where
  "push_image R req =
    (let registry = (case piq_registry req of Some r \<Rightarrow> r | None \<Rightarrow> registry_endpoint R) in
     image_failure 500 (bind_res (push_to_registry R (piq_image req) registry) (\<lambda>digest.
     Ok \<lparr> pip_image = piq_image req, pip_registry_ref = registry @ ''/'' @ piq_image req, pip_digest = digest \<rparr>)))"

definition pull_image :: "registry_env \<Rightarrow> string \<Rightarrow> (string \<times> string) route" where
  "pull_image R img = image_failure 500 (bind_res (pull_from_registry R img) (\<lambda>digest. Ok (img, digest)))"

definition list_images :: "registry_env \<Rightarrow> string list route" where
  "list_images R = image_failure 502 (list_repositories R)"

definition list_image_tags :: "registry_env \<Rightarrow> string \<Rightarrow> (string \<times> string list) route" where
  "list_image_tags R name =
     image_failure 502 (bind_res (repository_tags R (if CHR ''/'' \<in> set name then name else ''stronghold/'' @ name)) (\<lambda>tags.
     Ok (name, tags)))"

definition check_exists :: "registry_env \<Rightarrow> string \<Rightarrow> (string \<times> bool) route" where
  "check_exists R name =
    (let image_ref = ''stronghold/'' @ name @ '':latest'' in
     image_failure 502 (bind_res (image_exists R image_ref) (\<lambda>e. Ok (image_ref, e))))"

section \<open>Reading a Containerfile\<close>

text \<open>A reference reader, after the documentation of the format: blank lines and comments are dropped, a line that ends in a
  backslash goes on in the next one, and the first word of a line is its instruction.\<close>

definition FILE_WORDS :: "string list" where
  "FILE_WORDS = [''add'', ''arg'', ''cmd'', ''copy'', ''entrypoint'', ''env'', ''expose'', ''from'', ''healthcheck'', ''label'',
     ''maintainer'', ''onbuild'', ''run'', ''shell'', ''stopsignal'', ''user'', ''volume'', ''workdir'']"

definition blank :: "char \<Rightarrow> bool" where
  "blank c \<longleftrightarrow> c = CHR '' '' \<or> c = CHR 0x09"

definition dropped :: "string \<Rightarrow> bool" where
  "dropped l \<longleftrightarrow> (case dropWhile blank l of [] \<Rightarrow> True | c # _ \<Rightarrow> c = CHR ''#'')"

definition continued :: "string \<Rightarrow> bool" where
  "continued l \<longleftrightarrow> l \<noteq> [] \<and> last l = CHR 0x5C"

fun logical_lines :: "string list \<Rightarrow> string list" where
  "logical_lines [] = []"
| "logical_lines (l # ls) =
    (if dropped l then logical_lines ls
     else if continued l then (case logical_lines ls of [] \<Rightarrow> [butlast l] | m # ms \<Rightarrow> (butlast l @ m) # ms)
     else l # logical_lines ls)"

definition instruction :: "string \<Rightarrow> string" where
  "instruction l = lower_ascii (takeWhile (\<lambda>c. \<not> blank c) (dropWhile blank l))"

definition readable :: "string \<Rightarrow> bool" where
  "readable file \<longleftrightarrow> list_all (\<lambda>l. instruction l \<in> set FILE_WORDS) (logical_lines (split_on (CHR 0x0A) file))"

definition from_image :: "string \<Rightarrow> string option" where
  "from_image file = (case logical_lines (split_on (CHR 0x0A) file) of
     l # _ \<Rightarrow> (if instruction l = ''from'' then Some (dropWhile blank (dropWhile (\<lambda>c. \<not> blank c) l)) else None) | [] \<Rightarrow> None)"

text \<open>Texts of one line that do not end in a backslash, and snippets that are instructions.\<close>

definition one_line :: "string \<Rightarrow> bool" where
  "one_line s \<longleftrightarrow> CHR 0x0A \<notin> set s \<and> \<not> continued s"

fun toolchain_texts :: "Toolchain \<Rightarrow> string list" where
  "toolchain_texts (Rust channel date targets components) = channel # (case date of Some d \<Rightarrow> [d] | None \<Rightarrow> []) @ targets @ components"
| "toolchain_texts (Node version) = [version]"
| "toolchain_texts (Python version) = [version]"
| "toolchain_texts (Go version) = [version]"
| "toolchain_texts (Elan channel date) = [channel]"

definition plain_config :: "ImageConfig \<Rightarrow> bool" where
  "plain_config c \<longleftrightarrow> list_all one_line (ic_extends c # ic_dnf c @ concat (map (toolchain_texts \<circ> snd) (ic_toolchains c)) @
     map fst (ic_labels c) @ map snd (ic_labels c) @ map fst (ic_env c) @ map snd (ic_env c) @ ic_pre_install c @ ic_post_install c) \<and>
     list_all (\<lambda>s. one_line s \<and> (dropped s \<or> instruction s \<in> set FILE_WORDS)) (ic_snippets c)"

text \<open>A line is in order when it is dropped or an instruction, and stands alone.\<close>

definition line_ok :: "string \<Rightarrow> bool" where
  "line_ok l \<longleftrightarrow> dropped l \<or> instruction l \<in> set FILE_WORDS"

lemma one_line_append [simp]: "one_line (a @ b) \<longleftrightarrow> CHR 0x0A \<notin> set a \<and> (if b = [] then one_line a else one_line b)"
  by (auto simp: one_line_def continued_def)

lemma one_line_Cons: "one_line (x # b) \<longleftrightarrow> x \<noteq> CHR 0x0A \<and> (if b = [] then x \<noteq> CHR 0x5C else one_line b)"
  by (auto simp: one_line_def continued_def)

lemma one_line_Nil [simp]: "one_line []"
  by (simp add: one_line_def continued_def)

lemma readable_lines:
  "ls \<noteq> [] \<Longrightarrow> list_all one_line ls \<Longrightarrow>
   logical_lines (split_on (CHR 0x0A) (join_with [CHR 0x0A] ls)) = filter (\<lambda>l. \<not> dropped l) ls"
proof -
  have "list_all one_line ls \<Longrightarrow> logical_lines ls = filter (\<lambda>l. \<not> dropped l) ls" for ls
    by (induction ls) (auto simp: one_line_def)
  then show "ls \<noteq> [] \<Longrightarrow> list_all one_line ls \<Longrightarrow> ?thesis"
    using split_join [of ls "CHR 0x0A"] by (simp add: list_all_iff one_line_def)
qed

lemma line_ok_Nil [simp]: "line_ok []"
  by (simp add: line_ok_def dropped_def)

lemma line_ok_comment [simp]: "line_ok (CHR ''#'' # s)"
  by (simp add: line_ok_def dropped_def blank_def)

lemma lower_words:
  "lower_ascii ''RUN'' = ''run''" "lower_ascii ''ENV'' = ''env''" "lower_ascii ''LABEL'' = ''label''" "lower_ascii ''FROM'' = ''from''"
  "lower_ascii ''&&'' = ''&&''"
  by code_simp+

lemma instruction_words:
  "instruction (''RUN '' @ s) = ''run''" "instruction (''ENV '' @ s) = ''env''" "instruction (''LABEL '' @ s) = ''label''"
  "instruction (''FROM '' @ s) = ''from''" "instruction (''    && '' @ s) = ''&&''"
  by (simp_all add: instruction_def blank_def lower_words)

lemma line_ok_words:
  "line_ok (''RUN '' @ s)" "line_ok (''ENV '' @ s)" "line_ok (''LABEL '' @ s)" "line_ok (''FROM '' @ s)" "\<not> line_ok (''    && '' @ s)"
  unfolding line_ok_def instruction_words by (simp_all add: FILE_WORDS_def dropped_def blank_def)

lemmas line_ok_simps [simp] = line_ok_words [unfolded append_Cons append_Nil]

lemma line_ok_run [simp]: "line_ok ''RUN''"
  by code_simp

text \<open>Every generated line is in order but those of the two scripts.\<close>

lemma toolchain_lines_ok: "list_all line_ok (toolchain_lines t)"
  by (cases t) (auto simp: toolchain_lines_def rust_default_def curl_rust_def list_all_iff split: option.split)

lemma script_lines_ok: "list_all line_ok (script_lines cmds) \<longleftrightarrow> cmds = []"
  by (cases cmds) (simp_all add: script_lines_def)

lemma containerfile_lines_ok:
  assumes "plain_config c"
  shows "list_all line_ok (containerfile_lines c) \<longleftrightarrow> ic_pre_install c = [] \<and> ic_post_install c = []"
proof -
  have "list_all line_ok (concat (map (\<lambda>(_, t). toolchain_lines t) ts))" for ts :: "(string \<times> Toolchain) list"
    using toolchain_lines_ok by (induction ts) auto
  moreover have "list_all line_ok (ic_snippets c)"
    using assms by (auto simp: plain_config_def list_all_iff line_ok_def)
  moreover have "list_all line_ok (map (\<lambda>(k, v). ''LABEL '' @ k @ ''='' @ quoted v) xs)"
      "list_all line_ok (map (\<lambda>(k, v). ''ENV '' @ k @ ''='' @ quoted (substitute_placeholders v)) xs)" for xs :: "(string \<times> string) list"
    by (auto simp: list_all_iff)
  ultimately show ?thesis unfolding containerfile_lines_def list_all_append script_lines_ok by simp
qed

text \<open>Every generated line is one line of the file.\<close>

lemma set_replace_all: "set (replace_all p r s) \<subseteq> set r \<union> set s"
proof (induction p r s rule: replace_all.induct)
  case (1 p r s)
  show ?case
  proof (cases "p = [] \<or> split_once p s = None")
    case True
    then show ?thesis by (subst replace_all.simps) auto
  next
    case False
    then obtain a b where ab: "split_once p s = Some (a, b)" by auto
    moreover have "set (replace_all p r b) \<subseteq> set r \<union> set b" using 1 [of "(a, b)" a b] False ab by simp
    moreover have "set a \<union> set b \<subseteq> set s" using split_once_Some [OF ab] by auto
    ultimately show ?thesis using False by (subst replace_all.simps) auto
  qed
qed

lemma substituted_one_line: "CHR 0x0A \<notin> set s \<Longrightarrow> CHR 0x0A \<notin> set (substitute_placeholders s)"
  using set_replace_all [of "''{path}''" DEFAULT_PATH "replace_all ''{home}'' DEFAULT_HOME s"]
    set_replace_all [of "''{home}''" DEFAULT_HOME s]
  by (auto simp: substitute_placeholders_def DEFAULT_PATH_def DEFAULT_HOME_def)

lemma one_line_quoted [simp]: "one_line (quoted s) \<longleftrightarrow> CHR 0x0A \<notin> set s"
  by (auto simp: quoted_def one_line_def continued_def)

lemma one_line_join: "list_all one_line ws \<Longrightarrow> one_line (join_with '' '' ws)"
  by (induction "'' ''" ws rule: join_with.induct) (auto simp: one_line_def continued_def)

lemma one_line_newline: "one_line s \<Longrightarrow> CHR 0x0A \<notin> set s"
  by (simp add: one_line_def)

lemma toolchain_lines_one:
  assumes "list_all one_line (toolchain_texts t)"
  shows "list_all one_line (toolchain_lines t)"
  using assms
  by (cases t) (auto simp: toolchain_lines_def rust_default_def curl_rust_def list_all_iff one_line_Cons one_line_newline split: option.splits)

lemma script_lines_one: "list_all one_line cmds \<Longrightarrow> list_all one_line (script_lines cmds)"
  by (auto simp: script_lines_def list_all_iff one_line_Cons)

lemma plain_config_entry:
  assumes "plain_config c" "(k, v) \<in> set (ic_labels c) \<union> set (ic_env c)"
  shows "one_line k \<and> one_line v"
proof -
  have "k \<in> set (map fst (ic_labels c) @ map fst (ic_env c)) \<and> v \<in> set (map snd (ic_labels c) @ map snd (ic_env c))"
    using assms(2) by force
  then show ?thesis using assms(1) unfolding plain_config_def list_all_iff by auto
qed

lemma containerfile_lines_one:
  assumes "plain_config c"
  shows "list_all one_line (containerfile_lines c)"
proof -
  have t: "list_all one_line (concat (map (\<lambda>(_, t). toolchain_lines t) ts))"
    if "list_all one_line (concat (map (toolchain_texts \<circ> snd) ts))" for ts
    using that toolchain_lines_one by (induction ts) auto
  have "one_line (''LABEL '' @ k @ ''='' @ quoted v)" if "(k, v) \<in> set (ic_labels c)" for k v
    using plain_config_entry [OF assms, of k v] that by (simp add: one_line_Cons one_line_newline quoted_def)
  then have l: "list_all one_line (map (\<lambda>(k, v). ''LABEL '' @ k @ ''='' @ quoted v) (ic_labels c))"
    unfolding list_all_iff by auto
  have "one_line (''ENV '' @ k @ ''='' @ quoted (substitute_placeholders v))" if "(k, v) \<in> set (ic_env c)" for k v
    using plain_config_entry [OF assms, of k v] that by (simp add: one_line_Cons one_line_newline quoted_def substituted_one_line)
  then have e: "list_all one_line (map (\<lambda>(k, v). ''ENV '' @ k @ ''='' @ quoted (substitute_placeholders v)) (ic_env c))"
    unfolding list_all_iff by auto
  have parts: "one_line (ic_extends c)" "list_all one_line (ic_dnf c)" "list_all one_line (ic_pre_install c)"
      "list_all one_line (ic_post_install c)" "list_all one_line (concat (map (toolchain_texts \<circ> snd) (ic_toolchains c)))"
    using assms unfolding plain_config_def list_all_append list.pred_inject by blast+
  have sn: "list_all one_line (ic_snippets c)" using assms unfolding plain_config_def list_all_iff by blast
  have "one_line (''FROM stronghold/'' @ ic_extends c)" "one_line (''RUN dnf install -y '' @ join_with '' '' (ic_dnf c))"
    "one_line ''# Injected snippets (escape hatch)''"
    using parts(1) one_line_join [OF parts(2)] by (simp_all add: one_line_Cons)
  then show ?thesis
    unfolding containerfile_lines_def list_all_append
    using t [OF parts(5)] l e sn script_lines_one [OF parts(3)] script_lines_one [OF parts(4)]
    by (auto simp del: one_line_append)
qed


section \<open>Which images can be built\<close>

text \<open>The name of the image that \<open>extends\<close> names.\<close>

definition parent_name :: "string \<Rightarrow> string" where
  "parent_name extends = (case strip_prefix ''stronghold/'' extends of Some x \<Rightarrow> x | None \<Rightarrow> extends)"

lemma from_image_generated:
  assumes "plain_config c"
  shows "from_image (generate_containerfile c) = Some (''stronghold/'' @ ic_extends c)"
proof -
  have f: "\<not> dropped (''FROM '' @ s)" for s by (simp add: dropped_def blank_def)
  have "logical_lines (split_on (CHR 0x0A) (generate_containerfile c)) =
      filter (\<lambda>l. \<not> dropped l) (containerfile_lines c)"
    unfolding generate_containerfile_def
    by (rule readable_lines [OF _ containerfile_lines_one [OF assms]]) (simp add: containerfile_lines_def)
  moreover have "\<exists>ls. filter (\<lambda>l. \<not> dropped l) (containerfile_lines c) = (''FROM '' @ ''stronghold/'' @ ic_extends c) # ls"
    using f [of "''stronghold/'' @ ic_extends c"] by (simp add: containerfile_lines_def)
  ultimately show ?thesis using instruction_words(4) [of "''stronghold/'' @ ic_extends c"]
    by (auto simp: from_image_def blank_def)
qed

text \<open>Of the descriptions that the parser accepts, the generated file starts from the image of the parent exactly for the
  direct children of the root: the root itself starts from an image without a name, and a child of another image from
  \<open>stronghold/stronghold/\<close> and its name.\<close>
lemma parent_found_iff_direct_child:
  assumes "parse_image T content = Ok c" "plain_config c"
  shows "(ic_extends c = [] \<or> ic_extends c = ''rocky-base'' \<or> starts_with (ic_extends c) ''stronghold/'') \<and>
    (from_image (generate_containerfile c) = Some (''stronghold/'' @ parent_name (ic_extends c)) \<and> ic_extends c \<noteq> [] \<longleftrightarrow>
      ic_extends c = ''rocky-base'')"
proof -
  have cases: "ic_extends c = [] \<or> ic_extends c = ''rocky-base'' \<or> starts_with (ic_extends c) ''stronghold/''"
    using assms(1) by (auto simp: parse_image_def check_parent_def Let_def bind_simps split: if_splits prod.splits)
  moreover have "parent_name (ic_extends c) \<noteq> ic_extends c" if tr: "starts_with (ic_extends c) ''stronghold/''"
  proof -
    obtain r where r: "ic_extends c = ''stronghold/'' @ r" using tr by (auto simp: starts_with_iff)
    then have "strip_prefix ''stronghold/'' (ic_extends c) = Some r" by (simp only: strip_prefix_Some)
    then have "length (parent_name (ic_extends c)) < length (ic_extends c)" using r by (simp add: parent_name_def)
    then show ?thesis by auto
  qed
  moreover have "parent_name ''rocky-base'' = ''rocky-base''" by code_simp
  moreover have "\<not> starts_with ''rocky-base'' ''stronghold/''" by code_simp
  ultimately show ?thesis using from_image_generated [OF assms(2)] by auto
qed

text \<open>Each entry of the table of toolchains becomes the toolchain of its name.\<close>

fun toolchain_name :: "Toolchain \<Rightarrow> string" where
  "toolchain_name (Rust _ _ _ _) = ''rust''"
| "toolchain_name (Node _) = ''node''"
| "toolchain_name (Python _) = ''python''"
| "toolchain_name (Go _) = ''go''"
| "toolchain_name (Elan _ _) = ''elan''"

lemma toolchain_of_name: "toolchain_of key v = Ok t \<Longrightarrow> toolchain_name t = key"
  by (auto simp: toolchain_of_def bind_simps split: if_splits)

lemma toolchains_by_name: "deserialize_toolchains entries = Ok ts \<Longrightarrow> map fst ts = map fst entries \<and> list_all (\<lambda>(k, t). toolchain_name t = k) ts"
  by (induction entries arbitrary: ts) (force simp: bind_simps intro: toolchain_of_name)+

section \<open>The registry's answers\<close>

text \<open>The response to a push names the registry of the request; the programs were told the configured one.\<close>

lemma push_ignores_registry:
  "push_image R (req \<lparr> piq_registry := Some r \<rparr>) =
   map_err id (bind_res (push_image R (req \<lparr> piq_registry := None \<rparr>)) (\<lambda>p. Ok (p \<lparr> pip_registry_ref := r @ ''/'' @ piq_image req \<rparr>)))"
  by (cases "push_to_registry R (piq_image req) r") (simp_all add: push_image_def push_to_registry_def image_failure_def Let_def)

text \<open>The build answers for any described image, but runs the same script.\<close>

lemma build_ignores_request:
  assumes "path_exists R (''/root/stronghold/images/'' @ biq_name req @ ''/image.toml'')"
    and "rg_run R [''python3'', ''/root/build_rocky_base.py''] = Some out" "po_ok out"
  shows "\<exists>m. build_image R req = Ok \<lparr> bip_image = ''stronghold/'' @ biq_name req @ '':latest'', bip_status = ''built'', bip_message = m \<rparr>"
  using assms by (simp add: build_image_def build_from_spec_def run_ok_def ensure_def image_failure_def Let_def)

text \<open>When the registry cannot be reached, every image is reported as missing.\<close>

lemma unreachable_registry_has_nothing:
  "valid_reference R (with_registry R (''stronghold/'' @ name @ '':latest'')) \<Longrightarrow> manifest R = (\<lambda>_. None) \<Longrightarrow>
   check_exists R name = Ok (''stronghold/'' @ name @ '':latest'', False)"
  by (simp add: check_exists_def image_exists_def ensure_def image_failure_def Let_def)

section \<open>Witnesses\<close>

definition demo_config :: ImageConfig where
  "demo_config = \<lparr> ic_name = ''go-cli'', ic_extends = ''rocky-base'', ic_description = [], ic_dnf = [''make'', ''gcc''], ic_apt = [],
     ic_toolchains = [(''go'', Go ''1.22'')], ic_env = [(''GOPATH'', ''{home}/go'')], ic_pre_install = [], ic_post_install = [''rm x''],
     ic_snippets = [''USER dev''], ic_labels = [(''t'', ''v'')] \<rparr>"

definition demo_toml :: toml_reader where
  "demo_toml content = (if content = ''go'' then Some (demo_config \<lparr> ic_toolchains := [] \<rparr>,
     [(''go'', TomlTable [(''version'', TomlText ''1.22'')])]) else None)"

lemma demo_config_plain: "plain_config demo_config"
  by code_simp


lemma parent_found_iff_direct_child_witness:
  "parse_image demo_toml ''go'' = Ok demo_config \<and>
   from_image (generate_containerfile demo_config) = Some (''stronghold/'' @ parent_name ''rocky-base'')"
proof -
  have "parse_image demo_toml ''go'' = Ok demo_config" by code_simp
  then show ?thesis using parent_found_iff_direct_child [OF _ demo_config_plain, of demo_toml "''go''"] by (simp add: demo_config_def)
qed

end
