(* ===== verification/Workers.thy ===== *)
theory Workers
  imports Floats Text
begin

text \<open>
  The workers of the fleet (src/gateway/src/machines/worker.rs): what the cluster says about its nodes, and the reading of
  Kubernetes quantities. The answers of the cluster are arguments, and so is \<open>read_f64\<close>, which is \<open>str::parse::<f64>\<close>.
\<close>

section \<open>Numbers\<close>

datatype f64_value = Finite rat | Infinite bool | NotANumber

type_synonym f64_reader = "string \<Rightarrow> f64_value option"

text \<open>\<open>as u32\<close> cuts off the fraction and saturates; the flag of an infinite value says that it is negative.\<close>

definition clamp_u32 :: "int \<Rightarrow> 32 word" where
  "clamp_u32 i = word_of_int (max 0 (min (2 ^ 32 - 1) i))"

definition as_u32 :: "f64_value \<Rightarrow> 32 word" where
  "as_u32 v = (case v of
     Finite q \<Rightarrow> clamp_u32 (if 0 \<le> q then \<lfloor>q\<rfloor> else - \<lfloor>- q\<rfloor>)
   | Infinite negative \<Rightarrow> (if negative then 0 else - 1)
   | NotANumber \<Rightarrow> 0)"

definition read_u32 :: "string \<Rightarrow> 32 word option" where
  "read_u32 s =
    (case (case s of c # r \<Rightarrow> if c = CHR ''+'' then parse_digits r else parse_digits s | [] \<Rightarrow> None) of
       Some i \<Rightarrow> if i < 2 ^ 32 then Some (word_of_int i) else None
     | None \<Rightarrow> None)"

definition or_zero :: "32 word option \<Rightarrow> 32 word" where
  "or_zero x = (case x of Some w \<Rightarrow> w | None \<Rightarrow> 0)"

section \<open>Quantities\<close>

definition parse_cpu_quantity :: "f64_reader \<Rightarrow> string \<Rightarrow> 32 word" where
  "parse_cpu_quantity F s0 =
    (let s = trim s0 in
     if s \<noteq> [] \<and> last s = CHR ''m'' then or_zero (read_u32 (butlast s)) div 1000
     else case read_u32 s of
       Some n \<Rightarrow> n
     | None \<Rightarrow> or_zero (map_option as_u32 (F s)))"

definition ascii_alphabetic :: "char \<Rightarrow> bool" where
  "ascii_alphabetic c \<longleftrightarrow> ascii_lower c \<or> ascii_upper c"

definition unit_factor :: "string \<Rightarrow> rat" where
  "unit_factor suffix =
    (if suffix = ''Ki'' then 1024 else if suffix = ''Mi'' then 1024 ^ 2 else if suffix = ''Gi'' then 1024 ^ 3
     else if suffix = ''Ti'' then 1024 ^ 4 else if suffix = ''Pi'' then 1024 ^ 5 else if suffix = ''Ei'' then 1024 ^ 6
     else if suffix = ''K'' then 10 ^ 3 else if suffix = ''M'' then 10 ^ 6 else if suffix = ''G'' then 10 ^ 9
     else if suffix = ''T'' then 10 ^ 12 else if suffix = ''P'' then 10 ^ 15 else if suffix = ''E'' then 10 ^ 18
     else if suffix = [] then 1 else 0)"

text \<open>Products and quotients are rounded; those that overflow stay large, and are cut off like an infinite value.\<close>

definition parse_memory_quantity :: "f64_reader \<Rightarrow> string \<Rightarrow> 32 word" where
  "parse_memory_quantity F s0 =
    (let s = trim s0 in
     if s = [] then 0
     else case F (takeWhile (\<lambda>c. \<not> ascii_alphabetic c) s) of
       None \<Rightarrow> 0
     | Some num \<Rightarrow>
        let factor = unit_factor (dropWhile (\<lambda>c. \<not> ascii_alphabetic c) s) in
        case num of
          Finite q \<Rightarrow> clamp_u32 \<lfloor>rnd64 (rnd64 (q * factor) / 1024 ^ 3)\<rfloor>
        | _ \<Rightarrow> if factor = 0 then 0 else as_u32 num)"

section \<open>Nodes\<close>

record node =
  nd_name :: "string option"
  nd_labels :: "(string \<times> string) list option"
  nd_capacity :: "(string \<times> string) list option"
  nd_conditions :: "(string \<times> string) list option"

record Worker =
  wk_host :: string
  wk_sev_snp :: bool
  wk_cpu_available :: "32 word"
  wk_memory_gb_available :: "32 word"

definition parse_capacity :: "f64_reader \<Rightarrow> node \<Rightarrow> 32 word \<times> 32 word" where
  "parse_capacity F nd =
    (case nd_capacity nd of
       None \<Rightarrow> (0, 0)
     | Some c \<Rightarrow> (or_zero (map_option (parse_cpu_quantity F) (map_of c ''cpu'')),
         or_zero (map_option (parse_memory_quantity F) (map_of c ''memory''))))"

definition has_sev_snp_label :: "node \<Rightarrow> bool" where
  "has_sev_snp_label nd =
    (case nd_labels nd of
       None \<Rightarrow> False
     | Some labels \<Rightarrow> list_ex (\<lambda>(k, v). (ends_with k ''sev-snp'' \<or> ends_with k ''sev_snp'') \<and> v = ''true'') labels)"

definition is_node_ready :: "node \<Rightarrow> bool" where
  "is_node_ready nd =
    (case nd_conditions nd of None \<Rightarrow> False | Some cs \<Rightarrow> list_ex (\<lambda>(t, st). t = ''Ready'' \<and> st = ''True'') cs)"

datatype kube_answer = NodeFound node | ApiCode nat | KubeFailure

definition list_workers :: "f64_reader \<Rightarrow> node list option \<Rightarrow> Worker list option" where
  "list_workers F answer =
     map_option (map (\<lambda>nd. \<lparr> wk_host = (case nd_name nd of Some n \<Rightarrow> n | None \<Rightarrow> ''<unknown>''), wk_sev_snp = has_sev_snp_label nd,
       wk_cpu_available = fst (parse_capacity F nd), wk_memory_gb_available = snd (parse_capacity F nd) \<rparr>)) answer"

definition worker_health :: "kube_answer \<Rightarrow> bool option" where
  "worker_health answer = (case answer of
     NodeFound nd \<Rightarrow> Some (is_node_ready nd)
   | ApiCode code \<Rightarrow> if code = 404 then Some False else None
   | KubeFailure \<Rightarrow> None)"

section \<open>Memory is rounded down\<close>

text \<open>A whole number of at most 53 bits, scaled by a power of two, is a double.\<close>

lemma rnd64_scaled:
  assumes "n < 2 ^ 53" "- 1074 \<le> k"
  shows "rnd64 (of_nat n * 2 powi k) = of_nat n * 2 powi k"
proof (cases "n = 0")
  case False
  let ?x = "of_nat n * 2 powi k :: rat"
  have pos: "0 < ?x" using False by simp
  have "(of_nat n :: rat) < of_nat (2 ^ 53)" using assms(1) by (simp only: of_nat_less_iff)
  then have "?x < 2 powi 53 * 2 powi k" by simp
  moreover have "(2::rat) powi (53 + k) = 2 powi 53 * 2 powi k" by (rule power_int_add) simp
  ultimately have "?x < 2 powi (53 + k)" by (simp only:)
  then have "floor_log2 ?x < 53 + k"
    using floor_log2_bounds(1) [OF pos] powi2_less_iff [of "floor_log2 ?x" "53 + k"] by linarith
  then have e: "expo ?x \<le> k" using assms(2) by (simp add: expo_def)
  have "?x / 2 powi expo ?x = of_int (int n * 2 ^ nat (k - expo ?x))"
    using powi2_split [OF e] by (simp add: field_simps)
  then show ?thesis using pos by (simp only: rnd64_pos_eq round_even_int) (use powi2_split [OF e] in \<open>simp add: field_simps\<close>)
qed simp

lemma digits_show_nat: "list_all ascii_digit (show_nat n)" "show_nat n \<noteq> []"
  using parse_show_nat [of n] by (auto simp: parse_digits_def split: if_splits)

lemma digit_char: "ascii_digit c \<Longrightarrow> \<not> ascii_alphabetic c \<and> \<not> cont_char c \<and> graphic c"
  by (auto simp: ascii_digit_def ascii_alphabetic_def ascii_lower_def ascii_upper_def cont_char_def graphic_def less_eq_char_def)

definition binary_units :: "(string \<times> nat) list" where
  "binary_units = [([], 0), (''Ki'', 10), (''Mi'', 20), (''Gi'', 30), (''Ti'', 40), (''Pi'', 50), (''Ei'', 60)]"

lemma binary_unit:
  assumes "(u, k) \<in> set binary_units"
  shows "unit_factor u = 2 powi int k" "takeWhile (\<lambda>c. \<not> ascii_alphabetic c) u = []" "dropWhile (\<lambda>c. \<not> ascii_alphabetic c) u = u"
    "list_all (\<lambda>c. \<not> cont_char c) u" "u \<noteq> [] \<Longrightarrow> graphic (last u)" "k \<le> 60"
proof -
  have "list_all (\<lambda>(u, k). unit_factor u = 2 ^ k \<and> takeWhile (\<lambda>c. \<not> ascii_alphabetic c) u = [] \<and>
      dropWhile (\<lambda>c. \<not> ascii_alphabetic c) u = u \<and> list_all (\<lambda>c. \<not> cont_char c) u \<and> (u = [] \<or> graphic (last u)) \<and> k \<le> 60) binary_units"
    by code_simp
  then show "unit_factor u = 2 powi int k" "takeWhile (\<lambda>c. \<not> ascii_alphabetic c) u = []" "dropWhile (\<lambda>c. \<not> ascii_alphabetic c) u = u"
    "list_all (\<lambda>c. \<not> cont_char c) u" "u \<noteq> [] \<Longrightarrow> graphic (last u)" "k \<le> 60"
    using assms unfolding list_all_iff by auto
qed

lemma quantity_parts:
  assumes "(u, k) \<in> set binary_units"
  shows "trim (show_nat n @ u) = show_nat n @ u"
    and "takeWhile (\<lambda>c. \<not> ascii_alphabetic c) (show_nat n @ u) = show_nat n"
    and "dropWhile (\<lambda>c. \<not> ascii_alphabetic c) (show_nat n @ u) = u"
proof -
  have d: "\<not> ascii_alphabetic c \<and> \<not> cont_char c \<and> graphic c" if "c \<in> set (show_nat n)" for c
    using digits_show_nat(1) [of n] that digit_char by (simp add: list_all_iff)
  show "trim (show_nat n @ u) = show_nat n @ u"
    using d digits_show_nat(2) [of n] binary_unit(4,5) [OF assms]
    by (intro trim_graphic) (auto simp: list_all_iff last_append)
  show "takeWhile (\<lambda>c. \<not> ascii_alphabetic c) (show_nat n @ u) = show_nat n"
    "dropWhile (\<lambda>c. \<not> ascii_alphabetic c) (show_nat n @ u) = u"
    using d binary_unit(2,3) [OF assms] by (simp_all add: takeWhile_append2 dropWhile_append2)
qed

text \<open>A memory quantity that is a whole number below \<open>2 ^ 53\<close> with a binary unit is read as its gigabytes, rounded down
  and cut off at the largest \<open>u32\<close>: the detour over doubles loses nothing.\<close>
lemma memory_quantity_floors:
  assumes "(u, k) \<in> set binary_units" "n < 2 ^ 53" "F (show_nat n) = Some (Finite (of_nat n))"
  shows "unat (parse_memory_quantity F (show_nat n @ u)) = min (2 ^ 32 - 1) (n * 2 ^ k div 2 ^ 30)"
proof -
  have k: "k \<le> 60" by (rule binary_unit(6) [OF assms(1)])
  have "rnd64 (of_nat n * 2 powi int k) = of_nat n * 2 powi int k" by (rule rnd64_scaled [OF assms(2)]) simp
  moreover have "(of_nat n * 2 powi int k / 1024 ^ 3 :: rat) = of_nat n * 2 powi (int k - 30)"
    by (simp add: power_int_diff)
  moreover have "rnd64 (of_nat n * 2 powi (int k - 30)) = of_nat n * 2 powi (int k - 30)"
    by (rule rnd64_scaled [OF assms(2)]) simp
  moreover have "\<lfloor>of_nat n * 2 powi (int k - 30) :: rat\<rfloor> = int (n * 2 ^ k div 2 ^ 30)"
  proof -
    have "(of_nat n * 2 powi (int k - 30) :: rat) = of_nat (n * 2 ^ k) / of_nat (2 ^ 30)" by (simp add: power_int_diff)
    then show ?thesis by (simp only: floor_divide_of_nat_eq)
  qed
  ultimately have v: "clamp_u32 \<lfloor>rnd64 (rnd64 (of_nat n * 2 powi int k) / 1024 ^ 3)\<rfloor> = clamp_u32 (int (n * 2 ^ k div 2 ^ 30))"
    by (simp only:)
  have "parse_memory_quantity F (show_nat n @ u) = clamp_u32 (int (n * 2 ^ k div 2 ^ 30))"
    unfolding v [symmetric]
    using assms(3) digits_show_nat(2) [of n]
    by (simp add: parse_memory_quantity_def Let_def quantity_parts [OF assms(1)] binary_unit(1) [OF assms(1)])
  moreover have "unat (clamp_u32 (int i)) = min (2 ^ 32 - 1) i" for i
  proof -
    have "clamp_u32 (int i) = word_of_nat (min (2 ^ 32 - 1) i)" by (cases "i < 2 ^ 32") (auto simp: clamp_u32_def min_def)
    then show ?thesis by (simp add: unsigned_of_nat take_bit_nat_eq_self)
  qed
  ultimately show ?thesis by simp
qed

text \<open>The reading of whole numbers is what \<open>str::parse\<close> documents; here by the rounded value of the digits.\<close>

definition demo_f64 :: f64_reader where
  "demo_f64 s = map_option (\<lambda>i. Finite (rnd64 (of_int i))) (parse_digits s)"

lemma memory_quantity_floors_witness:
  "unat (parse_memory_quantity demo_f64 (show_nat 8153076 @ ''Ki'')) = 7"
proof -
  have "demo_f64 (show_nat 8153076) = Some (Finite (of_nat 8153076))"
    using rnd64_of_nat [of 8153076] by (simp add: demo_f64_def parse_show_nat)
  then show ?thesis using memory_quantity_floors [of "''Ki''" 10 8153076 demo_f64] by (simp add: binary_units_def)
qed

end
