(* ===== verification/Platform.thy ===== *)
theory Platform
  imports Pods
begin

text \<open>
  The platform under the gateway and what it reports: the SEV-SNP driver (src/gateway/src/tee/sev_snp.rs), the build
  without it (tee/no_sev.rs), the routes that show a report or a count (routes/attestation.rs, routes/metrics.rs) and the
  administration of tenants (routes/admin.rs). The firmware of the guest is the record \<open>guest\<close>; theory Vault has the
  sealing under a given key.
\<close>

section \<open>The guest's firmware\<close>

text \<open>\<open>gu_opens\<close>: the device can be opened; \<open>gu_report\<close>: a report, serialised (when that succeeds), with its measurement;
  \<open>gu_derived\<close>: the key that is derived with the measurement mixed in.\<close>

record guest =
  gu_device :: bool
  gu_opens :: bool
  gu_report :: "(bytes option \<times> bytes) option"
  gu_derived :: "bytes option"

datatype build = SevSnp guest | NoSev

fun verify_sev_snp_available :: "build \<Rightarrow> bool" where
  "verify_sev_snp_available (SevSnp g) = gu_device g"
| "verify_sev_snp_available NoSev = True"

definition measurement_text :: "'a hash_lib_scheme \<Rightarrow> bytes \<Rightarrow> string" where
  "measurement_text G m = ''sha384:'' @ hex_encode G m"

fun current_measurement :: "'a hash_lib_scheme \<Rightarrow> build \<Rightarrow> string option" where
  "current_measurement G (SevSnp g) =
     (if gu_opens g then map_option (\<lambda>(_, m). measurement_text G m) (gu_report g) else None)"
| "current_measurement G NoSev = None"

fun generate_attestation_report :: "sig_lib \<Rightarrow> utc \<Rightarrow> build \<Rightarrow> AttestationReport option" where
  "generate_attestation_report G now (SevSnp g) =
    (case (if gu_opens g then gu_report g else None) of
       Some (serialised, m) \<Rightarrow>
         map_option (\<lambda>bs. \<lparr> ar_report = b64_encode G bs, ar_report_hash = hash_text G (b64_encode G bs),
           ar_measurement = measurement_text G m, ar_sev_snp_active = True, ar_hardened_mode = True,
           ar_generated_at = to_rfc3339 now \<rparr>) serialised
     | None \<Rightarrow>
         let report = b64_encode G (as_bytes ''stub-attestation-report'') in
         Some \<lparr> ar_report = report, ar_report_hash = hash_text G report,
           ar_measurement = (case current_measurement G (SevSnp g) of Some m \<Rightarrow> m | None \<Rightarrow> ''n/a''),
           ar_sev_snp_active = False, ar_hardened_mode = False, ar_generated_at = to_rfc3339 now \<rparr>)"
| "generate_attestation_report G now NoSev =
    Some \<lparr> ar_report = ''no-sev-snp'', ar_report_hash = ''n/a'', ar_measurement = ''n/a'', ar_sev_snp_active = False,
      ar_hardened_mode = False, ar_generated_at = to_rfc3339 now \<rparr>"

section \<open>Sealing\<close>

definition FALLBACK_MEASUREMENT :: string where
  "FALLBACK_MEASUREMENT = ''sha256:dev-fallback-no-measurement''"

definition fallback_measurement :: "'a hash_lib_scheme \<Rightarrow> guest \<Rightarrow> string" where
  "fallback_measurement G g = (case current_measurement G (SevSnp g) of Some m \<Rightarrow> m | None \<Rightarrow> FALLBACK_MEASUREMENT)"

definition hardware_key :: "guest \<Rightarrow> bytes option" where
  "hardware_key g = (if gu_opens g then gu_derived g else None)"

fun seal_keys :: "'a hash_lib_scheme \<Rightarrow> aead_lib \<Rightarrow> build \<Rightarrow> bytes \<Rightarrow> bytes \<Rightarrow> (bytes, vault_error) res" where
  "seal_keys G A (SevSnp g) nonce keys =
    (case hardware_key g of
       Some hw_key \<Rightarrow> seal_with_key A nonce hw_key keys
     | None \<Rightarrow> seal_with_measurement A nonce (fallback_measurement G g) keys)"
| "seal_keys G A NoSev nonce keys = seal_keys_no_sev keys"

fun unseal_keys :: "'a hash_lib_scheme \<Rightarrow> aead_lib \<Rightarrow> build \<Rightarrow> bytes \<Rightarrow> (bytes, vault_error) res" where
  "unseal_keys G A (SevSnp g) sealed =
    (case hardware_key g of
       Some hw_key \<Rightarrow> unseal_with_key A hw_key sealed
     | None \<Rightarrow> unseal_with_measurement A (fallback_measurement G g) sealed)"
| "unseal_keys G A NoSev sealed = unseal_keys_no_sev sealed"

text \<open>The key a guest seals with.\<close>

definition platform_key :: "'a hash_lib_scheme \<Rightarrow> aead_lib \<Rightarrow> guest \<Rightarrow> bytes" where
  "platform_key G A g = (case hardware_key g of Some k \<Rightarrow> k | None \<Rightarrow> derive_sealing_key A (fallback_measurement G g))"

lemma seal_platform:
  "seal_keys G A (SevSnp g) nonce keys = seal_with_key A nonce (platform_key G A g) keys"
  "unseal_keys G A (SevSnp g) sealed = unseal_with_key A (platform_key G A g) sealed"
  by (simp_all add: platform_key_def seal_with_measurement_def unseal_with_measurement_def split: option.split)

lemma unseal_with_other_key:
  assumes "aead_ok A" "length nonce = 12" "length k = 32"
  shows "\<exists>s. seal_with_key A nonce k p = Ok s \<and>
    unseal_with_key A k' s = (if k' = k then Ok p else Err DecryptFailed)"
proof -
  obtain c where c: "gcm_encrypt A k nonce p = Some c" "gcm_decrypt A k nonce c = Some p"
    using aead_roundtrip [OF assms(1,3,2)] by blast
  then show ?thesis using aead_wrong_key [OF assms(1) c(1), of k'] assms(2)
    by (auto simp: seal_with_key_def unseal_with_key_def NONCE_LEN_def)
qed

text \<open>Keys that one guest sealed are unsealed on another guest exactly when both have the same platform key: the key
  derived by the hardware, else one from the measurement. A guest whose device does not open has the key of a fixed text,
  which is the same everywhere.\<close>
lemma sealed_keys_follow_platform:
  assumes "aead_ok A" "length nonce = 12" "case hardware_key p of Some k \<Rightarrow> length k = 32 | None \<Rightarrow> True"
  shows "\<exists>s. seal_keys G A (SevSnp p) nonce keys = Ok s \<and>
    unseal_keys G A (SevSnp q) s = (if platform_key G A q = platform_key G A p then Ok keys else Err DecryptFailed) \<and>
    (\<not> gu_opens p \<longrightarrow> platform_key G A p = derive_sealing_key A FALLBACK_MEASUREMENT)"
proof -
  have "length (platform_key G A p) = 32" using assms(1,3) by (simp add: platform_key_def split: option.splits)
  then obtain s where "seal_keys G A (SevSnp p) nonce keys = Ok s"
      "unseal_keys G A (SevSnp q) s = (if platform_key G A q = platform_key G A p then Ok keys else Err DecryptFailed)"
    unfolding seal_platform using unseal_with_other_key [OF assms(1,2), of "platform_key G A p" keys "platform_key G A q"] by blast
  moreover have "\<not> gu_opens p \<Longrightarrow> platform_key G A p = derive_sealing_key A FALLBACK_MEASUREMENT"
    by (simp add: platform_key_def hardware_key_def fallback_measurement_def)
  ultimately show ?thesis by blast
qed

text \<open>A report says that it is hardened exactly when the firmware made it.\<close>

lemma hardened_iff_firmware:
  "generate_attestation_report G now b = Some r \<Longrightarrow>
   ar_hardened_mode r = ar_sev_snp_active r \<and>
   (ar_hardened_mode r \<longleftrightarrow> (\<exists>g rep. b = SevSnp g \<and> gu_opens g \<and> gu_report g = Some rep))"
  by (cases b) (auto simp: Let_def split: option.splits prod.splits if_splits)

section \<open>Reports and counts\<close>

definition get_report :: "sig_lib \<Rightarrow> utc \<Rightarrow> build \<Rightarrow> AttestationReport route" where
  "get_report G now b = ok_or (500, Wrapped []) (generate_attestation_report G now b)"

definition metric :: "string \<Rightarrow> string \<Rightarrow> string \<Rightarrow> nat \<Rightarrow> string" where
  "metric name help kind n =
     ''# HELP '' @ name @ '' '' @ help @ [CHR 0x0A] @ ''# TYPE '' @ name @ '' '' @ kind @ [CHR 0x0A] @ name @ '' '' @ show_nat n @ [CHR 0x0A]"

definition get_metrics :: "db \<Rightarrow> nat \<times> string" where
  "get_metrics d =
    (if \<not> db_up d then (500, ''DB pool exhausted'')
     else (200,
       metric ''stronghold_sessions_active'' ''Number of active sessions'' ''gauge'' (count_where (\<lambda>m. ma_status m = ''active'') (machines d)) @
       metric ''stronghold_approvals_pending'' ''Number of pending approval requests'' ''gauge''
         (count_where (\<lambda>s. ps_status s = ''pending'') (pending_sessions d)) @
       metric ''stronghold_audit_entries_total'' ''Total audit log entries'' ''counter'' (length (audit_entries d))))"

section \<open>Administration of tenants\<close>

record CreateTenantRequest =
  ctq_name :: string
  ctq_max_concurrent_machines :: "32 word option"
  ctq_max_cpu_per_machine :: "32 word option"
  ctq_max_memory_gb_per_machine :: "32 word option"

record TenantResponse =
  trp_id :: string
  trp_name :: string
  trp_created_at :: string
  trp_setup_password :: string
  trp_enrollment_url :: string
  trp_sev_snp_measurement :: string

definition tenant_response :: "'a hash_lib_scheme \<Rightarrow> build \<Rightarrow> Tenant \<Rightarrow> string \<Rightarrow> TenantResponse" where
  "tenant_response G b t password =
     \<lparr> trp_id = tn_id t, trp_name = tn_name t, trp_created_at = tn_created_at t, trp_setup_password = password,
       trp_enrollment_url = ''/setup?tenant='' @ tn_id t,
       trp_sev_snp_measurement = (case current_measurement G b of Some m \<Rightarrow> m | None \<Rightarrow> []) \<rparr>"

text \<open>The quotas are set only when the number of machines is given; when that fails the tenant stays.\<close>

definition create_tenant_route ::
    "'a hash_lib_scheme \<Rightarrow> build \<Rightarrow> utc \<Rightarrow> string \<Rightarrow> nat list \<Rightarrow> CreateTenantRequest \<Rightarrow> db \<Rightarrow> TenantResponse route \<times> db" where
  "create_tenant_route G b now ulid draws req d =
    (case create_tenant G now ulid draws (ctq_name req) d of
       (Err _, d') \<Rightarrow> (Err (500, Wrapped []), d')
     | (Panic, d') \<Rightarrow> (Panic, d')
     | (Ok t, d') \<Rightarrow>
        (case (case ctq_max_concurrent_machines req of
             Some max_machines \<Rightarrow> set_quota (tn_id t) max_machines
               (case ctq_max_cpu_per_machine req of Some c \<Rightarrow> c | None \<Rightarrow> 4)
               (case ctq_max_memory_gb_per_machine req of Some m \<Rightarrow> m | None \<Rightarrow> 8) d'
           | None \<Rightarrow> (Ok (), d')) of
           (Err _, d'') \<Rightarrow> (Err (500, Wrapped []), d'')
         | (Panic, d'') \<Rightarrow> (Panic, d'')
         | (Ok _, d'') \<Rightarrow> (Ok (tenant_response G b t (tn_setup_password t)), d'')))"

definition get_tenant_route :: "'a hash_lib_scheme \<Rightarrow> build \<Rightarrow> string \<Rightarrow> db \<Rightarrow> TenantResponse route" where
  "get_tenant_route G b tid d =
    (case get_tenant tid d of
       Err _ \<Rightarrow> Err (404, Wrapped [])
     | Panic \<Rightarrow> Panic
     | Ok t \<Rightarrow> Ok (tenant_response G b t ''[redacted]''))"

text \<open>A created tenant is found under its id, with the same answer up to the password, which is not shown again.\<close>

lemma created_tenant_found:
  assumes "create_tenant_route G b now ulid draws req d = (Ok r, d')"
  shows "get_tenant_route G b (trp_id r) d' = Ok (r \<lparr> trp_setup_password := ''[redacted]'' \<rparr>)"
proof -
  obtain t d1 where t: "create_tenant G now ulid draws (ctq_name req) d = (Ok t, d1)"
    and r: "r = tenant_response G b t (tn_setup_password t)" and d': "tenants d' = tenants d1" "db_up d' = db_up d1"
    using assms unfolding create_tenant_route_def
    by (auto simp: set_quota_def split: prod.splits res.splits option.splits if_splits)
  have "\<not> tenant_exists (tn_id t) d" "tn_id t = ''tenant_'' @ ulid" "db_up d1"
    and "tenants d1 = tenants d @ [\<lparr> te_id = tn_id t, te_name = tn_name t, te_created_at = tn_created_at t,
      te_setup_password = hash_text G (tn_setup_password t), te_setup_used = 0 \<rparr>]"
    using t by (auto simp: create_tenant_def Let_def split: if_splits)
  moreover from this(1) have "query_row (\<lambda>r. te_id r = tn_id t) (tenants d) = None"
    by (auto simp: query_row_None tenant_exists_iff)
  ultimately show ?thesis using d'
    by (simp add: r get_tenant_route_def get_tenant_def tenant_of_row_def tenant_response_def query_row_append query_row_Cons)
qed

text \<open>Limits on a machine without a number of machines are dropped.\<close>

lemma limits_need_machines:
  "ctq_max_concurrent_machines req = None \<Longrightarrow> quotas (snd (create_tenant_route G b now ulid draws req d)) = quotas d"
  by (simp add: create_tenant_route_def create_tenant_def Let_def)

section \<open>Witnesses\<close>

definition demo_guest :: "byte \<Rightarrow> guest" where
  "demo_guest k = \<lparr> gu_device = True, gu_opens = True, gu_report = None, gu_derived = Some (replicate 32 k) \<rparr>"

lemma sealed_keys_follow_platform_witness:
  "\<exists>s. seal_keys demo_short_hash demo_aead (SevSnp (demo_guest 1)) (replicate 12 0) [5] = Ok s \<and>
     unseal_keys demo_short_hash demo_aead (SevSnp (demo_guest 2)) s = Err DecryptFailed"
proof -
  have "platform_key demo_short_hash demo_aead (demo_guest 2) \<noteq> platform_key demo_short_hash demo_aead (demo_guest 1)"
    by code_simp
  then show ?thesis
    using sealed_keys_follow_platform [OF demo_aead_ok, of "replicate 12 0" "demo_guest 1" demo_short_hash "[5]" "demo_guest 2"]
    by (auto simp: hardware_key_def demo_guest_def)
qed

end
