(* ===== verification/Migrations.thy ===== *)
theory Migrations
  imports Db
begin

text \<open>
  The set-up of the database (src/gateway/src/db/mod.rs, src/gateway/src/db/schema.sql): the schema as the list of its
  statements, and the migrations with the journal of those applied. Of a table only the names of its columns are kept, which
  is what the migrations look at; the rows are in theory Db.
\<close>

section \<open>Statements\<close>

datatype ddl = CreateTable string "string list" | CreateIndex string string "string list" | AddColumn string string

record sqlite =
  sq_tables :: "(string \<times> string list) list"
  sq_indexes :: "string list"
  sq_migrations :: "(nat \<times> string \<times> string) list"

text \<open>None is an error. Creating is \<open>IF NOT EXISTS\<close>; an index needs its table, also when it exists.\<close>

fun exec_ddl :: "ddl \<Rightarrow> sqlite \<Rightarrow> sqlite option" where
  "exec_ddl (CreateTable t cols) s =
    (if map_of (sq_tables s) t \<noteq> None then Some s else Some (s \<lparr> sq_tables := sq_tables s @ [(t, cols)] \<rparr>))"
| "exec_ddl (CreateIndex i t cols) s =
    (case map_of (sq_tables s) t of
       None \<Rightarrow> None
     | Some cs \<Rightarrow> if i \<in> set (sq_indexes s) then Some s
         else if set cols \<subseteq> set cs then Some (s \<lparr> sq_indexes := sq_indexes s @ [i] \<rparr>) else None)"
| "exec_ddl (AddColumn t c) s =
    (case map_of (sq_tables s) t of
       None \<Rightarrow> None
     | Some cs \<Rightarrow> if c \<in> set cs then None
         else Some (s \<lparr> sq_tables := map (\<lambda>(n, cols). (n, if n = t then cols @ [c] else cols)) (sq_tables s) \<rparr>))"

fun exec_batch :: "ddl list \<Rightarrow> sqlite \<Rightarrow> sqlite option" where
  "exec_batch [] s = Some s"
| "exec_batch (x # xs) s = (case exec_ddl x s of Some s' \<Rightarrow> exec_batch xs s' | None \<Rightarrow> None)"

section \<open>The schema\<close>

definition schema_sql :: "ddl list" where
  "schema_sql =
    [CreateTable ''tenants'' [''id'', ''name'', ''created_at'', ''setup_password'', ''setup_used'', ''config''],
     CreateTable ''credentials'' [''id'', ''tenant_id'', ''credential_id'', ''public_key'', ''aaguid'', ''transports'',
       ''name'', ''verified'', ''created_at'', ''last_used_at'', ''revoked_at''],
     CreateTable ''agent_tokens'' [''id'', ''tenant_id'', ''token_hash'', ''scope'', ''created_at'', ''expires_at'',
       ''revoked_at''],
     CreateTable ''phone_tokens'' [''id'', ''tenant_id'', ''token_hash'', ''created_at'', ''revoked_at''],
     CreateTable ''phone_push_keys'' [''id'', ''tenant_id'', ''x25519_public'', ''mlkem_public'', ''created_at''],
     CreateTable ''pending_sessions'' [''id'', ''tenant_id'', ''machine_id'', ''image'', ''ttl_secs'', ''reason'',
       ''status'', ''is_extend'', ''created_at'', ''decided_at''],
     CreateTable ''machines'' [''id'', ''tenant_id'', ''image'', ''worker'', ''status'', ''cpu'', ''memory_gb'',
       ''worker_sev_snp'', ''connect_token_hash'', ''created_at'', ''expires_at'', ''killed_at''],
     CreateTable ''quotas'' [''tenant_id'', ''max_concurrent_machines'', ''max_cpu_per_machine'',
       ''max_memory_gb_per_machine'', ''max_disk_gb_per_machine'', ''total_cpu_budget'', ''total_memory_gb_budget'',
       ''total_disk_gb_budget'', ''require_sev_snp_workers''],
     CreateTable ''audit_entries'' [''seq'', ''tenant_id'', ''ts'', ''machine_id'', ''event'', ''payload'', ''prev_hash'',
       ''hash'', ''sig_ed25519'', ''sig_mldsa65'', ''sev_snp_report_hash''],
     CreateTable ''workers'' [''id'', ''host'', ''sev_snp'', ''cpu_total'', ''memory_gb_total'', ''disk_gb_total'',
       ''status'', ''created_at'', ''last_seen''],
     CreateTable ''tasks'' [''id'', ''tenant_id'', ''machine_id'', ''parent_task_id'', ''workflow_run_id'', ''status'',
       ''spec'', ''result'', ''created_at'', ''started_at'', ''finished_at'', ''error'', ''retry_count'', ''max_retries''],
     CreateTable ''workflows'' [''id'', ''tenant_id'', ''name'', ''dag'', ''status'', ''created_at''],
     CreateTable ''workflow_runs'' [''id'', ''workflow_id'', ''tenant_id'', ''status'', ''current_steps'',
       ''completed_steps'', ''started_at'', ''finished_at'', ''result''],
     CreateTable ''task_outputs'' [''task_id'', ''key'', ''value'', ''artifact_path''],
     CreateTable ''agent_credentials'' [''id'', ''tenant_id'', ''name'', ''kind'', ''encrypted_value'', ''nonce'',
       ''env_var'', ''mount_path'', ''created_at'', ''rotated_at''],
     CreateTable ''agent_messages'' [''id'', ''from_machine'', ''to_machine'', ''channel'', ''body'', ''created_at''],
     CreateIndex ''idx_audit_tenant'' ''audit_entries'' [''tenant_id'', ''seq''],
     CreateIndex ''idx_machines_tenant'' ''machines'' [''tenant_id'', ''status''],
     CreateIndex ''idx_pending_tenant'' ''pending_sessions'' [''tenant_id'', ''status''],
     CreateIndex ''idx_agent_tokens_hash'' ''agent_tokens'' [''token_hash''],
     CreateIndex ''idx_phone_tokens_hash'' ''phone_tokens'' [''token_hash''],
     CreateIndex ''idx_credentials_tenant'' ''credentials'' [''tenant_id'', ''revoked_at''],
     CreateIndex ''idx_tasks_tenant'' ''tasks'' [''tenant_id'', ''status''],
     CreateIndex ''idx_tasks_machine'' ''tasks'' [''machine_id''],
     CreateIndex ''idx_workflow_runs_status'' ''workflow_runs'' [''status''],
     CreateIndex ''idx_agent_credentials_tenant'' ''agent_credentials'' [''tenant_id''],
     CreateIndex ''idx_agent_messages_channel'' ''agent_messages'' [''channel'', ''created_at''],
     CreateTable ''watchdog_reports'' [''id'', ''watcher_machine'', ''watched_machine'', ''watched_task_id'',
       ''dedication_score'', ''progress_files'', ''progress_tests'', ''progress_commits'', ''last_activity_secs'',
       ''workaround_warnings'', ''ultimatum_level'', ''assessment'', ''created_at''],
     CreateTable ''ultimata'' [''id'', ''watchdog_machine'', ''target_machine'', ''target_task_id'', ''level'',
       ''message'', ''acknowledged'', ''created_at'', ''acknowledged_at''],
     CreateTable ''agent_roles'' [''id'', ''tenant_id'', ''name'', ''system_prompt'', ''allowed_tools'', ''denied_tools'',
       ''created_at''],
     CreateTable ''disagreements'' [''id'', ''tenant_id'', ''task_id'', ''machine_id'', ''issue'', ''coder_argument'',
       ''reviewer_argument'', ''context'', ''decision'', ''reasoning'', ''precedent'', ''status'', ''created_at'',
       ''resolved_at''],
     CreateTable ''workflow_templates'' [''id'', ''tenant_id'', ''name'', ''dag'', ''created_at''],
     CreateIndex ''idx_watchdog_watched'' ''watchdog_reports'' [''watched_machine'', ''created_at''],
     CreateIndex ''idx_ultimata_target'' ''ultimata'' [''target_machine'', ''acknowledged''],
     CreateIndex ''idx_agent_roles_tenant'' ''agent_roles'' [''tenant_id'', ''name''],
     CreateIndex ''idx_disagreements_status'' ''disagreements'' [''status''],
     CreateIndex ''idx_workflow_templates_tenant'' ''workflow_templates'' [''tenant_id'', ''name'']]"

definition work_tables :: "ddl list" where
  "work_tables =
    [CreateTable ''tasks'' [''id'', ''tenant_id'', ''machine_id'', ''parent_task_id'', ''workflow_run_id'', ''status'',
       ''spec'', ''result'', ''created_at'', ''started_at'', ''finished_at'', ''error'', ''retry_count'', ''max_retries''],
     CreateTable ''workflows'' [''id'', ''tenant_id'', ''name'', ''dag'', ''status'', ''created_at''],
     CreateTable ''workflow_runs'' [''id'', ''workflow_id'', ''tenant_id'', ''status'', ''current_steps'',
       ''completed_steps'', ''started_at'', ''finished_at'', ''result''],
     CreateTable ''task_outputs'' [''task_id'', ''key'', ''value'', ''artifact_path''],
     CreateTable ''agent_credentials'' [''id'', ''tenant_id'', ''name'', ''kind'', ''encrypted_value'', ''nonce'',
       ''env_var'', ''mount_path'', ''created_at'', ''rotated_at''],
     CreateTable ''agent_messages'' [''id'', ''from_machine'', ''to_machine'', ''channel'', ''body'', ''created_at''],
     CreateIndex ''idx_tasks_tenant'' ''tasks'' [''tenant_id'', ''status''],
     CreateIndex ''idx_tasks_machine'' ''tasks'' [''machine_id''],
     CreateIndex ''idx_workflow_runs_status'' ''workflow_runs'' [''status''],
     CreateIndex ''idx_agent_credentials_tenant'' ''agent_credentials'' [''tenant_id''],
     CreateIndex ''idx_agent_messages_channel'' ''agent_messages'' [''channel'', ''created_at'']]"

definition watchdog_tables :: "ddl list" where
  "watchdog_tables =
    [CreateTable ''watchdog_reports'' [''id'', ''watcher_machine'', ''watched_machine'', ''watched_task_id'',
       ''dedication_score'', ''progress_files'', ''progress_tests'', ''progress_commits'', ''last_activity_secs'',
       ''workaround_warnings'', ''ultimatum_level'', ''assessment'', ''created_at''],
     CreateTable ''ultimata'' [''id'', ''watchdog_machine'', ''target_machine'', ''target_task_id'', ''level'',
       ''message'', ''acknowledged'', ''created_at'', ''acknowledged_at''],
     CreateTable ''agent_roles'' [''id'', ''tenant_id'', ''name'', ''system_prompt'', ''allowed_tools'', ''denied_tools'',
       ''created_at''],
     CreateTable ''disagreements'' [''id'', ''tenant_id'', ''task_id'', ''machine_id'', ''issue'', ''coder_argument'',
       ''reviewer_argument'', ''context'', ''decision'', ''reasoning'', ''precedent'', ''status'', ''created_at'',
       ''resolved_at''],
     CreateTable ''workflow_templates'' [''id'', ''tenant_id'', ''name'', ''dag'', ''created_at''],
     CreateIndex ''idx_watchdog_watched'' ''watchdog_reports'' [''watched_machine'', ''created_at''],
     CreateIndex ''idx_ultimata_target'' ''ultimata'' [''target_machine'', ''acknowledged''],
     CreateIndex ''idx_agent_roles_tenant'' ''agent_roles'' [''tenant_id'', ''name''],
     CreateIndex ''idx_disagreements_status'' ''disagreements'' [''status''],
     CreateIndex ''idx_workflow_templates_tenant'' ''workflow_templates'' [''tenant_id'', ''name'']]"

definition challenge_table :: "ddl list" where
  "challenge_table =
    [CreateTable ''phone_challenges'' [''id'', ''tenant_id'', ''challenge'', ''created_at'', ''used_at'']]"


section \<open>Migrations\<close>

text \<open>\<open>PRAGMA table_info\<close> tells the columns of a table, none when it does not exist.\<close>

definition unless_column :: "string \<Rightarrow> string \<Rightarrow> sqlite \<Rightarrow> ddl list" where
  "unless_column t c s =
    (if c \<in> set (case map_of (sq_tables s) t of Some cs \<Rightarrow> cs | None \<Rightarrow> []) then [] else [AddColumn t c])"

type_synonym migration = "nat \<times> string \<times> (sqlite \<Rightarrow> ddl list)"

definition MIGRATIONS :: "migration list" where
  "MIGRATIONS =
    [(1, ''initial_schema'', \<lambda>s. schema_sql),
     (2, ''add_connect_token_hash'', unless_column ''machines'' ''connect_token_hash''),
     (3, ''task_workflow_credential_tables'', \<lambda>s. work_tables),
     (4, ''watchdog_roles_disagreements_templates'', \<lambda>s. watchdog_tables),
     (5, ''phone_challenges_credentials_counter'', \<lambda>s. challenge_table @ unless_column ''credentials'' ''counter'' s),
     (6, ''add_step_results'', unless_column ''workflow_runs'' ''step_results'')]"

definition applied :: "nat \<Rightarrow> sqlite \<Rightarrow> bool" where
  "applied i s \<longleftrightarrow> list_ex (\<lambda>m. fst m = i) (sq_migrations s)"

text \<open>A migration runs in a transaction with its entry in the journal; None is an error, after which nothing of it stays.\<close>

definition run_migration :: "string \<Rightarrow> migration \<Rightarrow> sqlite \<Rightarrow> sqlite option" where
  "run_migration now m s =
    (case m of (i, name, stmts) \<Rightarrow>
       if applied i s then Some s
       else map_option (\<lambda>s'. s' \<lparr> sq_migrations := sq_migrations s' @ [(i, name, now)] \<rparr>) (exec_batch (stmts s) s))"

fun run_list :: "string \<Rightarrow> migration list \<Rightarrow> sqlite \<Rightarrow> bool \<times> sqlite" where
  "run_list now [] s = (True, s)"
| "run_list now (m # ms) s = (case run_migration now m s of Some s' \<Rightarrow> run_list now ms s' | None \<Rightarrow> (False, s))"

definition run_migrations :: "string \<Rightarrow> sqlite \<Rightarrow> bool \<times> sqlite" where
  "run_migrations now s = run_list now MIGRATIONS s"

definition fresh_sqlite :: sqlite where
  "fresh_sqlite = \<lparr> sq_tables = [], sq_indexes = [], sq_migrations = [] \<rparr>"

section \<open>Runs that were interrupted\<close>

text \<open>Two databases that differ in the times of their journals only.\<close>

definition same_schema :: "sqlite \<Rightarrow> sqlite \<Rightarrow> bool" where
  "same_schema s t \<longleftrightarrow> sq_tables s = sq_tables t \<and> sq_indexes s = sq_indexes t \<and>
     map (\<lambda>(i, n, _). (i, n)) (sq_migrations s) = map (\<lambda>(i, n, _). (i, n)) (sq_migrations t)"

definition timeless :: "migration \<Rightarrow> bool" where
  "timeless m \<longleftrightarrow> (\<forall>s t. sq_tables s = sq_tables t \<longrightarrow> snd (snd m) s = snd (snd m) t)"

lemma same_schema_applied: "same_schema s t \<Longrightarrow> applied i s = applied i t"
proof -
  have "applied i s = (i \<in> set (map fst (map (\<lambda>(i, n, _). (i, n)) (sq_migrations s))))" for s
    by (force simp: applied_def list_ex_iff)
  then show "same_schema s t \<Longrightarrow> ?thesis" by (simp only: same_schema_def)
qed

lemma exec_ddl_same:
  assumes "same_schema s t"
  shows "rel_option same_schema (exec_ddl x s) (exec_ddl x t)"
proof -
  have e: "sq_tables s = sq_tables t" "sq_indexes s = sq_indexes t" using assms by (simp_all add: same_schema_def)
  show ?thesis using assms by (cases x) (simp_all add: e same_schema_def split: option.split)
qed

lemma exec_batch_same: "same_schema s t \<Longrightarrow> rel_option same_schema (exec_batch xs s) (exec_batch xs t)"
proof (induction xs arbitrary: s t)
  case (Cons x xs)
  from exec_ddl_same [OF Cons.prems, of x] show ?case
  proof (cases rule: option.rel_cases)
    case (Some s' t')
    then show ?thesis using Cons.IH by simp
  qed simp
qed simp

lemma run_migration_same:
  assumes "same_schema s t" "timeless m"
  shows "rel_option same_schema (run_migration now m s) (run_migration now' m t)"
proof -
  obtain i n f where m: "m = (i, n, f)" by (cases m)
  have "sq_tables s = sq_tables t" using assms(1) unfolding same_schema_def by (rule conjunct1)
  then have "snd (snd m) s = snd (snd m) t" using assms(2) unfolding timeless_def by blast
  then have f: "f s = f t" unfolding m by (simp only: snd_conv)
  have r: "rel_option same_schema (exec_batch (f t) s) (exec_batch (f t) t)" by (rule exec_batch_same [OF assms(1)])
  have a: "applied i s = applied i t" by (rule same_schema_applied [OF assms(1)])
  show ?thesis
  proof (cases "applied i t")
    case False
    then show ?thesis unfolding m run_migration_def prod.case a f
      by (simp add: option.rel_map) (rule option.rel_mono_strong [OF r], simp add: same_schema_def)
  qed (use a assms(1) in \<open>simp add: m run_migration_def\<close>)
qed

lemma run_list_same:
  assumes "same_schema s t" "\<forall>m\<in>set ms. timeless m"
  shows "fst (run_list now ms s) = fst (run_list now' ms t) \<and> same_schema (snd (run_list now ms s)) (snd (run_list now' ms t))"
  using assms
proof (induction ms arbitrary: s t)
  case (Cons m ms)
  have "rel_option same_schema (run_migration now m s) (run_migration now' m t)"
    using Cons.prems by (intro run_migration_same) simp_all
  then show ?case
  proof (cases rule: option.rel_cases)
    case (Some s' t')
    then show ?thesis using Cons.IH Cons.prems by simp
  qed (use Cons.prems in simp)
qed simp

lemma exec_batch_journal: "exec_batch xs s = Some s' \<Longrightarrow> sq_migrations s' = sq_migrations s"
proof (induction xs arbitrary: s)
  case (Cons x xs)
  then obtain t where t: "exec_ddl x s = Some t" "exec_batch xs t = Some s'" by (auto split: option.splits)
  moreover have "sq_migrations t = sq_migrations s" using t(1) by (cases x) (auto split: option.splits if_splits)
  ultimately show ?case using Cons.IH by simp
qed simp

lemma run_migration_applied:
  assumes "run_migration now m s = Some s'"
  shows "applied (fst m) s'" "applied i s \<Longrightarrow> applied i s'"
  using assms exec_batch_journal by (cases m; fastforce simp: run_migration_def applied_def split: if_splits)+

lemma run_list_keeps: "run_list now ms s = (True, s') \<Longrightarrow> applied i s \<Longrightarrow> applied i s'"
  by (induction ms arbitrary: s) (auto split: option.splits dest: run_migration_applied(2))

lemma run_list_applied: "run_list now ms s = (True, s') \<Longrightarrow> \<forall>m\<in>set ms. applied (fst m) s'"
  by (induction ms arbitrary: s) (auto split: option.splits dest: run_migration_applied(1) run_list_keeps)

lemma run_list_skips:
  "\<forall>m\<in>set ms. applied (fst m) s \<Longrightarrow> run_list now (ms @ ns) s = run_list now ns s"
  by (induction ms) (auto simp: run_migration_def)

lemma run_list_append: "run_list now ms s = (True, s') \<Longrightarrow> run_list now (ms @ ns) s = run_list now ns s'"
  by (induction ms arbitrary: s) (auto split: option.splits)

lemma migrations_timeless: "\<forall>m\<in>set MIGRATIONS. timeless m"
  by (simp add: MIGRATIONS_def timeless_def unless_column_def)

text \<open>C38. A start that was cut off after any number of migrations does no harm: the next one, at whatever time, succeeds or
  fails as an uninterrupted one would have, and leaves the same tables, indexes and journal up to the times in it.\<close>
theorem migrations_resume:
  assumes "run_list now (take n MIGRATIONS) s = (True, s1)"
  shows "fst (run_migrations now' s1) = fst (run_migrations now s) \<and>
    same_schema (snd (run_migrations now' s1)) (snd (run_migrations now s))"
proof -
  have "run_migrations now' s1 = run_list now' (drop n MIGRATIONS) s1"
    using run_list_applied [OF assms] run_list_skips [of "take n MIGRATIONS" s1 now' "drop n MIGRATIONS"]
    by (simp add: run_migrations_def)
  moreover have "run_migrations now s = run_list now (drop n MIGRATIONS) s1"
    using run_list_append [OF assms, of "drop n MIGRATIONS"] by (simp add: run_migrations_def)
  moreover have "same_schema s1 s1" by (simp add: same_schema_def)
  ultimately show ?thesis
    using run_list_same [of s1 s1 "drop n MIGRATIONS" now' now] migrations_timeless by (auto dest: in_set_dropD)
qed

text \<open>A second run changes nothing.\<close>

lemma migrations_idempotent:
  "run_migrations now s = (True, s') \<Longrightarrow> run_migrations now' s' = (True, s')"
  using run_list_applied [of now MIGRATIONS s s'] run_list_skips [of MIGRATIONS s' now' "[]"]
  by (simp add: run_migrations_def)

text \<open>A new database gets every table, with the columns that later migrations add.\<close>

definition has_column :: "sqlite \<Rightarrow> string \<Rightarrow> string \<Rightarrow> bool" where
  "has_column s t c \<longleftrightarrow> (case map_of (sq_tables s) t of Some cs \<Rightarrow> c \<in> set cs | None \<Rightarrow> False)"

lemma fresh_database:
  "case run_migrations ''t'' fresh_sqlite of (ok, s) \<Rightarrow>
     ok \<and> length (sq_tables s) = 22 \<and> length (sq_indexes s) = 16 \<and>
     has_column s ''machines'' ''connect_token_hash'' \<and> has_column s ''credentials'' ''counter'' \<and>
     has_column s ''workflow_runs'' ''step_results'' \<and> has_column s ''phone_challenges'' ''challenge''"
  by code_simp

theorem migrations_resume_witness:
  "\<exists>s1. run_list ''t'' (take 2 MIGRATIONS) fresh_sqlite = (True, s1) \<and>
     same_schema (snd (run_migrations ''u'' s1)) (snd (run_migrations ''t'' fresh_sqlite))"
proof -
  have "fst (run_list ''t'' (take 2 MIGRATIONS) fresh_sqlite)" by code_simp
  then obtain s1 where "run_list ''t'' (take 2 MIGRATIONS) fresh_sqlite = (True, s1)" by (cases "run_list ''t'' (take 2 MIGRATIONS) fresh_sqlite") auto
  then show ?thesis using migrations_resume [of "''t''" 2 fresh_sqlite s1 "''u''"] by blast
qed

end
