(* ===== verification/Startup.thy ===== *)
theory Startup
  imports Platform Push
begin

text \<open>
  The gateway's start (src/gateway/src/main.rs), its TLS files (src/gateway/src/crypto/tls.rs) and its table of routes
  with the limit on concurrent requests (src/gateway/src/routes/mod.rs). The certificate generator and the PEM reader
  are the fields of \<open>tls_lib\<close>; the choice of a route is axum's, an argument with its documented behaviour.
\<close>

section \<open>TLS\<close>

record tls_lib =
  self_signed :: "string \<Rightarrow> (bytes \<times> bytes) option"
  pem_certs :: "bytes \<Rightarrow> bytes list option"
  pem_private_key :: "bytes \<Rightarrow> bytes option option"
  tls_accepts :: "bytes list \<Rightarrow> bytes \<Rightarrow> bool"

datatype tls_error =
    CertGeneration | CertUnread string | KeyUnread string | CertParse | NoCertificates string
  | KeyParse | NoPrivateKey string | ConfigRejected

record ServerConfig =
  sc_chain :: "bytes list"
  sc_key :: bytes

definition build_server_config :: "tls_lib \<Rightarrow> bytes list \<Rightarrow> bytes \<Rightarrow> (ServerConfig, tls_error) res" where
  "build_server_config L cert_chain key_der =
    (if tls_accepts L cert_chain key_der then Ok \<lparr> sc_chain = cert_chain, sc_key = key_der \<rparr> else Err ConfigRejected)"

definition tls_cert_path :: "string \<Rightarrow> string" where "tls_cert_path dir = dir @ ''/tls.crt''"
definition tls_key_path :: "string \<Rightarrow> string" where "tls_key_path dir = dir @ ''/tls.key''"

definition generate_self_signed_cert_files ::
    "tls_lib \<Rightarrow> string \<Rightarrow> string \<Rightarrow> files \<Rightarrow> (unit, tls_error) res \<times> files" where
  "generate_self_signed_cert_files L dir cn fs =
    (case self_signed L cn of
       None \<Rightarrow> (Err CertGeneration, fs)
     | Some (cert_pem, key_pem) \<Rightarrow> (Ok (), fs (tls_cert_path dir \<mapsto> cert_pem, tls_key_path dir \<mapsto> key_pem)))"

definition build_server_config_from_files :: "tls_lib \<Rightarrow> string \<Rightarrow> files \<Rightarrow> (ServerConfig, tls_error) res" where
  "build_server_config_from_files L dir fs =
    bind_res (ok_or (CertUnread (tls_cert_path dir)) (fs (tls_cert_path dir))) (\<lambda>cert_pem.
    bind_res (ok_or (KeyUnread (tls_key_path dir)) (fs (tls_key_path dir))) (\<lambda>key_pem.
    bind_res (ok_or CertParse (pem_certs L cert_pem)) (\<lambda>cert_chain.
    if cert_chain = [] then Err (NoCertificates (tls_cert_path dir)) else
    bind_res (ok_or KeyParse (pem_private_key L key_pem)) (\<lambda>key.
    bind_res (ok_or (NoPrivateKey (tls_key_path dir)) key) (build_server_config L cert_chain)))))"

definition build_self_signed_server_config :: "tls_lib \<Rightarrow> (ServerConfig \<times> bytes, tls_error) res" where
  "build_self_signed_server_config L =
    bind_res (ok_or CertGeneration (self_signed L ''localhost'')) (\<lambda>(cert_pem, key_pem).
    bind_res (ok_or CertParse (pem_certs L cert_pem)) (\<lambda>cert_chain.
    if cert_chain = [] then Err (NoCertificates []) else
    bind_res (ok_or KeyParse (pem_private_key L key_pem)) (\<lambda>key.
    bind_res (ok_or (NoPrivateKey []) key) (\<lambda>key_der.
    bind_res (build_server_config L cert_chain key_der) (\<lambda>config. Ok (config, hd cert_chain))))))"

section \<open>Socket addresses\<close>

text \<open>\<open>str::parse::<SocketAddr>\<close>: four decimal octets without leading zeros and a port; an address of version 6 is
  bracketed, and its parser is the argument \<open>v6\<close>.\<close>

datatype socket_addr = V4 int int int int int | V6 string int

definition parse_octet :: "string \<Rightarrow> int option" where
  "parse_octet s =
    (case parse_digits s of
       Some n \<Rightarrow> if n \<le> 255 \<and> length s \<le> 3 \<and> (length s = 1 \<or> hd s \<noteq> CHR ''0'') then Some n else None
     | None \<Rightarrow> None)"

definition parse_port :: "string \<Rightarrow> int option" where
  "parse_port s = (case parse_digits s of Some n \<Rightarrow> if n \<le> 65535 then Some n else None | None \<Rightarrow> None)"

definition parse_v4 :: "string \<Rightarrow> socket_addr option" where
  "parse_v4 s =
    (case split_on (CHR '':'') s of
       [host, port] \<Rightarrow>
        (case (map parse_octet (split_on (CHR ''.'') host), parse_port port) of
           ([Some a, Some b, Some c, Some d], Some p) \<Rightarrow> Some (V4 a b c d p)
         | _ \<Rightarrow> None)
     | _ \<Rightarrow> None)"

definition listen_addr :: "(string \<Rightarrow> socket_addr option) \<Rightarrow> string \<Rightarrow> socket_addr" where
  "listen_addr v6 bind_addr =
    (case parse_v4 bind_addr of
       Some a \<Rightarrow> a
     | None \<Rightarrow> (case v6 bind_addr of Some a \<Rightarrow> a | None \<Rightarrow> V4 0 0 0 0 8443))"

text \<open>A literal address of version 4 has digits, dots and one colon only.\<close>

lemma parse_octet_digits: "parse_octet s = Some n \<Longrightarrow> list_all ascii_digit s"
  by (auto simp: parse_octet_def parse_digits_def split: if_splits)

lemma parse_port_digits: "parse_port s = Some n \<Longrightarrow> list_all ascii_digit s"
  by (auto simp: parse_port_def parse_digits_def split: if_splits)

lemma split_on_chars: "c \<in> set s \<Longrightarrow> c = sep \<or> (\<exists>w\<in>set (split_on sep s). c \<in> set w)"
proof (induction s)
  case (Cons x xs)
  obtain v vs where "split_on sep xs = v # vs" by (cases "split_on sep xs") auto
  then show ?case using Cons by auto
qed simp

lemma parse_v4_chars:
  assumes "parse_v4 s = Some a" "c \<in> set s"
  shows "ascii_digit c \<or> c = CHR ''.'' \<or> c = CHR '':''"
proof -
  obtain host port x1 x2 x3 x4 p where s: "split_on (CHR '':'') s = [host, port]"
    "map parse_octet (split_on (CHR ''.'') host) = [Some x1, Some x2, Some x3, Some x4]" "parse_port port = Some p"
    using assms(1) by (auto simp: parse_v4_def split: list.splits option.splits)
  have host: "ascii_digit c \<or> c = CHR ''.''" if "c \<in> set host"
  proof -
    have "parse_octet w \<noteq> None" if "w \<in> set (split_on (CHR ''.'') host)" for w
      using that s(2) by (auto simp: map_eq_Cons_conv)
    then have "list_all ascii_digit w" if "w \<in> set (split_on (CHR ''.'') host)" for w
      using that parse_octet_digits by blast
    then show ?thesis using split_on_chars [OF that, of "CHR ''.''"] by (auto simp: list_all_iff)
  qed
  have "ascii_digit c" if "c \<in> set port" using parse_port_digits [OF s(3)] that by (simp add: list_all_iff)
  then show ?thesis using host split_on_chars [OF assms(2), of "CHR '':''"] s(1) by auto
qed

text \<open>A name instead of an address, \<open>localhost\<close> say, makes the gateway listen on every interface.\<close>

lemma named_host_binds_everything:
  assumes "c \<in> set bind_addr" "\<not> (ascii_digit c \<or> c = CHR ''.'' \<or> c = CHR '':'')" "v6 bind_addr = None"
  shows "listen_addr v6 bind_addr = V4 0 0 0 0 8443"
  using parse_v4_chars [OF _ assms(1)] assms(2,3) by (cases "parse_v4 bind_addr") (auto simp: listen_addr_def)

lemma literal_binds_itself: "parse_v4 bind_addr = Some a \<Longrightarrow> listen_addr v6 bind_addr = a"
  by (simp add: listen_addr_def)

lemma bind_examples:
  "parse_v4 ''127.0.0.1:8443'' = Some (V4 127 0 0 1 8443)" "parse_v4 ''127.0.0.01:8443'' = None" "parse_v4 ''127.0.0.1'' = None"
  by code_simp+

section \<open>Starting the gateway\<close>

datatype start_error =
    NoSevSnp
  | NoDatabase
  | AuditKeysBad key_error
  | PushKeysBad push_error
  | TlsBad tls_error
  | StartPanic

record gateway =
  gw_addr :: socket_addr
  gw_tls :: ServerConfig
  gw_audit_keys :: AuditKeys
  gw_push_keys :: PushKeys

definition serve_keys_dir :: string where "serve_keys_dir = ''/var/lib/stronghold/keys/''"
definition serve_tls_dir :: string where "serve_tls_dir = ''/var/lib/stronghold/keys''"

text \<open>\<open>serve\<close> up to the listening socket. \<open>db_ready\<close> tells whether the pool opens and migrates (theory Migrations).\<close>

definition serve_tls :: "tls_lib \<Rightarrow> files \<Rightarrow> (ServerConfig, tls_error) res \<times> files" where
  "serve_tls L fs =
    (let (made, fs') = (if fs (tls_cert_path serve_tls_dir) = None
                        then generate_self_signed_cert_files L serve_tls_dir ''localhost'' fs else (Ok (), fs))
     in (bind_res made (\<lambda>_. build_server_config_from_files L serve_tls_dir fs'), fs'))"

definition serve ::
    "tls_lib \<Rightarrow> 'a sig_lib_scheme \<Rightarrow> push_lib \<Rightarrow> (string \<Rightarrow> socket_addr option) \<Rightarrow> build \<Rightarrow> bool \<Rightarrow>
     bytes \<times> bytes \<Rightarrow> bytes \<times> bytes \<Rightarrow> string \<Rightarrow> bool \<Rightarrow> files \<Rightarrow> (gateway, start_error) res \<times> files" where
  "serve L G P v6 b db_ready audit_seeds push_seeds bind_addr dev fs =
    (if \<not> dev \<and> \<not> verify_sev_snp_available b then (Err NoSevSnp, fs)
     else if \<not> db_ready then (Err NoDatabase, fs)
     else case load_or_generate_keys G (fst audit_seeds) (snd audit_seeds) serve_keys_dir fs of
       (Err e, fs1) \<Rightarrow> (Err (AuditKeysBad e), fs1)
     | (Panic, fs1) \<Rightarrow> (Panic, fs1)
     | (Ok audit_keys, fs1) \<Rightarrow>
        (case load_or_generate_push_keys P (fst push_seeds) (snd push_seeds) serve_keys_dir fs1 of
           (Err e, fs2) \<Rightarrow> (Err (PushKeysBad e), fs2)
         | (Panic, fs2) \<Rightarrow> (Panic, fs2)
         | (Ok push_keys, fs2) \<Rightarrow>
            (case serve_tls L fs2 of
               (Err e, fs3) \<Rightarrow> (Err (TlsBad e), fs3)
             | (Panic, fs3) \<Rightarrow> (Panic, fs3)
             | (Ok tls, fs3) \<Rightarrow>
                (Ok \<lparr> gw_addr = listen_addr v6 bind_addr, gw_tls = tls, gw_audit_keys = audit_keys,
                   gw_push_keys = push_keys \<rparr>, fs3))))"

text \<open>\<open>generate_keys\<close> of the two key modules, which overwrites, and the command \<open>init\<close> of the gateway. A draw of the
  password is below the length of the alphabet.\<close>

definition generate_audit_key_files :: "'a sig_lib_scheme \<Rightarrow> bytes \<times> bytes \<Rightarrow> string \<Rightarrow> files \<Rightarrow> files" where
  "generate_audit_key_files G seeds dir fs = save_keys (generate_audit_keys G (fst seeds) (snd seeds)) dir fs"

definition generate_push_key_files :: "push_lib \<Rightarrow> bytes \<times> bytes \<Rightarrow> string \<Rightarrow> files \<Rightarrow> files" where
  "generate_push_key_files P seeds dir fs = save_push_keys (generate_push_keys P (fst seeds) (snd seeds)) dir fs"

definition init_alphabet :: string where
  "init_alphabet = ''ABCDEFGHIJKLMNOPQRSTUVWXYZabcdefghijklmnopqrstuvwxyz0123456789''"

definition init_setup_password :: "(nat \<Rightarrow> nat) \<Rightarrow> string" where
  "init_setup_password draws = map (\<lambda>i. init_alphabet ! (draws i mod length init_alphabet)) [0..<32]"

definition init_gateway ::
    "'a sig_lib_scheme \<Rightarrow> push_lib \<Rightarrow> bool \<Rightarrow> bytes \<times> bytes \<Rightarrow> bytes \<times> bytes \<Rightarrow> (nat \<Rightarrow> nat) \<Rightarrow> string \<Rightarrow> files \<Rightarrow>
     (string list, start_error) res \<times> files" where
  "init_gateway G P db_ready audit_seeds push_seeds draws data_dir fs =
    (if \<not> db_ready then (Err NoDatabase, fs)
     else let dir = data_dir @ ''/keys'';
              fs' = generate_push_key_files P push_seeds dir (generate_audit_key_files G audit_seeds dir fs)
          in (Ok [''Setup password (save this '' @ [CHR 0xE2, CHR 0x80, CHR 0x94] @ '' it will not be shown again):'',
                  ''  '' @ init_setup_password draws, [],
                  ''Enrollment URL: https://<your-gateway>:8443/setup''], fs'))"

section \<open>Routes\<close>

datatype http_method = GET | POST | DELETE

definition route_table :: "(http_method \<times> string \<times> string) list" where
  "route_table =
    [(POST, ''/agent/order'', ''agent::order''),
     (POST, ''/agent/resume'', ''agent::resume''),
     (POST, ''/agent/release'', ''agent::release''),
     (POST, ''/agent/extend'', ''agent::extend''),
     (GET, ''/agent/health'', ''agent::health''),
     (GET, ''/agent/:machine_id/pty'', ''pty::handle_pty_ws''),
     (GET, ''/agent/:machine_id/audit'', ''pty::handle_audit_ws''),
     (POST, ''/agent/:machine_id/exec'', ''exec::exec_command''),
     (POST, ''/agent/task'', ''tasks::create_task''),
     (GET, ''/agent/task/:id'', ''tasks::get_task''),
     (POST, ''/agent/task/:id/result'', ''tasks::submit_result''),
     (GET, ''/agent/task/:id/stream'', ''tasks::stream_task''),
     (POST, ''/agent/:machine_id/instruct'', ''instruct::inject''),
     (POST, ''/admin/credentials'', ''credentials::create_credential''),
     (GET, ''/admin/credentials'', ''credentials::list_credentials''),
     (GET, ''/admin/credentials/:id'', ''credentials::get_credential''),
     (DELETE, ''/admin/credentials/:id'', ''credentials::delete_credential''),
     (POST, ''/admin/credentials/:id/rotate'', ''credentials::rotate_credential''),
     (GET, ''/agent/:machine_id/credentials/:name'', ''credentials::agent_get_credential''),
     (POST, ''/agent/:machine_id/git/clone'', ''git::clone_repo''),
     (POST, ''/agent/:machine_id/git/branch'', ''git::create_branch''),
     (POST, ''/agent/:machine_id/git/commit'', ''git::commit''),
     (POST, ''/agent/:machine_id/git/push'', ''git::push''),
     (POST, ''/agent/:machine_id/git/pr'', ''git::create_pr''),
     (GET, ''/agent/:machine_id/git/status'', ''git::status''),
     (GET, ''/agent/:machine_id/git/log'', ''git::log''),
     (POST, ''/workflow'', ''workflows::create_workflow''),
     (GET, ''/workflow/:id'', ''workflows::get_workflow''),
     (GET, ''/workflow'', ''workflows::list_workflows''),
     (POST, ''/workflow/:id/run'', ''workflows::run_workflow''),
     (GET, ''/workflow/run/:id'', ''workflows::get_run''),
     (POST, ''/agent/:machine_id/messages'', ''messages::post_message''),
     (GET, ''/agent/:machine_id/messages'', ''messages::poll_messages''),
     (GET, ''/agent/:machine_id/messages/stream'', ''messages::stream_messages''),
     (POST, ''/agent/:machine_id/oracle'', ''oracle::ask_oracle''),
     (GET, ''/agent/:machine_id/oracle/:question_id'', ''oracle::get_answer''),
     (POST, ''/agent/:machine_id/disagreement'', ''facilitator::submit_disagreement''),
     (GET, ''/agent/:machine_id/disagreement/:id'', ''facilitator::get_decision''),
     (POST, ''/admin/roles'', ''roles::create_role''),
     (GET, ''/admin/roles'', ''roles::list_roles''),
     (GET, ''/admin/roles/:id'', ''roles::get_role''),
     (DELETE, ''/admin/roles/:id'', ''roles::delete_role''),
     (POST, ''/admin/roles/seed'', ''roles::seed_roles''),
     (GET, ''/admin/constitution'', ''roles::get_constitution''),
     (POST, ''/agent/task/:id/progress'', ''tasks::submit_progress''),
     (POST, ''/agent/task/:id/reflexion'', ''tasks::submit_reflexion''),
     (GET, ''/agent/task/:id/reflexion'', ''tasks::get_reflexion''),
     (GET, ''/agent/reflexions'', ''tasks::list_reflexions''),
     (GET, ''/agent/:machine_id/next-work'', ''next_work::next_work''),
     (GET, ''/phone/pending'', ''phone::pending_sse''),
     (POST, ''/phone/decide'', ''phone::decide''),
     (POST, ''/phone/revoke'', ''phone::revoke''),
     (POST, ''/phone/enroll'', ''phone::enroll''),
     (POST, ''/phone/ceremony/begin'', ''phone::ceremony_begin''),
     (POST, ''/phone/ceremony/finish'', ''phone::ceremony_finish''),
     (POST, ''/admin/tenant'', ''admin::create_tenant''),
     (GET, ''/admin/tenant/:id'', ''admin::get_tenant''),
     (POST, ''/admin/images/build'', ''images::build_image''),
     (POST, ''/admin/images/push'', ''images::push_image''),
     (POST, ''/admin/images/pull'', ''images::pull_image''),
     (GET, ''/admin/images'', ''images::list_images''),
     (GET, ''/admin/images/:name/tags'', ''images::list_tags''),
     (GET, ''/admin/images/:name/exists'', ''images::check_exists''),
     (GET, ''/setup'', ''phone::setup_page''),
     (GET, ''/attestation'', ''attestation::get_report''),
     (GET, ''/metrics'', ''metrics::get_metrics'')]"

text \<open>A segment of a pattern that starts with a colon captures one segment of the path. The pattern of the static files
  captures the rest of the path.\<close>

definition path_segments :: "string \<Rightarrow> string list" where
  "path_segments p = tl (split_on (CHR ''/'') p)"

definition captures :: "string \<Rightarrow> bool" where
  "captures seg \<longleftrightarrow> seg \<noteq> [] \<and> hd seg = CHR '':''"

fun fits :: "string list \<Rightarrow> string list \<Rightarrow> bool" where
  "fits [] [] \<longleftrightarrow> True"
| "fits (p # ps) (s # ss) \<longleftrightarrow> (captures p \<or> p = s) \<and> fits ps ss"
| "fits _ _ \<longleftrightarrow> False"

definition static_path :: "string \<Rightarrow> bool" where
  "static_path path \<longleftrightarrow> (case path_segments path of s # _ \<Rightarrow> s = ''static'' | [] \<Rightarrow> False)"

datatype routed = Handled string | StaticFile | MethodNotAllowed | NoRoute

definition route_patterns :: "string list" where
  "route_patterns = remdups (map (fst \<circ> snd) route_table)"

text \<open>\<open>resolve\<close> is the matching of axum's router: among the patterns of the table it chooses one for a path.\<close>

definition dispatch_request :: "(string list \<Rightarrow> string \<Rightarrow> string option) \<Rightarrow> http_method \<Rightarrow> string \<Rightarrow> routed" where
  "dispatch_request resolve m path =
    (if static_path path then StaticFile
     else case resolve route_patterns path of
       None \<Rightarrow> NoRoute
     | Some p \<Rightarrow>
        (case List.find (\<lambda>(m', p', h). p' = p \<and> m' = m) route_table of
           Some (_, _, h) \<Rightarrow> Handled h
         | None \<Rightarrow> MethodNotAllowed))"

definition router_ok :: "(string list \<Rightarrow> string \<Rightarrow> string option) \<Rightarrow> bool" where
  "router_ok resolve \<longleftrightarrow>
    (\<forall>ps path p. resolve ps path = Some p \<longrightarrow> p \<in> set ps \<and> fits (path_segments p) (path_segments path)) \<and>
    (\<forall>ps path. (\<exists>p\<in>set ps. fits (path_segments p) (path_segments path)) \<and> [] \<notin> set (path_segments path) \<longrightarrow>
       resolve ps path \<noteq> None)"

definition first_fit :: "string list \<Rightarrow> string \<Rightarrow> string option" where
  "first_fit ps path = List.find (\<lambda>p. fits (path_segments p) (path_segments path)) ps"

lemma first_fit_ok: "router_ok first_fit"
  by (auto simp: router_ok_def first_fit_def find_Some_iff find_None_iff)

lemma resolve_None:
  "router_ok resolve \<Longrightarrow> list_all (\<lambda>p. \<not> fits (path_segments p) (path_segments path)) ps \<Longrightarrow> resolve ps path = None"
  by (cases "resolve ps path") (auto simp: router_ok_def list_all_iff)

lemma resolve_unique:
  assumes "router_ok resolve" "list_all (\<lambda>p. fits (path_segments p) (path_segments path) \<longleftrightarrow> p = q) ps" "q \<in> set ps"
    "[] \<notin> set (path_segments path)"
  shows "resolve ps path = Some q"
proof -
  have "fits (path_segments q) (path_segments path)" using assms(2,3) by (simp add: list_all_iff)
  then have "resolve ps path \<noteq> None" using assms(1,3,4) unfolding router_ok_def by blast
  then obtain p where "resolve ps path = Some p" by blast
  then show ?thesis using assms(1,2) by (auto simp: router_ok_def list_all_iff)
qed

section \<open>The limit on concurrent requests\<close>

definition MAX_CONCURRENT_REQUESTS :: nat where "MAX_CONCURRENT_REQUESTS = 100"

record limiter =
  permits :: nat
  in_flight :: nat

datatype limiter_event = Arrives | Responds

definition concurrency_limit :: "limiter \<Rightarrow> bool \<times> limiter" where
  "concurrency_limit l =
    (if permits l = 0 then (False, l) else (True, l \<lparr> permits := permits l - 1, in_flight := in_flight l + 1 \<rparr>))"

definition permit_dropped :: "limiter \<Rightarrow> limiter" where
  "permit_dropped l = l \<lparr> permits := permits l + 1, in_flight := in_flight l - 1 \<rparr>"

definition limiter_start :: limiter where
  "limiter_start = \<lparr> permits = MAX_CONCURRENT_REQUESTS, in_flight = 0 \<rparr>"

inductive limiter_reach :: "limiter \<Rightarrow> bool" where
  limiter_init: "limiter_reach limiter_start"
| limiter_arrival: "limiter_reach l \<Longrightarrow> limiter_reach (snd (concurrency_limit l))"
| limiter_response: "limiter_reach l \<Longrightarrow> 0 < in_flight l \<Longrightarrow> limiter_reach (permit_dropped l)"

lemma limiter_invariant: "limiter_reach l \<Longrightarrow> permits l + in_flight l = MAX_CONCURRENT_REQUESTS"
  by (induction rule: limiter_reach.induct) (auto simp: limiter_start_def concurrency_limit_def permit_dropped_def)

text \<open>A request is turned away exactly when a hundred are being answered.\<close>

lemma request_refused_iff_full: "limiter_reach l \<Longrightarrow> fst (concurrency_limit l) \<longleftrightarrow> in_flight l < MAX_CONCURRENT_REQUESTS"
  using limiter_invariant [of l] by (auto simp: concurrency_limit_def)

section \<open>What a start leaves\<close>

lemma init_setup_password_ok:
  "length (init_setup_password draws) = 32 \<and> set (init_setup_password draws) \<subseteq> set init_alphabet"
proof -
  have "length init_alphabet > 0" by (simp add: init_alphabet_def)
  then show ?thesis by (auto simp: init_setup_password_def)
qed

text \<open>Outside of development the gateway starts on a platform with its driver only.\<close>

lemma serve_needs_sev_snp:
  "fst (serve L G P v6 b db_ready s1 s2 addr False fs) = Ok g \<Longrightarrow> verify_sev_snp_available b"
  by (auto simp: serve_def split: if_splits)

lemma start_paths_distinct:
  "x_key_path d \<noteq> ed_key_path d" "x_key_path d \<noteq> ed_pub_path d" "x_key_path d \<noteq> ml_key_path d" "x_key_path d \<noteq> ml_pub_path d"
  by (simp_all add: x_key_path_def ed_key_path_def ed_pub_path_def ml_key_path_def ml_pub_path_def)

text \<open>\<open>init\<close> replaces the keys of an installation, and what it prints is not written anywhere.\<close>

lemma init_replaces_keys:
  "fst (load_or_generate_keys G s1 s2 (data_dir @ ''/keys'')
     (snd (init_gateway G P True audit_seeds push_seeds draws data_dir fs))) =
   Ok (generate_audit_keys G (fst audit_seeds) (snd audit_seeds))"
  if "length (fst audit_seeds) = 32" "length (snd audit_seeds) = 32"
proof -
  let ?dir = "data_dir @ ''/keys''" and ?k = "generate_audit_keys G (fst audit_seeds) (snd audit_seeds)"
  let ?p = "generate_push_keys P (fst push_seeds) (snd push_seeds)"
  have other: "save_push_keys ?p ?dir fs1 path = fs1 path"
    if "path \<in> {ed_key_path ?dir, ed_pub_path ?dir, ml_key_path ?dir, ml_pub_path ?dir}" for fs1 path
    using that by (auto simp: save_push_keys_def x_key_path_def x_pub_path_def m_key_path_def m_pub_path_def
      ed_key_path_def ed_pub_path_def ml_key_path_def ml_pub_path_def)
  have "load_keys G ?dir (save_push_keys ?p ?dir (save_keys ?k ?dir fs)) = (Ok ?k, save_push_keys ?p ?dir (save_keys ?k ?dir fs))"
    using save_load_keys [OF generate_keys_ok [OF that], of G ?dir fs] other [of _ "save_keys ?k ?dir fs"]
      key_paths_distinct [of ?dir]
    by (simp add: load_keys_def save_keys_def Let_def split: if_splits)
  moreover have "save_push_keys ?p ?dir (save_keys ?k ?dir fs) (ed_key_path ?dir) \<noteq> None"
    using other [of "ed_key_path ?dir" "save_keys ?k ?dir fs"] key_paths_distinct [of ?dir] by (simp add: save_keys_def)
  ultimately show ?thesis
    by (simp add: init_gateway_def load_or_generate_keys_def generate_audit_key_files_def generate_push_key_files_def Let_def)
qed

end
