(* ===== verification/Cli.thy ===== *)
theory Cli
  imports Startup AuditLog Json
begin

text \<open>
  The command line client, src/cli/src/main.rs: its settings, the requests it sends to the gateway and what it prints,
  the local verification and export of a tenant's audit log, and \<open>init\<close>. The argument parser, the TOML reader, the HTTP
  client and serde's decoders are fields of \<open>cli_lib\<close>; what the gateway answers is a function of the request.
\<close>

section \<open>Commands\<close>

datatype command =
    TenantCreate string "nat option" "nat option" "nat option"
  | TenantList
  | TenantGet string
  | CredentialsEnroll "string option"
  | CredentialsList string
  | CredentialsRevoke string
  | AgentTokenMint string string nat
  | AgentTokenList string
  | AgentTokenRevoke string
  | ImageBuild string "string option"
  | ImageList
  | ImagePush string
  | ImagePull string
  | ImageTags string
  | ImageExists string
  | WorkerAdd string string
  | WorkerList
  | AuditVerify string
  | AuditExport string "string option" "string option" string
  | KeysRotateAudit
  | KeysRotatePush

record cli_args =
  ca_url :: "string option"
  ca_admin_token :: "string option"
  ca_config :: "string option"
  ca_db :: string
  ca_insecure :: bool

section \<open>Settings\<close>

record CliConfig =
  cf_url :: "string option"
  cf_admin_token :: "string option"
  cf_db :: "string option"
  cf_insecure :: "bool option"

record Settings =
  st_url :: "string option"
  st_admin_token :: "string option"
  st_db :: string
  st_insecure :: bool

datatype cli_error =
    ConfigUnread string
  | ConfigBad string
  | NoUrl
  | ClientNotBuilt
  | CannotConnect string string
  | GatewayTimeout string string
  | RequestFailed string string
  | GatewayStatus string string
  | NotDecoded
  | LocalVerifyFailed audit_error
  | LocalExportFailed audit_error
  | UnsupportedFormat
  | InitFailed
  | CliPanic

text \<open>\<open>Path::join\<close> with a relative name; the home directory falls back on the effective user.\<close>

definition join_path :: "string \<Rightarrow> string \<Rightarrow> string" where
  "join_path dir name = (if dir = [] \<or> last dir = CHR ''/'' then dir @ name else dir @ ''/'' @ name)"

definition default_config_path :: "string option \<Rightarrow> nat \<Rightarrow> string" where
  "default_config_path home euid =
     join_path (case home of Some h \<Rightarrow> h | None \<Rightarrow> if euid = 0 then ''/root'' else ''/tmp'') ''.stronghold.toml''"

text \<open>A configuration file is absent, cannot be read, or has a text.\<close>

datatype config_file = NoFile | Unreadable | FileText string

definition load_config ::
    "(string \<Rightarrow> CliConfig option) \<Rightarrow> (string \<Rightarrow> config_file) \<Rightarrow> string option \<Rightarrow> nat \<Rightarrow> string option \<Rightarrow>
     (CliConfig, cli_error) res" where
  "load_config toml files_at home euid custom =
    (let path = (case custom of Some p \<Rightarrow> p | None \<Rightarrow> default_config_path home euid)
     in case files_at path of
          NoFile \<Rightarrow> Ok \<lparr> cf_url = None, cf_admin_token = None, cf_db = None, cf_insecure = None \<rparr>
        | Unreadable \<Rightarrow> Err (ConfigUnread path)
        | FileText s \<Rightarrow> ok_or (ConfigBad path) (toml s))"

definition default_db :: string where "default_db = ''/var/lib/stronghold/stronghold.db''"

definition or_else :: "'a option \<Rightarrow> 'a option \<Rightarrow> 'a option" where
  "or_else x y = (case x of Some v \<Rightarrow> Some v | None \<Rightarrow> y)"

definition resolve_settings :: "cli_args \<Rightarrow> CliConfig \<Rightarrow> Settings" where
  "resolve_settings cli config =
     \<lparr> st_url = or_else (ca_url cli) (cf_url config),
       st_admin_token = or_else (ca_admin_token cli) (cf_admin_token config),
       st_db = (if ca_db cli \<noteq> default_db then ca_db cli
                else case cf_db config of Some d \<Rightarrow> d | None \<Rightarrow> ca_db cli),
       st_insecure = (ca_insecure cli \<or> cf_insecure config = Some True) \<rparr>"

section \<open>The gateway's client\<close>

record GatewayClient =
  gc_base_url :: string
  gc_admin_token :: "string option"
  gc_insecure :: bool

record client_request =
  rq_method :: http_method
  rq_url :: string
  rq_bearer :: "string option"
  rq_query :: "(string \<times> string) list"
  rq_json :: "json option"
  rq_insecure :: bool

text \<open>What comes back: an error of the connection with its text, or a status with the body if it could be read.\<close>

datatype answer = NotConnected string | AnswerTimeout string | NotSentAtAll string | Answered nat "string option"

definition trim_url :: "string \<Rightarrow> string" where
  "trim_url u = rev (dropWhile (\<lambda>c. c = CHR ''/'') (rev u))"

definition from_settings :: "(bool \<Rightarrow> bool) \<Rightarrow> Settings \<Rightarrow> (GatewayClient, cli_error) res" where
  "from_settings builds s =
    (case st_url s of
       None \<Rightarrow> Err NoUrl
     | Some u \<Rightarrow>
        if builds (st_insecure s)
        then Ok \<lparr> gc_base_url = trim_url u, gc_admin_token = st_admin_token s, gc_insecure = st_insecure s \<rparr>
        else Err ClientNotBuilt)"

definition request_to :: "GatewayClient \<Rightarrow> http_method \<Rightarrow> string \<Rightarrow> client_request" where
  "request_to c m path =
     \<lparr> rq_method = m, rq_url = gc_base_url c @ path, rq_bearer = gc_admin_token c, rq_query = [], rq_json = None,
       rq_insecure = gc_insecure c \<rparr>"

definition cut_body :: "string option \<Rightarrow> string" where
  "cut_body body = concat (take 500 (utf8_chars (trim (case body of Some b \<Rightarrow> b | None \<Rightarrow> []))))"

definition connect_error :: "string \<Rightarrow> answer \<Rightarrow> cli_error" where
  "connect_error base a =
    (case a of NotConnected e \<Rightarrow> CannotConnect base e | AnswerTimeout e \<Rightarrow> GatewayTimeout base e
     | NotSentAtAll e \<Rightarrow> RequestFailed base e | Answered _ _ \<Rightarrow> NotDecoded)"

text \<open>\<open>status_text\<close> is the display of a status code.\<close>

definition send_empty :: "(nat \<Rightarrow> string) \<Rightarrow> GatewayClient \<Rightarrow> answer \<Rightarrow> (unit, cli_error) res" where
  "send_empty status_text c a =
    (case a of
       Answered status body \<Rightarrow>
         if 200 \<le> status \<and> status < 300 then Ok () else Err (GatewayStatus (status_text status) (cut_body body))
     | _ \<Rightarrow> Err (connect_error (gc_base_url c) a))"

definition send_for ::
    "(nat \<Rightarrow> string) \<Rightarrow> (string \<Rightarrow> 'a option) \<Rightarrow> GatewayClient \<Rightarrow> answer \<Rightarrow> ('a, cli_error) res" where
  "send_for status_text decode c a =
    (case a of
       Answered status body \<Rightarrow>
         if 200 \<le> status \<and> status < 300 then ok_or NotDecoded (Option.bind body decode)
         else Err (GatewayStatus (status_text status) (cut_body body))
     | _ \<Rightarrow> Err (connect_error (gc_base_url c) a))"

text \<open>The request of a command; enrolling needs none.\<close>

definition optional_number :: "string \<Rightarrow> nat option \<Rightarrow> (string \<times> json) list" where
  "optional_number k n = (case n of Some i \<Rightarrow> [(k, jint (int i))] | None \<Rightarrow> [])"

definition export_query :: "string option \<Rightarrow> string option \<Rightarrow> string \<Rightarrow> (string \<times> string) list" where
  "export_query from_ts to_ts format =
     (''format'', format) # (case from_ts of Some f \<Rightarrow> [(''from'', f)] | None \<Rightarrow> []) @
     (case to_ts of Some t \<Rightarrow> [(''to'', t)] | None \<Rightarrow> [])"

fun command_line :: "command \<Rightarrow> (http_method \<times> string) option" where
  "command_line (TenantCreate _ _ _ _) = Some (POST, ''/admin/tenant'')"
| "command_line TenantList = Some (GET, ''/admin/tenant'')"
| "command_line (TenantGet ident) = Some (GET, ''/admin/tenant/'' @ ident)"
| "command_line (CredentialsEnroll _) = None"
| "command_line (CredentialsList tenant) = Some (GET, ''/admin/tenant/'' @ tenant @ ''/credentials'')"
| "command_line (CredentialsRevoke ident) = Some (DELETE, ''/admin/credential/'' @ ident)"
| "command_line (AgentTokenMint _ _ _) = Some (POST, ''/admin/agent-token'')"
| "command_line (AgentTokenList tenant) = Some (GET, ''/admin/tenant/'' @ tenant @ ''/agent-token'')"
| "command_line (AgentTokenRevoke _) = Some (POST, ''/admin/agent-token/revoke'')"
| "command_line (ImageBuild _ _) = Some (POST, ''/admin/images/build'')"
| "command_line ImageList = Some (GET, ''/admin/images'')"
| "command_line (ImagePush _) = Some (POST, ''/admin/images/push'')"
| "command_line (ImagePull _) = Some (POST, ''/admin/images/pull'')"
| "command_line (ImageTags name) = Some (GET, ''/admin/images/'' @ name @ ''/tags'')"
| "command_line (ImageExists name) = Some (GET, ''/admin/images/'' @ name @ ''/exists'')"
| "command_line (WorkerAdd _ _) = Some (POST, ''/admin/worker'')"
| "command_line WorkerList = Some (GET, ''/admin/worker'')"
| "command_line (AuditVerify tenant) = Some (GET, ''/admin/audit/'' @ tenant @ ''/verify'')"
| "command_line (AuditExport tenant _ _ _) = Some (GET, ''/admin/audit/'' @ tenant @ ''/export'')"
| "command_line KeysRotateAudit = Some (POST, ''/admin/keys/rotate-audit'')"
| "command_line KeysRotatePush = Some (POST, ''/admin/keys/rotate-push'')"

fun command_body :: "command \<Rightarrow> json option" where
  "command_body (TenantCreate name n cpu memory) =
     Some (JObject ((''name'', JText name) # optional_number ''max_concurrent_machines'' n @
       optional_number ''max_cpu_per_machine'' cpu @ optional_number ''max_memory_gb_per_machine'' memory))"
| "command_body (AgentTokenMint tenant scope ttl) =
     Some (JObject [(''tenant'', JText tenant), (''scope'', JText scope), (''ttl_secs'', jint (int ttl))])"
| "command_body (AgentTokenRevoke token) = Some (JObject [(''token'', JText token)])"
| "command_body (ImageBuild name tag) =
     Some (JObject [(''name'', JText name), (''tag'', JText (case tag of Some t \<Rightarrow> t | None \<Rightarrow> ''latest''))])"
| "command_body (ImagePush img) = Some (JObject [(''image'', JText img)])"
| "command_body (ImagePull img) = Some (JObject [(''image'', JText img)])"
| "command_body (WorkerAdd host token) = Some (JObject [(''host'', JText host), (''token'', JText token)])"
| "command_body _ = None"

definition command_request :: "GatewayClient \<Rightarrow> command \<Rightarrow> client_request option" where
  "command_request c cmd =
     map_option (\<lambda>(m, path). request_to c m path
       \<lparr> rq_json := command_body cmd,
         rq_query := (case cmd of AuditExport _ f t format \<Rightarrow> export_query f t format | _ \<Rightarrow> []) \<rparr>) (command_line cmd)"

section \<open>What the gateway answers with\<close>

record CliTenant =
  ct_id :: string
  ct_name :: string
  ct_created_at :: string
  ct_setup_password :: string
  ct_enrollment_url :: string
  ct_sev_snp_measurement :: string

record CliCredential =
  cc_id :: string
  cc_tenant_id :: string
  cc_credential_id :: string
  cc_name :: "string option"
  cc_created_at :: string
  cc_last_used_at :: "string option"
  cc_revoked_at :: "string option"
  cc_verified :: bool

record AgentTokenInfo =
  tk_id :: "string option"
  tk_tenant_id :: string
  tk_scope :: "string option"
  tk_created_at :: string
  tk_expires_at :: "string option"
  tk_revoked_at :: "string option"

record WorkerInfo =
  wi_id :: string
  wi_host :: string
  wi_sev_snp :: bool
  wi_cpu_total :: "int option"
  wi_memory_gb_total :: "int option"
  wi_status :: string
  wi_last_seen :: "string option"

record AuditVerifyResponse =
  av_tenant_id :: string
  av_entries_checked :: nat
  av_errors :: "string list"
  av_verified :: bool

record cli_lib =
  cl_builds :: "bool \<Rightarrow> bool"
  cl_status_text :: "nat \<Rightarrow> string"
  dec_tenant :: "string \<Rightarrow> CliTenant option"
  dec_tenants :: "string \<Rightarrow> CliTenant list option"
  dec_credentials :: "string \<Rightarrow> CliCredential list option"
  dec_minted :: "string \<Rightarrow> (string \<times> string) option"
  dec_tokens :: "string \<Rightarrow> AgentTokenInfo list option"
  dec_built :: "string \<Rightarrow> (string \<times> string \<times> string) option"
  dec_repositories :: "string \<Rightarrow> string list option"
  dec_pushed :: "string \<Rightarrow> (string \<times> string \<times> string) option"
  dec_pulled :: "string \<Rightarrow> (string \<times> string) option"
  dec_tags :: "string \<Rightarrow> (string \<times> string list) option"
  dec_exists :: "string \<Rightarrow> (string \<times> bool) option"
  dec_worker :: "string \<Rightarrow> WorkerInfo option"
  dec_workers :: "string \<Rightarrow> WorkerInfo list option"
  dec_verified :: "string \<Rightarrow> AuditVerifyResponse option"

section \<open>Printing\<close>

datatype outcome = Finished | Failed cli_error | ExitCode nat

definition EM_DASH :: string where "EM_DASH = [CHR 0xE2, CHR 0x80, CHR 0x94]"
definition BULLET :: string where "BULLET = [CHR 0xE2, CHR 0x80, CHR 0xA2]"
definition CHECK_MARK :: string where "CHECK_MARK = [CHR 0xE2, CHR 0x9C, CHR 0x85]"

definition pad :: "nat \<Rightarrow> string \<Rightarrow> string" where
  "pad n s = s @ replicate (n - length (utf8_chars s)) CHR '' ''"

definition bool_text :: "bool \<Rightarrow> string" where
  "bool_text b = (if b then ''true'' else ''false'')"

definition or_dash :: "string option \<Rightarrow> string" where
  "or_dash s = (case s of Some t \<Rightarrow> t | None \<Rightarrow> ''-'')"

definition answer_to :: "(client_request \<Rightarrow> answer) \<Rightarrow> GatewayClient \<Rightarrow> command \<Rightarrow> answer" where
  "answer_to ask c cmd = (case command_request c cmd of Some rq \<Rightarrow> ask rq | None \<Rightarrow> NotSentAtAll [])"

definition printed :: "('a, cli_error) res \<Rightarrow> ('a \<Rightarrow> string list) \<Rightarrow> string list \<times> outcome" where
  "printed r f = (case r of Ok x \<Rightarrow> (f x, Finished) | Err e \<Rightarrow> ([], Failed e) | Panic \<Rightarrow> ([], Failed CliPanic))"

definition enroll_url :: "GatewayClient \<Rightarrow> CliTenant \<Rightarrow> string" where
  "enroll_url c r =
    (if starts_with (ct_enrollment_url r) ''http'' then ct_enrollment_url r
     else if ct_enrollment_url r = [] then gc_base_url c @ ''/setup?tenant='' @ ct_id r
     else gc_base_url c @ ct_enrollment_url r)"

fun handle_tenant ::
    "cli_lib \<Rightarrow> (client_request \<Rightarrow> answer) \<Rightarrow> GatewayClient \<Rightarrow> command \<Rightarrow> string list \<times> outcome" where
  "handle_tenant L ask c (TenantCreate n m cpu mem) =
     printed (send_for (cl_status_text L) (dec_tenant L) c (answer_to ask c (TenantCreate n m cpu mem))) (\<lambda>r.
       [''Tenant created.'', ''  ID:                 '' @ ct_id r, ''  Name:               '' @ ct_name r,
        ''  Created at:         '' @ ct_created_at r, [],
        ''Setup password (save this '' @ EM_DASH @ '' it will not be shown again):'', ''  '' @ ct_setup_password r, [],
        ''Enrollment URL (open on your phone):'', ''  '' @ enroll_url c r] @
       (if ct_sev_snp_measurement r = [] then [] else [[], ''SEV-SNP measurement: '' @ ct_sev_snp_measurement r]))"
| "handle_tenant L ask c TenantList =
     printed (send_for (cl_status_text L) (dec_tenants L) c (answer_to ask c TenantList)) (\<lambda>ts.
       if ts = [] then [''No tenants yet. Create one with: stronghold tenant create --name <name>'']
       else (pad 28 ''ID'' @ '' '' @ pad 20 ''NAME'' @ '' CREATED'') #
         map (\<lambda>t. pad 28 (ct_id t) @ '' '' @ pad 20 (ct_name t) @ '' '' @ ct_created_at t) ts)"
| "handle_tenant L ask c (TenantGet ident) =
     printed (send_for (cl_status_text L) (dec_tenant L) c (answer_to ask c (TenantGet ident))) (\<lambda>r.
       [''Tenant:'', ''  ID:               '' @ ct_id r, ''  Name:             '' @ ct_name r,
        ''  Created at:       '' @ ct_created_at r, ''  Setup password:   '' @ ct_setup_password r,
        ''  Enrollment URL:   '' @ enroll_url c r] @
       (if ct_sev_snp_measurement r = [] then [] else [''  SEV-SNP measure:  '' @ ct_sev_snp_measurement r]))"
| "handle_tenant L ask c _ = ([], Finished)"

definition credential_status :: "CliCredential \<Rightarrow> string" where
  "credential_status cr =
    (if cc_revoked_at cr \<noteq> None then ''revoked'' else if cc_verified cr then ''active'' else ''pending'')"

fun handle_credentials ::
    "cli_lib \<Rightarrow> (client_request \<Rightarrow> answer) \<Rightarrow> Settings \<Rightarrow> command \<Rightarrow> string list \<times> outcome" where
  "handle_credentials L ask s (CredentialsEnroll tenant) =
    (case st_url s of
       None \<Rightarrow> ([], Failed NoUrl)
     | Some u \<Rightarrow>
        ([''Open this URL in your phone browser to enroll a WebAuthn credential:'',
          ''  '' @ trim_url u @ ''/setup'' @ (case tenant of Some t \<Rightarrow> ''?tenant='' @ t | None \<Rightarrow> []), [],
          ''You will need the tenant'' @ [CHR 0x27] @ ''s setup password (printed by `stronghold tenant create`).''], Finished))"
| "handle_credentials L ask s (CredentialsList tenant) =
     printed (bind_res (from_settings (cl_builds L) s) (\<lambda>c.
       send_for (cl_status_text L) (dec_credentials L) c (answer_to ask c (CredentialsList tenant)))) (\<lambda>cs.
       if cs = [] then [''No credentials enrolled for tenant '' @ tenant @ ''.'']
       else [''Credentials for tenant '' @ tenant @ '':'',
             pad 28 ''ID'' @ '' '' @ pad 24 ''NAME'' @ '' '' @ pad 24 ''CREATED'' @ '' STATUS''] @
         map (\<lambda>cr. pad 28 (cc_id cr) @ '' '' @ pad 24 (or_dash (cc_name cr)) @ '' '' @ pad 24 (cc_created_at cr) @ '' '' @
           credential_status cr) cs)"
| "handle_credentials L ask s (CredentialsRevoke ident) =
     printed (bind_res (from_settings (cl_builds L) s) (\<lambda>c.
       send_empty (cl_status_text L) c (answer_to ask c (CredentialsRevoke ident)))) (\<lambda>_. [''Credential '' @ ident @ '' revoked.''])"
| "handle_credentials L ask s _ = ([], Finished)"

fun handle_agent_token ::
    "cli_lib \<Rightarrow> (client_request \<Rightarrow> answer) \<Rightarrow> GatewayClient \<Rightarrow> command \<Rightarrow> string list \<times> outcome" where
  "handle_agent_token L ask c (AgentTokenMint tenant scope ttl) =
     printed (send_for (cl_status_text L) (dec_minted L) c (answer_to ask c (AgentTokenMint tenant scope ttl)))
       (\<lambda>(token, expires_at).
       [''Agent token minted (save this '' @ EM_DASH @ '' it will not be shown again):'', ''  '' @ token] @
       (if expires_at = [] then [] else [[], ''Expires at: '' @ expires_at]))"
| "handle_agent_token L ask c (AgentTokenList tenant) =
     printed (send_for (cl_status_text L) (dec_tokens L) c (answer_to ask c (AgentTokenList tenant))) (\<lambda>ts.
       if ts = [] then [''No agent tokens for tenant '' @ tenant @ ''.'']
       else [''Agent tokens for tenant '' @ tenant @ '':'',
             pad 20 ''ID'' @ '' '' @ pad 12 ''SCOPE'' @ '' '' @ pad 24 ''CREATED'' @ '' '' @ pad 24 ''EXPIRES'' @ '' STATUS''] @
         map (\<lambda>t. pad 20 (or_dash (tk_id t)) @ '' '' @ pad 12 (or_dash (tk_scope t)) @ '' '' @ pad 24 (tk_created_at t) @ '' '' @
           pad 24 (or_dash (tk_expires_at t)) @ '' '' @ (if tk_revoked_at t \<noteq> None then ''revoked'' else ''active'')) ts)"
| "handle_agent_token L ask c (AgentTokenRevoke token) =
     printed (send_empty (cl_status_text L) c (answer_to ask c (AgentTokenRevoke token))) (\<lambda>_. [''Agent token revoked.''])"
| "handle_agent_token L ask c _ = ([], Finished)"

fun handle_image ::
    "cli_lib \<Rightarrow> (client_request \<Rightarrow> answer) \<Rightarrow> GatewayClient \<Rightarrow> command \<Rightarrow> string list \<times> outcome" where
  "handle_image L ask c (ImageBuild name tag) =
     printed (send_for (cl_status_text L) (dec_built L) c (answer_to ask c (ImageBuild name tag))) (\<lambda>(img, status, msg).
       [CHECK_MARK @ '' Image built'', ''  Image:   '' @ img, ''  Status:  '' @ status, ''  Message: '' @ msg])"
| "handle_image L ask c ImageList =
     printed (send_for (cl_status_text L) (dec_repositories L) c (answer_to ask c ImageList)) (\<lambda>rs.
       if rs = [] then [''No images in registry.'']
       else ''Stronghold registry repositories:'' # map (\<lambda>r. ''  '' @ BULLET @ '' '' @ r) rs)"
| "handle_image L ask c (ImagePull img) =
     printed (send_for (cl_status_text L) (dec_pulled L) c (answer_to ask c (ImagePull img))) (\<lambda>(i, digest).
       [CHECK_MARK @ '' Image pulled into k3s containerd'', ''  Image:  '' @ i, ''  Digest: '' @ digest])"
| "handle_image L ask c (ImageTags name) =
     printed (send_for (cl_status_text L) (dec_tags L) c (answer_to ask c (ImageTags name))) (\<lambda>(repo, tags).
       (''Tags for '' @ repo @ '':'') # map (\<lambda>t. ''  '' @ BULLET @ '' '' @ t) tags)"
| "handle_image L ask c (ImageExists name) =
     printed (send_for (cl_status_text L) (dec_exists L) c (answer_to ask c (ImageExists name))) (\<lambda>(i, there).
       [''Image: '' @ i, ''  Exists: '' @ bool_text there])"
| "handle_image L ask c (ImagePush img) =
     printed (send_for (cl_status_text L) (dec_pushed L) c (answer_to ask c (ImagePush img))) (\<lambda>(i, registry_ref, digest).
       [CHECK_MARK @ '' Image pushed'', ''  Image:        '' @ i, ''  Registry ref: '' @ registry_ref,
        ''  Digest:       '' @ digest])"
| "handle_image L ask c _ = ([], Finished)"

fun handle_worker ::
    "cli_lib \<Rightarrow> (client_request \<Rightarrow> answer) \<Rightarrow> GatewayClient \<Rightarrow> command \<Rightarrow> string list \<times> outcome" where
  "handle_worker L ask c (WorkerAdd host token) =
     printed (send_for (cl_status_text L) (dec_worker L) c (answer_to ask c (WorkerAdd host token))) (\<lambda>w.
       [''Worker added.'', ''  ID:     '' @ wi_id w, ''  Host:   '' @ wi_host w, ''  SEV-SNP: '' @ bool_text (wi_sev_snp w)] @
       (case wi_cpu_total w of Some n \<Rightarrow> [''  CPU:    '' @ show_int n] | None \<Rightarrow> []) @
       (case wi_memory_gb_total w of Some n \<Rightarrow> [''  Memory: '' @ show_int n @ ''GB''] | None \<Rightarrow> []) @
       [''  Status: '' @ wi_status w])"
| "handle_worker L ask c WorkerList =
     printed (send_for (cl_status_text L) (dec_workers L) c (answer_to ask c WorkerList)) (\<lambda>ws.
       if ws = [] then [''No workers registered.'']
       else (pad 28 ''ID'' @ '' '' @ pad 32 ''HOST'' @ '' '' @ pad 8 ''SEV-SNP'' @ '' '' @ pad 8 ''CPU'' @ '' STATUS'') #
         map (\<lambda>w. pad 28 (wi_id w) @ '' '' @ pad 32 (wi_host w) @ '' '' @ pad 8 (bool_text (wi_sev_snp w)) @ '' '' @
           pad 8 (or_dash (map_option show_int (wi_cpu_total w))) @ '' '' @ wi_status w) ws)"
| "handle_worker L ask c _ = ([], Finished)"

fun handle_keys ::
    "cli_lib \<Rightarrow> (client_request \<Rightarrow> answer) \<Rightarrow> GatewayClient \<Rightarrow> command \<Rightarrow> string list \<times> outcome" where
  "handle_keys L ask c KeysRotateAudit =
     printed (send_empty (cl_status_text L) c (answer_to ask c KeysRotateAudit)) (\<lambda>_.
       [''Audit keys rotated.'', ''  New Ed25519 + ML-DSA-65 keypair generated'', ''  Sealed to current SEV-SNP measurement''])"
| "handle_keys L ask c KeysRotatePush =
     printed (send_empty (cl_status_text L) c (answer_to ask c KeysRotatePush)) (\<lambda>_.
       [''Push keys rotated.'', ''  New X25519 + ML-KEM-768 keypair generated'', ''  All phones must re-enroll''])"
| "handle_keys L ask c _ = ([], Finished)"

section \<open>The local audit log\<close>

text \<open>\<open>Path::parent\<close>, on the reversed text: separators and \<open>.\<close> components at the end do not count.\<close>

fun trim_rev :: "string \<Rightarrow> string" where
  "trim_rev (a # b # r) =
    (if a = CHR ''/'' then trim_rev (b # r)
     else if a = CHR ''.'' \<and> b = CHR ''/'' then trim_rev (b # r) else a # b # r)"
| "trim_rev r = r"

definition parent_path :: "string \<Rightarrow> string option" where
  "parent_path p =
    (let r = trim_rev (rev p)
     in if r = [] \<or> r = ''/'' then None
        else Some (rev (trim_rev (dropWhile (\<lambda>c. c \<noteq> CHR ''/'') r))))"

definition local_audit_db :: "string \<Rightarrow> string \<Rightarrow> string" where
  "local_audit_db db_path tenant =
     (case parent_path db_path of Some p \<Rightarrow> p | None \<Rightarrow> ''/var/lib/stronghold'') @ ''/audit/'' @ tenant @ ''.db''"

text \<open>\<open>databases\<close> holds the existing database files; opening another path makes an empty database without tables.\<close>

definition open_local :: "(string \<Rightarrow> db option) \<Rightarrow> string \<Rightarrow> string \<Rightarrow> db option" where
  "open_local databases db_path tenant =
    (case databases (local_audit_db db_path tenant) of Some d \<Rightarrow> Some d | None \<Rightarrow> databases db_path)"

record LocalAuditReport =
  lr_entries_checked :: nat
  lr_errors :: "verify_problem list"
  lr_verified :: bool

fun local_check :: "'a hash_lib_scheme \<Rightarrow> string \<Rightarrow> (audit_row \<times> string) list \<Rightarrow> verify_problem list \<Rightarrow> verify_problem list" where
  "local_check G prev_hash [] errors = errors"
| "local_check G prev_hash ((r, msg) # rs) errors =
    (let errors = (if au_prev_hash r \<noteq> prev_hash then errors @ [ChainBroken (au_seq r) prev_hash (au_prev_hash r)] else errors);
         computed = hash_text G msg;
         errors = (if computed \<noteq> au_hash r then errors @ [HashMismatch (au_seq r) (au_hash r) computed] else errors)
     in local_check G (au_hash r) rs errors)"

definition local_audit_verify ::
    "'a hash_lib_scheme \<Rightarrow> (string \<Rightarrow> db option) \<Rightarrow> string \<Rightarrow> string \<Rightarrow> (LocalAuditReport, audit_error) res" where
  "local_audit_verify G databases db_path tenant =
    bind_res (ok_or AuditNoTable (open_local databases db_path tenant)) (\<lambda>d.
    bind_res (ok_or AuditColumn (read_rows tenant (tenant_rows tenant d))) (\<lambda>entries.
      let errors = local_check G ZERO_HASH entries []
      in Ok \<lparr> lr_entries_checked = length entries, lr_errors = errors, lr_verified = (errors = []) \<rparr>))"

definition local_selected :: "string \<Rightarrow> string option \<Rightarrow> string option \<Rightarrow> audit_row \<Rightarrow> bool" where
  "local_selected tenant from_ts to_ts r \<longleftrightarrow>
     au_tenant_id r = tenant \<and> (case from_ts of Some f \<Rightarrow> f \<le> au_ts r | None \<Rightarrow> True) \<and>
     (case to_ts of Some t \<Rightarrow> au_ts r \<le> t | None \<Rightarrow> True)"

definition export_entry :: "(string \<Rightarrow> json option) \<Rightarrow> export_row \<Rightarrow> json" where
  "export_entry parse = (\<lambda>(ts, machine, event, payload, hash).
     JObject [(''event'', JText event), (''hash'', JText hash), (''machine_id'', JText machine),
       (''payload'', case parse payload of Some v \<Rightarrow> v | None \<Rightarrow> JNull), (''ts'', JText ts)])"

fun local_text :: "export_row list \<Rightarrow> string option" where
  "local_text [] = Some []"
| "local_text ((ts, machine, event, payload, hash) # rs) =
    (if length hash > 16 \<and> \<not> valid_utf8 (as_bytes (take 16 hash)) then None
     else map_option (\<lambda>rest. ''['' @ ts @ ''] machine='' @ machine @ '' event='' @ event @ '' hash='' @ take 16 hash @
       [CHR 0x0A] @ ''  payload='' @ payload @ [CHR 0x0A, CHR 0x0A] @ rest) (local_text rs))"

definition local_audit_export ::
    "(string \<Rightarrow> json option) \<Rightarrow> (json \<Rightarrow> string) \<Rightarrow> (string \<Rightarrow> db option) \<Rightarrow> string \<Rightarrow> string \<Rightarrow> string option \<Rightarrow>
     string option \<Rightarrow> string \<Rightarrow> (string, cli_error) res" where
  "local_audit_export parse pretty databases db_path tenant from_ts to_ts format =
    bind_res (ok_or (LocalExportFailed AuditNoTable) (open_local databases db_path tenant)) (\<lambda>d.
    bind_res (ok_or (LocalExportFailed AuditColumn)
        (export_rows (sort_key au_seq (filter (local_selected tenant from_ts to_ts) (audit_entries d))))) (\<lambda>rows.
    let fmt = map lower_char format
    in if fmt = ''json'' then Ok (pretty (JArray (map (export_entry parse) rows)))
       else if fmt = ''text'' \<or> fmt = ''txt'' then (case local_text rows of Some out \<Rightarrow> Ok out | None \<Rightarrow> Panic)
       else Err UnsupportedFormat))"

section \<open>Audit commands\<close>

definition problem_text :: "verify_problem \<Rightarrow> string" where
  "problem_text p =
    (case p of
       ChainBroken s e g \<Rightarrow> ''seq '' @ show_int s @ '': hash chain broken (expected '' @ e @ '', got '' @ g @ '')''
     | HashMismatch s e g \<Rightarrow> ''seq '' @ show_int s @ '': hash mismatch (expected '' @ e @ '', got '' @ g @ '')''
     | SignatureFailed s \<Rightarrow> ''seq '' @ show_int s @ '': signature verification failed'')"

definition report_lines :: "string \<Rightarrow> nat \<Rightarrow> bool \<Rightarrow> string list \<Rightarrow> string list" where
  "report_lines title checked ok errors =
     [title, ''  Entries checked: '' @ show_nat checked, ''  Verified:        '' @ bool_text ok] @
     (if errors = [] then [] else ''  Errors:'' # map (\<lambda>e. ''    - '' @ e) errors)"

definition cli_error_text :: "cli_error \<Rightarrow> string" where
  "cli_error_text e =
    (case e of
       CannotConnect base t \<Rightarrow> ''Could not connect to gateway at '' @ base @ ''.'' @ [CHR 0x0A] @
         ''Is the gateway running? Start it with: stronghold-gateway serve'' @ [CHR 0x0A] @ ''Underlying error: '' @ t
     | GatewayTimeout base t \<Rightarrow> ''Timed out talking to gateway at '' @ base @ '': '' @ t
     | RequestFailed base t \<Rightarrow> ''Gateway request to '' @ base @ '' failed: '' @ t
     | GatewayStatus st body \<Rightarrow> ''Gateway returned HTTP '' @ st @ '': '' @ body
     | NotDecoded \<Rightarrow> ''Failed to decode gateway response as JSON''
     | ClientNotBuilt \<Rightarrow> ''Failed to build HTTP client''
     | _ \<Rightarrow> [])"

definition exit_unless :: "bool \<Rightarrow> outcome" where
  "exit_unless ok = (if ok then Finished else ExitCode 1)"

definition verify_locally ::
    "'a hash_lib_scheme \<Rightarrow> (string \<Rightarrow> db option) \<Rightarrow> Settings \<Rightarrow> string \<Rightarrow> string list \<times> outcome" where
  "verify_locally G databases s tenant =
    (case local_audit_verify G databases (st_db s) tenant of
       Ok r \<Rightarrow> (report_lines (''Audit log verification for tenant '' @ tenant @ '' (local DB):'') (lr_entries_checked r)
           (lr_verified r) (map problem_text (lr_errors r)), exit_unless (lr_verified r))
     | Err e \<Rightarrow> ([], Failed (LocalVerifyFailed e))
     | Panic \<Rightarrow> ([], Failed CliPanic))"

definition handle_audit_verify ::
    "cli_lib \<Rightarrow> 'a hash_lib_scheme \<Rightarrow> (client_request \<Rightarrow> answer) \<Rightarrow> (string \<Rightarrow> db option) \<Rightarrow> Settings \<Rightarrow> string \<Rightarrow>
     string list \<times> outcome" where
  "handle_audit_verify L G ask databases s tenant =
    (if st_url s = None then verify_locally G databases s tenant
     else case bind_res (from_settings (cl_builds L) s) (\<lambda>c.
         send_for (cl_status_text L) (dec_verified L) c (answer_to ask c (AuditVerify tenant))) of
       Ok r \<Rightarrow> (report_lines (''Audit log verification for tenant '' @ av_tenant_id r @ '':'') (av_entries_checked r)
           (av_verified r) (av_errors r), exit_unless (av_verified r))
     | Err e \<Rightarrow>
        (let (out, r) = verify_locally G databases s tenant
         in ((''(Gateway unreachable: '' @ cli_error_text e @ ''; falling back to local DB)'') # out, r))
     | Panic \<Rightarrow> ([], Failed CliPanic))"

definition export_locally ::
    "(string \<Rightarrow> json option) \<Rightarrow> (json \<Rightarrow> string) \<Rightarrow> (string \<Rightarrow> db option) \<Rightarrow> Settings \<Rightarrow> string \<Rightarrow> string option \<Rightarrow>
     string option \<Rightarrow> string \<Rightarrow> string list \<times> outcome" where
  "export_locally parse pretty databases s tenant from_ts to_ts format =
     printed (local_audit_export parse pretty databases (st_db s) tenant from_ts to_ts format) (\<lambda>body. [body])"

definition handle_audit_export ::
    "cli_lib \<Rightarrow> (string \<Rightarrow> json option) \<Rightarrow> (json \<Rightarrow> string) \<Rightarrow> (client_request \<Rightarrow> answer) \<Rightarrow> (string \<Rightarrow> db option) \<Rightarrow>
     Settings \<Rightarrow> string \<Rightarrow> string option \<Rightarrow> string option \<Rightarrow> string \<Rightarrow> string list \<times> outcome" where
  "handle_audit_export L parse pretty ask databases s tenant from_ts to_ts format =
    (let here = export_locally parse pretty databases s tenant from_ts to_ts format;
         after = (\<lambda>line. (line # fst here, snd here))
     in if st_url s = None then here
        else case from_settings (cl_builds L) s of
          Err e \<Rightarrow> ([], Failed e)
        | Panic \<Rightarrow> ([], Failed CliPanic)
        | Ok c \<Rightarrow>
           (case answer_to ask c (AuditExport tenant from_ts to_ts format) of
              Answered status body \<Rightarrow>
                if 200 \<le> status \<and> status < 300 then ([case body of Some b \<Rightarrow> b | None \<Rightarrow> []], Finished)
                else after (''(Gateway returned HTTP '' @ cl_status_text L status @ '', falling back to local DB)'')
            | NotConnected e \<Rightarrow> after (''(Gateway unreachable: '' @ e @ ''; falling back to local DB)'')
            | AnswerTimeout e \<Rightarrow> after (''(Gateway unreachable: '' @ e @ ''; falling back to local DB)'')
            | NotSentAtAll e \<Rightarrow> after (''(Gateway unreachable: '' @ e @ ''; falling back to local DB)'')))"

section \<open>Initialisation\<close>

definition generate_audit_ed25519_keys :: "'a sig_lib_scheme \<Rightarrow> bytes \<Rightarrow> string \<Rightarrow> files \<Rightarrow> files" where
  "generate_audit_ed25519_keys G seed dir fs =
    (if fs (ed_key_path dir) \<noteq> None then fs
     else fs (ed_key_path dir \<mapsto> seed, ed_pub_path dir \<mapsto> ed_public_of G seed))"

text \<open>\<open>handle_init\<close>: \<open>schema_ready\<close> tells whether the directories and the schema could be made.\<close>

definition handle_init :: "'a sig_lib_scheme \<Rightarrow> bool \<Rightarrow> bytes \<Rightarrow> string \<Rightarrow> files \<Rightarrow> (unit, cli_error) res \<times> files" where
  "handle_init G schema_ready seed data_dir fs =
    (if \<not> schema_ready then (Err InitFailed, fs)
     else (Ok (), generate_audit_ed25519_keys G seed (data_dir @ ''/keys'') fs))"

section \<open>Running a command\<close>

definition with_client ::
    "cli_lib \<Rightarrow> Settings \<Rightarrow> (GatewayClient \<Rightarrow> string list \<times> outcome) \<Rightarrow> string list \<times> outcome" where
  "with_client L s h =
    (case from_settings (cl_builds L) s of Ok c \<Rightarrow> h c | Err e \<Rightarrow> ([], Failed e) | Panic \<Rightarrow> ([], Failed CliPanic))"

definition run_command ::
    "cli_lib \<Rightarrow> 'a hash_lib_scheme \<Rightarrow> (string \<Rightarrow> json option) \<Rightarrow> (json \<Rightarrow> string) \<Rightarrow> (client_request \<Rightarrow> answer) \<Rightarrow>
     (string \<Rightarrow> db option) \<Rightarrow> (CliConfig, cli_error) res \<Rightarrow> cli_args \<Rightarrow> command \<Rightarrow> string list \<times> outcome" where
  "run_command L G parse pretty ask databases config cli cmd =
    (case config of
       Err e \<Rightarrow> ([], Failed e)
     | Panic \<Rightarrow> ([], Failed CliPanic)
     | Ok cfg \<Rightarrow>
        (let s = resolve_settings cli cfg
         in case cmd of
              TenantCreate _ _ _ _ \<Rightarrow> with_client L s (\<lambda>c. handle_tenant L ask c cmd)
            | TenantList \<Rightarrow> with_client L s (\<lambda>c. handle_tenant L ask c cmd)
            | TenantGet _ \<Rightarrow> with_client L s (\<lambda>c. handle_tenant L ask c cmd)
            | CredentialsEnroll _ \<Rightarrow> handle_credentials L ask s cmd
            | CredentialsList _ \<Rightarrow> handle_credentials L ask s cmd
            | CredentialsRevoke _ \<Rightarrow> handle_credentials L ask s cmd
            | AgentTokenMint _ _ _ \<Rightarrow> with_client L s (\<lambda>c. handle_agent_token L ask c cmd)
            | AgentTokenList _ \<Rightarrow> with_client L s (\<lambda>c. handle_agent_token L ask c cmd)
            | AgentTokenRevoke _ \<Rightarrow> with_client L s (\<lambda>c. handle_agent_token L ask c cmd)
            | WorkerAdd _ _ \<Rightarrow> with_client L s (\<lambda>c. handle_worker L ask c cmd)
            | WorkerList \<Rightarrow> with_client L s (\<lambda>c. handle_worker L ask c cmd)
            | AuditVerify tenant \<Rightarrow> handle_audit_verify L G ask databases s tenant
            | AuditExport tenant f t format \<Rightarrow> handle_audit_export L parse pretty ask databases s tenant f t format
            | KeysRotateAudit \<Rightarrow> with_client L s (\<lambda>c. handle_keys L ask c cmd)
            | KeysRotatePush \<Rightarrow> with_client L s (\<lambda>c. handle_keys L ask c cmd)
            | _ \<Rightarrow> with_client L s (\<lambda>c. handle_image L ask c cmd)))"

section \<open>Settings: what wins\<close>

lemma flag_wins: "ca_url cli = Some u \<Longrightarrow> st_url (resolve_settings cli cfg) = Some u"
  by (simp add: resolve_settings_def or_else_def)

text \<open>A database path given on the command line loses against the file when it is the default path.\<close>

lemma default_db_flag_loses:
  "ca_db cli = default_db \<Longrightarrow> cf_db cfg = Some d \<Longrightarrow> st_db (resolve_settings cli cfg) = d"
  by (simp add: resolve_settings_def)

text \<open>A database in the working directory makes the log be looked for under the root directory.\<close>

lemma relative_db_looks_in_root: "local_audit_db ''stronghold.db'' tenant = ''/audit/'' @ tenant @ ''.db''"
  by (simp add: local_audit_db_def parent_path_def)

section \<open>Local verification\<close>

definition unsigned_problem :: "verify_problem \<Rightarrow> bool" where
  "unsigned_problem p = (case p of SignatureFailed _ \<Rightarrow> False | _ \<Rightarrow> True)"

lemma local_check_walk: "local_check G h rs errs = errs @ walk_hashes G h rs"
proof (induction rs arbitrary: h errs)
  case (Cons r rs)
  obtain a m where "r = (a, m)" by (cases r)
  then show ?case using Cons by (simp add: Let_def)
qed simp

lemma walk_hashes_walk_rows: "walk_hashes G h rs = filter unsigned_problem (walk_rows G k h rs)"
proof (induction rs arbitrary: h)
  case (Cons r rs)
  obtain a m where "r = (a, m)" by (cases r)
  then show ?case using Cons by (simp add: check_row_def unsigned_problem_def)
qed simp

text \<open>Whoever writes to the table makes a log of any texts that the local verification accepts.\<close>

fun relink :: "'a hash_lib_scheme \<Rightarrow> string \<Rightarrow> string \<Rightarrow> audit_row list \<Rightarrow> audit_row list" where
  "relink G tid h [] = []"
| "relink G tid h (r # rs) =
    (let r' = r \<lparr> au_prev_hash := h \<rparr>; x = hash_text G (row_text tid r')
     in r' \<lparr> au_hash := x \<rparr> # relink G tid x rs)"

lemma row_text_hash [simp]: "row_text tid (r \<lparr> au_hash := x \<rparr>) = row_text tid r"
  by (simp add: row_text_def)

lemma relinked_log_passes:
  "walk_hashes G h (map (\<lambda>r. (r, row_text tid r)) (relink G tid h rows)) = []"
  by (induction rows arbitrary: h) (simp_all add: Let_def)

section \<open>Keys made by the client\<close>

definition zero_filled :: "AuditKeys \<Rightarrow> bool" where
  "zero_filled k \<longleftrightarrow> mldsa_secret k = replicate 32 0 \<and> mldsa_public k = replicate 1952 0"

text \<open>Base64 of some bytes is not empty, and a signature made with the seed of zeros, which anyone can make, does not
  verify under a public key of zeros, which is not the key of that seed.\<close>

definition zero_key_rejects :: "'a sig_lib_scheme \<Rightarrow> bool" where
  "zero_key_rejects G \<longleftrightarrow> (\<forall>b. b \<noteq> [] \<longrightarrow> b64_encode G b \<noteq> []) \<and>
     (\<forall>m. \<not> ml_verify G (replicate 1952 0) m (ml_sign G (replicate 32 0) m))"

lemma zero_filled_not_verified:
  assumes "sig_lib_ok G" "zero_key_rejects G" "zero_filled k"
  shows "\<not> verify G k m (sign G k m)"
proof -
  have s: "length (ml_sign G (replicate 32 0) m) = 3309"
    using assms(1) unfolding sig_lib_ok_def by (metis length_replicate)
  then have "ml_sign G (replicate 32 0) m \<noteq> []" by auto
  then have ne: "b64_encode G (ml_sign G (replicate 32 0) m) \<noteq> []" using assms(2) by (simp add: zero_key_rejects_def)
  have sg: "sig_mldsa65 (sign G k m) = b64_encode G (ml_sign G (replicate 32 0) m)"
    using assms(3) by (simp add: sign_def sign_mldsa65_def zero_filled_def MLDSA_SEED_LEN_def)
  have "b64_decode G (b64_encode G (ml_sign G (replicate 32 0) m)) = Some (ml_sign G (replicate 32 0) m)"
    using assms(1) by (simp add: sig_lib_ok_def)
  then have "\<not> verify_mldsa65 G k m (sig_mldsa65 (sign G k m))"
    using assms(2,3) by (simp add: sg verify_mldsa65_def zero_filled_def zero_key_rejects_def MLDSA_PUBLIC_LEN_def)
  then show ?thesis using ne by (auto simp: verify_def sg split: option.splits if_splits)
qed

lemma client_keys_zero_filled:
  assumes "fs (ed_key_path dir) = None" "fs (ml_key_path dir) = None" "fs (ml_pub_path dir) = None" "length seed = 32"
  shows "\<exists>k. load_or_generate_keys G s1 s2 dir (generate_audit_ed25519_keys G seed dir fs) =
    (Ok k, generate_audit_ed25519_keys G seed dir fs) \<and> zero_filled k \<and> ed25519_secret k = seed"
  using assms key_paths_distinct [of dir]
  by (simp add: generate_audit_ed25519_keys_def load_or_generate_keys_def load_keys_def zero_filled_def Let_def
      ED25519_SECRET_LEN_def)

section \<open>Commands and routes\<close>

definition plain_text :: "string \<Rightarrow> bool" where
  "plain_text s \<longleftrightarrow> s \<noteq> [] \<and> CHR ''/'' \<notin> set s"

fun plain_command :: "command \<Rightarrow> bool" where
  "plain_command (TenantGet ident) = plain_text ident"
| "plain_command (CredentialsList tenant) = plain_text tenant"
| "plain_command (CredentialsRevoke ident) = plain_text ident"
| "plain_command (AgentTokenList tenant) = plain_text tenant"
| "plain_command (ImageTags name) = plain_text name"
| "plain_command (ImageExists name) = plain_text name"
| "plain_command (AuditVerify tenant) = plain_text tenant"
| "plain_command (AuditExport tenant _ _ _) = plain_text tenant"
| "plain_command _ = True"

text \<open>The commands that the gateway serves, with their handlers, the one whose path has no such method, and those whose
  path is unknown.\<close>

definition reply_to :: "command \<Rightarrow> routed" where
  "reply_to cmd =
    (case cmd of
       TenantCreate _ _ _ _ \<Rightarrow> Handled ''admin::create_tenant''
     | TenantGet _ \<Rightarrow> Handled ''admin::get_tenant''
     | ImageBuild _ _ \<Rightarrow> Handled ''images::build_image''
     | ImagePush _ \<Rightarrow> Handled ''images::push_image''
     | ImagePull _ \<Rightarrow> Handled ''images::pull_image''
     | ImageList \<Rightarrow> Handled ''images::list_images''
     | ImageTags _ \<Rightarrow> Handled ''images::list_tags''
     | ImageExists _ \<Rightarrow> Handled ''images::check_exists''
     | TenantList \<Rightarrow> MethodNotAllowed
     | _ \<Rightarrow> NoRoute)"

text \<open>The segments of the patterns, computed once.\<close>

definition segmented :: "(string \<times> string list) list" where
  "segmented = map (\<lambda>p. (p, path_segments p)) route_patterns"

lemma list_all_segmented:
  "list_all (\<lambda>p. Q p (path_segments p)) route_patterns \<longleftrightarrow> list_all (\<lambda>(p, ss). Q p ss) segmented"
  by (simp add: segmented_def list_all_iff)

lemma route_missing:
  assumes "router_ok resolve" "\<not> static_path path" "list_all (\<lambda>(p, ss). \<not> fits ss (path_segments path)) segmented"
  shows "dispatch_request resolve m path = NoRoute"
  using resolve_None [OF assms(1), of path route_patterns] assms(2,3) list_all_segmented [of "\<lambda>p ss. \<not> fits ss (path_segments path)"]
  by (simp add: dispatch_request_def)

lemma route_found:
  assumes "router_ok resolve" "\<not> static_path path" "[] \<notin> set (path_segments path)" "q \<in> set route_patterns"
    "list_all (\<lambda>(p, ss). fits ss (path_segments path) \<longleftrightarrow> p = q) segmented"
  shows "dispatch_request resolve m path =
    (case List.find (\<lambda>(m', p', h). p' = q \<and> m' = m) route_table of Some (_, _, h) \<Rightarrow> Handled h | None \<Rightarrow> MethodNotAllowed)"
proof -
  have "list_all (\<lambda>p. fits (path_segments p) (path_segments path) \<longleftrightarrow> p = q) route_patterns"
    using assms(5) list_all_segmented [of "\<lambda>p ss. fits ss (path_segments path) \<longleftrightarrow> p = q"] by simp
  then show ?thesis using resolve_unique [OF assms(1) _ assms(4,3)] assms(2) by (simp add: dispatch_request_def)
qed

lemma segmented_eq:
  "segmented =
    [(''/agent/order'', [''agent'', ''order'']),
     (''/agent/resume'', [''agent'', ''resume'']),
     (''/agent/release'', [''agent'', ''release'']),
     (''/agent/extend'', [''agent'', ''extend'']),
     (''/agent/health'', [''agent'', ''health'']),
     (''/agent/:machine_id/pty'', [''agent'', '':machine_id'', ''pty'']),
     (''/agent/:machine_id/audit'', [''agent'', '':machine_id'', ''audit'']),
     (''/agent/:machine_id/exec'', [''agent'', '':machine_id'', ''exec'']),
     (''/agent/task'', [''agent'', ''task'']),
     (''/agent/task/:id'', [''agent'', ''task'', '':id'']),
     (''/agent/task/:id/result'', [''agent'', ''task'', '':id'', ''result'']),
     (''/agent/task/:id/stream'', [''agent'', ''task'', '':id'', ''stream'']),
     (''/agent/:machine_id/instruct'', [''agent'', '':machine_id'', ''instruct'']),
     (''/admin/credentials'', [''admin'', ''credentials'']),
     (''/admin/credentials/:id'', [''admin'', ''credentials'', '':id'']),
     (''/admin/credentials/:id/rotate'', [''admin'', ''credentials'', '':id'', ''rotate'']),
     (''/agent/:machine_id/credentials/:name'', [''agent'', '':machine_id'', ''credentials'', '':name'']),
     (''/agent/:machine_id/git/clone'', [''agent'', '':machine_id'', ''git'', ''clone'']),
     (''/agent/:machine_id/git/branch'', [''agent'', '':machine_id'', ''git'', ''branch'']),
     (''/agent/:machine_id/git/commit'', [''agent'', '':machine_id'', ''git'', ''commit'']),
     (''/agent/:machine_id/git/push'', [''agent'', '':machine_id'', ''git'', ''push'']),
     (''/agent/:machine_id/git/pr'', [''agent'', '':machine_id'', ''git'', ''pr'']),
     (''/agent/:machine_id/git/status'', [''agent'', '':machine_id'', ''git'', ''status'']),
     (''/agent/:machine_id/git/log'', [''agent'', '':machine_id'', ''git'', ''log'']),
     (''/workflow/:id'', [''workflow'', '':id'']),
     (''/workflow'', [''workflow'']),
     (''/workflow/:id/run'', [''workflow'', '':id'', ''run'']),
     (''/workflow/run/:id'', [''workflow'', ''run'', '':id'']),
     (''/agent/:machine_id/messages'', [''agent'', '':machine_id'', ''messages'']),
     (''/agent/:machine_id/messages/stream'', [''agent'', '':machine_id'', ''messages'', ''stream'']),
     (''/agent/:machine_id/oracle'', [''agent'', '':machine_id'', ''oracle'']),
     (''/agent/:machine_id/oracle/:question_id'', [''agent'', '':machine_id'', ''oracle'', '':question_id'']),
     (''/agent/:machine_id/disagreement'', [''agent'', '':machine_id'', ''disagreement'']),
     (''/agent/:machine_id/disagreement/:id'', [''agent'', '':machine_id'', ''disagreement'', '':id'']),
     (''/admin/roles'', [''admin'', ''roles'']),
     (''/admin/roles/:id'', [''admin'', ''roles'', '':id'']),
     (''/admin/roles/seed'', [''admin'', ''roles'', ''seed'']),
     (''/admin/constitution'', [''admin'', ''constitution'']),
     (''/agent/task/:id/progress'', [''agent'', ''task'', '':id'', ''progress'']),
     (''/agent/task/:id/reflexion'', [''agent'', ''task'', '':id'', ''reflexion'']),
     (''/agent/reflexions'', [''agent'', ''reflexions'']),
     (''/agent/:machine_id/next-work'', [''agent'', '':machine_id'', ''next-work'']),
     (''/phone/pending'', [''phone'', ''pending'']),
     (''/phone/decide'', [''phone'', ''decide'']),
     (''/phone/revoke'', [''phone'', ''revoke'']),
     (''/phone/enroll'', [''phone'', ''enroll'']),
     (''/phone/ceremony/begin'', [''phone'', ''ceremony'', ''begin'']),
     (''/phone/ceremony/finish'', [''phone'', ''ceremony'', ''finish'']),
     (''/admin/tenant'', [''admin'', ''tenant'']),
     (''/admin/tenant/:id'', [''admin'', ''tenant'', '':id'']),
     (''/admin/images/build'', [''admin'', ''images'', ''build'']),
     (''/admin/images/push'', [''admin'', ''images'', ''push'']),
     (''/admin/images/pull'', [''admin'', ''images'', ''pull'']),
     (''/admin/images'', [''admin'', ''images'']),
     (''/admin/images/:name/tags'', [''admin'', ''images'', '':name'', ''tags'']),
     (''/admin/images/:name/exists'', [''admin'', ''images'', '':name'', ''exists'']),
     (''/setup'', [''setup'']),
     (''/attestation'', [''attestation'']),
     (''/metrics'', [''metrics''])]"
  by code_simp

lemma plain_path:
  "plain_text s \<Longrightarrow> CHR ''/'' \<notin> set s" "plain_text s \<Longrightarrow> s \<noteq> []" "plain_text s \<Longrightarrow> [] \<noteq> s"
  by (auto simp: plain_text_def)

lemmas path_simps = path_segments_def static_path_def split_on_single split_on_append_sep plain_path

lemmas route_simps = segmented_eq captures_def

lemma set_route_patterns: "set route_patterns = fst ` set segmented"
  by (force simp: segmented_def)

lemmas found_simps = path_simps route_simps set_route_patterns route_table_def

lemma route_tenant_create: "router_ok resolve \<Longrightarrow> dispatch_request resolve POST ''/admin/tenant'' = Handled ''admin::create_tenant''"
  by (simp add: route_found [where q = "''/admin/tenant''"] found_simps)

lemma route_tenant_list: "router_ok resolve \<Longrightarrow> dispatch_request resolve GET ''/admin/tenant'' = MethodNotAllowed"
  by (simp add: route_found [where q = "''/admin/tenant''"] found_simps)

lemma route_tenant_get:
  assumes "router_ok resolve" "plain_text s"
  shows "dispatch_request resolve GET (''/admin/tenant/'' @ s) = Handled ''admin::get_tenant''"
  using assms(2-) by (simp add: route_found [OF assms(1), where q = "''/admin/tenant/:id''"] found_simps)

lemma route_image_build: "router_ok resolve \<Longrightarrow> dispatch_request resolve POST ''/admin/images/build'' = Handled ''images::build_image''"
  by (simp add: route_found [where q = "''/admin/images/build''"] found_simps)

lemma route_image_push: "router_ok resolve \<Longrightarrow> dispatch_request resolve POST ''/admin/images/push'' = Handled ''images::push_image''"
  by (simp add: route_found [where q = "''/admin/images/push''"] found_simps)

lemma route_image_pull: "router_ok resolve \<Longrightarrow> dispatch_request resolve POST ''/admin/images/pull'' = Handled ''images::pull_image''"
  by (simp add: route_found [where q = "''/admin/images/pull''"] found_simps)

lemma route_image_list: "router_ok resolve \<Longrightarrow> dispatch_request resolve GET ''/admin/images'' = Handled ''images::list_images''"
  by (simp add: route_found [where q = "''/admin/images''"] found_simps)

lemma route_image_tags:
  assumes "router_ok resolve" "plain_text s"
  shows "dispatch_request resolve GET (''/admin/images/'' @ s @ ''/tags'') = Handled ''images::list_tags''"
  using assms(2-) by (simp add: route_found [OF assms(1), where q = "''/admin/images/:name/tags''"] found_simps)

lemma route_image_exists:
  assumes "router_ok resolve" "plain_text s"
  shows "dispatch_request resolve GET (''/admin/images/'' @ s @ ''/exists'') = Handled ''images::check_exists''"
  using assms(2-) by (simp add: route_found [OF assms(1), where q = "''/admin/images/:name/exists''"] found_simps)

lemma routes_missing:
  assumes "router_ok resolve"
  shows "dispatch_request resolve m ''/admin/agent-token'' = NoRoute" "dispatch_request resolve m ''/admin/agent-token/revoke'' = NoRoute"
    "dispatch_request resolve m ''/admin/worker'' = NoRoute" "dispatch_request resolve m ''/admin/keys/rotate-audit'' = NoRoute"
    "dispatch_request resolve m ''/admin/keys/rotate-push'' = NoRoute"
  by (simp_all add: route_missing [OF assms] path_simps route_simps)

lemma routes_missing_named:
  assumes "router_ok resolve" "plain_text s"
  shows "dispatch_request resolve m (''/admin/tenant/'' @ s @ ''/credentials'') = NoRoute"
    "dispatch_request resolve m (''/admin/tenant/'' @ s @ ''/agent-token'') = NoRoute"
    "dispatch_request resolve m (''/admin/credential/'' @ s) = NoRoute"
    "dispatch_request resolve m (''/admin/audit/'' @ s @ ''/verify'') = NoRoute"
    "dispatch_request resolve m (''/admin/audit/'' @ s @ ''/export'') = NoRoute"
  using assms(2) by (simp_all add: route_missing [OF assms(1)] path_simps route_simps)

section \<open>Properties\<close>

text \<open>C40. A command of the client whose arguments are plain names reaches a handler of the gateway exactly when it creates
  or shows a tenant or handles images; the list of tenants is answered with 405, and every other command with 404.\<close>
theorem client_commands_served:
  assumes "router_ok resolve" "plain_command cmd" "command_line cmd = Some (m, path)"
  shows "dispatch_request resolve m path = reply_to cmd"
  using assms(2,3)
  by (cases cmd) (auto simp: reply_to_def routes_missing [OF assms(1), unfolded append_Cons append_Nil]
    routes_missing_named [OF assms(1), unfolded append_Cons append_Nil]
    route_tenant_create [OF assms(1)] route_tenant_list [OF assms(1)] route_tenant_get [OF assms(1), unfolded append_Cons append_Nil]
    route_image_build [OF assms(1)] route_image_push [OF assms(1)] route_image_pull [OF assms(1)] route_image_list [OF assms(1)]
    route_image_tags [OF assms(1), unfolded append_Cons append_Nil] route_image_exists [OF assms(1), unfolded append_Cons append_Nil])

theorem client_commands_served_witness:
  "dispatch_request first_fit GET ''/admin/tenant/t1'' = Handled ''admin::get_tenant'' \<and>
   dispatch_request first_fit POST ''/admin/keys/rotate-audit'' = NoRoute"
  using client_commands_served [OF first_fit_ok, of "TenantGet ''t1''"] client_commands_served [OF first_fit_ok, of KeysRotateAudit]
  by (simp add: reply_to_def plain_text_def)

text \<open>C39. The client's local verification reports exactly what the gateway's verification reports apart from the
  signatures, whatever keys signed the log: it accepts entries that nobody signed.\<close>
theorem local_verify_ignores_signatures:
  assumes "databases (local_audit_db db_path tenant) = None" "databases db_path = Some d" "db_up d"
  shows "local_audit_verify G databases db_path tenant =
    (case verify_with_pool G tenant keys d of
       Ok rep \<Rightarrow> Ok \<lparr> lr_entries_checked = vr_entries_checked rep, lr_errors = filter unsigned_problem (vr_errors rep),
         lr_verified = (\<forall>p\<in>set (vr_errors rep). \<not> unsigned_problem p) \<rparr>
     | Err e \<Rightarrow> Err e | Panic \<Rightarrow> Panic)"
proof (cases "read_rows tenant (tenant_rows tenant d)")
  case None
  then show ?thesis using assms by (simp add: local_audit_verify_def open_local_def verify_with_pool_def ok_or_def)
next
  case (Some entries)
  then show ?thesis using assms
    by (simp add: local_audit_verify_def open_local_def verify_with_pool_def ok_or_def Let_def local_check_walk
        walk_hashes_walk_rows [of G _ _ keys] filter_empty_conv)
qed


text \<open>Witnesses. The keys \<open>2\<close> did not sign the demonstration log; \<open>zero_sig\<close> has a public key apart from the zeros.\<close>

lemma demo_log_place:
  "[default_db \<mapsto> demo_log] (local_audit_db default_db ''t1'') = None" "[default_db \<mapsto> demo_log] default_db = Some demo_log"
  by (simp_all add: local_audit_db_def default_db_def parent_path_def)

lemma demo_log_up: "db_up demo_log"
  using demo_log_wf_clean by (simp add: clean_iff)

theorem local_verify_ignores_signatures_witness:
  "local_audit_verify demo_sig [default_db \<mapsto> demo_log] default_db ''t1'' =
    (case verify_with_pool demo_sig ''t1'' (demo_keys 2) demo_log of
       Ok rep \<Rightarrow> Ok \<lparr> lr_entries_checked = vr_entries_checked rep, lr_errors = filter unsigned_problem (vr_errors rep),
         lr_verified = (\<forall>p\<in>set (vr_errors rep). \<not> unsigned_problem p) \<rparr>
     | Err e \<Rightarrow> Err e | Panic \<Rightarrow> Panic)"
  by (rule local_verify_ignores_signatures [OF demo_log_place demo_log_up])

definition zero_sig :: sig_lib where
  "zero_sig = demo_sig \<lparr> ml_public_of := (\<lambda>s. take 1952 (s @ replicate 1952 1)), ml_verify := (\<lambda>p m g. p \<noteq> replicate 1952 0) \<rparr>"

lemma zero_sig_ok: "sig_lib_ok zero_sig"
proof -
  have "take 1952 (s @ replicate 1952 (1::byte)) \<noteq> replicate 1952 0" if "length s = 32" for s
  proof
    assume "take 1952 (s @ replicate 1952 1) = replicate 1952 0"
    then have "take 1952 (s @ replicate 1952 (1::byte)) ! 32 = replicate 1952 0 ! 32" by simp
    then show False using that by (simp add: nth_append)
  qed
  then show ?thesis using demo_sig_ok by (simp add: sig_lib_ok_def zero_sig_def demo_sig_def)
qed

lemma zero_sig_rejects: "zero_key_rejects zero_sig"
  by (simp add: zero_key_rejects_def zero_sig_def demo_sig_def string_of_bytes_def)


section \<open>What the local commands accept\<close>

lemma local_accepts_relinked:
  fixes G :: "'a sig_lib_scheme"
  assumes "open_local databases db_path tenant = Some d" "tenant_rows tenant d = relink G tenant ZERO_HASH rows"
    "\<forall>r\<in>set (tenant_rows tenant d). readable r"
  shows "\<exists>rep. local_audit_verify G databases db_path tenant = Ok rep \<and> lr_verified rep"
  using assms by (simp add: local_audit_verify_def ok_or_def read_rows_eq Let_def local_check_walk relinked_log_passes)

text \<open>The gateway has no route for the audit commands (\<open>routes_missing_named\<close>), so the answer is 404 and the verification
  is the local one, with or without a gateway.\<close>

lemma audit_verify_falls_back:
  assumes "st_url s = Some u" "cl_builds L (st_insecure s)" "from_settings (cl_builds L) s = Ok c"
    "answer_to ask c (AuditVerify tenant) = Answered 404 body"
  shows "\<exists>line. handle_audit_verify L G ask databases s tenant =
    (line # fst (verify_locally G databases s tenant), snd (verify_locally G databases s tenant))"
  using assms by (simp add: handle_audit_verify_def send_for_def split: prod.splits)

lemma repeated_client_init_keeps_keys:
  "fs (ed_key_path (data_dir @ ''/keys'')) \<noteq> None \<Longrightarrow> snd (handle_init G ready seed data_dir fs) = fs"
  by (simp add: handle_init_def generate_audit_ed25519_keys_def)

end
