(* ===== verification/Spec2Isabelle.thy ===== *)
theory Spec2Isabelle
  imports Prelude Streams Floats Text Json Cbor Timestamps Db WebAuthn Challenges Attestation Tenants HybridSig AuditLog
    Vault Cluster Sessions Routes Gateway Workflow Detector Watchdog Pods Exec Git Pty Tasks Instruct Credentials
    Bus Dispatch Roles Mediation Push Images Workers Platform Migrations Startup Cli
begin

text \<open>
  A verification development for the Stronghold gateway (src/gateway/src), a Rust service that hands out
  ephemeral machines (pods of a k3s cluster) to coding agents once the phone of the tenant they belong to has
  approved the request with a WebAuthn assertion. Around this core the gateway keeps a signed audit log per
  tenant, a vault of credentials, a queue of tasks with workflows over them, terminals and git commands inside
  the machines, and a watchdog over the agents.

  Parts and how they interact. An agent authenticates by a bearer token (theory Tenants: tenants/auth.rs,
  registry.rs, quotas.rs) and orders a machine (Routes: routes/agent.rs, routes/phone.rs). The order stores a
  pending session and a challenge (Sessions: sessions/manager.rs; Challenges and WebAuthn: crypto/webauthn.rs up
  to the assertions), the phone polls the stream of pending requests and answers with an assertion, which is
  checked against the credential registered earlier (Attestation: the second half of crypto/webauthn.rs, over
  the CBOR reader of theory Cbor). The waiting handler of the agent then starts a pod (Cluster:
  machines/scheduler.rs) with the tenant's credentials in its environment (Vault: crypto/vault.rs,
  tee/sealing.rs) and records a machine; every decision is entered in the audit log (AuditLog: audit/log.rs,
  verify.rs, export.rs, over the keys of HybridSig: crypto/hybrid_sig.rs). Theory Gateway composes all these
  handlers into one transition system whose waiting handlers are split where they sleep, and states the safety
  of the whole.

  Inside a machine: Pods holds what the routes into pods share (connect tokens, shell quoting, the exec call),
  Exec and Git the structured commands (routes/exec.rs, routes/git.rs), Pty the terminal proxy with its quorum
  for destructive commands and the live audit stream (routes/pty.rs, sessions/scopes.rs, anomaly/mod.rs),
  Instruct the texts injected into terminals (routes/instruct.rs). Credentials holds the endpoints of the vault
  (routes/credentials.rs). Work: Tasks (routes/tasks.rs) and Workflow (workflow/engine.rs, executor.rs,
  routes/workflows.rs). Supervision: Detector and Watchdog (watchdog/detector.rs, dedication.rs, ultimatum.rs,
  monitor.rs).

  Foundations. Prelude has the type res of fallible functions (Ok, Err, Panic; the release profile aborts the
  process on a panic, so Panic is an outcome of the whole service), bytes, big-endian numbers, text functions
  and the shared collections of rules; Text has trim, splitting and integer parsing of Rust's str; Json the
  values of serde_json; Timestamps the two text forms of times that the tables mix; Floats the rounded
  arithmetic of f64; Db the tables of db/schema.sql, one record per row type, a table being the list of its rows
  in insertion order; Streams the interface of tables that are polled by a growing number; Demo concrete hash
  functions for the witnesses only.

  Agents among themselves: Bus holds the message bus (routes/messages.rs: posting, polling, the event stream,
  which loses and repeats nothing), Mediation what travels over it, questions to the oracle and disagreements
  before the facilitator (routes/oracle.rs, routes/facilitator.rs). Dispatch is the endpoint where a machine
  asks for its next work (routes/next_work.rs), with the plan it follows; find_work and place_work are its reads
  and its writes. Roles holds the roles of agents with the seeded defaults, the constitution, and the policy
  that decides which tools a machine may use (routes/roles.rs).

  Around the gateway: Push encrypts the messages to the phone and sends them (crypto/hybrid_kem.rs, push/e2e.rs,
  push/ntfy.rs). Images reads the descriptions of workspace images, writes Containerfiles and talks to the
  registry (images/dsl.rs, builder.rs, registry.rs, routes/images.rs), with a reference reader of
  Containerfiles. Workers reads what the cluster says about its nodes (machines/worker.rs). Platform holds the
  SEV-SNP driver and the build without it, the reports and the administration of tenants (tee/sev_snp.rs,
  tee/no_sev.rs, routes/attestation.rs, metrics.rs, admin.rs). Migrations sets up the database (db/mod.rs,
  db/schema.sql).

  The two programs: Startup makes the gateway from its key and TLS files, holds its table of routes and the
  limit on concurrent requests (main.rs, crypto/tls.rs, routes/mod.rs). Cli is the client of the command line
  (src/cli/src/main.rs): its settings, the request and the printed answer of every command, the local
  verification and export of an audit log, and init. The two meet in the routes that the client asks for, in the
  key files that its init leaves, and in the log that both verify.

  Correspondence. A definition has the name of the Rust item it models, with a suffix where HOL uses the name;
  the manifest gives its lines. A handler is one definition that takes the clock, ids, random bytes and the
  answers of the outside world as arguments and returns its response with the new state, its branches in the
  order of the code: guards, early returns, dropped errors. Statuses are numbers, response texts are Msg; a text
  that ends with a crate's own message is Wrapped. A route text that consists of fixed fields only is
  deserialised by serde before the handler runs and appears as a record. Crates are records of functions
  (hash_lib, sig_lib, aead_lib, json_lib, web_env, session_env) with their documented laws as named hypotheses
  (aead_ok, sig_ok and so on), each witnessed by a concrete instance.

  Lemma groups. Per component: what a successful operation implies and leaves unchanged; invariants by rule
  induction (hash chains, one-shot challenges, approvals that come from a phone); equivalence of code with a
  reference definition (the shell's reading of generated scripts, schedulability of a DAG, observed statuses,
  checked capacity); round trips (CBOR, keys on disk, credentials, git remotes); error behaviour as exact
  conditions. The locales hash_chain, prefix_reader, one_shot_store and growing_table are interfaces whose
  clients' lemmas are proved once and interpreted on the model's definitions. Where the code deviates from its
  documentation the property states what the code does, and the manifest's findings say so.

  Bounds and fuel. cbor_parse takes the number of stack frames: theorem cbor_parse_total shows that the input's
  length is enough. The walker of workflows and the stream loops run over the list of polls or waves that
  happen, and the waiting loops over the polls that fit their time limit (120 for a quorum); execute_dag
  terminates by a measure. Machine integers are words where their overflow is visible (quotas, counters, ports,
  limits) and unbounded otherwise.

  Atomicity. The statements of one handler run without interleaving, except where the interleaving is the
  subject: approvals in Gateway (handlers are split at their sleeps), two takes of one challenge (Challenges),
  two writers of one log (AuditLog), terminal events against the rest of the gateway (Pty), two dispatchers
  (Dispatch). The steps of a wave, concurrent in the code, run one after the other in the model.

  Not modelled, and why. The timers, WebSocket and HTTP framing of axum, the matching of a path against the
  table of routes (an argument with its documented behaviour), tracing, file modes and fsync. Of main.rs the
  parser of the command line and the listening server; of crypto/tls.rs the client configurations, which only
  call rustls; of src/cli the shell completions. machines/escalation.rs, which consists of stubs. The pumps
  between a terminal and its pod in machines/scheduler.rs (open_pty), which only move bytes; theory Pty takes
  what they deliver as events. The Kubernetes API, SQLite itself, GitHub, the registry and the ntfy server are
  arguments.
\<close>

end
